(* ===== verification/Go_Prelude.thy ===== *)
theory Go_Prelude
  imports Main "HOL-Library.Word" "HOL-Library.Multiset"
begin

text \<open>
  Shared vocabulary of the development: the machine types of the Go sources, the outcome of
  a Go call (it returns, it ends the process through \<open>log.Fatalf\<close>, it panics, or it
  blocks on a mutex that is never released), and the generic lemmas on lists, maps and
  multisets that several components use.

  Source correspondence: \<open>uint64\<close> is \<open>u64\<close>, \<open>common.Address\<close> is \<open>addr\<close> (20 bytes),
  \<open>common.Hash\<close> is \<open>hash\<close> (32 bytes), \<open>[]byte\<close> is \<open>bytes\<close>, \<open>*big.Int\<close> is \<open>int\<close>
  (\<open>int option\<close> where the code passes \<open>nil\<close>), and an \<open>error\<close> value is the text that its
  \<open>Error()\<close> method returns, because the program compares errors by that text only.
\<close>

section \<open>Types\<close>

type_synonym u8 = "8 word"
type_synonym u32 = "32 word"
type_synonym u64 = "64 word"
type_synonym bytes = "u8 list"
type_synonym addr = "160 word"
type_synonym hash = "256 word"
type_synonym gerror = string

text \<open>A private key is its secret scalar; all cryptography on it is external.\<close>

datatype privkey = PrivKey int

section \<open>Outcome of a call\<close>

datatype 'a outcome = Ret 'a | Exit string | Panic string | Block

fun map_outcome_ret :: "('a \<Rightarrow> 'b) \<Rightarrow> 'a outcome \<Rightarrow> 'b outcome" where
  "map_outcome_ret f (Ret x) = Ret (f x)"
| "map_outcome_ret f (Exit m) = Exit m"
| "map_outcome_ret f (Panic m) = Panic m"
| "map_outcome_ret f Block = Block"

fun returns :: "'a outcome \<Rightarrow> bool" where
  "returns (Ret _) = True"
| "returns _ = False"

lemma returns_iff: "returns r \<longleftrightarrow> (\<exists>x. r = Ret x)"
  by (cases r) auto

lemma map_outcome_ret_Ret [simp]:
  "map_outcome_ret f r = Ret y \<longleftrightarrow> (\<exists>x. r = Ret x \<and> y = f x)"
  by (cases r) auto

lemma map_outcome_ret_Block [simp]: "map_outcome_ret f r = Block \<longleftrightarrow> r = Block"
  by (cases r) auto

section \<open>Automation\<close>

text \<open>
  \<open>go_defs\<close> collects the definitions of the small helpers (option guards, error tests)
  that every proof about a handler unfolds.
\<close>

named_theorems go_defs

section \<open>Go integer division and modulo on non-negative operands\<close>

text \<open>
  Go's \<open>/\<close> and \<open>%\<close> truncate towards zero. On the non-negative operands that the sources
  use they agree with \<open>div\<close> and \<open>mod\<close>; \<open>go_quot\<close> writes the truncation out for the one
  place where an operand may be negative.
\<close>

definition go_quot :: "int \<Rightarrow> int \<Rightarrow> int" where
  "go_quot a b = sgn a * sgn b * (\<bar>a\<bar> div \<bar>b\<bar>)"

lemma go_quot_nonneg [simp]: "0 \<le> a \<Longrightarrow> 0 < b \<Longrightarrow> go_quot a b = a div b"
  by (cases "a = 0") (auto simp: go_quot_def sgn_if)

section \<open>Lists\<close>

lemma mset_hd_tl: "xs \<noteq> [] \<Longrightarrow> add_mset (hd xs) (mset (tl xs)) = mset xs"
  by (cases xs) auto

lemma nth_mod_in_set: "xs \<noteq> [] \<Longrightarrow> xs ! (r mod length xs) \<in> set xs"
  by (rule nth_mem) simp

lemma sum_list_map_const [simp]: "sum_list (map (\<lambda>_. c) xs) = int (length xs) * (c::int)"
  by (induction xs) (auto simp: algebra_simps)

lemma foldr_append_id: "foldl (\<lambda>acc x. acc @ [x]) xs ys = xs @ ys"
  by (induction ys arbitrary: xs) auto

section \<open>Words\<close>

lemma u64_succ_neq [simp]: "(n::u64) + 1 \<noteq> n"
  by simp

lemma unat_succ_no_wrap: "unat (n::u64) + 1 < 2 ^ 64 \<Longrightarrow> unat (n + 1) = unat n + 1"
  by (simp add: unat_word_ariths)

end
