(* ===== verification/Kaia_Node.thy ===== *)
theory Kaia_Node
  imports Go_Prelude
begin

text \<open>
  The interface between the load tester and the code that is not in the repository: the kaia
  library (transaction constructors, signers, error values, crypto) and the RPC client of a
  node. Both are parameters: \<open>kaia_lib\<close> is the record of the pure functions, \<open>client\<close> the
  record of the RPC methods as state transformers on a world \<open>'w\<close> (the node, the network and
  everything else outside the process). \<open>'tx\<close> is the library's transaction type.

  The data the program itself assembles before it calls the library (the transaction value map
  of \<open>TxValues\<close>, the Ethereum payload structs, the call message) is modelled concretely, field
  by field.
\<close>

section \<open>Transaction data assembled by the program\<close>

datatype tx_type =
    TxTypeValueTransfer
  | TxTypeFeeDelegatedValueTransfer
  | TxTypeFeeDelegatedValueTransferWithRatio
  | TxTypeValueTransferMemo
  | TxTypeFeeDelegatedValueTransferMemo
  | TxTypeFeeDelegatedValueTransferMemoWithRatio
  | TxTypeAccountCreation
  | TxTypeAccountUpdate
  | TxTypeFeeDelegatedAccountUpdate
  | TxTypeFeeDelegatedAccountUpdateWithRatio
  | TxTypeSmartContractDeploy
  | TxTypeFeeDelegatedSmartContractDeploy
  | TxTypeFeeDelegatedSmartContractDeployWithRatio
  | TxTypeSmartContractExecution
  | TxTypeFeeDelegatedSmartContractExecution
  | TxTypeFeeDelegatedSmartContractExecutionWithRatio
  | TxTypeCancel
  | TxTypeFeeDelegatedCancel
  | TxTypeFeeDelegatedCancelWithRatio

text \<open>\<open>types.TxValueKeyType\<close>, the keys the program uses.\<close>

datatype tx_key =
    TxValueKeyNonce | TxValueKeyFrom | TxValueKeyTo | TxValueKeyAmount | TxValueKeyGasLimit
  | TxValueKeyGasPrice | TxValueKeyData | TxValueKeyFeePayer | TxValueKeyFeeRatioOfFeePayer
  | TxValueKeyHumanReadable | TxValueKeyAccountKey | TxValueKeyCodeFormat

text \<open>
  The dynamic values stored under the keys. \<open>VNilAddr\<close> is \<open>(*common.Address)(nil)\<close>,
  \<open>VPubKey k\<close> is \<open>NewAccountKeyPublicWithValue(&k.PublicKey)\<close>.
\<close>

datatype tx_val =
    VU64 u64 | VAddr addr | VNilAddr | VBig "int option" | VData bytes | VBool bool
  | VFeeRatio u8 | VPubKey privkey | VCodeFormatEVM

type_synonym tx_values = "tx_key \<rightharpoonup> tx_val"

datatype signer = EIP155Signer int | LatestSignerForChainID int

type_synonym access_list = "(addr \<times> hash list) list"

text \<open>\<open>types.TxInternalDataEthereumAccessList\<close> and \<open>...DynamicFee\<close>, in the order of the literals.\<close>

datatype eth_data =
    EthereumAccessList (ea_chainID: int) (ea_nonce: u64) (ea_recipient: "addr option")
      (ea_gasLimit: u64) (ea_price: int) (ea_amount: "int option")
      (ea_accessList: access_list) (ea_payload: "bytes option")
  | EthereumDynamicFee (ed_chainID: int) (ed_nonce: u64) (ed_recipient: "addr option")
      (ed_gasLimit: u64) (ed_gasFeeCap: int) (ed_gasTipCap: int) (ed_amount: "int option")
      (ed_accessList: access_list) (ed_payload: "bytes option")

text \<open>\<open>kaia.CallMsg\<close> as \<open>CreateAccessList\<close> gets it.\<close>

record call_msg =
  cm_from :: addr
  cm_to :: "addr option"
  cm_gas :: u64
  cm_gasPrice :: "int option"
  cm_value :: "int option"
  cm_data :: "bytes option"

text \<open>\<open>api.SendTxArgs\<close> as \<open>TransferUnsignedTx\<close> fills it (data and payload are empty).\<close>

record send_tx_args =
  sa_from :: addr
  sa_recipient :: addr
  sa_gasLimit :: u64
  sa_price :: int
  sa_amount :: "int option"

text \<open>The fields of a receipt that the program reads.\<close>

record receipt =
  rc_status :: nat
  rc_gasUsed :: u64

section \<open>The library\<close>

record 'tx kaia_lib =
  ErrNonceTooLow :: gerror
  ErrReplaceUnderpriced :: gerror
  ErrNotFound :: gerror
  newTransactionWithMap :: "tx_type \<Rightarrow> tx_values \<Rightarrow> gerror + 'tx"
  newTransaction :: "u64 \<Rightarrow> addr \<Rightarrow> int option \<Rightarrow> u64 \<Rightarrow> int \<Rightarrow> bytes option \<Rightarrow> 'tx"
  newContractCreation :: "u64 \<Rightarrow> int option \<Rightarrow> u64 \<Rightarrow> int \<Rightarrow> bytes option \<Rightarrow> 'tx"
  newTx :: "eth_data \<Rightarrow> 'tx"
  signTx :: "signer \<Rightarrow> privkey \<Rightarrow> 'tx \<Rightarrow> gerror + 'tx"
  signWithKeys :: "signer \<Rightarrow> privkey list \<Rightarrow> 'tx \<Rightarrow> gerror option \<times> 'tx"
  signFeePayerWithKeys :: "signer \<Rightarrow> privkey list \<Rightarrow> 'tx \<Rightarrow> gerror option \<times> 'tx"
  txHash :: "'tx \<Rightarrow> hash"
  txGasPrice :: "'tx \<Rightarrow> int"
  createAddress :: "addr \<Rightarrow> u64 \<Rightarrow> addr"

section \<open>The RPC client\<close>

record ('tx, 'w) client =
  NonceAt :: "addr \<Rightarrow> 'w \<Rightarrow> (gerror + u64) \<times> 'w"
  BalanceAt :: "addr \<Rightarrow> 'w \<Rightarrow> (gerror + int) \<times> 'w"
  SendRawTransaction :: "'tx \<Rightarrow> 'w \<Rightarrow> (hash \<times> gerror option) \<times> 'w"
  SendUnsignedTransaction :: "send_tx_args \<Rightarrow> 'w \<Rightarrow> (gerror + hash) \<times> 'w"
  CreateAccessList :: "call_msg \<Rightarrow> 'w \<Rightarrow> (gerror + access_list) \<times> 'w"
  SuggestGasPrice :: "'w \<Rightarrow> (gerror + int) \<times> 'w"
  BlockNumber :: "'w \<Rightarrow> (gerror + int) \<times> 'w"
  TransactionReceipt :: "hash \<Rightarrow> 'w \<Rightarrow> (gerror + receipt) \<times> 'w"
  WaitMined :: "nat \<Rightarrow> 'tx \<Rightarrow> 'w \<Rightarrow> (receipt option \<times> gerror option) \<times> 'w"
  Elapse :: "nat \<Rightarrow> 'w \<Rightarrow> 'w"

text \<open>
  \<open>WaitMined t\<close> is \<open>bind.WaitMined\<close> with a timeout of \<open>t\<close> seconds, \<open>Elapse ms\<close> what the world
  does during a \<open>time.Sleep\<close> of \<open>ms\<close> milliseconds.
\<close>

text \<open>\<open>Error()\<close> texts that mean the nonce is already used: the test every send path makes.\<close>

definition nonce_conflict :: "'tx kaia_lib \<Rightarrow> gerror \<Rightarrow> bool" where
  "nonce_conflict L e \<longleftrightarrow> e = ErrNonceTooLow L \<or> e = ErrReplaceUnderpriced L"

text \<open>Package variables of \<open>account.go\<close>.\<close>

record globals =
  gasPrice :: int
  chainID :: int
  baseFee :: int

definition init_globals :: globals where
  "init_globals = \<lparr>gasPrice = 0, chainID = 2018, baseFee = 0\<rparr>"

definition SetGasPrice :: "int \<Rightarrow> globals \<Rightarrow> globals" where
  "SetGasPrice gp g = g\<lparr>gasPrice := gp\<rparr>"

definition SetBaseFee :: "int \<Rightarrow> globals \<Rightarrow> globals" where
  "SetBaseFee bf g = g\<lparr>baseFee := bf\<rparr>"

definition SetChainID :: "int \<Rightarrow> globals \<Rightarrow> globals" where
  "SetChainID i g = g\<lparr>chainID := i\<rparr>"

section \<open>Documented behaviour of the constructors\<close>

text \<open>
  \<open>nonce_of\<close> reads the nonce of a transaction; \<open>lib_nonce\<close> says that every constructor puts
  the nonce it is given into the transaction and that signing leaves it alone. Theorems about
  the nonces on the wire have it as a hypothesis.
\<close>

definition lib_nonce :: "'tx kaia_lib \<Rightarrow> ('tx \<Rightarrow> u64) \<Rightarrow> bool" where
  "lib_nonce L nonce_of \<longleftrightarrow>
     (\<forall>ty m tx n. newTransactionWithMap L ty m = Inr tx \<longrightarrow> m TxValueKeyNonce = Some (VU64 n)
        \<longrightarrow> nonce_of tx = n) \<and>
     (\<forall>n to v gas p d. nonce_of (newTransaction L n to v gas p d) = n) \<and>
     (\<forall>n v gas p d. nonce_of (newContractCreation L n v gas p d) = n) \<and>
     (\<forall>s k tx tx'. signTx L s k tx = Inr tx' \<longrightarrow> nonce_of tx' = nonce_of tx) \<and>
     (\<forall>s ks tx e tx'. signWithKeys L s ks tx = (e, tx') \<longrightarrow> nonce_of tx' = nonce_of tx) \<and>
     (\<forall>s ks tx e tx'. signFeePayerWithKeys L s ks tx = (e, tx') \<longrightarrow> nonce_of tx' = nonce_of tx)"

lemma lib_nonceD:
  assumes "lib_nonce L nonce_of"
  shows "newTransactionWithMap L ty m = Inr tx \<Longrightarrow> m TxValueKeyNonce = Some (VU64 n) \<Longrightarrow> nonce_of tx = n"
    and "nonce_of (newTransaction L n to v gas p d) = n"
    and "nonce_of (newContractCreation L n v gas p d) = n"
    and "signTx L s k tx = Inr tx' \<Longrightarrow> nonce_of tx' = nonce_of tx"
    and "signWithKeys L s ks tx = (e, tx') \<Longrightarrow> nonce_of tx' = nonce_of tx"
    and "signFeePayerWithKeys L s ks tx = (e, tx') \<Longrightarrow> nonce_of tx' = nonce_of tx"
  using assms by (auto simp: lib_nonce_def)

end
