(* ===== verification/Account_Core.thy ===== *)
theory Account_Core
  imports Kaia_Node
begin

text \<open>
  The core of \<open>klayslave/account/account.go\<close>: the \<open>Account\<close> struct, its constructors, the
  nonce cache and the two helpers every transfer goes through, \<open>sendRawTx\<close> and
  \<open>sendTransaction\<close>.

  An account operation is a function of the account and the world that returns the call's
  outcome, the account and the world after it. The mutex is a field: locking a mutex that the
  same sequential run already holds never returns, which is the outcome \<open>Block\<close>.
\<close>

section \<open>State\<close>

record account =
  acc_id :: int
  acc_privateKey :: "privkey list"
  acc_key :: "string list"
  acc_address :: addr
  acc_nonce :: u64
  acc_balance :: int
  acc_mutex :: bool
  acc_lastBlocknumSentTx :: u64

type_synonym ('w, 'r) op = "account \<Rightarrow> 'w \<Rightarrow> 'r outcome \<times> account \<times> 'w"

text \<open>What no operation may change: who the account is.\<close>

definition identity :: "account \<Rightarrow> int \<times> privkey list \<times> string list \<times> addr" where
  "identity a = (acc_id a, acc_privateKey a, acc_key a, acc_address a)"

definition acc_wf :: "account \<Rightarrow> bool" where
  "acc_wf a \<longleftrightarrow> acc_privateKey a \<noteq> [] \<and> acc_key a \<noteq> []"

definition bump_nonce :: "account \<Rightarrow> account" where
  "bump_nonce a = a\<lparr>acc_nonce := acc_nonce a + 1\<rparr>"

section \<open>Constructors\<close>

text \<open>
  The cryptography the constructors call: \<open>HexToECDSA\<close>, \<open>PubkeyToAddress\<close>,
  \<open>hex.EncodeToString(crypto.FromECDSA(acc))\<close>, \<open>Keccak256\<close>, \<open>common.BytesToAddress\<close>, and
  the generator \<open>crypto.GenerateKey\<close>, which draws from the world.
\<close>

record 'w crypto =
  hexToECDSA :: "string \<Rightarrow> gerror + privkey"
  pubkeyToAddress :: "privkey \<Rightarrow> addr"
  keyText :: "privkey \<Rightarrow> string"
  keccak256 :: "bytes \<Rightarrow> bytes"
  bytesToAddress :: "bytes \<Rightarrow> addr"
  generateKey :: "'w \<Rightarrow> (gerror + privkey) \<times> 'w"

definition str_bytes :: "string \<Rightarrow> bytes" where
  "str_bytes s = map of_char s"

definition fresh_account :: "privkey list \<Rightarrow> string list \<Rightarrow> addr \<Rightarrow> account" where
  "fresh_account ks ts a = \<lparr>acc_id = 0, acc_privateKey = ks, acc_key = ts, acc_address = a,
     acc_nonce = 0, acc_balance = 0, acc_mutex = False, acc_lastBlocknumSentTx = 0\<rparr>"

definition GetAccountFromKey :: "'w crypto \<Rightarrow> int \<Rightarrow> string \<Rightarrow> account outcome" where
  "GetAccountFromKey X i k =
     (case hexToECDSA X k of
        Inl e \<Rightarrow> Exit ''Failed to HexToECDSA''
      | Inr sk \<Rightarrow> Ret (fresh_account [sk] [k] (pubkeyToAddress X sk)))"

definition NewAccount :: "'w crypto \<Rightarrow> int \<Rightarrow> 'w \<Rightarrow> account outcome \<times> 'w" where
  "NewAccount X i w =
     (case generateKey X w of
        (Inl e, w') \<Rightarrow> (Exit ''Failed to generateKey'', w')
      | (Inr sk, w') \<Rightarrow> (Ret (fresh_account [sk] [keyText X sk] (pubkeyToAddress X sk)), w'))"

definition keyTextAddress :: "'w crypto \<Rightarrow> string \<Rightarrow> addr" where
  "keyTextAddress X t = bytesToAddress X (drop 12 (keccak256 X (str_bytes t)))"

definition NewKaiaAccount :: "'w crypto \<Rightarrow> int \<Rightarrow> 'w \<Rightarrow> account outcome \<times> 'w" where
  "NewKaiaAccount X i w =
     (case generateKey X w of
        (Inl e, w') \<Rightarrow> (Exit ''Failed to generateKey'', w')
      | (Inr sk, w') \<Rightarrow>
          (Ret (fresh_account [sk] [keyText X sk] (keyTextAddress X (keyText X sk))), w'))"

definition NewKaiaAccountWithAddr :: "'w crypto \<Rightarrow> int \<Rightarrow> addr \<Rightarrow> 'w \<Rightarrow> account outcome \<times> 'w" where
  "NewKaiaAccountWithAddr X i a w =
     (case generateKey X w of
        (Inl e, w') \<Rightarrow> (Exit ''Failed to generateKey'', w')
      | (Inr sk, w') \<Rightarrow> (Ret (fresh_account [sk] [keyText X sk] a), w'))"

definition NewKaiaMultisigAccount :: "'w crypto \<Rightarrow> int \<Rightarrow> 'w \<Rightarrow> account outcome \<times> 'w" where
  "NewKaiaMultisigAccount X i w =
     (case generateKey X w of
        (Inl e, w1) \<Rightarrow> (Exit ''Failed to generateKey'', w1)
      | (Inr k1, w1) \<Rightarrow>
        (case generateKey X w1 of
           (Inl e, w2) \<Rightarrow> (Exit ''Failed to generateKey'', w2)
         | (Inr k2, w2) \<Rightarrow>
           (case generateKey X w2 of
              (Inl e, w3) \<Rightarrow> (Exit ''Failed to generateKey'', w3)
            | (Inr k3, w3) \<Rightarrow>
                (Ret (fresh_account [k1, k2, k3] [keyText X k1] (keyTextAddress X (keyText X k1))),
                 w3))))"

section \<open>Accessors and the nonce cache\<close>

definition GetKey :: "account \<Rightarrow> privkey outcome" where
  "GetKey a = (case acc_privateKey a of [] \<Rightarrow> Panic ''index out of range'' | k # _ \<Rightarrow> Ret k)"

definition GetAddress :: "account \<Rightarrow> addr" where
  "GetAddress a = acc_address a"

definition GetPrivateKey :: "account \<Rightarrow> string outcome" where
  "GetPrivateKey a = (case acc_key a of [] \<Rightarrow> Panic ''index out of range'' | k # _ \<Rightarrow> Ret k)"

definition GetNonce :: "('tx, 'w) client \<Rightarrow> account \<Rightarrow> 'w \<Rightarrow> u64 \<times> account \<times> 'w" where
  "GetNonce C a w =
     (if acc_nonce a \<noteq> 0 then (acc_nonce a, a, w)
      else case NonceAt C (acc_address a) w of
             (Inl e, w') \<Rightarrow> (acc_nonce a, a, w')
           | (Inr n, w') \<Rightarrow> (n, a\<lparr>acc_nonce := n\<rparr>, w'))"

definition GetNonceFromBlock :: "('tx, 'w) client \<Rightarrow> account \<Rightarrow> 'w \<Rightarrow> u64 \<times> account \<times> 'w" where
  "GetNonceFromBlock C a w =
     (case NonceAt C (acc_address a) w of
        (Inl e, w') \<Rightarrow> (acc_nonce a, a, w')
      | (Inr n, w') \<Rightarrow> (n, a\<lparr>acc_nonce := n\<rparr>, w'))"

definition UpdateNonce :: "account \<Rightarrow> account" where
  "UpdateNonce a = a\<lparr>acc_nonce := acc_nonce a + 1\<rparr>"

definition GetReceipt :: "('tx, 'w) client \<Rightarrow> account \<Rightarrow> hash \<Rightarrow> 'w \<Rightarrow> (gerror + receipt) \<times> 'w" where
  "GetReceipt C a h w = TransactionReceipt C h w"

definition GetBalance :: "('tx, 'w) client \<Rightarrow> account \<Rightarrow> 'w \<Rightarrow> (int option \<times> gerror option) \<times> 'w" where
  "GetBalance C a w =
     (case BalanceAt C (acc_address a) w of
        (Inl e, w') \<Rightarrow> ((None, Some e), w')
      | (Inr b, w') \<Rightarrow> ((Some b, None), w'))"

definition isLastBlocknumSentTx :: "account \<Rightarrow> u64 \<Rightarrow> bool" where
  "isLastBlocknumSentTx a bn \<longleftrightarrow> acc_lastBlocknumSentTx a = bn"

definition updateLastBlocknumSentTx :: "u64 \<Rightarrow> account \<Rightarrow> account" where
  "updateLastBlocknumSentTx bn a = a\<lparr>acc_lastBlocknumSentTx := bn\<rparr>"

section \<open>The mutex\<close>

text \<open>\<open>Lock\<close> waits for a mutex that is held; to unlock a free one is a fatal error of the Go runtime.\<close>

definition Lock :: "account \<Rightarrow> unit outcome \<times> account" where
  "Lock a = (if acc_mutex a then (Block, a) else (Ret (), a\<lparr>acc_mutex := True\<rparr>))"

definition UnLock :: "account \<Rightarrow> unit outcome \<times> account" where
  "UnLock a =
     (if acc_mutex a then (Ret (), a\<lparr>acc_mutex := False\<rparr>) else (Exit ''sync: unlock of unlocked mutex'', a))"

text \<open>
  \<open>self.mutex.Lock(); defer self.mutex.Unlock()\<close> around a body. The deferred unlock also runs
  when the body panics; after \<open>log.Fatalf\<close> the process is gone.
\<close>

definition with_lock :: "('w, 'r) op \<Rightarrow> ('w, 'r) op" where
  "with_lock body a w =
     (if acc_mutex a then (Block, a, w)
      else case body (a\<lparr>acc_mutex := True\<rparr>) w of
             (r, a', w') \<Rightarrow> (r, a'\<lparr>acc_mutex := False\<rparr>, w'))"

section \<open>Sending\<close>

definition sendRawTx :: "'tx kaia_lib \<Rightarrow> ('tx, 'w) client \<Rightarrow> 'tx \<Rightarrow> account \<Rightarrow> 'w
    \<Rightarrow> gerror option \<times> account \<times> 'w" where
  "sendRawTx L C tx self w =
     (case SendRawTransaction C tx w of
        ((_, Some e), w') \<Rightarrow>
           (Some e, if nonce_conflict L e then bump_nonce self else self, w')
      | ((_, None), w') \<Rightarrow> (None, bump_nonce self, w'))"

text \<open>\<open>TxOption\<close>: the fee payer's keys if one is set, and \<open>NoLock\<close>.\<close>

record tx_option =
  opt_FeePayer :: "privkey list option"
  opt_NoLock :: bool

text \<open>The common values \<open>sendTransaction\<close> writes into the map it is given.\<close>

definition common_values :: "globals \<Rightarrow> u64 \<Rightarrow> addr \<Rightarrow> tx_values \<Rightarrow> tx_values" where
  "common_values g n from m =
     (let m1 = m(TxValueKeyNonce \<mapsto> VU64 n, TxValueKeyFrom \<mapsto> VAddr from)
      in (case m1 TxValueKeyGasPrice of
            Some _ \<Rightarrow> m1
          | None \<Rightarrow> m1(TxValueKeyGasPrice \<mapsto> VBig (Some (gasPrice g)))))"

text \<open>Creation and the two signatures; an error carries the prefix the code adds.\<close>

definition build_tx :: "'tx kaia_lib \<Rightarrow> globals \<Rightarrow> tx_type \<Rightarrow> tx_values \<Rightarrow> privkey list
    \<Rightarrow> tx_option option \<Rightarrow> gerror + 'tx" where
  "build_tx L g ty m keys opt =
     (let s = EIP155Signer (chainID g) in
      case newTransactionWithMap L ty m of
        Inl e \<Rightarrow> Inl (''failed to create tx: '' @ e)
      | Inr tx \<Rightarrow>
          (case signWithKeys L s keys tx of
             (Some e, _) \<Rightarrow> Inl (''failed to sign tx: '' @ e)
           | (None, tx1) \<Rightarrow>
               (case opt of
                  None \<Rightarrow> Inr tx1
                | Some po \<Rightarrow>
                    (case opt_FeePayer po of
                       None \<Rightarrow> Inr tx1
                     | Some fks \<Rightarrow>
                         (case signFeePayerWithKeys L s fks tx1 of
                            (Some e, _) \<Rightarrow> Inl (''failed to fee payer sign tx: '' @ e)
                          | (None, tx2) \<Rightarrow> Inr tx2)))))"

definition sendTransaction_body :: "'tx kaia_lib \<Rightarrow> ('tx, 'w) client \<Rightarrow> globals \<Rightarrow> tx_type
    \<Rightarrow> tx_values \<Rightarrow> tx_option option \<Rightarrow> ('w, 'tx option \<times> gerror option) op" where
  "sendTransaction_body L C g ty values opt self w =
     (case GetNonce C self w of
        (n, self1, w1) \<Rightarrow>
          (case build_tx L g ty (common_values g n (acc_address self1) values)
                  (acc_privateKey self1) opt of
             Inl e \<Rightarrow> (Ret (None, Some e), self1, w1)
           | Inr tx \<Rightarrow>
               (case SendRawTransaction C tx w1 of
                  ((_, Some e), w2) \<Rightarrow>
                    (Ret (Some tx, Some e),
                     if nonce_conflict L e then bump_nonce self1 else self1, w2)
                | ((_, None), w2) \<Rightarrow> (Ret (Some tx, None), bump_nonce self1, w2))))"

definition sendTransaction :: "'tx kaia_lib \<Rightarrow> ('tx, 'w) client \<Rightarrow> globals \<Rightarrow> tx_type
    \<Rightarrow> tx_values \<Rightarrow> tx_option option \<Rightarrow> ('w, 'tx option \<times> gerror option) op" where
  "sendTransaction L C g ty values opt =
     (if (case opt of None \<Rightarrow> True | Some po \<Rightarrow> \<not> opt_NoLock po)
      then with_lock (sendTransaction_body L C g ty values opt)
      else sendTransaction_body L C g ty values opt)"

section \<open>The contract of an account operation\<close>

text \<open>
  What every caller of an account operation relies on. \<open>op_body\<close> is the contract of the code
  between \<open>Lock\<close> and \<open>Unlock\<close>: it leaves the account's identity and the mutex alone and never
  waits. \<open>account_op\<close> is the contract of a finished operation, \<open>locking_op\<close> adds that it
  excludes itself. A body under \<open>with_lock\<close> is a \<open>locking_op\<close>.
\<close>

locale account_op =
  fixes f :: "('w, 'r) op"
  assumes keeps_identity: "f a w = (r, a', w') \<Longrightarrow> identity a' = identity a"
    and releases: "f a w = (r, a', w') \<Longrightarrow> \<not> acc_mutex a \<Longrightarrow> \<not> acc_mutex a'"
    and never_waits: "f a w = (r, a', w') \<Longrightarrow> \<not> acc_mutex a \<Longrightarrow> r \<noteq> Block"

locale locking_op = account_op +
  assumes excludes: "acc_mutex a \<Longrightarrow> f a w = (Block, a, w)"

locale op_body =
  fixes f :: "('w, 'r) op"
  assumes body_identity: "f a w = (r, a', w') \<Longrightarrow> identity a' = identity a"
    and body_mutex: "f a w = (r, a', w') \<Longrightarrow> acc_mutex a' = acc_mutex a"
    and body_no_wait: "f a w = (r, a', w') \<Longrightarrow> r \<noteq> Block"

sublocale op_body \<subseteq> account_op f
  by unfold_locales (auto dest: body_identity body_mutex body_no_wait)

lemma identity_mutex [simp]: "identity (a\<lparr>acc_mutex := b\<rparr>) = identity a"
  by (simp add: identity_def)

lemma identity_nonce [simp]: "identity (a\<lparr>acc_nonce := n\<rparr>) = identity a"
  by (simp add: identity_def)

lemma identity_block [simp]: "identity (a\<lparr>acc_lastBlocknumSentTx := n\<rparr>) = identity a"
  by (simp add: identity_def)

lemma identity_bump [simp]: "identity (bump_nonce a) = identity a"
  by (simp add: bump_nonce_def)

lemma bump_nonce_sel [simp]:
  "acc_nonce (bump_nonce a) = acc_nonce a + 1"
  "acc_mutex (bump_nonce a) = acc_mutex a"
  "acc_address (bump_nonce a) = acc_address a"
  "acc_privateKey (bump_nonce a) = acc_privateKey a"
  "acc_key (bump_nonce a) = acc_key a"
  "acc_id (bump_nonce a) = acc_id a"
  "acc_lastBlocknumSentTx (bump_nonce a) = acc_lastBlocknumSentTx a"
  by (simp_all add: bump_nonce_def)

lemma acc_wf_identity: "identity a' = identity a \<Longrightarrow> acc_wf a' = acc_wf a"
  by (simp add: identity_def acc_wf_def)

lemma with_lock_RetE:
  assumes "with_lock body a w = (Ret x, a', w')" "\<not> acc_mutex a"
  obtains b where "body (a\<lparr>acc_mutex := True\<rparr>) w = (Ret x, b, w')" "a' = b\<lparr>acc_mutex := False\<rparr>"
  using assms by (auto simp: with_lock_def split: prod.splits)

lemma with_lock_eq:
  "\<not> acc_mutex a \<Longrightarrow> body (a\<lparr>acc_mutex := True\<rparr>) w = (r, a', w') \<Longrightarrow>
   with_lock body a w = (r, a'\<lparr>acc_mutex := False\<rparr>, w')"
  by (simp add: with_lock_def)

context op_body begin

lemma as_op: "account_op f"
  by (rule account_op_axioms)

lemma locked: "locking_op (with_lock f)"
  by unfold_locales
    (auto simp: with_lock_def split: if_splits prod.splits dest: body_identity body_no_wait)

end

text \<open>A result that is only rewritten, as the wrappers do with \<open>tx.Hash()\<close>.\<close>

definition op_map :: "('r \<Rightarrow> 's) \<Rightarrow> ('w, 'r) op \<Rightarrow> ('w, 's) op" where
  "op_map h f a w = (case f a w of (r, a', w') \<Rightarrow> (map_outcome_ret h r, a', w'))"

context account_op begin

lemma mapped: "account_op (op_map h f)"
  by unfold_locales
    (auto simp: op_map_def split: prod.splits dest: keeps_identity releases never_waits)

end

context locking_op begin

lemma mapped_locking: "locking_op (op_map h f)"
  by (rule locking_op.intro [OF mapped], unfold_locales) (simp add: op_map_def excludes)

end

section \<open>Repeating an operation\<close>

text \<open>
  A load-test task runs its operation again and again on the same account. \<open>repeat_op\<close> runs
  it \<open>n\<close> times and collects the results; it stops at the first outcome that is not a return.
\<close>

fun repeat_op :: "nat \<Rightarrow> ('w, 'r) op \<Rightarrow> ('w, 'r list) op" where
  "repeat_op 0 f a w = (Ret [], a, w)"
| "repeat_op (Suc n) f a w =
     (case f a w of
        (Ret r, a', w') \<Rightarrow> op_map ((#) r) (repeat_op n f) a' w'
      | (Exit m, a', w') \<Rightarrow> (Exit m, a', w')
      | (Panic m, a', w') \<Rightarrow> (Panic m, a', w')
      | (Block, a', w') \<Rightarrow> (Block, a', w'))"

context account_op begin

lemma repeat_contract:
  "repeat_op n f a w = (rs, a', w') \<Longrightarrow>
   identity a' = identity a \<and> (\<not> acc_mutex a \<longrightarrow> \<not> acc_mutex a' \<and> rs \<noteq> Block)"
proof (induction n arbitrary: a w rs a' w')
  case 0
  then show ?case by auto
next
  case (Suc n)
  obtain r b v where fa: "f a w = (r, b, v)" by (cases "f a w") auto
  note step = keeps_identity [OF fa] releases [OF fa] never_waits [OF fa]
  show ?case
  proof (cases r)
    case (Ret x)
    obtain rs0 where rep: "repeat_op n f b v = (rs0, a', w')" and rs: "rs = map_outcome_ret ((#) x) rs0"
      using Suc.prems fa Ret by (auto simp: op_map_def split: prod.splits)
    from Suc.IH [OF rep] step rs show ?thesis by auto
  qed (use Suc.prems fa step in auto)
qed

end

section \<open>Lemmas on the helpers\<close>

lemma GetNonce_cached: "acc_nonce a \<noteq> 0 \<Longrightarrow> GetNonce C a w = (acc_nonce a, a, w)"
  by (simp add: GetNonce_def)

lemma GetNonce_fetch: "acc_nonce a = 0 \<Longrightarrow> NonceAt C (acc_address a) w = (Inr n, w') \<Longrightarrow>
   GetNonce C a w = (n, a\<lparr>acc_nonce := n\<rparr>, w')"
  by (simp add: GetNonce_def)

text \<open>Whatever \<open>GetNonce\<close> returns is also what the account caches afterwards.\<close>

lemma GetNonce_frame:
  "GetNonce C a w = (n, a', w') \<Longrightarrow>
   identity a' = identity a \<and> acc_mutex a' = acc_mutex a \<and> acc_nonce a' = n
   \<and> acc_lastBlocknumSentTx a' = acc_lastBlocknumSentTx a \<and> a' = a\<lparr>acc_nonce := n\<rparr>"
  by (auto simp: GetNonce_def split: if_splits prod.splits sum.splits)

lemma sendRawTx_frame:
  "sendRawTx L C tx a w = (e, a', w') \<Longrightarrow>
   identity a' = identity a \<and> acc_mutex a' = acc_mutex a \<and>
   acc_lastBlocknumSentTx a' = acc_lastBlocknumSentTx a"
  by (auto simp: sendRawTx_def split: prod.splits option.splits if_splits)

lemma sendRawTx_nonce:
  "sendRawTx L C tx a w = (e, a', w') \<Longrightarrow>
   a' = (if (case e of None \<Rightarrow> True | Some m \<Rightarrow> nonce_conflict L m) then bump_nonce a else a)"
  by (auto simp: sendRawTx_def split: prod.splits option.splits if_splits)

lemma sendTransaction_body_frame:
  "sendTransaction_body L C g ty m opt a w = (r, a', w') \<Longrightarrow>
   identity a' = identity a \<and> acc_mutex a' = acc_mutex a \<and> returns r"
  by (auto simp: sendTransaction_body_def split: prod.splits sum.splits option.splits if_splits
      dest!: GetNonce_frame)

interpretation send_body: op_body "sendTransaction_body L C g ty m opt" for L C g ty m opt
  by unfold_locales (auto dest: sendTransaction_body_frame)

lemma sendTransaction_locking: "(case opt of None \<Rightarrow> True | Some po \<Rightarrow> \<not> opt_NoLock po) \<Longrightarrow>
   locking_op (sendTransaction L C g ty m opt)"
  using send_body.locked by (simp add: sendTransaction_def)

interpretation send_op: account_op "sendTransaction L C g ty m opt" for L C g ty m opt
  unfolding sendTransaction_def
  by (auto intro: locking_op.axioms(1) [OF send_body.locked] send_body.account_op_axioms)

lemma sendTransaction_returns:
  "sendTransaction L C g ty m opt a w = (r, a', w') \<Longrightarrow> \<not> acc_mutex a \<Longrightarrow> returns r"
  by (auto simp: sendTransaction_def with_lock_def split: if_splits prod.splits
      dest!: sendTransaction_body_frame)

text \<open>The law of an operation that takes the mutex, written out.\<close>

definition lock_safe :: "('w, 'r) op \<Rightarrow> bool" where
  "lock_safe f \<longleftrightarrow> (\<forall>a w. if acc_mutex a then f a w = (Block, a, w)
     else case f a w of (r, a', w') \<Rightarrow> r \<noteq> Block \<and> \<not> acc_mutex a' \<and> identity a' = identity a)"

lemma lock_safeI: "locking_op f \<Longrightarrow> lock_safe f"
  by (auto simp: lock_safe_def locking_op_def locking_op_axioms_def account_op_def split: prod.split)

end
