(* ===== verification/Account_Transfers.thy ===== *)
theory Account_Transfers
  imports Account_Core
begin

text \<open>
  The transfer operations of \<open>klayslave/account/account.go\<close>: signed and unsigned value
  transfers, the Kaia transaction types (value transfer, memo, account creation and update,
  deployment, execution, cancel, each with its fee-delegated variants) and the Ethereum types.
  Every operation is one definition that passes the literal values of the source; the shared
  behaviour is that of \<open>sendTransaction\<close> and \<open>sendRawTx\<close>.
\<close>

section \<open>Results\<close>

text \<open>\<open>if tx != nil { return tx.Hash(), gasPrice, err }; return common.Hash{}, gasPrice, err\<close>\<close>

type_synonym hash_result = "hash \<times> int \<times> gerror option"

definition hash_or_zero :: "'tx kaia_lib \<Rightarrow> globals \<Rightarrow> 'tx option \<times> gerror option \<Rightarrow> hash_result" where
  "hash_or_zero L g r =
     (case r of (Some tx, err) \<Rightarrow> (txHash L tx, gasPrice g, err)
              | (None, err) \<Rightarrow> (0, gasPrice g, err))"

definition send_and_hash :: "'tx kaia_lib \<Rightarrow> ('tx, 'w) client \<Rightarrow> globals \<Rightarrow> tx_type
    \<Rightarrow> tx_values \<Rightarrow> tx_option option \<Rightarrow> ('w, hash_result) op" where
  "send_and_hash L C g ty m opt = op_map (hash_or_zero L g) (sendTransaction L C g ty m opt)"

definition fee_payer :: "account \<Rightarrow> tx_option option" where
  "fee_payer p = Some \<lparr>opt_FeePayer = Some (acc_privateKey p), opt_NoLock = False\<rparr>"

text \<open>\<open>&acc.privateKey[0].PublicKey\<close> as a value: the call panics on an account without keys.\<close>

definition with_first_key :: "account \<Rightarrow> (privkey \<Rightarrow> ('w, 'r) op) \<Rightarrow> ('w, 'r) op" where
  "with_first_key p f a w =
     (case acc_privateKey p of
        [] \<Rightarrow> (Panic ''index out of range'', a, w)
      | k # _ \<Rightarrow> f k a w)"

section \<open>Legacy value transfer\<close>

definition TransferSigned_body :: "'tx kaia_lib \<Rightarrow> ('tx, 'w) client \<Rightarrow> globals \<Rightarrow> account
    \<Rightarrow> int option \<Rightarrow> bytes option \<Rightarrow> ('w, 'tx \<times> int \<times> gerror option) op" where
  "TransferSigned_body L C g to v input self w =
     (case GetNonce C self w of
        (n, self1, w1) \<Rightarrow>
          (let gas = (case input of None \<Rightarrow> 21000 | Some _ \<Rightarrow> 10000000);
               tx = newTransaction L n (GetAddress to) v gas (gasPrice g) input
           in case acc_privateKey self1 of
                [] \<Rightarrow> (Panic ''index out of range'', self1, w1)
              | k # _ \<Rightarrow>
                  (case signTx L (EIP155Signer (chainID g)) k tx of
                     Inl e \<Rightarrow> (Exit ''Failed to encode tx'', self1, w1)
                   | Inr stx \<Rightarrow>
                       (case sendRawTx L C stx self1 w1 of
                          (err, self2, w2) \<Rightarrow> (Ret (stx, txGasPrice L tx, err), self2, w2)))))"

definition TransferSignedTxReturnTx :: "'tx kaia_lib \<Rightarrow> ('tx, 'w) client \<Rightarrow> globals \<Rightarrow> bool
    \<Rightarrow> account \<Rightarrow> int option \<Rightarrow> bytes option \<Rightarrow> ('w, 'tx \<times> int \<times> gerror option) op" where
  "TransferSignedTxReturnTx L C g withLock to v input =
     (if withLock then with_lock (TransferSigned_body L C g to v input)
      else TransferSigned_body L C g to v input)"

definition tx_to_hash :: "'tx kaia_lib \<Rightarrow> 'tx \<times> int \<times> gerror option \<Rightarrow> hash_result" where
  "tx_to_hash L r = (case r of (tx, gp, err) \<Rightarrow> (txHash L tx, gp, err))"

definition TransferSignedTx :: "'tx kaia_lib \<Rightarrow> ('tx, 'w) client \<Rightarrow> globals \<Rightarrow> account
    \<Rightarrow> int option \<Rightarrow> bytes option \<Rightarrow> ('w, hash_result) op" where
  "TransferSignedTx L C g to v input =
     op_map (tx_to_hash L) (TransferSignedTxReturnTx L C g True to v input)"

definition TransferSignedTxWithoutLock :: "'tx kaia_lib \<Rightarrow> ('tx, 'w) client \<Rightarrow> globals \<Rightarrow> account
    \<Rightarrow> int option \<Rightarrow> bytes option \<Rightarrow> ('w, hash_result) op" where
  "TransferSignedTxWithoutLock L C g to v input =
     op_map (tx_to_hash L) (TransferSignedTxReturnTx L C g False to v input)"

text \<open>\<open>TransferUnsignedTx\<close> takes no lock and touches no account state: the node signs.\<close>

definition TransferUnsignedTx :: "('tx, 'w) client \<Rightarrow> globals \<Rightarrow> account \<Rightarrow> int option
    \<Rightarrow> ('w, hash \<times> gerror option) op" where
  "TransferUnsignedTx C g to v self w =
     (case SendUnsignedTransaction C
             \<lparr>sa_from = GetAddress self, sa_recipient = GetAddress to, sa_gasLimit = 21000,
              sa_price = gasPrice g, sa_amount = v\<rparr> w of
        (Inl e, w') \<Rightarrow> (Ret (0, Some e), self, w')
      | (Inr h, w') \<Rightarrow> (Ret (h, None), self, w'))"

section \<open>Value transfers of the Kaia types\<close>

definition TransferNewValueTransferTx :: "'tx kaia_lib \<Rightarrow> ('tx, 'w) client \<Rightarrow> globals \<Rightarrow> account
    \<Rightarrow> int option \<Rightarrow> ('w, hash_result) op" where
  "TransferNewValueTransferTx L C g to v =
     send_and_hash L C g TxTypeValueTransfer
       [TxValueKeyTo \<mapsto> VAddr (GetAddress to), TxValueKeyAmount \<mapsto> VBig v,
        TxValueKeyGasLimit \<mapsto> VU64 100000] None"

definition TransferNewFeeDelegatedValueTransferTx :: "'tx kaia_lib \<Rightarrow> ('tx, 'w) client \<Rightarrow> globals
    \<Rightarrow> account \<Rightarrow> int option \<Rightarrow> ('w, hash_result) op" where
  "TransferNewFeeDelegatedValueTransferTx L C g to v =
     send_and_hash L C g TxTypeFeeDelegatedValueTransfer
       [TxValueKeyTo \<mapsto> VAddr (GetAddress to), TxValueKeyAmount \<mapsto> VBig v,
        TxValueKeyGasLimit \<mapsto> VU64 100000, TxValueKeyFeePayer \<mapsto> VAddr (acc_address to)]
       (fee_payer to)"

definition TransferNewFeeDelegatedValueTransferWithRatioTx :: "'tx kaia_lib \<Rightarrow> ('tx, 'w) client
    \<Rightarrow> globals \<Rightarrow> account \<Rightarrow> int option \<Rightarrow> ('w, hash_result) op" where
  "TransferNewFeeDelegatedValueTransferWithRatioTx L C g to v =
     send_and_hash L C g TxTypeFeeDelegatedValueTransferWithRatio
       [TxValueKeyTo \<mapsto> VAddr (GetAddress to), TxValueKeyAmount \<mapsto> VBig v,
        TxValueKeyGasLimit \<mapsto> VU64 100000, TxValueKeyFeePayer \<mapsto> VAddr (acc_address to),
        TxValueKeyFeeRatioOfFeePayer \<mapsto> VFeeRatio 30]
       (fee_payer to)"

section \<open>Memo transfers\<close>

definition createMemoTransferTx :: "'tx kaia_lib \<Rightarrow> ('tx, 'w) client \<Rightarrow> globals \<Rightarrow> account
    \<Rightarrow> int option \<Rightarrow> bytes \<Rightarrow> u64 \<Rightarrow> ('w, hash_result) op" where
  "createMemoTransferTx L C g to v data gasLimit =
     send_and_hash L C g TxTypeValueTransferMemo
       [TxValueKeyTo \<mapsto> VAddr (GetAddress to), TxValueKeyAmount \<mapsto> VBig v,
        TxValueKeyGasLimit \<mapsto> VU64 gasLimit, TxValueKeyData \<mapsto> VData data] None"

definition TransferNewValueTransferMemoTx :: "'tx kaia_lib \<Rightarrow> ('tx, 'w) client \<Rightarrow> globals
    \<Rightarrow> account \<Rightarrow> int option \<Rightarrow> ('w, hash_result) op" where
  "TransferNewValueTransferMemoTx L C g to v =
     createMemoTransferTx L C g to v (str_bytes ''hello'') 150000"

text \<open>
  The package's random source is an argument: \<open>draw i\<close> is the raw value of its \<open>i\<close>-th draw,
  and \<open>Intn(n)\<close> of it is \<open>draw i mod n\<close>.
\<close>

definition Letters :: string where
  "Letters = ''0123456789ABCDEFGHIJKLMNOPQRSTUVWXYZabcdefghijklmnopqrstuvwxyz''"

definition randInt :: "nat \<Rightarrow> nat \<Rightarrow> nat \<Rightarrow> nat" where
  "randInt r lo hi = lo + r mod (hi - lo)"

definition randomString :: "(nat \<Rightarrow> nat) \<Rightarrow> nat \<Rightarrow> string" where
  "randomString draw n = map (\<lambda>i. Letters ! (draw i mod length Letters)) [0..<n]"

definition TransferNewValueTransferBigRandomStringMemoTx :: "'tx kaia_lib \<Rightarrow> ('tx, 'w) client
    \<Rightarrow> globals \<Rightarrow> nat \<Rightarrow> (nat \<Rightarrow> nat) \<Rightarrow> account \<Rightarrow> int option \<Rightarrow> ('w, hash_result) op" where
  "TransferNewValueTransferBigRandomStringMemoTx L C g r draw to v =
     createMemoTransferTx L C g to v (str_bytes (randomString draw (randInt r 50 2000))) 200000"

definition TransferNewValueTransferSmallMemoTx :: "'tx kaia_lib \<Rightarrow> ('tx, 'w) client \<Rightarrow> globals
    \<Rightarrow> (nat \<Rightarrow> nat) \<Rightarrow> account \<Rightarrow> int option \<Rightarrow> ('w, hash_result) op" where
  "TransferNewValueTransferSmallMemoTx L C g draw to v =
     createMemoTransferTx L C g to v (str_bytes (randomString draw 200)) 150000"

definition TransferNewValueTransferLargeMemoTx :: "'tx kaia_lib \<Rightarrow> ('tx, 'w) client \<Rightarrow> globals
    \<Rightarrow> (nat \<Rightarrow> nat) \<Rightarrow> account \<Rightarrow> int option \<Rightarrow> ('w, hash_result) op" where
  "TransferNewValueTransferLargeMemoTx L C g draw to v =
     createMemoTransferTx L C g to v (str_bytes (randomString draw 2000)) 200000"

definition TransferNewFeeDelegatedValueTransferMemoTx :: "'tx kaia_lib \<Rightarrow> ('tx, 'w) client
    \<Rightarrow> globals \<Rightarrow> account \<Rightarrow> int option \<Rightarrow> ('w, hash_result) op" where
  "TransferNewFeeDelegatedValueTransferMemoTx L C g to v =
     send_and_hash L C g TxTypeFeeDelegatedValueTransferMemo
       [TxValueKeyTo \<mapsto> VAddr (GetAddress to), TxValueKeyAmount \<mapsto> VBig v,
        TxValueKeyGasLimit \<mapsto> VU64 100000, TxValueKeyData \<mapsto> VData (str_bytes ''hello''),
        TxValueKeyFeePayer \<mapsto> VAddr (acc_address to)]
       (fee_payer to)"

definition TransferNewFeeDelegatedValueTransferMemoWithRatioTx :: "'tx kaia_lib
    \<Rightarrow> ('tx, 'w) client \<Rightarrow> globals \<Rightarrow> account \<Rightarrow> int option \<Rightarrow> ('w, hash_result) op" where
  "TransferNewFeeDelegatedValueTransferMemoWithRatioTx L C g to v =
     send_and_hash L C g TxTypeFeeDelegatedValueTransferMemoWithRatio
       [TxValueKeyTo \<mapsto> VAddr (GetAddress to), TxValueKeyAmount \<mapsto> VBig v,
        TxValueKeyGasLimit \<mapsto> VU64 100000, TxValueKeyData \<mapsto> VData (str_bytes ''hello''),
        TxValueKeyFeePayer \<mapsto> VAddr (acc_address to), TxValueKeyFeeRatioOfFeePayer \<mapsto> VFeeRatio 30]
       (fee_payer to)"

section \<open>Accounts\<close>

definition TransferNewAccountCreationTx :: "'tx kaia_lib \<Rightarrow> ('tx, 'w) client \<Rightarrow> globals
    \<Rightarrow> account \<Rightarrow> int option \<Rightarrow> ('w, hash_result) op" where
  "TransferNewAccountCreationTx L C g to v =
     with_first_key to (\<lambda>k. send_and_hash L C g TxTypeAccountCreation
       [TxValueKeyTo \<mapsto> VAddr (GetAddress to), TxValueKeyAmount \<mapsto> VBig v,
        TxValueKeyGasLimit \<mapsto> VU64 1000000, TxValueKeyHumanReadable \<mapsto> VBool False,
        TxValueKeyAccountKey \<mapsto> VPubKey k] None)"

text \<open>The update operations put the account's own key, so they read \<open>self\<close> before the call.\<close>

definition with_own_key :: "(privkey \<Rightarrow> ('w, 'r) op) \<Rightarrow> ('w, 'r) op" where
  "with_own_key f a w = with_first_key a f a w"

definition TransferNewAccountUpdateTx :: "'tx kaia_lib \<Rightarrow> ('tx, 'w) client \<Rightarrow> globals
    \<Rightarrow> account \<Rightarrow> int option \<Rightarrow> ('w, hash_result) op" where
  "TransferNewAccountUpdateTx L C g to v =
     with_own_key (\<lambda>k. send_and_hash L C g TxTypeAccountUpdate
       [TxValueKeyGasLimit \<mapsto> VU64 100000, TxValueKeyAccountKey \<mapsto> VPubKey k] None)"

definition TransferNewFeeDelegatedAccountUpdateTx :: "'tx kaia_lib \<Rightarrow> ('tx, 'w) client \<Rightarrow> globals
    \<Rightarrow> account \<Rightarrow> int option \<Rightarrow> ('w, hash_result) op" where
  "TransferNewFeeDelegatedAccountUpdateTx L C g to v =
     with_own_key (\<lambda>k. send_and_hash L C g TxTypeFeeDelegatedAccountUpdate
       [TxValueKeyGasLimit \<mapsto> VU64 100000, TxValueKeyAccountKey \<mapsto> VPubKey k,
        TxValueKeyFeePayer \<mapsto> VAddr (acc_address to)] (fee_payer to))"

definition TransferNewFeeDelegatedAccountUpdateWithRatioTx :: "'tx kaia_lib \<Rightarrow> ('tx, 'w) client
    \<Rightarrow> globals \<Rightarrow> account \<Rightarrow> int option \<Rightarrow> ('w, hash_result) op" where
  "TransferNewFeeDelegatedAccountUpdateWithRatioTx L C g to v =
     with_own_key (\<lambda>k. send_and_hash L C g TxTypeFeeDelegatedAccountUpdateWithRatio
       [TxValueKeyGasLimit \<mapsto> VU64 100000, TxValueKeyAccountKey \<mapsto> VPubKey k,
        TxValueKeyFeePayer \<mapsto> VAddr (acc_address to), TxValueKeyFeeRatioOfFeePayer \<mapsto> VFeeRatio 30]
       (fee_payer to))"

section \<open>Cancel\<close>

definition TransferNewCancelTx :: "'tx kaia_lib \<Rightarrow> ('tx, 'w) client \<Rightarrow> globals
    \<Rightarrow> account \<Rightarrow> int option \<Rightarrow> ('w, hash_result) op" where
  "TransferNewCancelTx L C g to v =
     send_and_hash L C g TxTypeCancel [TxValueKeyGasLimit \<mapsto> VU64 100000000] None"

definition TransferNewFeeDelegatedCancelTx :: "'tx kaia_lib \<Rightarrow> ('tx, 'w) client \<Rightarrow> globals
    \<Rightarrow> account \<Rightarrow> int option \<Rightarrow> ('w, hash_result) op" where
  "TransferNewFeeDelegatedCancelTx L C g to v =
     send_and_hash L C g TxTypeFeeDelegatedCancel
       [TxValueKeyGasLimit \<mapsto> VU64 100000000, TxValueKeyFeePayer \<mapsto> VAddr (acc_address to)]
       (fee_payer to)"

definition TransferNewFeeDelegatedCancelWithRatioTx :: "'tx kaia_lib \<Rightarrow> ('tx, 'w) client
    \<Rightarrow> globals \<Rightarrow> account \<Rightarrow> int option \<Rightarrow> ('w, hash_result) op" where
  "TransferNewFeeDelegatedCancelWithRatioTx L C g to v =
     send_and_hash L C g TxTypeFeeDelegatedCancelWithRatio
       [TxValueKeyGasLimit \<mapsto> VU64 100000000, TxValueKeyFeePayer \<mapsto> VAddr (acc_address to),
        TxValueKeyFeeRatioOfFeePayer \<mapsto> VFeeRatio 30]
       (fee_payer to)"

text \<open>
  \<open>TransferNewValueTransferWithCancelTx\<close>: a value transfer and a cancel with the same nonce.
  The send loop declares its own \<open>hash\<close>, which hides the outer one: after the loop the outer
  \<open>hash\<close> is still the zero hash. \<open>Some (h, e)\<close> is the early return out of the loop.
\<close>

fun cancel_send_loop :: "'tx kaia_lib \<Rightarrow> ('tx, 'w) client \<Rightarrow> 'tx list \<Rightarrow> account \<Rightarrow> 'w
    \<Rightarrow> (hash \<times> gerror) option \<times> account \<times> 'w" where
  "cancel_send_loop L C [] self w = (None, self, w)"
| "cancel_send_loop L C (tx # txs) self w =
     (case SendRawTransaction C tx w of
        ((h, Some e), w') \<Rightarrow>
           (Some (h, e), if nonce_conflict L e then bump_nonce self else self, w')
      | ((h, None), w') \<Rightarrow> cancel_send_loop L C txs self w')"

definition make_signed :: "'tx kaia_lib \<Rightarrow> globals \<Rightarrow> tx_type \<Rightarrow> tx_values \<Rightarrow> privkey list
    \<Rightarrow> 'tx outcome" where
  "make_signed L g ty m keys =
     (case newTransactionWithMap L ty m of
        Inl e \<Rightarrow> Exit ''Failed to encode tx''
      | Inr tx \<Rightarrow>
          (case signWithKeys L (EIP155Signer (chainID g)) keys tx of
             (Some e, _) \<Rightarrow> Exit ''Failed to sign tx''
           | (None, tx') \<Rightarrow> Ret tx'))"

definition WithCancel_body :: "'tx kaia_lib \<Rightarrow> ('tx, 'w) client \<Rightarrow> globals \<Rightarrow> account
    \<Rightarrow> int option \<Rightarrow> ('w, hash_result) op" where
  "WithCancel_body L C g to v self w =
     (case GetNonce C self w of
        (n, self1, w1) \<Rightarrow>
          (case make_signed L g TxTypeValueTransfer
                  [TxValueKeyNonce \<mapsto> VU64 n, TxValueKeyTo \<mapsto> VAddr (GetAddress to),
                   TxValueKeyAmount \<mapsto> VBig v, TxValueKeyGasLimit \<mapsto> VU64 100000,
                   TxValueKeyGasPrice \<mapsto> VBig (Some (gasPrice g)),
                   TxValueKeyFrom \<mapsto> VAddr (acc_address self1)] (acc_privateKey self1) of
             Ret tx \<Rightarrow>
               (case make_signed L g TxTypeCancel
                       [TxValueKeyNonce \<mapsto> VU64 n, TxValueKeyFrom \<mapsto> VAddr (acc_address self1),
                        TxValueKeyGasLimit \<mapsto> VU64 100000000,
                        TxValueKeyGasPrice \<mapsto> VBig (Some (gasPrice g))] (acc_privateKey self1) of
                  Ret cancelTx \<Rightarrow>
                    (case cancel_send_loop L C [tx, cancelTx] self1 w1 of
                       (Some (h, e), self2, w2) \<Rightarrow> (Ret (h, gasPrice g, Some e), self2, w2)
                     | (None, self2, w2) \<Rightarrow> (Ret (0, gasPrice g, None), bump_nonce self2, w2))
                | Exit m \<Rightarrow> (Exit m, self1, w1)
                | Panic m \<Rightarrow> (Panic m, self1, w1)
                | Block \<Rightarrow> (Block, self1, w1))
           | Exit m \<Rightarrow> (Exit m, self1, w1)
           | Panic m \<Rightarrow> (Panic m, self1, w1)
           | Block \<Rightarrow> (Block, self1, w1)))"

definition TransferNewValueTransferWithCancelTx :: "'tx kaia_lib \<Rightarrow> ('tx, 'w) client \<Rightarrow> globals
    \<Rightarrow> account \<Rightarrow> int option \<Rightarrow> ('w, hash_result) op" where
  "TransferNewValueTransferWithCancelTx L C g to v = with_lock (WithCancel_body L C g to v)"

end
