(* ===== verification/Abi_Calls.thy ===== *)
theory Abi_Calls
  imports Kaia_Node
begin

text \<open>
  Call data: \<open>PackContractCall\<close> of \<open>klayslave/account/contract.go\<close> and the ABI constants it
  is used with. The ABI encoder is external (\<open>abi.JSON\<close>, \<open>Pack\<close>): \<open>abi_lib\<close> is its
  interface. An ABI description is named after the constant that holds its JSON text, a byte
  code after the constant or literal that holds its hex text; \<open>codeBytes\<close> stands for
  \<open>common.FromHex\<close> of it. The types that an auction file binds beside its contract are named by their
  package and name; \<open>NoByteCode\<close> is that of an interface.
\<close>

datatype abi_id =
    erc20ABI | erc721PerformanceABI | generalPurposeABI | gaslessApproveABI | gaslessSwapABI
  | counterAuctionABI | cpuHeavySortABI | largeMemoABI | readApiGetABI | readApiSetABI
  | userStorageGetABI | userStorageSetABI | userStorageGetUserDataABI | mintCardABI
  | sendRewardsABI | internalTxMainConstructorABI | storageTrieABI
  | TestTokenABI | UniswapV2FactoryABI | UniswapV2Router02ABI | GaslessSwapRouterABI
  | AuctionFeeVaultABI | AuctionDepositVaultABI | AuctionEntryPointABI
  | TetherContractTCABI | TetherProxyABI | CpuHeavyTCABI | UserStorageTCABI | LargeMemoTCABI
  | ReadApiCallContractTCABI | internalTxContractABI | internalTxKIP17TokenContractABI
  | BundledABI string string

text \<open>
  Go values on their way to and from the ABI encoder: \<open>ArgUint\<close> is a \<open>*big.Int\<close>, \<open>ArgFixed\<close> a byte array,
  \<open>ArgNil\<close> a nil pointer or slice.
\<close>

datatype abi_arg =
    ArgAddress addr | ArgUint int | ArgUint8 u8 | ArgBool bool | ArgString string | ArgBytes bytes
  | ArgFixed bytes | ArgArray "abi_arg list" | ArgTuple "abi_arg list" | ArgNil

datatype byte_code =
    FeeDelegatedDeployCode | ethereumContractCode | erc20Bytecode | erc721Bytecode
  | storageTrieBytecode | generalPurposeBytecode | gaslessTokenBytecode | WKAIABin
  | UniswapV2FactoryBin | UniswapV2Router02Bin | GaslessSwapRouterBin | counterBytecode
  | AuctionFeeVaultBin | AuctionDepositVaultBin | AuctionEntryPointBin | cpuHeavyBytecode
  | largeMemoBytecode | readApiBytecode | userStorageBytecode | internalTxKIP17Bytecode
  | internalTxMainBytecode | TetherContractTCBin | TetherProxyBin | CpuHeavyTCBin | UserStorageTCBin
  | LargeMemoTCBin | ReadApiCallContractTCBin | internalTxContractBin | internalTxKIP17TokenContractBin
  | BundledBin string string | NoByteCode

record abi_lib =
  abiJSON :: "abi_id \<Rightarrow> gerror option"
  abiPack :: "abi_id \<Rightarrow> string \<Rightarrow> abi_arg list \<Rightarrow> gerror + bytes"
  codeBytes :: "byte_code \<Rightarrow> bytes"

definition PackContractCall :: "abi_lib \<Rightarrow> abi_id \<Rightarrow> string \<Rightarrow> abi_arg list \<Rightarrow> bytes outcome" where
  "PackContractCall B abi m args =
     (case abiJSON B abi of
        Some e \<Rightarrow> Exit ''failed to abi.JSON''
      | None \<Rightarrow>
          (case abiPack B abi m args of
             Inl e \<Rightarrow> Exit ''failed to abi.Pack''
           | Inr data \<Rightarrow> Ret data))"

lemma PackContractCall_not_Block [simp]: "PackContractCall B abi m args \<noteq> Block"
  by (auto simp: PackContractCall_def split: option.splits sum.splits)

text \<open>\<open>abi.MaxUint256\<close>\<close>

definition MaxUint256 :: int where
  "MaxUint256 = 2 ^ 256 - 1"

end
