(* ===== verification/Account_Contracts.thy ===== *)
theory Account_Contracts
  imports Account_Transfers Abi_Calls
begin

text \<open>
  The contract operations of \<open>klayslave/account/account.go\<close>: deployment, execution and the
  Ethereum transaction types.
\<close>

section \<open>Packing call data before a send\<close>

text \<open>A fatal packing error ends the process before the account is touched.\<close>

definition with_data :: "bytes outcome \<Rightarrow> (bytes \<Rightarrow> ('w, 'r) op) \<Rightarrow> ('w, 'r) op" where
  "with_data d f a w =
     (case d of
        Ret data \<Rightarrow> f data a w
      | Exit m \<Rightarrow> (Exit m, a, w)
      | Panic m \<Rightarrow> (Panic m, a, w)
      | Block \<Rightarrow> (Block, a, w))"

section \<open>Deployment\<close>

text \<open>
  \<open>TransferNewSmartContractDeployTx\<close>: with \<open>shouldFixNonceZero\<close> the transaction carries nonce
  0, but the returned address is computed from \<open>self.nonce\<close>.
\<close>

definition SmartContractDeploy_body :: "'tx kaia_lib \<Rightarrow> ('tx, 'w) client \<Rightarrow> globals \<Rightarrow> account
    \<Rightarrow> int option \<Rightarrow> bytes \<Rightarrow> bool \<Rightarrow> ('w, addr \<times> 'tx \<times> int \<times> gerror option) op" where
  "SmartContractDeploy_body L C g to v data shouldFixNonceZero self w =
     (case GetNonce C self w of
        (n0, self1, w1) \<Rightarrow>
          (let n = (if shouldFixNonceZero then 0 else n0) in
           case make_signed L g TxTypeSmartContractDeploy
                  [TxValueKeyNonce \<mapsto> VU64 n, TxValueKeyFrom \<mapsto> VAddr (acc_address self1),
                   TxValueKeyTo \<mapsto> VNilAddr, TxValueKeyAmount \<mapsto> VBig v,
                   TxValueKeyGasLimit \<mapsto> VU64 10000000,
                   TxValueKeyGasPrice \<mapsto> VBig (Some (gasPrice g)),
                   TxValueKeyHumanReadable \<mapsto> VBool False, TxValueKeyCodeFormat \<mapsto> VCodeFormatEVM,
                   TxValueKeyData \<mapsto> VData data] (acc_privateKey self1) of
             Ret tx \<Rightarrow>
               (case SendRawTransaction C tx w1 of
                  ((_, Some e), w2) \<Rightarrow>
                    (Ret (0, tx, gasPrice g, Some e),
                     if \<not> shouldFixNonceZero \<and> nonce_conflict L e then bump_nonce self1 else self1, w2)
                | ((_, None), w2) \<Rightarrow>
                    (Ret (createAddress L (acc_address self1) (acc_nonce self1), tx, gasPrice g, None),
                     bump_nonce self1, w2))
           | Exit m \<Rightarrow> (Exit m, self1, w1)
           | Panic m \<Rightarrow> (Panic m, self1, w1)
           | Block \<Rightarrow> (Block, self1, w1)))"

definition TransferNewSmartContractDeployTx :: "'tx kaia_lib \<Rightarrow> ('tx, 'w) client \<Rightarrow> globals
    \<Rightarrow> account \<Rightarrow> int option \<Rightarrow> bytes \<Rightarrow> bool \<Rightarrow> ('w, addr \<times> 'tx \<times> int \<times> gerror option) op" where
  "TransferNewSmartContractDeployTx L C g to v data fix0 =
     with_lock (SmartContractDeploy_body L C g to v data fix0)"

text \<open>The fee-delegated deployments pay for themselves: \<open>FeePayer\<close> is \<open>self\<close>.\<close>

definition TransferNewFeeDelegatedSmartContractDeployTx :: "abi_lib \<Rightarrow> 'tx kaia_lib
    \<Rightarrow> ('tx, 'w) client \<Rightarrow> globals \<Rightarrow> account \<Rightarrow> int option \<Rightarrow> ('w, hash_result) op" where
  "TransferNewFeeDelegatedSmartContractDeployTx B L C g to v self w =
     send_and_hash L C g TxTypeFeeDelegatedSmartContractDeploy
       [TxValueKeyTo \<mapsto> VNilAddr, TxValueKeyAmount \<mapsto> VBig (Some 0),
        TxValueKeyGasLimit \<mapsto> VU64 10000000, TxValueKeyHumanReadable \<mapsto> VBool False,
        TxValueKeyData \<mapsto> VData (codeBytes B FeeDelegatedDeployCode),
        TxValueKeyCodeFormat \<mapsto> VCodeFormatEVM, TxValueKeyFeePayer \<mapsto> VAddr (acc_address self)]
       (fee_payer self) self w"

definition TransferNewFeeDelegatedSmartContractDeployWithRatioTx :: "abi_lib \<Rightarrow> 'tx kaia_lib
    \<Rightarrow> ('tx, 'w) client \<Rightarrow> globals \<Rightarrow> account \<Rightarrow> int option \<Rightarrow> ('w, hash_result) op" where
  "TransferNewFeeDelegatedSmartContractDeployWithRatioTx B L C g to v self w =
     send_and_hash L C g TxTypeFeeDelegatedSmartContractDeployWithRatio
       [TxValueKeyTo \<mapsto> VNilAddr, TxValueKeyAmount \<mapsto> VBig (Some 0),
        TxValueKeyGasLimit \<mapsto> VU64 10000000, TxValueKeyHumanReadable \<mapsto> VBool False,
        TxValueKeyData \<mapsto> VData (codeBytes B FeeDelegatedDeployCode),
        TxValueKeyFeePayer \<mapsto> VAddr (acc_address self), TxValueKeyCodeFormat \<mapsto> VCodeFormatEVM,
        TxValueKeyFeeRatioOfFeePayer \<mapsto> VFeeRatio 30]
       (fee_payer self) self w"

section \<open>Execution\<close>

definition ExecuteStorageTrieStore :: "abi_lib \<Rightarrow> 'tx kaia_lib \<Rightarrow> ('tx, 'w) client \<Rightarrow> globals
    \<Rightarrow> (nat \<Rightarrow> nat) \<Rightarrow> account \<Rightarrow> int option \<Rightarrow> ('w, hash_result) op" where
  "ExecuteStorageTrieStore B L C g draw to v =
     with_data (PackContractCall B storageTrieABI ''insertIdentity''
         [ArgString (randomString draw 39), ArgString (randomString (\<lambda>i. draw (39 + i)) 814),
          ArgString (randomString (\<lambda>i. draw (853 + i)) 40)])
       (\<lambda>data. send_and_hash L C g TxTypeSmartContractExecution
          [TxValueKeyGasLimit \<mapsto> VU64 5000000, TxValueKeyAmount \<mapsto> VBig (Some 0),
           TxValueKeyTo \<mapsto> VAddr (acc_address to), TxValueKeyData \<mapsto> VData data] None)"

definition TransferNewSmartContractExecutionTx :: "'tx kaia_lib \<Rightarrow> ('tx, 'w) client \<Rightarrow> globals
    \<Rightarrow> account \<Rightarrow> int option \<Rightarrow> bytes \<Rightarrow> ('w, 'tx option \<times> int \<times> gerror option) op" where
  "TransferNewSmartContractExecutionTx L C g to v data =
     op_map (\<lambda>(tx, err). (tx, gasPrice g, err))
       (sendTransaction L C g TxTypeSmartContractExecution
          [TxValueKeyGasLimit \<mapsto> VU64 5000000,
           TxValueKeyAmount \<mapsto> VBig (case v of None \<Rightarrow> Some 0 | Some x \<Rightarrow> Some x),
           TxValueKeyTo \<mapsto> VAddr (acc_address to), TxValueKeyData \<mapsto> VData data] None)"

definition TransferNewFeeDelegatedSmartContractExecutionTx :: "abi_lib \<Rightarrow> 'tx kaia_lib
    \<Rightarrow> ('tx, 'w) client \<Rightarrow> globals \<Rightarrow> account \<Rightarrow> int option \<Rightarrow> ('w, hash_result) op" where
  "TransferNewFeeDelegatedSmartContractExecutionTx B L C g to v self w =
     with_data (PackContractCall B generalPurposeABI ''reward'' [ArgAddress (acc_address self)])
       (\<lambda>data. send_and_hash L C g TxTypeFeeDelegatedSmartContractExecution
          [TxValueKeyGasLimit \<mapsto> VU64 5000000, TxValueKeyAmount \<mapsto> VBig v,
           TxValueKeyTo \<mapsto> VAddr (acc_address to), TxValueKeyData \<mapsto> VData data,
           TxValueKeyFeePayer \<mapsto> VAddr (acc_address self)] (fee_payer self)) self w"

definition TransferNewFeeDelegatedSmartContractExecutionWithRatioTx :: "abi_lib \<Rightarrow> 'tx kaia_lib
    \<Rightarrow> ('tx, 'w) client \<Rightarrow> globals \<Rightarrow> account \<Rightarrow> int option \<Rightarrow> ('w, hash_result) op" where
  "TransferNewFeeDelegatedSmartContractExecutionWithRatioTx B L C g to v self w =
     with_data (PackContractCall B generalPurposeABI ''reward'' [ArgAddress (acc_address self)])
       (\<lambda>data. send_and_hash L C g TxTypeFeeDelegatedSmartContractExecutionWithRatio
          [TxValueKeyGasLimit \<mapsto> VU64 5000000, TxValueKeyAmount \<mapsto> VBig v,
           TxValueKeyTo \<mapsto> VAddr (acc_address to), TxValueKeyData \<mapsto> VData data,
           TxValueKeyFeePayer \<mapsto> VAddr (acc_address self),
           TxValueKeyFeeRatioOfFeePayer \<mapsto> VFeeRatio 30] (fee_payer self)) self w"

section \<open>Ethereum transaction types\<close>

datatype EthTxType = EthTxTypeLegacy | EthTxTypeAccessList | EthTxTypeDynamicFee

text \<open>
  \<open>transferNewEthereumTxWithAccessList\<close>: the switch has no case for the legacy type, so the
  transaction stays \<open>nil\<close> there and signing it panics.
\<close>

definition EthereumWithAccessList_body :: "'tx kaia_lib \<Rightarrow> ('tx, 'w) client \<Rightarrow> globals
    \<Rightarrow> account option \<Rightarrow> int option \<Rightarrow> bytes option \<Rightarrow> EthTxType
    \<Rightarrow> ('w, 'tx \<times> int \<times> gerror option) op" where
  "EthereumWithAccessList_body L C g to v input txType self w =
     (case GetNonce C self w of
        (n, self1, w1) \<Rightarrow>
          (let gas = 5000000; toAddress = map_option acc_address to in
           case CreateAccessList C
                  \<lparr>cm_from = acc_address self1, cm_to = toAddress, cm_gas = gas,
                   cm_gasPrice = Some (gasPrice g), cm_value = v, cm_data = input\<rparr> w1 of
             (Inl e, w2) \<Rightarrow> (Exit ''Failed to get accessList'', self1, w2)
           | (Inr al, w2) \<Rightarrow>
               (case (case txType of
                        EthTxTypeLegacy \<Rightarrow> None
                      | EthTxTypeAccessList \<Rightarrow> Some (newTx L
                          (EthereumAccessList (chainID g) n toAddress gas (gasPrice g) v al input))
                      | EthTxTypeDynamicFee \<Rightarrow> Some (newTx L
                          (EthereumDynamicFee (chainID g) n toAddress gas (gasPrice g) (gasPrice g)
                             v al input))) of
                  None \<Rightarrow> (Panic ''nil pointer dereference'', self1, w2)
                | Some tx \<Rightarrow>
                    (case signWithKeys L (LatestSignerForChainID (chainID g)) (acc_privateKey self1) tx of
                       (Some e, _) \<Rightarrow> (Exit ''Failed to sign tx'', self1, w2)
                     | (None, stx) \<Rightarrow>
                         (case sendRawTx L C stx self1 w2 of
                            (err, self2, w3) \<Rightarrow> (Ret (stx, gasPrice g, err), self2, w3))))))"

definition transferNewEthereumTxWithAccessList :: "'tx kaia_lib \<Rightarrow> ('tx, 'w) client \<Rightarrow> globals
    \<Rightarrow> account option \<Rightarrow> int option \<Rightarrow> bytes option \<Rightarrow> EthTxType
    \<Rightarrow> ('w, 'tx \<times> int \<times> gerror option) op" where
  "transferNewEthereumTxWithAccessList L C g to v input ty =
     with_lock (EthereumWithAccessList_body L C g to v input ty)"

definition TransferNewEthereumAccessListTx :: "'tx kaia_lib \<Rightarrow> ('tx, 'w) client \<Rightarrow> globals
    \<Rightarrow> account option \<Rightarrow> int option \<Rightarrow> bytes option \<Rightarrow> ('w, 'tx \<times> int \<times> gerror option) op" where
  "TransferNewEthereumAccessListTx L C g to v input =
     transferNewEthereumTxWithAccessList L C g to v input EthTxTypeAccessList"

definition TransferNewEthereumDynamicFeeTx :: "'tx kaia_lib \<Rightarrow> ('tx, 'w) client \<Rightarrow> globals
    \<Rightarrow> account option \<Rightarrow> int option \<Rightarrow> bytes option \<Rightarrow> ('w, 'tx \<times> int \<times> gerror option) op" where
  "TransferNewEthereumDynamicFeeTx L C g to v input =
     transferNewEthereumTxWithAccessList L C g to v input EthTxTypeDynamicFee"

definition EthStyle_body :: "'tx kaia_lib \<Rightarrow> ('tx, 'w) client \<Rightarrow> globals
    \<Rightarrow> account option \<Rightarrow> int option \<Rightarrow> bytes option \<Rightarrow> EthTxType
    \<Rightarrow> ('w, 'tx \<times> int \<times> gerror option) op" where
  "EthStyle_body L C g to v input txType self w =
     (case GetNonce C self w of
        (n, self1, w1) \<Rightarrow>
          (let gas = 10000000;
               tx = (case to of
                       None \<Rightarrow> newContractCreation L n v (gas * 2) (gasPrice g) input
                     | Some t \<Rightarrow>
                         (case txType of
                            EthTxTypeLegacy \<Rightarrow> newTransaction L n (acc_address t) v gas (gasPrice g) input
                          | EthTxTypeAccessList \<Rightarrow> newTx L
                              (EthereumAccessList (chainID g) n (Some (acc_address t)) gas (gasPrice g)
                                 v [] input)
                          | EthTxTypeDynamicFee \<Rightarrow> newTx L
                              (EthereumDynamicFee (chainID g) n (Some (acc_address t)) gas (gasPrice g)
                                 (gasPrice g) v [] input)))
           in case signWithKeys L (LatestSignerForChainID (chainID g)) (acc_privateKey self1) tx of
                (Some e, tx') \<Rightarrow> (Ret (tx', gasPrice g, Some e), self1, w1)
              | (None, stx) \<Rightarrow>
                  (case sendRawTx L C stx self1 w1 of
                     (err, self2, w2) \<Rightarrow> (Ret (stx, gasPrice g, err), self2, w2))))"

definition transferNewEthStyleTx :: "'tx kaia_lib \<Rightarrow> ('tx, 'w) client \<Rightarrow> globals
    \<Rightarrow> account option \<Rightarrow> int option \<Rightarrow> bytes option \<Rightarrow> EthTxType
    \<Rightarrow> ('w, 'tx \<times> int \<times> gerror option) op" where
  "transferNewEthStyleTx L C g to v input ty = with_lock (EthStyle_body L C g to v input ty)"

definition TransferNewLegacyTxWithEth :: "'tx kaia_lib \<Rightarrow> ('tx, 'w) client \<Rightarrow> globals
    \<Rightarrow> account option \<Rightarrow> int option \<Rightarrow> bytes option \<Rightarrow> ('w, 'tx \<times> int \<times> gerror option) op" where
  "TransferNewLegacyTxWithEth L C g to v input =
     transferNewEthStyleTx L C g to v input EthTxTypeLegacy"

definition TransferNewEthAccessListTxWithEth :: "'tx kaia_lib \<Rightarrow> ('tx, 'w) client \<Rightarrow> globals
    \<Rightarrow> account option \<Rightarrow> int option \<Rightarrow> bytes option \<Rightarrow> ('w, 'tx \<times> int \<times> gerror option) op" where
  "TransferNewEthAccessListTxWithEth L C g to v input =
     transferNewEthStyleTx L C g to v input EthTxTypeAccessList"

definition TransferNewEthDynamicFeeTxWithEth :: "'tx kaia_lib \<Rightarrow> ('tx, 'w) client \<Rightarrow> globals
    \<Rightarrow> account option \<Rightarrow> int option \<Rightarrow> bytes option \<Rightarrow> ('w, 'tx \<times> int \<times> gerror option) op" where
  "TransferNewEthDynamicFeeTxWithEth L C g to v input =
     transferNewEthStyleTx L C g to v input EthTxTypeDynamicFee"

end
