(* ===== verification/Sim_Node.thy ===== *)
theory Sim_Node
  imports Account_Contracts
begin

text \<open>
  A concrete instance of the external interface, used by the witnesses: a node that answers
  sends from a script, records every transaction it is given and has a clock in milliseconds; it makes a block every second. It shows that the hypotheses
  about the library can hold, and it makes the operations executable on closed inputs.
\<close>

datatype sim_tx = SimTx (st_nonce: u64) (st_type: "tx_type option")

record sim =
  sim_nonce :: u64
  sim_script :: "gerror option list"
  sim_sent :: "sim_tx list"
  sim_mined :: "nat option list"
  sim_block :: int
  sim_time :: int

definition sim0 :: sim where
  "sim0 = \<lparr>sim_nonce = 7, sim_script = [], sim_sent = [], sim_mined = [], sim_block = 100, sim_time = 0\<rparr>"

definition sim_make :: "tx_type \<Rightarrow> tx_values \<Rightarrow> gerror + sim_tx" where
  "sim_make ty m =
     (case m TxValueKeyNonce of Some (VU64 n) \<Rightarrow> Inr (SimTx n (Some ty)) | _ \<Rightarrow> Inl ''missing nonce'')"

definition sim_lib :: "sim_tx kaia_lib" where
  "sim_lib = \<lparr>ErrNonceTooLow = ''nonce too low'',
     ErrReplaceUnderpriced = ''replacement transaction underpriced'',
     ErrNotFound = ''not found'',
     newTransactionWithMap = sim_make,
     newTransaction = (\<lambda>n to v gas p d. SimTx n None),
     newContractCreation = (\<lambda>n v gas p d. SimTx n None),
     newTx = (\<lambda>d. case d of EthereumAccessList c n r gl p v al pl \<Rightarrow> SimTx n None
                          | EthereumDynamicFee c n r gl f t v al pl \<Rightarrow> SimTx n None),
     signTx = (\<lambda>s k tx. Inr tx),
     signWithKeys = (\<lambda>s ks tx. (None, tx)),
     signFeePayerWithKeys = (\<lambda>s ks tx. (None, tx)),
     txHash = (\<lambda>tx. ucast (st_nonce tx) + 1),
     txGasPrice = (\<lambda>tx. 0),
     createAddress = (\<lambda>a n. a + ucast n + 1)\<rparr>"

definition sim_send :: "sim_tx \<Rightarrow> sim \<Rightarrow> (hash \<times> gerror option) \<times> sim" where
  "sim_send tx w =
     (let h = ucast (st_nonce tx) + 1; w' = w\<lparr>sim_sent := sim_sent w @ [tx]\<rparr> in
      case sim_script w of
        [] \<Rightarrow> ((h, None), w'\<lparr>sim_nonce := st_nonce tx + 1\<rparr>)
      | None # rs \<Rightarrow> ((h, None), w'\<lparr>sim_script := rs, sim_nonce := st_nonce tx + 1\<rparr>)
      | Some e # rs \<Rightarrow> ((h, Some e), w'\<lparr>sim_script := rs\<rparr>))"

definition sim_wait :: "nat \<Rightarrow> sim_tx \<Rightarrow> sim \<Rightarrow> (receipt option \<times> gerror option) \<times> sim" where
  "sim_wait t tx w =
     (case sim_mined w of
        [] \<Rightarrow> ((Some \<lparr>rc_status = 1, rc_gasUsed = 21000\<rparr>, None), w)
      | None # rs \<Rightarrow> ((None, Some ''context deadline exceeded''), w\<lparr>sim_mined := rs\<rparr>)
      | Some st # rs \<Rightarrow> ((Some \<lparr>rc_status = st, rc_gasUsed = 21000\<rparr>, None), w\<lparr>sim_mined := rs\<rparr>))"

definition sim_client :: "(sim_tx, sim) client" where
  "sim_client = \<lparr>NonceAt = (\<lambda>a w. (Inr (sim_nonce w), w)),
     BalanceAt = (\<lambda>a w. (Inr 1000, w)),
     SendRawTransaction = sim_send,
     SendUnsignedTransaction = (\<lambda>args w. (Inr 1, w)),
     CreateAccessList = (\<lambda>m w. (Inr [], w)),
     SuggestGasPrice = (\<lambda>w. (Inr 25, w)),
     BlockNumber = (\<lambda>w. (Inr (sim_block w + sim_time w div 1000), w)),
     TransactionReceipt = (\<lambda>h w. (Inr \<lparr>rc_status = 1, rc_gasUsed = 21000\<rparr>, w)),
     WaitMined = sim_wait,
     Elapse = (\<lambda>ms w. w\<lparr>sim_time := sim_time w + int ms\<rparr>)\<rparr>"

definition sim_account :: account where
  "sim_account = fresh_account [PrivKey 5] [''05''] 77"

definition sim_abi :: abi_lib where
  "sim_abi = \<lparr>abiJSON = (\<lambda>i. None), abiPack = (\<lambda>i m args. Inr (str_bytes m)), codeBytes = (\<lambda>c. [96])\<rparr>"

text \<open>A closed run that returns, with what is to be read off its result.\<close>

fun ret_with :: "('r \<Rightarrow> account \<Rightarrow> 'w \<Rightarrow> bool) \<Rightarrow> 'r outcome \<times> account \<times> 'w \<Rightarrow> bool" where
  "ret_with P (Ret r, a, w) = P r a w"
| "ret_with P (Exit m, a, w) = False"
| "ret_with P (Panic m, a, w) = False"
| "ret_with P (Block, a, w) = False"

lemma ret_withE:
  assumes "ret_with P x" obtains r a w where "x = (Ret r, a, w)" "P r a w"
  using assms by (cases "(P, x)" rule: ret_with.cases) auto

lemmas sim_defs = sim0_def sim_make_def sim_lib_def sim_send_def sim_wait_def sim_client_def
  sim_account_def sim_abi_def fresh_account_def init_globals_def

lemma sim_lib_nonce: "lib_nonce sim_lib st_nonce"
  by (auto simp: lib_nonce_def sim_lib_def sim_make_def split: option.splits tx_val.splits)

end
