(* ===== verification/Nonce_Protocol.thy ===== *)
theory Nonce_Protocol
  imports Account_Contracts Sim_Node
begin

text \<open>
  How the account's cached nonce follows the node. The abstract specification is
  \<open>nonce_spec\<close>: a send ends in one of four ways, and the nonce advances exactly when the node
  accepted the transaction or said that the nonce is already used. The operations of
  \<open>account.go\<close> refine it; sequences of accepted sends then use consecutive nonces.
\<close>

section \<open>Specification\<close>

datatype send_status = NotBuilt | Accepted | Conflicting | Rejected

fun nonce_spec :: "send_status \<Rightarrow> u64 \<Rightarrow> u64" where
  "nonce_spec Accepted n = n + 1"
| "nonce_spec Conflicting n = n + 1"
| "nonce_spec NotBuilt n = n"
| "nonce_spec Rejected n = n"

definition err_status :: "'tx kaia_lib \<Rightarrow> gerror option \<Rightarrow> send_status" where
  "err_status L err = (case err of None \<Rightarrow> Accepted
     | Some e \<Rightarrow> if nonce_conflict L e then Conflicting else Rejected)"

definition send_status_of :: "'tx kaia_lib \<Rightarrow> 'tx option \<times> gerror option \<Rightarrow> send_status" where
  "send_status_of L r = (case r of (None, _) \<Rightarrow> NotBuilt | (Some _, err) \<Rightarrow> err_status L err)"

section \<open>Consecutive nonces\<close>

text \<open>
  Any operation that uses the cached nonce when it succeeds, and then advances it by one,
  uses consecutive nonces over a run of successes.
\<close>

lemma repeat_consecutive:
  assumes step: "\<And>a w r a' w'. f a w = (Ret r, a', w') \<Longrightarrow> \<not> acc_mutex a \<Longrightarrow> ok r \<Longrightarrow>
      acc_nonce a \<noteq> 0 \<Longrightarrow> used r = acc_nonce a \<and> acc_nonce a' = acc_nonce a + 1 \<and> \<not> acc_mutex a'"
  shows "repeat_op k f a w = (Ret rs, a', w') \<Longrightarrow> \<not> acc_mutex a \<Longrightarrow> list_all ok rs \<Longrightarrow>
     acc_nonce a \<noteq> 0 \<Longrightarrow> unat (acc_nonce a) + k < 2 ^ 64 \<Longrightarrow>
     map used rs = map (\<lambda>i. acc_nonce a + of_nat i) [0..<k] \<and> acc_nonce a' = acc_nonce a + of_nat k"
proof (induction k arbitrary: a w rs a' w')
  case 0
  then show ?case by auto
next
  case (Suc k)
  from Suc.prems(1) obtain r b v where fa: "f a w = (Ret r, b, v)"
    by (auto split: prod.splits outcome.splits)
  with Suc.prems(1) obtain rs0 where rep: "repeat_op k f b v = (Ret rs0, a', w')" and rs: "rs = r # rs0"
    by (auto simp: op_map_def split: prod.splits)
  from Suc.prems rs have ok: "ok r" "list_all ok rs0" by auto
  from step [OF fa Suc.prems(2) ok(1) Suc.prems(4)]
  have s: "used r = acc_nonce a" "acc_nonce b = acc_nonce a + 1" "\<not> acc_mutex b" by auto
  have un: "unat (acc_nonce b) = unat (acc_nonce a) + 1"
    unfolding s(2) by (rule unat_succ_no_wrap) (use Suc.prems(5) in simp)
  then have "acc_nonce b \<noteq> 0" by (metis add_is_0 one_neq_zero unat_0)
  with Suc.IH [OF rep s(3) ok(2)] un Suc.prems(5)
  have "map used rs0 = map (\<lambda>i. acc_nonce b + of_nat i) [0..<k]" "acc_nonce a' = acc_nonce b + of_nat k"
    by auto
  moreover have "map (\<lambda>i. acc_nonce b + of_nat i) [0..<k] = map (\<lambda>i. acc_nonce a + of_nat i) [1..<Suc k]"
    by (rule nth_equalityI) (simp_all add: s(2) algebra_simps del: upt_Suc)
  ultimately show ?case
    by (simp add: rs s upt_conv_Cons algebra_simps del: upt_Suc)
qed

lemma offsets_distinct:
  assumes "unat (s :: u64) + k < 2 ^ 64"
  shows "distinct (map (\<lambda>i. s + of_nat i) [0..<k])"
proof -
  have "inj_on (\<lambda>i. s + of_nat i) {0..<k}"
  proof (rule inj_onI)
    fix i j assume ij: "i \<in> {0..<k}" "j \<in> {0..<k}" "s + of_nat i = s + of_nat j"
    then have "(of_nat i :: u64) = of_nat j" by simp
    moreover have "i < 2 ^ 64" "j < 2 ^ 64" using ij assms by auto
    ultimately show "i = j" by (auto dest!: arg_cong [where f = unat] simp: unat_of_nat)
  qed
  then show ?thesis by (simp add: distinct_map)
qed

section \<open>sendTransaction\<close>

lemma build_tx_nonce:
  assumes lib: "lib_nonce L nonce_of" and b: "build_tx L g ty (common_values g n a m) ks opt = Inr tx"
  shows "nonce_of tx = n"
proof -
  have m: "common_values g n a m TxValueKeyNonce = Some (VU64 n)"
    by (auto simp: common_values_def Let_def split: option.splits)
  have made: "nonce_of x = n" if "newTransactionWithMap L ty (common_values g n a m) = Inr x" for x
    using lib_nonceD(1) [OF lib that m] .
  from b show ?thesis
    by (auto simp: build_tx_def Let_def split: sum.splits prod.splits option.splits
        dest!: made lib_nonceD(5,6) [OF lib])
qed

lemma sendTransaction_body_spec:
  assumes "sendTransaction_body L C g ty m opt a w = (Ret r, a', w')"
  shows "acc_nonce a' = nonce_spec (send_status_of L r) (fst (GetNonce C a w))"
    and "lib_nonce L nonce_of \<Longrightarrow> fst r = Some tx \<Longrightarrow> nonce_of tx = fst (GetNonce C a w)"
  using assms
  by (auto simp: sendTransaction_body_def send_status_of_def err_status_def
      split: prod.splits sum.splits option.splits if_splits
      dest!: GetNonce_frame intro: build_tx_nonce)

lemma GetNonce_mutex: "fst (GetNonce C (a\<lparr>acc_mutex := b\<rparr>) w) = fst (GetNonce C a w)"
  by (auto simp: GetNonce_def split: prod.splits sum.splits)

lemma sendTransaction_spec:
  assumes "sendTransaction L C g ty m opt a w = (r, a', w')" "\<not> acc_mutex a"
  obtains x where "r = Ret x" "\<not> acc_mutex a'" "identity a' = identity a"
    "acc_nonce a' = nonce_spec (send_status_of L x) (fst (GetNonce C a w))"
    "\<And>nonce_of tx. lib_nonce L nonce_of \<Longrightarrow> fst x = Some tx \<Longrightarrow> nonce_of tx = fst (GetNonce C a w)"
proof -
  from sendTransaction_returns [OF assms] obtain x where x: "r = Ret x" by (auto simp: returns_iff)
  note c = send_op.keeps_identity [OF assms(1)] send_op.releases [OF assms]
  have "acc_nonce a' = nonce_spec (send_status_of L x) (fst (GetNonce C a w))
    \<and> (\<forall>nonce_of tx. lib_nonce L nonce_of \<longrightarrow> fst x = Some tx \<longrightarrow> nonce_of tx = fst (GetNonce C a w))"
    using assms x
    by (auto simp: sendTransaction_def with_lock_def GetNonce_mutex split: if_splits prod.splits
        dest: sendTransaction_body_spec)
  with c x that show ?thesis by auto
qed

lemma sendTransaction_Ret:
  assumes "sendTransaction L C g ty m opt a w = (Ret x, a', w')" "\<not> acc_mutex a"
  shows "\<not> acc_mutex a'" and "identity a' = identity a"
    and "acc_nonce a' = nonce_spec (send_status_of L x) (fst (GetNonce C a w))"
    and "lib_nonce L nonce_of \<Longrightarrow> fst x = Some tx \<Longrightarrow> nonce_of tx = fst (GetNonce C a w)"
  by (rule sendTransaction_spec [OF assms], simp)+

section \<open>Lemma bundles of the other send paths\<close>

lemma TransferSigned_body_frame:
  "TransferSigned_body L C g to v i a w = (r, a', w') \<Longrightarrow>
   identity a' = identity a \<and> acc_mutex a' = acc_mutex a \<and> r \<noteq> Block"
  by (auto simp: TransferSigned_body_def Let_def split: prod.splits list.splits sum.splits
      dest!: GetNonce_frame sendRawTx_frame)

lemma make_signed_not_Block [simp]: "make_signed L g ty m ks \<noteq> Block"
  by (auto simp: make_signed_def split: sum.splits prod.splits option.splits)

lemma cancel_send_loop_frame:
  "cancel_send_loop L C txs a w = (r, a', w') \<Longrightarrow>
   identity a' = identity a \<and> acc_mutex a' = acc_mutex a"
  by (induction L C txs a w rule: cancel_send_loop.induct)
    (auto split: prod.splits option.splits if_splits)

lemma WithCancel_body_frame:
  "WithCancel_body L C g to v a w = (r, a', w') \<Longrightarrow>
   identity a' = identity a \<and> acc_mutex a' = acc_mutex a \<and> r \<noteq> Block"
  by (auto simp: WithCancel_body_def simp del: cancel_send_loop.simps
      split: prod.splits outcome.splits option.splits
      dest!: GetNonce_frame cancel_send_loop_frame)

lemma SmartContractDeploy_body_frame:
  "SmartContractDeploy_body L C g to v d z a w = (r, a', w') \<Longrightarrow>
   identity a' = identity a \<and> acc_mutex a' = acc_mutex a \<and> r \<noteq> Block"
  by (auto simp: SmartContractDeploy_body_def Let_def
      split: prod.splits outcome.splits option.splits if_splits dest!: GetNonce_frame)

lemma EthereumWithAccessList_body_frame:
  "EthereumWithAccessList_body L C g to v i ty a w = (r, a', w') \<Longrightarrow>
   identity a' = identity a \<and> acc_mutex a' = acc_mutex a \<and> r \<noteq> Block"
  by (auto simp: EthereumWithAccessList_body_def Let_def
      split: prod.splits sum.splits option.splits EthTxType.splits
      dest!: GetNonce_frame sendRawTx_frame)

lemma EthStyle_body_frame:
  "EthStyle_body L C g to v i ty a w = (r, a', w') \<Longrightarrow>
   identity a' = identity a \<and> acc_mutex a' = acc_mutex a \<and> r \<noteq> Block"
  unfolding EthStyle_body_def Let_def
  by (auto split: prod.splits option.splits dest!: GetNonce_frame sendRawTx_frame)

interpretation signed_body: op_body "TransferSigned_body L C g to v i" for L C g to v i
  by unfold_locales (auto dest: TransferSigned_body_frame)

interpretation cancel_body: op_body "WithCancel_body L C g to v" for L C g to v
  by unfold_locales (auto dest: WithCancel_body_frame)

interpretation deploy_body: op_body "SmartContractDeploy_body L C g to v d z" for L C g to v d z
  by unfold_locales (auto dest: SmartContractDeploy_body_frame)

interpretation eth_access_body: op_body "EthereumWithAccessList_body L C g to v i ty"
  for L C g to v i ty
  by unfold_locales (auto dest: EthereumWithAccessList_body_frame)

interpretation eth_style_body: op_body "EthStyle_body L C g to v i ty" for L C g to v i ty
  by unfold_locales (auto dest: EthStyle_body_frame)

section \<open>Two transactions with one nonce\<close>

lemma make_signed_nonce:
  assumes "lib_nonce L nonce_of" "make_signed L g ty m ks = Ret tx" "m TxValueKeyNonce = Some (VU64 n)"
  shows "nonce_of tx = n"
  using assms lib_nonceD [OF assms(1)]
  by (force simp: make_signed_def split: sum.splits prod.splits option.splits)

lemma cancel_loop_None:
  "cancel_send_loop L C [tx1, tx2] a w = (None, a', w') \<longleftrightarrow>
   (\<exists>h1 w1 h2. SendRawTransaction C tx1 w = ((h1, None), w1) \<and>
      SendRawTransaction C tx2 w1 = ((h2, None), w') \<and> a' = a)"
  by (auto split: prod.splits option.splits)

lemma cancel_loop_Some:
  "cancel_send_loop L C txs a w = (Some (h, e), a', w') \<Longrightarrow>
   a' = (if nonce_conflict L e then bump_nonce a else a)"
  by (induction L C txs a w rule: cancel_send_loop.induct) (auto split: prod.splits option.splits if_splits)

end
