(* ===== verification/Retry.thy ===== *)
theory Retry
  imports Nonce_Protocol "HOL-Library.Sublist"
begin

text \<open>
  The retry layer of \<open>klayslave/account/account.go\<close>: \<open>RunWithRetry\<close> and the three operations
  built on it. Both of its loops may run for ever, so the result is an option and \<open>None\<close> means
  that the call does not return. The big-step relation \<open>retry_run\<close> describes the finite runs;
  the function returns exactly what the relation says.
\<close>

section \<open>Configuration\<close>

record retry_config =
  SendRetryInterval :: nat
  WaitMinedTimeout :: nat
  ShouldSkip :: "(gerror \<Rightarrow> bool) option"

text \<open>Intervals in milliseconds, the timeout in seconds.\<close>

definition DefaultRetryConfig :: retry_config where
  "DefaultRetryConfig = \<lparr>SendRetryInterval = 1000, WaitMinedTimeout = 60, ShouldSkip = None\<rparr>"

definition skips :: "retry_config \<Rightarrow> gerror \<Rightarrow> bool" where
  "skips cfg e = (case ShouldSkip cfg of None \<Rightarrow> False | Some p \<Rightarrow> p e)"

type_synonym ('tx, 'w) send_func = "('w, 'tx option \<times> gerror option) op"

section \<open>The loops\<close>

text \<open>
  The inner loop, up to its \<open>break\<close> (\<open>Ret (False, tx)\<close>) or the early \<open>return lastTx\<close> of a
  skipped error (\<open>Ret (True, tx)\<close>).
\<close>

partial_function (option) send_until :: "('tx, 'w) client \<Rightarrow> retry_config \<Rightarrow> ('tx, 'w) send_func
    \<Rightarrow> account \<Rightarrow> 'w \<Rightarrow> ((bool \<times> 'tx option) outcome \<times> account \<times> 'w) option" where
  "send_until C cfg sendTx a w =
     (case sendTx a w of (r, a1, w1) \<Rightarrow>
       (case r of
          Ret x \<Rightarrow>
            (case snd x of
               None \<Rightarrow> Some (Ret (False, fst x), a1, w1)
             | Some e \<Rightarrow>
                 (if skips cfg e then Some (Ret (True, fst x), a1, w1)
                  else send_until C cfg sendTx a1 (Elapse C (SendRetryInterval cfg) w1)))
        | Exit m \<Rightarrow> Some (Exit m, a1, w1)
        | Panic m \<Rightarrow> Some (Panic m, a1, w1)
        | Block \<Rightarrow> Some (Block, a1, w1)))"

definition mined_ok :: "receipt option \<times> gerror option \<Rightarrow> bool" where
  "mined_ok r = (case r of (Some rc, None) \<Rightarrow> rc_status rc = 1 | _ \<Rightarrow> False)"

partial_function (option) RunWithRetry :: "('tx, 'w) client \<Rightarrow> retry_config \<Rightarrow> ('tx, 'w) send_func
    \<Rightarrow> account \<Rightarrow> 'w \<Rightarrow> ('tx option outcome \<times> account \<times> 'w) option" where
  "RunWithRetry C cfg sendTx a w =
     Option.bind (send_until C cfg sendTx a w) (\<lambda>(r, a1, w1).
       (case r of
          Ret x \<Rightarrow>
            (if fst x then Some (Ret (snd x), a1, w1)
             else case snd x of
                    None \<Rightarrow> Some (Panic ''nil pointer dereference'', a1, w1)
                  | Some tx \<Rightarrow>
                      (if mined_ok (fst (WaitMined C (WaitMinedTimeout cfg) tx w1))
                       then Some (Ret (Some tx), a1, snd (WaitMined C (WaitMinedTimeout cfg) tx w1))
                       else RunWithRetry C cfg sendTx (a1\<lparr>acc_nonce := 0\<rparr>)
                              (Elapse C 1000 (snd (WaitMined C (WaitMinedTimeout cfg) tx w1)))))
        | Exit m \<Rightarrow> Some (Exit m, a1, w1)
        | Panic m \<Rightarrow> Some (Panic m, a1, w1)
        | Block \<Rightarrow> Some (Block, a1, w1)))"

section \<open>Operations\<close>

definition drop_price :: "'tx \<times> int \<times> gerror option \<Rightarrow> 'tx option \<times> gerror option" where
  "drop_price r = (case r of (tx, _, err) \<Rightarrow> (Some tx, err))"

definition TransferSignedTxWithGuaranteeRetry :: "'tx kaia_lib \<Rightarrow> ('tx, 'w) client \<Rightarrow> globals
    \<Rightarrow> account \<Rightarrow> int option \<Rightarrow> bytes option \<Rightarrow> account \<Rightarrow> 'w
    \<Rightarrow> ('tx option outcome \<times> account \<times> 'w) option" where
  "TransferSignedTxWithGuaranteeRetry L C g to v input =
     RunWithRetry C (DefaultRetryConfig\<lparr>WaitMinedTimeout := 30\<rparr>)
       (op_map drop_price (TransferSignedTxReturnTx L C g True to v input))"

definition allowed_error :: "gerror list \<Rightarrow> gerror \<Rightarrow> bool" where
  "allowed_error allowedErrors e \<longleftrightarrow> e \<in> set allowedErrors"

definition TryRunTxSendFunctionWithGuaranteeRetry :: "('tx, 'w) client \<Rightarrow> gerror list
    \<Rightarrow> ('tx, 'w) send_func \<Rightarrow> account \<Rightarrow> 'w \<Rightarrow> (unit outcome \<times> account \<times> 'w) option" where
  "TryRunTxSendFunctionWithGuaranteeRetry C allowedErrors txSendFunc a w =
     map_option (\<lambda>(r, a', w'). (map_outcome_ret (\<lambda>_. ()) r, a', w'))
       (RunWithRetry C (DefaultRetryConfig\<lparr>ShouldSkip := Some (allowed_error allowedErrors)\<rparr>)
          txSendFunc a w)"

definition deploy_skip :: "'tx kaia_lib \<Rightarrow> bool \<Rightarrow> gerror \<Rightarrow> bool" where
  "deploy_skip L shouldFixNonceZero e \<longleftrightarrow>
     prefix ''known transaction'' e \<or> (shouldFixNonceZero \<and> e = ErrNonceTooLow L)"

definition SmartContractDeployWithGuaranteeRetry :: "'w crypto \<Rightarrow> 'tx kaia_lib \<Rightarrow> ('tx, 'w) client
    \<Rightarrow> globals \<Rightarrow> bytes \<Rightarrow> bool \<Rightarrow> account \<Rightarrow> 'w
    \<Rightarrow> (account outcome \<times> account \<times> 'w) option" where
  "SmartContractDeployWithGuaranteeRetry X L C g byteCode shouldFixNonceZero self w =
     (case GetNonce C self w of
        (n0, self1, w1) \<Rightarrow>
          (let n = (if shouldFixNonceZero then 0 else n0);
               cfg = \<lparr>SendRetryInterval = 5000, WaitMinedTimeout = 60,
                      ShouldSkip = Some (deploy_skip L shouldFixNonceZero)\<rparr>
           in Option.bind
                (RunWithRetry C cfg
                   (op_map drop_price (TransferNewLegacyTxWithEth L C g None (Some 0) (Some byteCode)))
                   self1 w1)
                (\<lambda>(r, self2, w2).
                   case r of
                     Ret _ \<Rightarrow>
                       (case NewKaiaAccountWithAddr X 1 (createAddress L (GetAddress self2) n) w2 of
                          (acc, w3) \<Rightarrow> Some (acc, self2, w3))
                   | Exit m \<Rightarrow> Some (Exit m, self2, w2)
                   | Panic m \<Rightarrow> Some (Panic m, self2, w2)
                   | Block \<Rightarrow> Some (Block, self2, w2))))"

section \<open>The finite runs\<close>

inductive send_run :: "('tx, 'w) client \<Rightarrow> retry_config \<Rightarrow> ('tx, 'w) send_func
    \<Rightarrow> account \<Rightarrow> 'w \<Rightarrow> (bool \<times> 'tx option) outcome \<times> account \<times> 'w \<Rightarrow> bool"
  for C cfg sendTx where
  send_done: "sendTx a w = (Ret (tx, None), a1, w1) \<Longrightarrow>
     send_run C cfg sendTx a w (Ret (False, tx), a1, w1)"
| send_skip: "sendTx a w = (Ret (tx, Some e), a1, w1) \<Longrightarrow> skips cfg e \<Longrightarrow>
     send_run C cfg sendTx a w (Ret (True, tx), a1, w1)"
| send_again: "sendTx a w = (Ret (tx, Some e), a1, w1) \<Longrightarrow> \<not> skips cfg e \<Longrightarrow>
     send_run C cfg sendTx a1 (Elapse C (SendRetryInterval cfg) w1) res \<Longrightarrow>
     send_run C cfg sendTx a w res"
| send_exit: "sendTx a w = (Exit m, a1, w1) \<Longrightarrow> send_run C cfg sendTx a w (Exit m, a1, w1)"
| send_panic: "sendTx a w = (Panic m, a1, w1) \<Longrightarrow> send_run C cfg sendTx a w (Panic m, a1, w1)"
| send_block: "sendTx a w = (Block, a1, w1) \<Longrightarrow> send_run C cfg sendTx a w (Block, a1, w1)"

inductive retry_run :: "('tx, 'w) client \<Rightarrow> retry_config \<Rightarrow> ('tx, 'w) send_func
    \<Rightarrow> account \<Rightarrow> 'w \<Rightarrow> 'tx option outcome \<times> account \<times> 'w \<Rightarrow> bool"
  for C cfg sendTx where
  retry_skip: "send_run C cfg sendTx a w (Ret (True, tx), a1, w1) \<Longrightarrow>
     retry_run C cfg sendTx a w (Ret tx, a1, w1)"
| retry_nil: "send_run C cfg sendTx a w (Ret (False, None), a1, w1) \<Longrightarrow>
     retry_run C cfg sendTx a w (Panic ''nil pointer dereference'', a1, w1)"
| retry_mined: "send_run C cfg sendTx a w (Ret (False, Some tx), a1, w1) \<Longrightarrow>
     WaitMined C (WaitMinedTimeout cfg) tx w1 = (m, w2) \<Longrightarrow> mined_ok m \<Longrightarrow>
     retry_run C cfg sendTx a w (Ret (Some tx), a1, w2)"
| retry_again: "send_run C cfg sendTx a w (Ret (False, Some tx), a1, w1) \<Longrightarrow>
     WaitMined C (WaitMinedTimeout cfg) tx w1 = (m, w2) \<Longrightarrow> \<not> mined_ok m \<Longrightarrow>
     retry_run C cfg sendTx (a1\<lparr>acc_nonce := 0\<rparr>) (Elapse C 1000 w2) res \<Longrightarrow>
     retry_run C cfg sendTx a w res"
| retry_exit: "send_run C cfg sendTx a w (Exit e, a1, w1) \<Longrightarrow>
     retry_run C cfg sendTx a w (Exit e, a1, w1)"
| retry_panic: "send_run C cfg sendTx a w (Panic e, a1, w1) \<Longrightarrow>
     retry_run C cfg sendTx a w (Panic e, a1, w1)"
| retry_block: "send_run C cfg sendTx a w (Block, a1, w1) \<Longrightarrow>
     retry_run C cfg sendTx a w (Block, a1, w1)"

lemma send_until_imp_run: "send_until C cfg sendTx a w = Some res \<Longrightarrow> send_run C cfg sendTx a w res"
proof (rule send_until.raw_induct [where P = "\<lambda>C cfg sendTx a w res. send_run C cfg sendTx a w res"])
  fix f C cfg sendTx a w res
  assume IH: "\<And>C cfg sendTx a w res. f C cfg sendTx a w = Some res \<Longrightarrow> send_run C cfg sendTx a w res"
    and eq: "(case sendTx a w of (r, a1, w1) \<Rightarrow> (case r of Ret x \<Rightarrow> (case snd x of
           None \<Rightarrow> Some (Ret (False, fst x), a1, w1)
         | Some e \<Rightarrow> (if skips cfg e then Some (Ret (True, fst x), a1, w1)
              else f C cfg sendTx a1 (Elapse C (SendRetryInterval cfg) w1)))
        | Exit m \<Rightarrow> Some (Exit m, a1, w1) | Panic m \<Rightarrow> Some (Panic m, a1, w1)
        | Block \<Rightarrow> Some (Block, a1, w1))) = Some res"
  obtain r a1 w1 where s: "sendTx a w = (r, a1, w1)" by (cases "sendTx a w") auto
  show "send_run C cfg sendTx a w res"
    using eq s by (cases r) (auto split: option.splits if_splits intro: send_run.intros IH)
qed

lemma send_run_imp_until: "send_run C cfg sendTx a w res \<Longrightarrow> send_until C cfg sendTx a w = Some res"
  by (induction rule: send_run.induct) (subst send_until.simps, simp)+

lemma send_until_iff: "send_until C cfg sendTx a w = Some res \<longleftrightarrow> send_run C cfg sendTx a w res"
  using send_until_imp_run send_run_imp_until by metis

lemma RunWithRetry_imp_run: "RunWithRetry C cfg sendTx a w = Some res \<Longrightarrow> retry_run C cfg sendTx a w res"
proof (rule RunWithRetry.raw_induct [where P = "\<lambda>C cfg sendTx a w res. retry_run C cfg sendTx a w res"])
  fix f C cfg sendTx a w res
  assume IH: "\<And>C cfg sendTx a w res. f C cfg sendTx a w = Some res \<Longrightarrow> retry_run C cfg sendTx a w res"
    and eq: "Option.bind (send_until C cfg sendTx a w) (\<lambda>(r, a1, w1). (case r of Ret x \<Rightarrow>
          (if fst x then Some (Ret (snd x), a1, w1) else case snd x of
             None \<Rightarrow> Some (Panic ''nil pointer dereference'', a1, w1)
           | Some tx \<Rightarrow> (if mined_ok (fst (WaitMined C (WaitMinedTimeout cfg) tx w1))
               then Some (Ret (Some tx), a1, snd (WaitMined C (WaitMinedTimeout cfg) tx w1))
               else f C cfg sendTx (a1\<lparr>acc_nonce := 0\<rparr>)
                  (Elapse C 1000 (snd (WaitMined C (WaitMinedTimeout cfg) tx w1)))))
        | Exit m \<Rightarrow> Some (Exit m, a1, w1) | Panic m \<Rightarrow> Some (Panic m, a1, w1)
        | Block \<Rightarrow> Some (Block, a1, w1))) = Some res"
  from eq obtain r a1 w1 where "send_until C cfg sendTx a w = Some (r, a1, w1)"
    by (auto simp: bind_eq_Some_conv)
  with eq have run: "send_run C cfg sendTx a w (r, a1, w1)" by (simp add: send_until_iff)
  show "retry_run C cfg sendTx a w res"
  proof (cases r)
    case (Ret x)
    obtain skip otx where x: "x = (skip, otx)" by fastforce
    show ?thesis
    proof (cases otx)
      case None
      then show ?thesis using eq run Ret x \<open>send_until C cfg sendTx a w = Some (r, a1, w1)\<close>
        by (cases skip) (auto intro: retry_run.intros)
    next
      case (Some tx)
      obtain m w2 where "WaitMined C (WaitMinedTimeout cfg) tx w1 = (m, w2)" by fastforce
      then show ?thesis using eq run Ret x Some \<open>send_until C cfg sendTx a w = Some (r, a1, w1)\<close>
        by (cases skip) (auto split: if_splits intro: retry_run.intros IH)
    qed
  qed (use eq run \<open>send_until C cfg sendTx a w = Some (r, a1, w1)\<close> in
      \<open>auto intro: retry_run.intros\<close>)
qed

lemma retry_run_imp_RunWithRetry: "retry_run C cfg sendTx a w res \<Longrightarrow> RunWithRetry C cfg sendTx a w = Some res"
  by (induction rule: retry_run.induct) (subst RunWithRetry.simps, simp add: send_until_iff [THEN iffD2])+

lemma RunWithRetry_iff: "RunWithRetry C cfg sendTx a w = Some res \<longleftrightarrow> retry_run C cfg sendTx a w res"
  using RunWithRetry_imp_run retry_run_imp_RunWithRetry by metis

section \<open>Consequences\<close>

text \<open>Without a skip rule a returned transaction was mined with status 1 in the last round.\<close>

lemma retry_run_mined:
  assumes "retry_run C cfg sendTx a w (Ret otx, a', w')" and noskip: "\<And>e. \<not> skips cfg e"
  shows "\<exists>tx w1 m. otx = Some tx \<and> WaitMined C (WaitMinedTimeout cfg) tx w1 = (m, w') \<and> mined_ok m"
proof -
  have never: "send_run C cfg sendTx a w res \<Longrightarrow> \<forall>tx a1 w1. res \<noteq> (Ret (True, tx), a1, w1)" for a w res
    by (induction rule: send_run.induct) (auto simp: noskip)
  have "retry_run C cfg sendTx a w res \<Longrightarrow> res = (Ret otx, a', w') \<Longrightarrow>
     \<exists>tx w1 m. otx = Some tx \<and> WaitMined C (WaitMinedTimeout cfg) tx w1 = (m, w') \<and> mined_ok m" for res
    by (induction rule: retry_run.induct) (auto dest: never)
  with assms(1) show ?thesis by blast
qed

text \<open>The retry layer keeps the contract of the operation it repeats.\<close>

lemma send_run_frame:
  assumes op: "account_op sendTx"
  shows "send_run C cfg sendTx a w res \<Longrightarrow> identity (fst (snd res)) = identity a \<and>
    (\<not> acc_mutex a \<longrightarrow> \<not> acc_mutex (fst (snd res)) \<and> fst res \<noteq> Block)"
  by (induction rule: send_run.induct)
    (auto dest: account_op.keeps_identity [OF op] account_op.releases [OF op]
      account_op.never_waits [OF op])

lemma retry_run_frame:
  assumes op: "account_op sendTx"
  shows "retry_run C cfg sendTx a w res \<Longrightarrow>
    identity (fst (snd res)) = identity a \<and> (\<not> acc_mutex a \<longrightarrow> \<not> acc_mutex (fst (snd res)) \<and> fst res \<noteq> Block)"
  by (induction rule: retry_run.induct)
    (auto dest!: send_run_frame [OF op])

text \<open>
  Termination under fairness: if every failed round brings the world closer to a success,
  measured by \<open>mu\<close>, the call returns.
\<close>

lemma send_until_total:
  assumes dec: "\<And>a w tx e a1 w1. sendTx a w = (Ret (tx, Some e), a1, w1) \<Longrightarrow> \<not> skips cfg e \<Longrightarrow>
      (mu (Elapse C (SendRetryInterval cfg) w1) :: nat) < mu w"
  shows "\<exists>res. send_run C cfg sendTx a w res"
proof (induction "mu w" arbitrary: a w rule: less_induct)
  case less
  obtain r a1 w1 where s: "sendTx a w = (r, a1, w1)" by (cases "sendTx a w") auto
  show ?case
  proof (cases r)
    case (Ret x)
    with s obtain tx oe where x: "sendTx a w = (Ret (tx, oe), a1, w1)" by (cases x) auto
    show ?thesis
    proof (cases oe)
      case None
      then show ?thesis using x by (auto intro: send_done)
    next
      case (Some e)
      show ?thesis
      proof (cases "skips cfg e")
        case True
        then show ?thesis using x Some by (auto intro: send_skip)
      next
        case False
        with x Some dec have "mu (Elapse C (SendRetryInterval cfg) w1) < mu w" by auto
        from less [OF this] obtain res
          where "send_run C cfg sendTx a1 (Elapse C (SendRetryInterval cfg) w1) res" by blast
        with x Some False have "send_run C cfg sendTx a w res" by (blast intro: send_again)
        then show ?thesis by blast
      qed
    qed
  qed (use s send_exit send_panic send_block in \<open>meson\<close>)+
qed

lemma send_run_next:
  assumes "send_run C cfg sendTx a w (r, a1, w1)"
  shows "(\<exists>tx. r = Ret (False, Some tx)) \<or> (\<exists>res. retry_run C cfg sendTx a w res)"
proof (cases r)
  case (Ret x)
  obtain skip otx where x: "x = (skip, otx)" by fastforce
  show ?thesis
  proof (cases skip)
    case True
    with assms Ret x show ?thesis using retry_skip by metis
  next
    case False
    show ?thesis
    proof (cases otx)
      case None
      with assms Ret x False have "send_run C cfg sendTx a w (Ret (False, None), a1, w1)" by simp
      then have "retry_run C cfg sendTx a w (Panic ''nil pointer dereference'', a1, w1)"
        by (rule retry_nil)
      then show ?thesis by blast
    next
      case (Some tx)
      with Ret x False show ?thesis by simp
    qed
  qed
qed (use assms retry_exit retry_panic retry_block in \<open>metis\<close>)+

lemma send_run_le:
  assumes dec: "\<And>a w tx e a1 w1. sendTx a w = (Ret (tx, Some e), a1, w1) \<Longrightarrow> \<not> skips cfg e \<Longrightarrow>
      (mu (Elapse C (SendRetryInterval cfg) w1) :: nat) < mu w"
    and acc: "\<And>a w tx a1 w1 m w2. sendTx a w = (Ret (Some tx, None), a1, w1) \<Longrightarrow>
      WaitMined C (WaitMinedTimeout cfg) tx w1 = (m, w2) \<Longrightarrow> \<not> mined_ok m \<Longrightarrow>
      mu (Elapse C 1000 w2) < mu w"
  shows "send_run C cfg sendTx a w res \<Longrightarrow> res = (Ret (False, Some tx), a1, w1) \<Longrightarrow>
    WaitMined C (WaitMinedTimeout cfg) tx w1 = (m, w2) \<Longrightarrow> \<not> mined_ok m \<Longrightarrow>
    mu (Elapse C 1000 w2) < mu w"
  by (induction rule: send_run.induct) (auto dest: acc dec)

lemma retry_total:
  assumes dec: "\<And>a w tx e a1 w1. sendTx a w = (Ret (tx, Some e), a1, w1) \<Longrightarrow> \<not> skips cfg e \<Longrightarrow>
      (mu (Elapse C (SendRetryInterval cfg) w1) :: nat) < mu w"
    and acc: "\<And>a w tx a1 w1 m w2. sendTx a w = (Ret (Some tx, None), a1, w1) \<Longrightarrow>
      WaitMined C (WaitMinedTimeout cfg) tx w1 = (m, w2) \<Longrightarrow> \<not> mined_ok m \<Longrightarrow>
      mu (Elapse C 1000 w2) < mu w"
  shows "\<exists>res. RunWithRetry C cfg sendTx a w = Some res"
proof (induction "mu w" arbitrary: a w rule: less_induct)
  case less
  obtain r a1 w1 where run: "send_run C cfg sendTx a w (r, a1, w1)"
    using send_until_total [where mu = mu and C = C and cfg = cfg and sendTx = sendTx and a = a
        and w = w] dec by auto
  from send_run_next [OF run]
  consider (stop) res where "retry_run C cfg sendTx a w res" | (sent) tx where "r = Ret (False, Some tx)"
    by blast
  then show ?case
  proof cases
    case stop
    then show ?thesis unfolding RunWithRetry_iff by blast
  next
    case sent
    obtain m w2 where wm: "WaitMined C (WaitMinedTimeout cfg) tx w1 = (m, w2)" by fastforce
    show ?thesis
    proof (cases "mined_ok m")
      case True
      with run sent wm show ?thesis unfolding RunWithRetry_iff by (blast intro: retry_mined)
    next
      case bad: False
      have "mu (Elapse C 1000 w2) < mu w"
        by (rule send_run_le [where mu = mu and sendTx = sendTx, OF dec acc run _ wm bad])
          (use sent in auto)
      from less [OF this] obtain res where
        "retry_run C cfg sendTx (a1\<lparr>acc_nonce := 0\<rparr>) (Elapse C 1000 w2) res"
        unfolding RunWithRetry_iff by blast
      with run sent wm bad show ?thesis unfolding RunWithRetry_iff by (blast intro: retry_again)
    qed
  qed
qed

text \<open>A node that rejects every send keeps the caller in the inner loop for ever.\<close>

lemma retry_rejected_forever:
  assumes rej: "\<And>a w. \<exists>tx e a1 w1. sendTx a w = (Ret (tx, Some e), a1, w1) \<and> \<not> skips cfg e"
  shows "RunWithRetry C cfg sendTx a w = None"
proof -
  have "send_run C cfg sendTx a w res \<Longrightarrow> False" for a w res
    by (induction rule: send_run.induct) (use rej in \<open>metis Pair_inject outcome.distinct
        outcome.inject option.distinct(1) option.inject\<close>)+
  then have "send_until C cfg sendTx a w = None"
    by (metis not_None_eq send_until_iff)
  then show ?thesis by (subst RunWithRetry.simps) simp
qed

interpretation signed_op: account_op "TransferSignedTxReturnTx L C g l to v i" for L C g l to v i
  unfolding TransferSignedTxReturnTx_def
  by (auto intro: locking_op.axioms(1) [OF signed_body.locked] signed_body.account_op_axioms)

interpretation eth_style_op: locking_op "transferNewEthStyleTx L C g to v i ty" for L C g to v i ty
  unfolding transferNewEthStyleTx_def by (rule eth_style_body.locked)

section \<open>Unfolding a run\<close>

lemma no_skip_transfer: "\<not> skips (DefaultRetryConfig\<lparr>WaitMinedTimeout := t\<rparr>) e"
  by (simp add: skips_def DefaultRetryConfig_def)

lemma mined_okE: "mined_ok m \<Longrightarrow> \<exists>rc. m = (Some rc, None) \<and> rc_status rc = 1"
  by (auto simp: mined_ok_def split: prod.splits option.splits)

lemma RunWithRetry_first:
  assumes "sendTx a w = (Ret (Some tx, None), a1, w1)" and "mined_ok (fst (WaitMined C (WaitMinedTimeout cfg) tx w1))"
  shows "RunWithRetry C cfg sendTx a w = Some (Ret (Some tx), a1, snd (WaitMined C (WaitMinedTimeout cfg) tx w1))"
proof -
  have "send_until C cfg sendTx a w = Some (Ret (False, Some tx), a1, w1)"
    by (subst send_until.simps) (simp add: assms(1))
  then show ?thesis by (subst RunWithRetry.simps) (simp add: assms(2))
qed

lemma RunWithRetry_resend:
  assumes "sendTx a w = (Ret (otx, Some e), a1, w1)" and "\<not> skips cfg e"
  shows "RunWithRetry C cfg sendTx a w = RunWithRetry C cfg sendTx a1 (Elapse C (SendRetryInterval cfg) w1)"
proof -
  have "send_until C cfg sendTx a w = send_until C cfg sendTx a1 (Elapse C (SendRetryInterval cfg) w1)"
    by (subst send_until.simps) (simp add: assms)
  then show ?thesis by (subst (1 2) RunWithRetry.simps) simp
qed

end
