(* ===== verification/Wallet.thy ===== *)
theory Wallet
  imports Account_Core
begin

text \<open>
  The keystore operations of \<open>klayslave/account/account.go\<close>: importing an account's key into
  the node's wallet and unlocking it there. \<open>wallet\<close> is the interface of the RPC client they
  dial. The deferred \<open>cancel\<close> of their contexts has no effect the program observes.
\<close>

record 'w wallet =
  dial :: "string \<Rightarrow> 'w \<Rightarrow> gerror option \<times> 'w"
  importRawKey :: "string \<Rightarrow> 'w \<Rightarrow> (gerror + addr) \<times> 'w"
  unlockAccount :: "addr \<Rightarrow> 'w \<Rightarrow> gerror option \<times> 'w"

definition ImportUnLockAccount :: "'w crypto \<Rightarrow> 'w wallet \<Rightarrow> account \<Rightarrow> string \<Rightarrow> 'w
    \<Rightarrow> unit outcome \<times> 'w" where
  "ImportUnLockAccount X W a endpoint w =
     (case GetPrivateKey a of
        Ret k \<Rightarrow>
          (case hexToECDSA X k of
             Inl e \<Rightarrow> (Exit ''Failed to HexToECDSA'', w)
           | Inr sk \<Rightarrow>
               (case dial W endpoint w of
                  (Some e, w1) \<Rightarrow> (Exit ''ImportUnLockAccount(): Create Client'', w1)
                | (None, w1) \<Rightarrow>
                    (case importRawKey W k w1 of
                       (Inl e, w2) \<Rightarrow> (Exit ''Failed to import'', w2)
                     | (Inr imported, w2) \<Rightarrow>
                         (if pubkeyToAddress X sk \<noteq> imported then (Exit ''origial, imported'', w2)
                          else case unlockAccount W (acc_address a) w2 of
                                 (Some e, w3) \<Rightarrow> (Exit ''Failed to Unlock'', w3)
                               | (None, w3) \<Rightarrow> (Ret (), w3)))))
      | Exit m \<Rightarrow> (Exit m, w)
      | Panic m \<Rightarrow> (Panic m, w)
      | Block \<Rightarrow> (Block, w))"

text \<open>\<open>NewAccountOnNode\<close>: a failed import or unlock is only logged.\<close>

definition NewAccountOnNode :: "'w crypto \<Rightarrow> 'w wallet \<Rightarrow> int \<Rightarrow> string \<Rightarrow> 'w
    \<Rightarrow> account outcome \<times> 'w" where
  "NewAccountOnNode X W i endpoint w =
     (case NewAccount X i w of
        (Ret tAcc, w1) \<Rightarrow>
          (case dial W endpoint w1 of
             (Some e, w2) \<Rightarrow> (Exit ''NewAccountOnNode() : Failed to create client'', w2)
           | (None, w2) \<Rightarrow>
               (case GetPrivateKey tAcc of
                  Ret k \<Rightarrow>
                    (case importRawKey W k w2 of
                       (Inl e, w3) \<Rightarrow> (Ret tAcc, snd (unlockAccount W (GetAddress tAcc) w3))
                     | (Inr imported, w3) \<Rightarrow>
                         (if acc_address tAcc \<noteq> imported then (Exit ''origial, imported'', w3)
                          else (Ret tAcc, snd (unlockAccount W (GetAddress tAcc) w3))))
                | Exit m \<Rightarrow> (Exit m, w2)
                | Panic m \<Rightarrow> (Panic m, w2)
                | Block \<Rightarrow> (Block, w2)))
      | (Exit m, w1) \<Rightarrow> (Exit m, w1)
      | (Panic m, w1) \<Rightarrow> (Panic m, w1)
      | (Block, w1) \<Rightarrow> (Block, w1))"

definition UnlockAccount :: "'w wallet \<Rightarrow> addr \<Rightarrow> 'w \<Rightarrow> 'w" where
  "UnlockAccount W a w = snd (unlockAccount W a w)"

lemma constructors_wf:
  "GetAccountFromKey X i k = Ret a \<Longrightarrow> acc_wf a \<and> \<not> acc_mutex a \<and> acc_nonce a = 0"
  "NewAccount X i w = (Ret a, w') \<Longrightarrow> acc_wf a \<and> \<not> acc_mutex a \<and> acc_nonce a = 0"
  "NewKaiaAccount X i w = (Ret a, w') \<Longrightarrow> acc_wf a \<and> \<not> acc_mutex a \<and> acc_nonce a = 0"
  "NewKaiaAccountWithAddr X i ad w = (Ret a, w') \<Longrightarrow> acc_wf a \<and> \<not> acc_mutex a \<and> acc_nonce a = 0"
  "NewKaiaMultisigAccount X i w = (Ret a, w') \<Longrightarrow> acc_wf a \<and> \<not> acc_mutex a \<and> acc_nonce a = 0"
  by (auto simp: GetAccountFromKey_def NewAccount_def NewKaiaAccount_def NewKaiaAccountWithAddr_def
      NewKaiaMultisigAccount_def fresh_account_def acc_wf_def split: sum.splits prod.splits)

lemma NewAccountOnNode_wf:
  "NewAccountOnNode X W i ep w = (Ret a, w') \<Longrightarrow> acc_wf a \<and> \<not> acc_mutex a \<and> acc_nonce a = 0"
  by (auto simp: NewAccountOnNode_def split: prod.splits outcome.splits option.splits sum.splits if_splits
      dest: constructors_wf)

lemma NewAccount_not_Block [simp]: "fst (NewAccount X i w) \<noteq> Block"
  by (auto simp: NewAccount_def split: prod.splits sum.splits)

end
