(* ===== verification/Acc_Group.thy ===== *)
theory Acc_Group
  imports Wallet
begin

text \<open>
  \<open>klayslave/account/accgroup.go\<close>: the account group that the setup fills, and the account
  set a test case draws senders from. Accounts are pointers in the code; the definitions are
  polymorphic in them (\<open>'a\<close>).
\<close>

section \<open>Enumerations\<close>

datatype AccList = AccListForSignedTx | AccListForUnsignedTx | AccListForNewAccounts
  | AccListForGaslessRevertTx | AccListForGaslessApproveTx | AccListForTC

fun AccList_idx :: "AccList \<Rightarrow> nat" where
  "AccList_idx AccListForSignedTx = 0"
| "AccList_idx AccListForUnsignedTx = 1"
| "AccList_idx AccListForNewAccounts = 2"
| "AccList_idx AccListForGaslessRevertTx = 3"
| "AccList_idx AccListForGaslessApproveTx = 4"
| "AccList_idx AccListForTC = 5"

definition AccListEnd :: nat where "AccListEnd = 6"

datatype TestContract = ContractErc20 | ContractErc721 | ContractStorageTrie | ContractGeneral
  | ContractGaslessToken | ContractWKaia | ContractUniswapV2Factory | ContractUniswapV2Router
  | ContractGaslessSwapRouter | ContractCounterForTestAuction | ContractAuctionFeeVault
  | ContractAuctionDepositVault | ContractAuctionEntryPoint | ContractCPUHeavy | ContractLargeMemo
  | ContractReadApiCallContract | ContractUserStorage | ContractInternalTxKIP17
  | ContractInternalTxMain | ContractTetherLogic | ContractTetherProxy

fun TestContract_idx :: "TestContract \<Rightarrow> nat" where
  "TestContract_idx ContractErc20 = 0"
| "TestContract_idx ContractErc721 = 1"
| "TestContract_idx ContractStorageTrie = 2"
| "TestContract_idx ContractGeneral = 3"
| "TestContract_idx ContractGaslessToken = 4"
| "TestContract_idx ContractWKaia = 5"
| "TestContract_idx ContractUniswapV2Factory = 6"
| "TestContract_idx ContractUniswapV2Router = 7"
| "TestContract_idx ContractGaslessSwapRouter = 8"
| "TestContract_idx ContractCounterForTestAuction = 9"
| "TestContract_idx ContractAuctionFeeVault = 10"
| "TestContract_idx ContractAuctionDepositVault = 11"
| "TestContract_idx ContractAuctionEntryPoint = 12"
| "TestContract_idx ContractCPUHeavy = 13"
| "TestContract_idx ContractLargeMemo = 14"
| "TestContract_idx ContractReadApiCallContract = 15"
| "TestContract_idx ContractUserStorage = 16"
| "TestContract_idx ContractInternalTxKIP17 = 17"
| "TestContract_idx ContractInternalTxMain = 18"
| "TestContract_idx ContractTetherLogic = 19"
| "TestContract_idx ContractTetherProxy = 20"

definition ContractEnd :: nat where "ContractEnd = 21"

lemma AccList_idx_less [simp]: "AccList_idx t < AccListEnd"
  by (cases t) (auto simp: AccListEnd_def)

lemma TestContract_idx_less [simp]: "TestContract_idx t < ContractEnd"
  by (cases t) (auto simp: ContractEnd_def)

lemma TestContract_idx_eq [simp]: "TestContract_idx t = TestContract_idx u \<longleftrightarrow> t = u"
  by (cases t; cases u) simp_all

lemma AccList_idx_eq [simp]: "AccList_idx t = AccList_idx u \<longleftrightarrow> t = u"
  by (cases t; cases u) simp_all

section \<open>The account group\<close>

record 'a AccGroup =
  containsUnsignedAccGrp :: bool
  accLists :: "'a list list"
  contracts :: "'a option list"

definition ag_wf :: "'a AccGroup \<Rightarrow> bool" where
  "ag_wf a \<longleftrightarrow> length (accLists a) = AccListEnd \<and> length (contracts a) = ContractEnd"

text \<open>\<open>NewAccGroup\<close> also stores its arguments in the package variables.\<close>

definition NewAccGroup :: "int \<Rightarrow> int \<Rightarrow> int \<Rightarrow> bool \<Rightarrow> globals \<Rightarrow> 'a AccGroup \<times> globals" where
  "NewAccGroup chainId gp bf contains g =
     (\<lparr>containsUnsignedAccGrp = contains, accLists = replicate AccListEnd [],
       contracts = replicate ContractEnd None\<rparr>,
      SetBaseFee bf (SetGasPrice gp (SetChainID chainId g)))"

definition GetTestContractList :: "'a AccGroup \<Rightarrow> 'a option list" where
  "GetTestContractList a = contracts a"

definition GetTestContractByName :: "'a AccGroup \<Rightarrow> TestContract \<Rightarrow> 'a option" where
  "GetTestContractByName a t = contracts a ! TestContract_idx t"

definition GetAccListByName :: "'a AccGroup \<Rightarrow> AccList \<Rightarrow> 'a list" where
  "GetAccListByName a t = accLists a ! AccList_idx t"

definition SetTestContractByName :: "'a option \<Rightarrow> TestContract \<Rightarrow> 'a AccGroup \<Rightarrow> 'a AccGroup" where
  "SetTestContractByName c t a = a\<lparr>contracts := (contracts a)[TestContract_idx t := c]\<rparr>"

definition AddAccToListByName :: "'a \<Rightarrow> AccList \<Rightarrow> 'a AccGroup \<Rightarrow> 'a AccGroup" where
  "AddAccToListByName acc t a =
     a\<lparr>accLists := (accLists a)[AccList_idx t := accLists a ! AccList_idx t @ [acc]]\<rparr>"

fun SetAccListByName :: "'a list \<Rightarrow> AccList \<Rightarrow> 'a AccGroup \<Rightarrow> 'a AccGroup" where
  "SetAccListByName [] t a = a"
| "SetAccListByName (acc # accs) t a =
     SetAccListByName accs t
       (a\<lparr>accLists := (accLists a)[AccList_idx t := accLists a ! AccList_idx t @ [acc]]\<rparr>)"

section \<open>Creating the accounts\<close>

text \<open>
  \<open>CreateAccountsPerAccGrp\<close>: the inner loop creates \<open>nUser\<close> accounts of one list (a negative
  count creates none), the outer loop runs over the six lists in order; afterwards the unsigned
  accounts are imported into the node if a task needs them.
\<close>

fun create_users :: "(int \<Rightarrow> 'w \<Rightarrow> 'a outcome \<times> 'w) \<Rightarrow> nat \<Rightarrow> nat \<Rightarrow> AccList \<Rightarrow> 'a AccGroup \<Rightarrow> 'w
    \<Rightarrow> 'a AccGroup outcome \<times> 'w" where
  "create_users new 0 i t a w = (Ret a, w)"
| "create_users new (Suc n) i t a w =
     (case new (int i) w of
        (Ret acc, w1) \<Rightarrow> create_users new n (Suc i) t (AddAccToListByName acc t a) w1
      | (Exit m, w1) \<Rightarrow> (Exit m, w1)
      | (Panic m, w1) \<Rightarrow> (Panic m, w1)
      | (Block, w1) \<Rightarrow> (Block, w1))"

fun create_lists :: "(int \<Rightarrow> 'w \<Rightarrow> 'a outcome \<times> 'w) \<Rightarrow> (AccList \<times> int) list \<Rightarrow> 'a AccGroup \<Rightarrow> 'w
    \<Rightarrow> 'a AccGroup outcome \<times> 'w" where
  "create_lists new [] a w = (Ret a, w)"
| "create_lists new ((t, n) # rest) a w =
     (case create_users new (nat n) 0 t a w of
        (Ret a1, w1) \<Rightarrow> create_lists new rest a1 w1
      | (Exit m, w1) \<Rightarrow> (Exit m, w1)
      | (Panic m, w1) \<Rightarrow> (Panic m, w1)
      | (Block, w1) \<Rightarrow> (Block, w1))"

fun unlock_all :: "('a \<Rightarrow> 'w \<Rightarrow> unit outcome \<times> 'w) \<Rightarrow> 'a list \<Rightarrow> 'w \<Rightarrow> unit outcome \<times> 'w" where
  "unlock_all unlock [] w = (Ret (), w)"
| "unlock_all unlock (acc # accs) w =
     (case unlock acc w of
        (Ret _, w1) \<Rightarrow> unlock_all unlock accs w1
      | (r, w1) \<Rightarrow> (r, w1))"

definition CreateAccountsPerAccGrp :: "(int \<Rightarrow> 'w \<Rightarrow> 'a outcome \<times> 'w)
    \<Rightarrow> ('a \<Rightarrow> 'w \<Rightarrow> unit outcome \<times> 'w) \<Rightarrow> int \<Rightarrow> int \<Rightarrow> int \<Rightarrow> int \<Rightarrow> int \<Rightarrow> int
    \<Rightarrow> string list \<Rightarrow> 'a AccGroup \<Rightarrow> 'w \<Rightarrow> 'a AccGroup outcome \<times> 'w" where
  "CreateAccountsPerAccGrp new unlock nSigned nUnsigned nNew nRevert nApprove nTC tcStrList a w =
     (case create_lists new
             [(AccListForSignedTx, nSigned), (AccListForUnsignedTx, nUnsigned),
              (AccListForNewAccounts, nNew), (AccListForGaslessRevertTx, nRevert),
              (AccListForGaslessApproveTx, nApprove), (AccListForTC, nTC)] a w of
        (Ret a1, w1) \<Rightarrow>
          (if ''transferUnsignedTx'' \<in> set tcStrList
           then case unlock_all unlock (GetAccListByName a1 AccListForUnsignedTx) w1 of
                  (Ret _, w2) \<Rightarrow> (Ret a1, w2)
                | (Exit m, w2) \<Rightarrow> (Exit m, w2)
                | (Panic m, w2) \<Rightarrow> (Panic m, w2)
                | (Block, w2) \<Rightarrow> (Block, w2)
           else (Ret a1, w1))
      | r \<Rightarrow> r)"

section \<open>Selecting accounts\<close>

text \<open>
  \<open>SetAccGrpByActivePercent\<close>: the configuration admits percentages from 1 to 100 only; a
  length outside the slice is the panic of the slice expression.
\<close>

fun active_lists :: "int \<Rightarrow> 'a list list \<Rightarrow> 'a list list outcome" where
  "active_lists p [] = Ret []"
| "active_lists p (accGrp # rest) =
     (let n = go_quot (int (length accGrp) * p) 100 in
      if n < 0 \<or> n > int (length accGrp) then Panic ''slice bounds out of range''
      else map_outcome_ret ((#) (if n = 0 then [] else take (nat n) accGrp)) (active_lists p rest))"

definition SetAccGrpByActivePercent :: "int \<Rightarrow> 'a AccGroup \<Rightarrow> 'a AccGroup outcome" where
  "SetAccGrpByActivePercent p a =
     map_outcome_ret (\<lambda>ls. a\<lparr>accLists := ls\<rparr>) (active_lists p (accLists a))"

definition GetValidAccGrp :: "'a AccGroup \<Rightarrow> 'a list" where
  "GetValidAccGrp a =
     (let accGrp = GetAccListByName a AccListForSignedTx in
      if \<not> containsUnsignedAccGrp a then accGrp
      else accGrp @ GetAccListByName a AccListForUnsignedTx)"

fun ContainsAnyInList :: "string list \<Rightarrow> string list \<Rightarrow> bool" where
  "ContainsAnyInList ls [] = False"
| "ContainsAnyInList ls (target # targets) =
     (if list_ex (\<lambda>item. item = target) ls then True else ContainsAnyInList ls targets)"

lemma ContainsAnyInList_iff: "ContainsAnyInList ls ts \<longleftrightarrow> set ls \<inter> set ts \<noteq> {}"
  by (induction ls ts rule: ContainsAnyInList.induct) (auto simp: list_ex_iff)

text \<open>
  \<open>WaitForSetupCompletion\<close>: at most 60 polls, five seconds apart; the result says whether the
  set-up was seen, the caller proceeds either way.
\<close>

fun wait_loop :: "nat \<Rightarrow> ('w \<Rightarrow> bool \<times> 'w) \<Rightarrow> (nat \<Rightarrow> 'w \<Rightarrow> 'w) \<Rightarrow> 'w \<Rightarrow> bool \<times> 'w" where
  "wait_loop 0 waitFn elapse w = (False, w)"
| "wait_loop (Suc n) waitFn elapse w =
     (case waitFn w of
        (True, w1) \<Rightarrow> (True, w1)
      | (False, w1) \<Rightarrow> wait_loop n waitFn elapse (elapse 5000 w1))"

definition WaitForSetupCompletion :: "('w \<Rightarrow> bool \<times> 'w) \<Rightarrow> (nat \<Rightarrow> 'w \<Rightarrow> 'w) \<Rightarrow> 'w \<Rightarrow> bool \<times> 'w" where
  "WaitForSetupCompletion waitFn elapse w = wait_loop 60 waitFn elapse w"

section \<open>The account set of a test case\<close>

record 'a AccountSet =
  accounts :: "'a list"
  roundRobinIndex :: nat

definition NewAccountSet :: "'a list \<Rightarrow> 'a AccountSet" where
  "NewAccountSet accs = \<lparr>accounts = accs, roundRobinIndex = 0\<rparr>"

definition AS_Len :: "'a AccountSet \<Rightarrow> nat" where
  "AS_Len s = length (accounts s)"

definition AS_Add :: "'a \<Rightarrow> 'a AccountSet \<Rightarrow> 'a AccountSet" where
  "AS_Add acc s = s\<lparr>accounts := accounts s @ [acc]\<rparr>"

text \<open>\<open>r\<close> is the value of \<open>rand.Int()\<close>.\<close>

definition GetAccountRandomly :: "nat \<Rightarrow> 'a AccountSet \<Rightarrow> 'a option" where
  "GetAccountRandomly r s =
     (if AS_Len s = 0 then None else Some (accounts s ! (r mod AS_Len s)))"

definition GetAccountIndex :: "nat \<Rightarrow> 'a AccountSet \<Rightarrow> 'a outcome" where
  "GetAccountIndex i s =
     (if i < length (accounts s) then Ret (accounts s ! i) else Panic ''index out of range'')"

definition GetAccountRoundRobin :: "'a AccountSet \<Rightarrow> 'a option outcome \<times> 'a AccountSet" where
  "GetAccountRoundRobin s =
     (if AS_Len s = 0 then (Ret None, s)
      else if roundRobinIndex s < AS_Len s
      then (let acc = accounts s ! roundRobinIndex s; i = roundRobinIndex s + 1
            in (Ret (Some acc), s\<lparr>roundRobinIndex := (if AS_Len s \<le> i then 0 else i)\<rparr>))
      else (Panic ''index out of range'', s))"

definition as_wf :: "'a AccountSet \<Rightarrow> bool" where
  "as_wf s \<longleftrightarrow> (if accounts s = [] then roundRobinIndex s = 0 else roundRobinIndex s < AS_Len s)"

section \<open>Lemmas\<close>

lemma NewAccGroup_wf: "NewAccGroup c p b u g = (a, g') \<Longrightarrow> ag_wf a"
  by (auto simp: NewAccGroup_def ag_wf_def)

lemma AddAcc_wf: "ag_wf a \<Longrightarrow> ag_wf (AddAccToListByName acc t a)"
  by (simp add: ag_wf_def AddAccToListByName_def)

lemma AddAcc_lists: "ag_wf a \<Longrightarrow> GetAccListByName (AddAccToListByName acc t a) u =
    (if u = t then GetAccListByName a t @ [acc] else GetAccListByName a u)"
  by (auto simp: ag_wf_def AddAccToListByName_def GetAccListByName_def nth_list_update)

lemma create_users_counts:
  "create_users new n i t a w = (Ret a', w') \<Longrightarrow> ag_wf a \<Longrightarrow>
   ag_wf a' \<and> contracts a' = contracts a \<and> containsUnsignedAccGrp a' = containsUnsignedAccGrp a \<and>
   length (GetAccListByName a' t) = length (GetAccListByName a t) + n \<and>
   (\<forall>u. u \<noteq> t \<longrightarrow> GetAccListByName a' u = GetAccListByName a u)"
proof (induction n arbitrary: i a w)
  case 0
  then show ?case by simp
next
  case (Suc n)
  then obtain acc w1 where new: "new (int i) w = (Ret acc, w1)"
    by (auto split: prod.splits outcome.splits)
  with Suc.prems(1) have "create_users new n (Suc i) t (AddAccToListByName acc t a) w1 = (Ret a', w')"
    by simp
  from Suc.IH [OF this AddAcc_wf [OF Suc.prems(2)]] Suc.prems(2) show ?case
    by (auto simp: AddAcc_lists) (simp_all add: AddAccToListByName_def)
qed

lemma create_lists_counts:
  "create_lists new ps a w = (Ret a', w') \<Longrightarrow> ag_wf a \<Longrightarrow> distinct (map fst ps) \<Longrightarrow>
   ag_wf a' \<and> contracts a' = contracts a \<and> containsUnsignedAccGrp a' = containsUnsignedAccGrp a \<and>
   (\<forall>u. length (GetAccListByName a' u) = length (GetAccListByName a u) +
        (case map_of ps u of None \<Rightarrow> 0 | Some n \<Rightarrow> nat n))"
proof (induction ps arbitrary: a w)
  case Nil
  then show ?case by simp
next
  case (Cons p ps)
  obtain t n where p: "p = (t, n)" by fastforce
  with Cons.prems(1) obtain a1 w1 where us: "create_users new (nat n) 0 t a w = (Ret a1, w1)"
    and rest: "create_lists new ps a1 w1 = (Ret a', w')"
    by (auto split: prod.splits outcome.splits)
  note u = create_users_counts [OF us Cons.prems(2)]
  with Cons.IH [OF rest] Cons.prems(3) p have IH: "ag_wf a' \<and> contracts a' = contracts a1 \<and>
     containsUnsignedAccGrp a' = containsUnsignedAccGrp a1 \<and>
     (\<forall>v. length (GetAccListByName a' v) = length (GetAccListByName a1 v) +
        (case map_of ps v of None \<Rightarrow> 0 | Some n \<Rightarrow> nat n))" by auto
  moreover have none: "map_of ps t = None" using Cons.prems(3) p by (simp add: map_of_eq_None_iff)
  moreover have "length (GetAccListByName a' v) = length (GetAccListByName a v) +
        (case map_of (p # ps) v of None \<Rightarrow> 0 | Some n \<Rightarrow> nat n)" for v
    using IH u none p by (cases "v = t") simp_all
  ultimately show ?case using u by simp
qed

lemma active_lists_take:
  "0 \<le> p \<Longrightarrow> p \<le> 100 \<Longrightarrow>
   active_lists p ls = Ret (map (\<lambda>xs. take (nat (int (length xs) * p div 100)) xs) ls)"
proof (induction ls)
  case Nil
  then show ?case by simp
next
  case (Cons xs ls)
  have "int (length xs) * p \<le> int (length xs) * 100" using Cons.prems by (intro mult_left_mono) auto
  then have "int (length xs) * p div 100 \<le> int (length xs)" by linarith
  moreover have "0 \<le> int (length xs) * p div 100"
    using Cons.prems by (simp add: pos_imp_zdiv_nonneg_iff)
  ultimately have "active_lists p (xs # ls) =
      map_outcome_ret ((#) (if int (length xs) * p div 100 = 0 then []
        else take (nat (int (length xs) * p div 100)) xs)) (active_lists p ls)"
    by (simp add: Let_def)
  with Cons show ?case by simp
qed

section \<open>The interface of an account source\<close>

text \<open>
  A test case asks for an account and relies on getting a member of the set, or nothing from an
  empty set, with the set unchanged.
\<close>

locale account_source =
  fixes pick :: "'s \<Rightarrow> 'a option \<times> 's"
    and pool :: "'s \<Rightarrow> 'a list"
    and good :: "'s \<Rightarrow> bool"
  assumes pick_pool: "good s \<Longrightarrow> pick s = (r, s') \<Longrightarrow> pool s' = pool s \<and> good s'"
    and pick_member: "good s \<Longrightarrow> pick s = (Some x, s') \<Longrightarrow> x \<in> set (pool s)"
    and pick_none: "good s \<Longrightarrow> pick s = (None, s') \<longleftrightarrow> pool s = [] \<and> s' = s"

fun picks :: "('s \<Rightarrow> 'a option \<times> 's) \<Rightarrow> nat \<Rightarrow> 's \<Rightarrow> 'a option list \<times> 's" where
  "picks pick 0 s = ([], s)"
| "picks pick (Suc n) s =
     (case pick s of (r, s1) \<Rightarrow> case picks pick n s1 of (rs, s2) \<Rightarrow> (r # rs, s2))"

context account_source begin

lemma picks_pool: "good s \<Longrightarrow> picks pick n s = (rs, s') \<Longrightarrow> pool s' = pool s \<and> good s' \<and> length rs = n"
  by (induction n arbitrary: s rs) (fastforce split: prod.splits dest: pick_pool)+

lemma picks_members: "good s \<Longrightarrow> pool s \<noteq> [] \<Longrightarrow> picks pick n s = (rs, s') \<Longrightarrow>
    \<forall>r \<in> set rs. \<exists>x \<in> set (pool s). r = Some x"
proof (induction n arbitrary: s rs)
  case 0
  then show ?case by simp
next
  case (Suc n)
  obtain r s1 where p: "pick s = (r, s1)" by fastforce
  obtain rs1 where rs: "picks pick n s1 = (rs1, s')" "rs = r # rs1"
    using Suc.prems(3) p by (auto split: prod.splits)
  note pp = pick_pool [OF Suc.prems(1) p]
  have "\<exists>x \<in> set (pool s). r = Some x"
    using pick_member [OF Suc.prems(1)] pick_none [OF Suc.prems(1)] p Suc.prems(2) by (cases r) auto
  with Suc.IH [of s1 rs1] pp rs Suc.prems(2) show ?case by auto
qed

end

definition pick_random :: "nat \<Rightarrow> 'a AccountSet \<Rightarrow> 'a option \<times> 'a AccountSet" where
  "pick_random r s = (GetAccountRandomly r s, s)"

definition pick_round_robin :: "'a AccountSet \<Rightarrow> 'a option \<times> 'a AccountSet" where
  "pick_round_robin s = (case GetAccountRoundRobin s of (Ret x, s') \<Rightarrow> (x, s') | (_, s') \<Rightarrow> (None, s'))"

interpretation random_source: account_source "pick_random r" accounts "\<lambda>s. True" for r
  by unfold_locales (auto simp: pick_random_def GetAccountRandomly_def AS_Len_def split: if_splits)

lemma RoundRobin_ret: "as_wf s \<Longrightarrow> returns (fst (GetAccountRoundRobin s))"
  by (auto simp: GetAccountRoundRobin_def as_wf_def AS_Len_def Let_def split: if_splits)

interpretation round_robin: account_source pick_round_robin accounts as_wf
  by unfold_locales
    (auto simp: pick_round_robin_def GetAccountRoundRobin_def as_wf_def AS_Len_def Let_def
      split: if_splits)

lemma round_robin_nth:
  "as_wf s \<Longrightarrow> accounts s \<noteq> [] \<Longrightarrow> picks pick_round_robin n s = (rs, s') \<Longrightarrow>
   rs = map (\<lambda>i. Some (accounts s ! ((roundRobinIndex s + i) mod length (accounts s)))) [0..<n]"
proof (induction n arbitrary: s rs)
  case 0
  then show ?case by simp
next
  case (Suc n)
  let ?k = "roundRobinIndex s" and ?l = "length (accounts s)"
  define s1 where "s1 = s\<lparr>roundRobinIndex := Suc ?k mod ?l\<rparr>"
  have k: "?k < ?l" using Suc.prems by (simp add: as_wf_def AS_Len_def)
  then have p: "pick_round_robin s = (Some (accounts s ! ?k), s1)"
    by (auto simp: pick_round_robin_def GetAccountRoundRobin_def AS_Len_def Let_def s1_def mod_Suc)
  obtain rs1 where rs: "picks pick_round_robin n s1 = (rs1, s')" "rs = Some (accounts s ! ?k) # rs1"
    using Suc.prems(3) p by (auto split: prod.splits)
  have "as_wf s1" "accounts s1 \<noteq> []" using Suc.prems k by (auto simp: s1_def as_wf_def AS_Len_def)
  from Suc.IH [OF this rs(1)]
  have "rs1 = map (\<lambda>i. Some (accounts s ! ((?k + i) mod ?l))) [1..<Suc n]"
    by (auto simp: s1_def mod_add_left_eq intro!: nth_equalityI simp del: upt_Suc)
  with rs k show ?case by (simp add: upt_conv_Cons del: upt_Suc)
qed

lemma mset_rotate_eq: "mset (rotate n xs) = mset xs"
  by (simp add: rotate_drop_take) (metis append_take_drop_id mset_append union_commute)

lemma image_repeat_mset: "image_mset f (repeat_mset k M) = repeat_mset k (image_mset f M)"
  by (induction k) simp_all

end
