(* ===== verification/Go_Strconv.thy ===== *)
theory Go_Strconv
  imports Go_Prelude
begin

text \<open>
  What the program uses of Go's \<open>strings\<close>, \<open>strconv\<close> and \<open>math/big\<close> text functions:
  \<open>strings.Split\<close> at a comma, \<open>strings.ToLower\<close>, \<open>strings.Contains\<close>, \<open>strconv.Atoi\<close>,
  \<open>strconv.ParseInt(s, 0, 64)\<close> and \<open>(*big.Int).Text\<close>.
\<close>

section \<open>Splitting\<close>

fun split_at :: "char \<Rightarrow> string \<Rightarrow> string list" where
  "split_at c [] = [[]]"
| "split_at c (x # xs) =
     (if x = c then [] # split_at c xs
      else (case split_at c xs of [] \<Rightarrow> [[x]] | y # ys \<Rightarrow> (x # y) # ys))"

definition join_with :: "char \<Rightarrow> string list \<Rightarrow> string" where
  "join_with c xss = concat (map (\<lambda>i. (if i = 0 then [] else [c]) @ xss ! i) [0..<length xss])"

lemma split_at_nonempty [simp]: "split_at c s \<noteq> []"
  by (induction s) (auto split: list.splits)

lemma split_at_no_sep: "c \<notin> set s \<Longrightarrow> split_at c s = [s]"
  by (induction s) auto

lemma split_at_append: "c \<notin> set s \<Longrightarrow> split_at c (s @ c # t) = s # split_at c t"
  by (induction s) auto

lemma join_Cons: "yss \<noteq> [] \<Longrightarrow> join_with c (xs # yss) = xs @ c # join_with c yss"
proof -
  assume "yss \<noteq> []"
  then obtain n where n: "length yss = Suc n" by (cases yss) auto
  have "map (\<lambda>i. (if i = 0 then [] else [c]) @ (xs # yss) ! i) [0..<Suc (Suc n)] =
      xs # map (\<lambda>i. c # yss ! i) [0..<Suc n]"
    by (simp add: upt_conv_Cons map_Suc_upt [symmetric] del: upt_Suc)
  also have "map (\<lambda>i. c # yss ! i) [0..<Suc n] = (c # yss ! 0) # map (\<lambda>i. c # yss ! i) [1..<Suc n]"
    by (simp add: upt_conv_Cons del: upt_Suc)
  finally have "join_with c (xs # yss) = xs @ (c # yss ! 0) @ concat (map (\<lambda>i. c # yss ! i) [1..<Suc n])"
    by (simp add: join_with_def n del: upt_Suc)
  moreover have "join_with c yss = yss ! 0 @ concat (map (\<lambda>i. c # yss ! i) [1..<Suc n])"
    by (simp add: join_with_def n upt_conv_Cons del: upt_Suc cong: map_cong)
      (rule arg_cong [where f = concat], rule map_cong, auto)
  ultimately show ?thesis by simp
qed

lemma split_join: "xss \<noteq> [] \<Longrightarrow> \<forall>xs \<in> set xss. c \<notin> set xs \<Longrightarrow> split_at c (join_with c xss) = xss"
proof (induction xss)
  case Nil
  then show ?case by simp
next
  case (Cons xs yss)
  show ?case
  proof (cases "yss = []")
    case True
    with Cons.prems show ?thesis by (simp add: join_with_def split_at_no_sep)
  next
    case False
    with Cons show ?thesis by (simp add: join_Cons split_at_append)
  qed
qed

section \<open>Letters and substrings\<close>

definition lower_char :: "char \<Rightarrow> char" where
  "lower_char c = (let n = of_char c in if 65 \<le> n \<and> n \<le> (90 :: nat) then char_of (n + 32) else c)"

definition to_lower :: "string \<Rightarrow> string" where
  "to_lower s = map lower_char s"

fun starts_with :: "string \<Rightarrow> string \<Rightarrow> bool" where
  "starts_with [] s = True"
| "starts_with (p # ps) [] = False"
| "starts_with (p # ps) (x # xs) = (p = x \<and> starts_with ps xs)"

fun contains_text :: "string \<Rightarrow> string \<Rightarrow> bool" where
  "contains_text [] p = starts_with p []"
| "contains_text (x # xs) p = (starts_with p (x # xs) \<or> contains_text xs p)"

section \<open>Digits\<close>

definition digit_char :: "nat \<Rightarrow> char" where
  "digit_char d = ''0123456789abcdef'' ! d"

text \<open>The value of a digit or letter; letters beyond the base are rejected by the caller.\<close>

definition digit_value :: "char \<Rightarrow> nat option" where
  "digit_value c =
     (let n = of_char c :: nat; l = of_char (lower_char c) :: nat in
      if 48 \<le> n \<and> n \<le> 57 then Some (n - 48)
      else if 97 \<le> l \<and> l \<le> 122 then Some (l - 97 + 10) else None)"

fun digits :: "nat \<Rightarrow> nat \<Rightarrow> string" where
  "digits b n =
     (if b < 2 then [] else
      if n < b then [digit_char n] else digits b (n div b) @ [digit_char (n mod b)])"

declare digits.simps [simp del]

definition int_text :: "nat \<Rightarrow> int \<Rightarrow> string" where
  "int_text b i = (if i < 0 then ''-'' @ digits b (nat (- i)) else digits b (nat i))"

fun digits_value :: "nat \<Rightarrow> nat \<Rightarrow> string \<Rightarrow> nat option" where
  "digits_value b acc [] = Some acc"
| "digits_value b acc (c # cs) =
     (case digit_value c of
        None \<Rightarrow> None
      | Some d \<Rightarrow> (if d < b then digits_value b (acc * b + d) cs else None))"

section \<open>Atoi\<close>

definition in_int64 :: "int \<Rightarrow> bool" where
  "in_int64 i \<longleftrightarrow> - (2 ^ 63) \<le> i \<and> i < 2 ^ 63"

definition strip_sign :: "string \<Rightarrow> bool \<times> string" where
  "strip_sign s = (case s of c # cs \<Rightarrow> (if c = CHR ''-'' then (True, cs) else if c = CHR ''+'' then (False, cs)
      else (False, s)) | [] \<Rightarrow> (False, []))"

definition signed_in_range :: "bool \<Rightarrow> nat \<Rightarrow> int option" where
  "signed_in_range neg n =
     (let i = (if neg then - int n else int n) in if in_int64 i then Some i else None)"

definition Atoi :: "string \<Rightarrow> int option" where
  "Atoi s =
     (case strip_sign s of (neg, ds) \<Rightarrow>
        (if ds = [] then None
         else case digits_value 10 0 ds of None \<Rightarrow> None | Some n \<Rightarrow> signed_in_range neg n))"

section \<open>ParseInt with base 0\<close>

definition base_prefix :: "string \<Rightarrow> nat \<times> string" where
  "base_prefix s =
     (case s of
        c # c1 # c2 # cs \<Rightarrow>
          (if c = CHR ''0'' then
             (if lower_char c1 = CHR ''b'' then (2, c2 # cs)
              else if lower_char c1 = CHR ''o'' then (8, c2 # cs)
              else if lower_char c1 = CHR ''x'' then (16, c2 # cs)
              else (8, c1 # c2 # cs))
           else (10, s))
      | c # cs \<Rightarrow> (if c = CHR ''0'' then (8, cs) else (10, s))
      | [] \<Rightarrow> (10, []))"

datatype seen = SeenStart | SeenDigit | SeenUnderscore | SeenOther

fun underscore_scan :: "bool \<Rightarrow> seen \<Rightarrow> string \<Rightarrow> bool" where
  "underscore_scan hex i [] = (i \<noteq> SeenUnderscore)"
| "underscore_scan hex i (c # cs) =
     (case digit_value c of
        Some d \<Rightarrow>
          (if d < (if hex then 16 else 10) then underscore_scan hex SeenDigit cs
           else if i = SeenUnderscore then False else underscore_scan hex SeenOther cs)
      | None \<Rightarrow>
          (if c = CHR ''_'' then (if i = SeenDigit then underscore_scan hex SeenUnderscore cs else False)
           else if i = SeenUnderscore then False else underscore_scan hex SeenOther cs))"

definition underscoreOK :: "string \<Rightarrow> bool" where
  "underscoreOK s =
     (case snd (strip_sign s) of
        c # c1 # cs \<Rightarrow>
          (if c = CHR ''0'' \<and> lower_char c1 \<in> {CHR ''b'', CHR ''o'', CHR ''x''}
           then underscore_scan (lower_char c1 = CHR ''x'') SeenDigit cs
           else underscore_scan False SeenStart (c # c1 # cs))
      | cs \<Rightarrow> underscore_scan False SeenStart cs)"

definition ParseInt0 :: "string \<Rightarrow> int option" where
  "ParseInt0 s =
     (case strip_sign s of (neg, ds) \<Rightarrow>
        (if ds = [] then None
         else case base_prefix ds of (b, body) \<Rightarrow>
           (case digits_value b 0 (filter (\<lambda>c. c \<noteq> CHR ''_'') body) of
              None \<Rightarrow> None
            | Some n \<Rightarrow>
                (if CHR ''_'' \<in> set body \<and> \<not> underscoreOK ds then None else signed_in_range neg n))))"

section \<open>Round trips\<close>

lemma digit_chars_sixteen:
  "list_all (\<lambda>d. digit_value (digit_char d) = Some d \<and> digit_char d \<noteq> CHR ''-'' \<and>
     digit_char d \<noteq> CHR ''+'') [0..<16]"
  by (simp add: upt_conv_Cons digit_char_def digit_value_def lower_char_def Let_def)

lemma digit_value_char: "d < 16 \<Longrightarrow> digit_value (digit_char d) = Some d"
  using digit_chars_sixteen unfolding list_all_iff by auto

lemma digits_value_append:
  "digits_value b acc (xs @ ys) =
     (case digits_value b acc xs of None \<Rightarrow> None | Some v \<Rightarrow> digits_value b v ys)"
  by (induction xs arbitrary: acc) (auto split: option.splits)

lemma digits_value_digits: "2 \<le> b \<Longrightarrow> b \<le> 16 \<Longrightarrow> digits_value b 0 (digits b n) = Some n"
proof (induction b n rule: digits.induct)
  case (1 b n)
  show ?case
  proof (cases "n < b")
    case True
    with 1 show ?thesis by (subst digits.simps) (simp add: digit_value_char)
  next
    case False
    have m: "n mod b < b" "n mod b < 16" using 1 by (auto intro: less_le_trans [of _ b])
    have "digits b n = digits b (n div b) @ [digit_char (n mod b)]"
      using 1 False by (subst digits.simps) simp
    then show ?thesis
      using 1 False m by (simp add: digits_value_append digit_value_char)
  qed
qed

lemma digits_nonempty: "2 \<le> b \<Longrightarrow> digits b n \<noteq> []"
  by (subst digits.simps) simp

lemma digit_char_no_sign: "d < 16 \<Longrightarrow> digit_char d \<noteq> CHR ''-'' \<and> digit_char d \<noteq> CHR ''+''"
  using digit_chars_sixteen unfolding list_all_iff by auto

lemma digits_chars: "2 \<le> b \<Longrightarrow> b \<le> 16 \<Longrightarrow> c \<in> set (digits b n) \<Longrightarrow> \<exists>d < b. c = digit_char d"
proof (induction b n rule: digits.induct)
  case (1 b n)
  show ?case
  proof (cases "n < b")
    case True
    with 1 show ?thesis by (auto simp: digits.simps [of b n])
  next
    case False
    have d: "digits b n = digits b (n div b) @ [digit_char (n mod b)]"
      using 1 False by (subst digits.simps) simp
    show ?thesis
    proof (cases "c \<in> set (digits b (n div b))")
      case True
      have "\<not> b < 2" using 1 by simp
      from 1(1) [OF this False 1(2,3) True] show ?thesis .
    next
      case False
      with d 1 have "c = digit_char (n mod b)" by simp
      moreover have "n mod b < b" using 1 by simp
      ultimately show ?thesis by blast
    qed
  qed
qed

lemma strip_sign_digits: "2 \<le> b \<Longrightarrow> b \<le> 16 \<Longrightarrow> strip_sign (digits b n) = (False, digits b n)"
proof -
  assume b: "2 \<le> b" "b \<le> 16"
  then obtain c cs where cs: "digits b n = c # cs" using digits_nonempty by (cases "digits b n") auto
  with digits_chars [OF b, of c n] obtain d where "d < b" "c = digit_char d" by auto
  with b digit_char_no_sign [of d] show "strip_sign (digits b n) = (False, digits b n)"
    by (simp add: cs strip_sign_def)
qed

lemma Atoi_int_text: "in_int64 i \<Longrightarrow> Atoi (int_text 10 i) = Some i"
proof -
  assume i: "in_int64 i"
  have d: "digits_value 10 0 (digits 10 n) = Some n" for n by (rule digits_value_digits) auto
  show "Atoi (int_text 10 i) = Some i"
  proof (cases "i < 0")
    case True
    then have "strip_sign (int_text 10 i) = (True, digits 10 (nat (- i)))"
      by (simp add: int_text_def strip_sign_def)
    with True i digits_nonempty [of 10] d show ?thesis by (simp add: Atoi_def signed_in_range_def)
  next
    case False
    then have "strip_sign (int_text 10 i) = (False, digits 10 (nat i))"
      by (simp add: int_text_def strip_sign_digits)
    with False i digits_nonempty [of 10] d show ?thesis by (simp add: Atoi_def signed_in_range_def)
  qed
qed

end
