(* ===== verification/Abi_Tables.thy ===== *)
theory Abi_Tables
  imports Abi_Calls Go_Strconv
begin

text \<open>
  The ABI descriptions that the program carries as JSON text: the constants of
  \<open>klayslave/account/contract.go\<close>, the one of \<open>ExecuteStorageTrieStore\<close> in \<open>account.go\<close>, and the \<open>MetaData\<close>
  of the generated bindings under \<open>klayslave/account/contracts/\<close>. A description is the list of its
  entries in the order of the text; \<open>stateMutability\<close> (or \<open>constant\<close> and \<open>payable\<close> in the older format) is
  kept, parameter names are not. The texts of the kaia module (the test token, Uniswap, the swap router) are not
  under \<open>src/\<close> and have no entry.
\<close>

section \<open>Types and entries\<close>

datatype abi_type =
    TyAddress | TyBool | TyString | TyBytes | TyUint nat | TyFixed nat
  | TyArray abi_type | TyTuple string "abi_type list"

datatype mutability = Pure | View | NonPayable | Payable

text \<open>The parameters of an event carry whether they are indexed.\<close>

datatype abi_entry =
    AbiFunction string "abi_type list" "abi_type list" mutability
  | AbiConstructor "abi_type list" mutability
  | AbiFallback mutability
  | AbiReceive
  | AbiEvent string "(abi_type \<times> bool) list"
  | AbiError string "abi_type list"

section \<open>The constants of the program\<close>

definition erc20ABI_json :: "abi_entry list" where
  "erc20ABI_json = [AbiFunction ''approve'' [TyAddress, TyUint 256] [TyBool] NonPayable,
      AbiFunction ''totalSupply'' [] [TyUint 256] View,
      AbiFunction ''transferFrom'' [TyAddress, TyAddress, TyUint 256] [TyBool] NonPayable,
      AbiFunction ''increaseAllowance'' [TyAddress, TyUint 256] [TyBool] NonPayable,
      AbiFunction ''mint'' [TyAddress, TyUint 256] [TyBool] NonPayable,
      AbiFunction ''balanceOf'' [TyAddress] [TyUint 256] View,
      AbiFunction ''addMinter'' [TyAddress] [] NonPayable, AbiFunction ''renounceMinter'' [] [] NonPayable,
      AbiFunction ''decreaseAllowance'' [TyAddress, TyUint 256] [TyBool] NonPayable,
      AbiFunction ''transfer'' [TyAddress, TyUint 256] [TyBool] NonPayable,
      AbiFunction ''isMinter'' [TyAddress] [TyBool] View,
      AbiFunction ''allowance'' [TyAddress, TyAddress] [TyUint 256] View, AbiConstructor [] NonPayable,
      AbiEvent ''MinterAdded'' [(TyAddress, True)], AbiEvent ''MinterRemoved'' [(TyAddress, True)],
      AbiEvent ''Transfer'' [(TyAddress, True), (TyAddress, True), (TyUint 256, False)],
      AbiEvent ''Approval'' [(TyAddress, True), (TyAddress, True), (TyUint 256, False)]]"

definition erc721PerformanceABI_json :: "abi_entry list" where
  "erc721PerformanceABI_json = [AbiFunction ''supportsInterface'' [TyFixed 4] [TyBool] View,
      AbiFunction ''name'' [] [TyString] View, AbiFunction ''getApproved'' [TyUint 256] [TyAddress] View,
      AbiFunction ''approve'' [TyAddress, TyUint 256] [] NonPayable,
      AbiFunction ''transferFrom'' [TyAddress, TyAddress, TyUint 256] [] NonPayable,
      AbiFunction ''safeTransferFrom'' [TyAddress, TyAddress, TyUint 256] [] NonPayable,
      AbiFunction ''mintWithTokenURI'' [TyAddress, TyUint 256, TyString] [TyBool] NonPayable,
      AbiFunction ''ownerOf'' [TyUint 256] [TyAddress] View,
      AbiFunction ''balanceOf'' [TyAddress] [TyUint 256] View,
      AbiFunction ''registerBulk'' [TyAddress, TyUint 256, TyUint 256] [] NonPayable,
      AbiFunction ''symbol'' [] [TyString] View,
      AbiFunction ''setApprovalForAll'' [TyAddress, TyBool] [] NonPayable,
      AbiFunction ''safeTransferFrom'' [TyAddress, TyAddress, TyUint 256, TyBytes] [] NonPayable,
      AbiFunction ''tokenURI'' [TyUint 256] [TyString] View,
      AbiFunction ''isApprovedForAll'' [TyAddress, TyAddress] [TyBool] View,
      AbiConstructor [TyString, TyString] NonPayable,
      AbiEvent ''Transfer'' [(TyAddress, True), (TyAddress, True), (TyUint 256, True)],
      AbiEvent ''Approval'' [(TyAddress, True), (TyAddress, True), (TyUint 256, True)],
      AbiEvent ''ApprovalForAll'' [(TyAddress, True), (TyAddress, True), (TyBool, False)]]"

definition generalPurposeABI_json :: "abi_entry list" where
  "generalPurposeABI_json = [AbiFunction ''totalAmount'' [] [TyUint 256] View,
      AbiFunction ''reward'' [TyAddress] [] Payable,
      AbiFunction ''balanceOf'' [TyAddress] [TyUint 256] View,
      AbiFunction ''safeWithdrawal'' [] [] NonPayable, AbiConstructor [] NonPayable, AbiFallback Payable]"

definition gaslessApproveABI_json :: "abi_entry list" where
  "gaslessApproveABI_json = [AbiFunction ''approve'' [TyAddress, TyUint 256] [TyBool] NonPayable]"

definition gaslessSwapABI_json :: "abi_entry list" where
  "gaslessSwapABI_json = [
      AbiFunction ''swapForGas'' [TyAddress, TyUint 256, TyUint 256, TyUint 256, TyUint 256] [] NonPayable]"

definition counterAuctionABI_json :: "abi_entry list" where
  "counterAuctionABI_json = [AbiFunction ''getForAuction'' [] [TyUint 256] View,
      AbiFunction ''getForSC'' [] [TyUint 256] View, AbiFunction ''incForAuction'' [] [] NonPayable,
      AbiFunction ''incForSC'' [] [] NonPayable, AbiFunction ''intendedRevert'' [] [] Pure]"

definition cpuHeavySortABI_json :: "abi_entry list" where
  "cpuHeavySortABI_json = [AbiFunction ''sort'' [TyUint 256, TyUint 256] [] NonPayable]"

definition largeMemoABI_json :: "abi_entry list" where
  "largeMemoABI_json = [AbiFunction ''setName'' [TyString] [] NonPayable]"

definition readApiGetABI_json :: "abi_entry list" where
  "readApiGetABI_json = [AbiFunction ''get'' [] [TyUint 256] View]"

definition readApiSetABI_json :: "abi_entry list" where
  "readApiSetABI_json = [AbiFunction ''set'' [] [] NonPayable]"

definition userStorageGetABI_json :: "abi_entry list" where
  "userStorageGetABI_json = [AbiFunction ''get'' [] [TyUint 256] View]"

definition userStorageSetABI_json :: "abi_entry list" where
  "userStorageSetABI_json = [AbiFunction ''set'' [TyUint 256] [] NonPayable]"

definition userStorageGetUserDataABI_json :: "abi_entry list" where
  "userStorageGetUserDataABI_json = [AbiFunction ''getUserData'' [TyAddress] [TyUint 256] View]"

definition mintCardABI_json :: "abi_entry list" where
  "mintCardABI_json = [AbiFunction ''mintCard'' [] [] Payable]"

definition sendRewardsABI_json :: "abi_entry list" where
  "sendRewardsABI_json = [AbiFunction ''sendRewards'' [TyAddress, TyAddress] [] Payable]"

definition internalTxMainConstructorABI_json :: "abi_entry list" where
  "internalTxMainConstructorABI_json = [AbiConstructor [TyAddress, TyUint 256, TyUint 256] NonPayable]"

definition storageTrieABI_json :: "abi_entry list" where
  "storageTrieABI_json = [AbiFunction ''rootCaCertificate'' [] [TyString] View,
      AbiFunction ''getIdentity'' [TyString] [TyString, TyString] View,
      AbiFunction ''deleteCaCertificate'' [TyString] [] NonPayable,
      AbiFunction ''insertCaCertificate'' [TyString, TyString] [] NonPayable,
      AbiFunction ''owner'' [] [TyAddress] View,
      AbiFunction ''insertIdentity'' [TyString, TyString, TyString] [] NonPayable,
      AbiFunction ''deleteIdentity'' [TyString] [] NonPayable,
      AbiFunction ''getCaCertificate'' [TyString] [TyString] View, AbiConstructor [] NonPayable]"

section \<open>The ABI texts of the generated bindings\<close>

definition CpuHeavyTCABI_json :: "abi_entry list" where
  "CpuHeavyTCABI_json = [AbiEvent ''finish'' [(TyUint 256, False), (TyUint 256, False)],
      AbiFunction ''checkResult'' [] [TyBool] View, AbiFunction ''empty'' [] [] NonPayable,
      AbiFunction ''sort'' [TyUint 256, TyUint 256] [] NonPayable,
      AbiFunction ''sortSingle'' [TyUint 256] [] NonPayable]"

definition UserStorageTCABI_json :: "abi_entry list" where
  "UserStorageTCABI_json = [AbiFunction ''get'' [] [TyUint 256] View,
      AbiFunction ''getUserData'' [TyAddress] [TyUint 256] View,
      AbiFunction ''set'' [TyUint 256] [] NonPayable]"

definition LargeMemoTCABI_json :: "abi_entry list" where
  "LargeMemoTCABI_json = [AbiConstructor [] NonPayable, AbiFunction ''run'' [] [TyString] View,
      AbiFunction ''setName'' [TyString] [] NonPayable, AbiFunction ''str'' [] [TyString] View]"

definition ReadApiCallContractTCABI_json :: "abi_entry list" where
  "ReadApiCallContractTCABI_json = [AbiFunction ''get'' [] [TyUint 256] View,
      AbiFunction ''set'' [] [] NonPayable]"

definition TetherContractTCABI_json :: "abi_entry list" where
  "TetherContractTCABI_json = [
      AbiEvent ''Approval'' [(TyAddress, True), (TyAddress, True), (TyUint 256, False)],
      AbiEvent ''BlockPlaced'' [(TyAddress, True)], AbiEvent ''BlockReleased'' [(TyAddress, True)],
      AbiEvent ''DestroyedBlockedFunds'' [(TyAddress, True), (TyUint 256, False)],
      AbiEvent ''Initialized'' [(TyUint 8, False)],
      AbiEvent ''Mint'' [(TyAddress, True), (TyUint 256, False)],
      AbiEvent ''OwnershipTransferred'' [(TyAddress, True), (TyAddress, True)],
      AbiEvent ''Redeem'' [(TyUint 256, False)],
      AbiEvent ''Transfer'' [(TyAddress, True), (TyAddress, True), (TyUint 256, False)],
      AbiFunction ''DOMAIN_SEPARATOR'' [] [TyFixed 32] View,
      AbiFunction ''addToBlockedList'' [TyAddress] [] NonPayable,
      AbiFunction ''allowance'' [TyAddress, TyAddress] [TyUint 256] View,
      AbiFunction ''approve'' [TyAddress, TyUint 256] [TyBool] NonPayable,
      AbiFunction ''balanceOf'' [TyAddress] [TyUint 256] View, AbiFunction ''decimals'' [] [TyUint 8] View,
      AbiFunction ''decreaseAllowance'' [TyAddress, TyUint 256] [TyBool] NonPayable,
      AbiFunction ''destroyBlockedFunds'' [TyAddress] [] NonPayable,
      AbiFunction ''increaseAllowance'' [TyAddress, TyUint 256] [TyBool] NonPayable,
      AbiFunction ''initialize'' [TyString, TyString, TyUint 8] [] NonPayable,
      AbiFunction ''isBlocked'' [TyAddress] [TyBool] View,
      AbiFunction ''isTrusted'' [TyAddress] [TyBool] View,
      AbiFunction ''mint'' [TyAddress, TyUint 256] [] NonPayable,
      AbiFunction ''multiTransfer'' [TyArray TyAddress, TyArray (TyUint 256)] [] NonPayable,
      AbiFunction ''name'' [] [TyString] View, AbiFunction ''nonces'' [TyAddress] [TyUint 256] View,
      AbiFunction ''owner'' [] [TyAddress] View,
      AbiFunction ''permit'' [TyAddress, TyAddress, TyUint 256, TyUint 256, TyUint 8, TyFixed 32,
        TyFixed 32] [] NonPayable,
      AbiFunction ''redeem'' [TyUint 256] [] NonPayable,
      AbiFunction ''removeFromBlockedList'' [TyAddress] [] NonPayable,
      AbiFunction ''renounceOwnership'' [] [] NonPayable, AbiFunction ''symbol'' [] [TyString] View,
      AbiFunction ''totalSupply'' [] [TyUint 256] View,
      AbiFunction ''transfer'' [TyAddress, TyUint 256] [TyBool] NonPayable,
      AbiFunction ''transferFrom'' [TyAddress, TyAddress, TyUint 256] [TyBool] NonPayable,
      AbiFunction ''transferOwnership'' [TyAddress] [] NonPayable]"

definition TetherProxyABI_json :: "abi_entry list" where
  "TetherProxyABI_json = [AbiConstructor [TyAddress, TyAddress, TyBytes] Payable,
      AbiEvent ''AdminChanged'' [(TyAddress, False), (TyAddress, False)],
      AbiEvent ''BeaconUpgraded'' [(TyAddress, True)], AbiEvent ''Upgraded'' [(TyAddress, True)],
      AbiFallback Payable, AbiFunction ''admin'' [] [TyAddress] NonPayable,
      AbiFunction ''changeAdmin'' [TyAddress] [] NonPayable,
      AbiFunction ''implementation'' [] [TyAddress] NonPayable,
      AbiFunction ''upgradeTo'' [TyAddress] [] NonPayable,
      AbiFunction ''upgradeToAndCall'' [TyAddress, TyBytes] [] Payable, AbiReceive]"

definition AuctionEntryPointABI_json :: "abi_entry list" where
  "AuctionEntryPointABI_json = [AbiConstructor [TyAddress, TyAddress, TyAddress] NonPayable,
      AbiError ''EmptyDepositVault'' [], AbiError ''InvalidAccountNonce'' [TyAddress, TyUint 256],
      AbiError ''InvalidInput'' [], AbiError ''InvalidRange'' [], AbiError ''InvalidShortString'' [],
      AbiError ''MinDepositNotOver'' [], AbiError ''OnlyAuctionDepositVault'' [],
      AbiError ''OnlyEntryPoint'' [], AbiError ''OnlyProposer'' [], AbiError ''OnlyStakingAdmin'' [],
      AbiError ''OwnableInvalidOwner'' [TyAddress], AbiError ''OwnableUnauthorizedAccount'' [TyAddress],
      AbiError ''StringTooLong'' [TyString], AbiError ''WithdrawReservationExists'' [],
      AbiError ''WithdrawalFailed'' [], AbiError ''WithdrawalNotAllowedYet'' [],
      AbiError ''ZeroAddress'' [], AbiError ''ZeroDepositAmount'' [],
      AbiEvent ''Call'' [(TyAddress, False), (TyUint 256, False)],
      AbiEvent ''CallFailed'' [(TyAddress, False), (TyUint 256, False)],
      AbiEvent ''ChangeAuctioneer'' [(TyAddress, False), (TyAddress, False)],
      AbiEvent ''ChangeDepositVault'' [(TyAddress, False), (TyAddress, False)],
      AbiEvent ''ChangeGasParameters'' [(TyUint 256, False), (TyUint 256, False), (TyUint 256, False),
        (TyUint 256, False), (TyUint 256, False)],
      AbiEvent ''EIP712DomainChanged'' [],
      AbiEvent ''OwnershipTransferred'' [(TyAddress, True), (TyAddress, True)],
      AbiEvent ''UseNonce'' [(TyAddress, False), (TyUint 256, False)],
      AbiFunction ''AUCTION_NAME'' [] [TyString] View, AbiFunction ''AUCTION_VERSION'' [] [TyString] View,
      AbiFunction ''MAX_DATA_SIZE'' [] [TyUint 256] View, AbiFunction ''auctioneer'' [] [TyAddress] View,
      AbiFunction ''call'' [TyTuple ''IAuctionEntryPoint.AuctionTx'' [TyFixed 32, TyUint 256, TyAddress,
        TyAddress, TyUint 256, TyUint 256, TyUint 256, TyBytes, TyBytes, TyBytes]] [] NonPayable,
      AbiFunction ''changeAuctioneer'' [TyAddress] [] NonPayable,
      AbiFunction ''changeDepositVault'' [TyAddress] [] NonPayable,
      AbiFunction ''changeGasParameters'' [TyUint 256, TyUint 256, TyUint 256, TyUint 256,
        TyUint 256] [] NonPayable,
      AbiFunction ''depositVault'' [] [TyAddress] View,
      AbiFunction ''eip712Domain'' [] [TyFixed 1, TyString, TyString, TyUint 256, TyAddress, TyFixed 32,
        TyArray (TyUint 256)] View,
      AbiFunction ''gasBufferEstimate'' [] [TyUint 256] View,
      AbiFunction ''gasBufferUnmeasured'' [] [TyUint 256] View,
      AbiFunction ''gasContractExecution'' [] [TyUint 256] View,
      AbiFunction ''gasPerByteEip7623'' [] [TyUint 256] View,
      AbiFunction ''gasPerByteIntrinsic'' [] [TyUint 256] View,
      AbiFunction ''getAuctionTxHash'' [TyTuple ''IAuctionEntryPoint.AuctionTx'' [TyFixed 32, TyUint 256,
        TyAddress, TyAddress, TyUint 256, TyUint 256, TyUint 256, TyBytes, TyBytes, TyBytes]] [TyFixed 32] Pure,
      AbiFunction ''getNoncesAndDeposits'' [TyArray TyAddress] [TyArray (TyUint 256),
        TyArray (TyUint 256)] View,
      AbiFunction ''nonces'' [TyAddress] [TyUint 256] View, AbiFunction ''owner'' [] [TyAddress] View,
      AbiFunction ''renounceOwnership'' [] [] NonPayable,
      AbiFunction ''transferOwnership'' [TyAddress] [] NonPayable]"

definition AuctionEntryPoint_Sigs :: "(string \<times> string) list" where
  "AuctionEntryPoint_Sigs = [(''d2da236e'', ''AUCTION_NAME()''), (''9fc99426'', ''AUCTION_VERSION()''),
      (''22fce66f'', ''MAX_DATA_SIZE()''), (''5ec2c7bf'', ''auctioneer()''),
      (''ca157554'', ''call((bytes32,uint256,address,address,uint256,uint256,uint256,bytes,bytes,bytes))''),
      (''774f45ec'', ''changeAuctioneer(address)''), (''9d59928b'', ''changeDepositVault(address)''),
      (''2a215610'', ''changeGasParameters(uint256,uint256,uint256,uint256,uint256)''),
      (''d7cd3949'', ''depositVault()''), (''84b0196e'', ''eip712Domain()''),
      (''a5b2ab40'', ''gasBufferEstimate()''), (''145aa6c7'', ''gasBufferUnmeasured()''),
      (''c62a1105'', ''gasContractExecution()''), (''5e155d7a'', ''gasPerByteEip7623()''),
      (''ea147667'', ''gasPerByteIntrinsic()''),
      (''a8aa9450'',
        ''getAuctionTxHash((bytes32,uint256,address,address,uint256,uint256,uint256,bytes,bytes,bytes))''),
      (''0339ed37'', ''getNoncesAndDeposits(address[])''), (''7ecebe00'', ''nonces(address)''),
      (''8da5cb5b'', ''owner()''), (''715018a6'', ''renounceOwnership()''),
      (''f2fde38b'', ''transferOwnership(address)'')]"

definition AuctionDepositVaultABI_json :: "abi_entry list" where
  "AuctionDepositVaultABI_json = [AbiConstructor [TyAddress, TyAddress] NonPayable,
      AbiError ''EmptyDepositVault'' [], AbiError ''InvalidInput'' [], AbiError ''InvalidRange'' [],
      AbiError ''MinDepositNotOver'' [], AbiError ''OnlyAuctionDepositVault'' [],
      AbiError ''OnlyEntryPoint'' [], AbiError ''OnlyProposer'' [], AbiError ''OnlyStakingAdmin'' [],
      AbiError ''OwnableInvalidOwner'' [TyAddress], AbiError ''OwnableUnauthorizedAccount'' [TyAddress],
      AbiError ''WithdrawReservationExists'' [], AbiError ''WithdrawalFailed'' [],
      AbiError ''WithdrawalNotAllowedYet'' [], AbiError ''ZeroAddress'' [],
      AbiError ''ZeroDepositAmount'' [],
      AbiEvent ''ChangeAuctionFeeVault'' [(TyAddress, False), (TyAddress, False)],
      AbiEvent ''ChangeMinDepositAmount'' [(TyUint 256, False), (TyUint 256, False)],
      AbiEvent ''ChangeMinWithdrawLocktime'' [(TyUint 256, False), (TyUint 256, False)],
      AbiEvent ''InsufficientBalance'' [(TyAddress, False), (TyUint 256, False), (TyUint 256, False)],
      AbiEvent ''OwnershipTransferred'' [(TyAddress, True), (TyAddress, True)],
      AbiEvent ''TakenBid'' [(TyAddress, False), (TyUint 256, False)],
      AbiEvent ''TakenBidFailed'' [(TyAddress, False), (TyUint 256, False)],
      AbiEvent ''TakenGas'' [(TyAddress, False), (TyUint 256, False)],
      AbiEvent ''TakenGasFailed'' [(TyAddress, False), (TyUint 256, False)],
      AbiEvent ''VaultDeposit'' [(TyAddress, False), (TyUint 256, False), (TyUint 256, False), (TyUint 256,
        False)],
      AbiEvent ''VaultReserveWithdraw'' [(TyAddress, False), (TyUint 256, False), (TyUint 256, False)],
      AbiEvent ''VaultWithdraw'' [(TyAddress, False), (TyUint 256, False), (TyUint 256, False)],
      AbiFunction ''REGISTRY_ADDRESS'' [] [TyAddress] View,
      AbiFunction ''auctionFeeVault'' [] [TyAddress] View,
      AbiFunction ''changeAuctionFeeVault'' [TyAddress] [] NonPayable,
      AbiFunction ''changeMinDepositAmount'' [TyUint 256] [] NonPayable,
      AbiFunction ''changeMinWithdrawLocktime'' [TyUint 256] [] NonPayable,
      AbiFunction ''deposit'' [] [] Payable, AbiFunction ''depositBalances'' [TyAddress] [TyUint 256] View,
      AbiFunction ''depositFor'' [TyAddress] [] Payable,
      AbiFunction ''getAllAddrsOverMinDeposit'' [TyUint 256, TyUint 256] [TyArray TyAddress,
        TyArray (TyUint 256), TyArray (TyUint 256)] View,
      AbiFunction ''getDepositAddrs'' [TyUint 256, TyUint 256] [TyArray TyAddress] View,
      AbiFunction ''getDepositAddrsLength'' [] [TyUint 256] View,
      AbiFunction ''isMinDepositOver'' [TyAddress] [TyBool] View,
      AbiFunction ''minDepositAmount'' [] [TyUint 256] View,
      AbiFunction ''minWithdrawLockTime'' [] [TyUint 256] View, AbiFunction ''owner'' [] [TyAddress] View,
      AbiFunction ''renounceOwnership'' [] [] NonPayable, AbiFunction ''reserveWithdraw'' [] [] NonPayable,
      AbiFunction ''takeBid'' [TyAddress, TyUint 256] [TyBool] NonPayable,
      AbiFunction ''takeGas'' [TyAddress, TyUint 256] [TyBool] NonPayable,
      AbiFunction ''transferOwnership'' [TyAddress] [] NonPayable,
      AbiFunction ''withdraw'' [] [] NonPayable,
      AbiFunction ''withdrawReservations'' [TyAddress] [TyUint 256, TyUint 256] View]"

definition AuctionDepositVault_Sigs :: "(string \<times> string) list" where
  "AuctionDepositVault_Sigs = [(''bd3bf7f3'', ''REGISTRY_ADDRESS()''),
      (''88a639c9'', ''auctionFeeVault()''), (''c2cf75ec'', ''changeAuctionFeeVault(address)''),
      (''8caad7b5'', ''changeMinDepositAmount(uint256)''),
      (''39253624'', ''changeMinWithdrawLocktime(uint256)''), (''d0e30db0'', ''deposit()''),
      (''1eb903cf'', ''depositBalances(address)''), (''aa67c919'', ''depositFor(address)''),
      (''5be1a55e'', ''getAllAddrsOverMinDeposit(uint256,uint256)''),
      (''e45076ac'', ''getDepositAddrs(uint256,uint256)''), (''84792e0b'', ''getDepositAddrsLength()''),
      (''48f928e8'', ''isMinDepositOver(address)''), (''645006ca'', ''minDepositAmount()''),
      (''99d52501'', ''minWithdrawLockTime()''), (''8da5cb5b'', ''owner()''),
      (''715018a6'', ''renounceOwnership()''), (''bea39cab'', ''reserveWithdraw()''),
      (''08bf759d'', ''takeBid(address,uint256)''), (''b4fdfae5'', ''takeGas(address,uint256)''),
      (''f2fde38b'', ''transferOwnership(address)''), (''3ccfd60b'', ''withdraw()''),
      (''7decbd4d'', ''withdrawReservations(address)'')]"

definition AuctionFeeVaultABI_json :: "abi_entry list" where
  "AuctionFeeVaultABI_json = [AbiConstructor [TyAddress, TyUint 256, TyUint 256] NonPayable,
      AbiError ''EmptyDepositVault'' [], AbiError ''InvalidInput'' [], AbiError ''InvalidRange'' [],
      AbiError ''MinDepositNotOver'' [], AbiError ''OnlyAuctionDepositVault'' [],
      AbiError ''OnlyEntryPoint'' [], AbiError ''OnlyProposer'' [], AbiError ''OnlyStakingAdmin'' [],
      AbiError ''OwnableInvalidOwner'' [TyAddress], AbiError ''OwnableUnauthorizedAccount'' [TyAddress],
      AbiError ''WithdrawReservationExists'' [], AbiError ''WithdrawalFailed'' [],
      AbiError ''WithdrawalNotAllowedYet'' [], AbiError ''ZeroAddress'' [],
      AbiError ''ZeroDepositAmount'' [],
      AbiEvent ''FeeDeposit'' [(TyAddress, True), (TyUint 256, False), (TyUint 256, False), (TyUint 256,
        False)],
      AbiEvent ''FeePaybackFailed'' [(TyAddress, True), (TyUint 256, False)],
      AbiEvent ''FeeWithdrawal'' [(TyUint 256, False)],
      AbiEvent ''OwnershipTransferred'' [(TyAddress, True), (TyAddress, True)],
      AbiEvent ''RewardAddressRegistered'' [(TyAddress, True), (TyAddress, True)],
      AbiEvent ''SearcherPaybackRateUpdated'' [(TyUint 256, False)],
      AbiEvent ''ValidatorPaybackRateUpdated'' [(TyUint 256, False)],
      AbiFunction ''ADDRESS_BOOK'' [] [TyAddress] View,
      AbiFunction ''MAX_PAYBACK_RATE'' [] [TyUint 256] View,
      AbiFunction ''accumulatedBids'' [] [TyUint 256] View,
      AbiFunction ''getRewardAddr'' [TyAddress] [TyAddress] View, AbiFunction ''owner'' [] [TyAddress] View,
      AbiFunction ''registerRewardAddress'' [TyAddress, TyAddress] [] NonPayable,
      AbiFunction ''registerRewardAddresses'' [TyArray TyAddress, TyArray TyAddress] [] NonPayable,
      AbiFunction ''renounceOwnership'' [] [] NonPayable,
      AbiFunction ''searcherPaybackRate'' [] [TyUint 256] View,
      AbiFunction ''setSearcherPaybackRate'' [TyUint 256] [] NonPayable,
      AbiFunction ''setValidatorPaybackRate'' [TyUint 256] [] NonPayable,
      AbiFunction ''takeBid'' [TyAddress] [] Payable,
      AbiFunction ''transferOwnership'' [TyAddress] [] NonPayable,
      AbiFunction ''validatorPaybackRate'' [] [TyUint 256] View,
      AbiFunction ''withdraw'' [TyAddress] [] NonPayable]"

definition AuctionFeeVault_Sigs :: "(string \<times> string) list" where
  "AuctionFeeVault_Sigs = [(''0ccfe3e2'', ''ADDRESS_BOOK()''), (''c5c1fc04'', ''MAX_PAYBACK_RATE()''),
      (''49723142'', ''accumulatedBids()''), (''27a50f72'', ''getRewardAddr(address)''),
      (''8da5cb5b'', ''owner()''), (''363d5183'', ''registerRewardAddress(address,address)''),
      (''6227cdc9'', ''registerRewardAddresses(address[],address[])''),
      (''715018a6'', ''renounceOwnership()''), (''3c702fbd'', ''searcherPaybackRate()''),
      (''36cf2c63'', ''setSearcherPaybackRate(uint256)''),
      (''11062696'', ''setValidatorPaybackRate(uint256)''), (''8573e2ff'', ''takeBid(address)''),
      (''f2fde38b'', ''transferOwnership(address)''), (''89b703aa'', ''validatorPaybackRate()''),
      (''51cff8d9'', ''withdraw(address)'')]"

definition internalTxContractABI_json :: "abi_entry list" where
  "internalTxContractABI_json = [AbiConstructor [TyAddress, TyUint 256, TyUint 256] NonPayable,
      AbiEvent ''Deposit'' [(TyAddress, True), (TyUint 256, False)],
      AbiEvent ''UpdateCardContractAddress'' [(TyAddress, False)],
      AbiEvent ''UpdateOwner'' [(TyAddress, True)], AbiEvent ''UpdateRewardForHost'' [(TyUint 256, False)],
      AbiEvent ''UpdateRewardForInvitee'' [(TyUint 256, False)],
      AbiEvent ''sendHostReward'' [(TyAddress, True), (TyUint 256, True)],
      AbiEvent ''sendInviteeReward'' [(TyAddress, True), (TyUint 256, True)], AbiFallback Payable,
      AbiFunction ''CARD_CONTRACT_ADDRESS'' [] [TyAddress] View,
      AbiFunction ''REWARD_FOR_HOST'' [] [TyUint 256] View,
      AbiFunction ''REWARD_FOR_INVITEE'' [] [TyUint 256] View,
      AbiFunction ''TOTAL_REWARD'' [] [TyUint 256] View,
      AbiFunction ''invitationCount'' [] [TyUint 256] View,
      AbiFunction ''onERC721Received'' [TyAddress, TyAddress, TyUint 256, TyBytes] [TyFixed 4] View,
      AbiFunction ''onKIP17Received'' [TyAddress, TyAddress, TyUint 256, TyBytes] [TyFixed 4] View,
      AbiFunction ''owner'' [] [TyAddress] View, AbiFunction ''rewardCount'' [TyAddress] [TyUint 8] View,
      AbiFunction ''sendRewards'' [TyAddress, TyAddress] [] Payable]"

definition internalTxKIP17TokenContractABI_json :: "abi_entry list" where
  "internalTxKIP17TokenContractABI_json = [AbiConstructor [] NonPayable,
      AbiEvent ''Approval'' [(TyAddress, True), (TyAddress, True), (TyUint 256, True)],
      AbiEvent ''ApprovalForAll'' [(TyAddress, True), (TyAddress, True), (TyBool, False)],
      AbiEvent ''Transfer'' [(TyAddress, True), (TyAddress, True), (TyUint 256, True)],
      AbiFunction ''approve'' [TyAddress, TyUint 256] [] NonPayable,
      AbiFunction ''balanceOf'' [TyAddress] [TyUint 256] View,
      AbiFunction ''cardMaxId'' [] [TyUint 256] View,
      AbiFunction ''getApproved'' [TyUint 256] [TyAddress] View,
      AbiFunction ''isApprovedForAll'' [TyAddress, TyAddress] [TyBool] View,
      AbiFunction ''mintCard'' [] [] Payable, AbiFunction ''owner'' [] [TyAddress] View,
      AbiFunction ''ownerOf'' [TyUint 256] [TyAddress] View,
      AbiFunction ''safeTransferFrom'' [TyAddress, TyAddress, TyUint 256] [] NonPayable,
      AbiFunction ''safeTransferFrom'' [TyAddress, TyAddress, TyUint 256, TyBytes] [] NonPayable,
      AbiFunction ''setApprovalForAll'' [TyAddress, TyBool] [] NonPayable,
      AbiFunction ''supportsInterface'' [TyFixed 4] [TyBool] View,
      AbiFunction ''tokenByIndex'' [TyUint 256] [TyUint 256] View,
      AbiFunction ''tokenOfOwnerByIndex'' [TyAddress, TyUint 256] [TyUint 256] View,
      AbiFunction ''totalSupply'' [] [TyUint 256] View,
      AbiFunction ''transferFrom'' [TyAddress, TyAddress, TyUint 256] [] NonPayable]"

section \<open>The interfaces and libraries of the auction files\<close>

text \<open>
  Each auction file also binds the interfaces, base contracts and libraries that its contract was compiled with. The
  prefix is the package: \<open>ep\<close> is \<open>auctionEntryPoint\<close>, \<open>dv\<close> is \<open>auctionDepositVault\<close>, \<open>fv\<close> is \<open>auctionFeeVault\<close>.
\<close>

definition ep_AuctionError_json :: "abi_entry list" where
  "ep_AuctionError_json = [AbiError ''EmptyDepositVault'' [], AbiError ''InvalidInput'' [],
      AbiError ''InvalidRange'' [], AbiError ''MinDepositNotOver'' [],
      AbiError ''OnlyAuctionDepositVault'' [], AbiError ''OnlyEntryPoint'' [], AbiError ''OnlyProposer'' [],
      AbiError ''OnlyStakingAdmin'' [], AbiError ''WithdrawReservationExists'' [],
      AbiError ''WithdrawalFailed'' [], AbiError ''WithdrawalNotAllowedYet'' [],
      AbiError ''ZeroAddress'' [], AbiError ''ZeroDepositAmount'' []]"

definition ep_Context_json :: "abi_entry list" where
  "ep_Context_json = []"

definition ep_ECDSA_json :: "abi_entry list" where
  "ep_ECDSA_json = [AbiError ''ECDSAInvalidSignature'' [],
      AbiError ''ECDSAInvalidSignatureLength'' [TyUint 256],
      AbiError ''ECDSAInvalidSignatureS'' [TyFixed 32]]"

definition ep_EIP712_json :: "abi_entry list" where
  "ep_EIP712_json = [AbiError ''InvalidShortString'' [], AbiError ''StringTooLong'' [TyString],
      AbiEvent ''EIP712DomainChanged'' [],
      AbiFunction ''eip712Domain'' [] [TyFixed 1, TyString, TyString, TyUint 256, TyAddress, TyFixed 32,
        TyArray (TyUint 256)] View]"

definition ep_EIP712_Sigs :: "(string \<times> string) list" where
  "ep_EIP712_Sigs = [(''84b0196e'', ''eip712Domain()'')]"

definition ep_IAuctionDepositVault_json :: "abi_entry list" where
  "ep_IAuctionDepositVault_json = [
      AbiEvent ''ChangeAuctionFeeVault'' [(TyAddress, False), (TyAddress, False)],
      AbiEvent ''ChangeMinDepositAmount'' [(TyUint 256, False), (TyUint 256, False)],
      AbiEvent ''ChangeMinWithdrawLocktime'' [(TyUint 256, False), (TyUint 256, False)],
      AbiEvent ''InsufficientBalance'' [(TyAddress, False), (TyUint 256, False), (TyUint 256, False)],
      AbiEvent ''TakenBid'' [(TyAddress, False), (TyUint 256, False)],
      AbiEvent ''TakenBidFailed'' [(TyAddress, False), (TyUint 256, False)],
      AbiEvent ''TakenGas'' [(TyAddress, False), (TyUint 256, False)],
      AbiEvent ''TakenGasFailed'' [(TyAddress, False), (TyUint 256, False)],
      AbiEvent ''VaultDeposit'' [(TyAddress, False), (TyUint 256, False), (TyUint 256, False), (TyUint 256,
        False)],
      AbiEvent ''VaultReserveWithdraw'' [(TyAddress, False), (TyUint 256, False), (TyUint 256, False)],
      AbiEvent ''VaultWithdraw'' [(TyAddress, False), (TyUint 256, False), (TyUint 256, False)],
      AbiFunction ''changeAuctionFeeVault'' [TyAddress] [] NonPayable,
      AbiFunction ''changeMinDepositAmount'' [TyUint 256] [] NonPayable,
      AbiFunction ''changeMinWithdrawLocktime'' [TyUint 256] [] NonPayable,
      AbiFunction ''deposit'' [] [] Payable, AbiFunction ''depositBalances'' [TyAddress] [TyUint 256] View,
      AbiFunction ''depositFor'' [TyAddress] [] Payable,
      AbiFunction ''getAllAddrsOverMinDeposit'' [TyUint 256, TyUint 256] [TyArray TyAddress,
        TyArray (TyUint 256), TyArray (TyUint 256)] View,
      AbiFunction ''getDepositAddrs'' [TyUint 256, TyUint 256] [TyArray TyAddress] View,
      AbiFunction ''getDepositAddrsLength'' [] [TyUint 256] View,
      AbiFunction ''isMinDepositOver'' [TyAddress] [TyBool] View,
      AbiFunction ''reserveWithdraw'' [] [] NonPayable,
      AbiFunction ''takeBid'' [TyAddress, TyUint 256] [TyBool] NonPayable,
      AbiFunction ''takeGas'' [TyAddress, TyUint 256] [TyBool] NonPayable,
      AbiFunction ''withdraw'' [] [] NonPayable]"

definition ep_IAuctionDepositVault_Sigs :: "(string \<times> string) list" where
  "ep_IAuctionDepositVault_Sigs = [(''c2cf75ec'', ''changeAuctionFeeVault(address)''),
      (''8caad7b5'', ''changeMinDepositAmount(uint256)''),
      (''39253624'', ''changeMinWithdrawLocktime(uint256)''), (''d0e30db0'', ''deposit()''),
      (''1eb903cf'', ''depositBalances(address)''), (''aa67c919'', ''depositFor(address)''),
      (''5be1a55e'', ''getAllAddrsOverMinDeposit(uint256,uint256)''),
      (''e45076ac'', ''getDepositAddrs(uint256,uint256)''), (''84792e0b'', ''getDepositAddrsLength()''),
      (''48f928e8'', ''isMinDepositOver(address)''), (''bea39cab'', ''reserveWithdraw()''),
      (''08bf759d'', ''takeBid(address,uint256)''), (''b4fdfae5'', ''takeGas(address,uint256)''),
      (''3ccfd60b'', ''withdraw()'')]"

definition ep_IAuctionEntryPoint_json :: "abi_entry list" where
  "ep_IAuctionEntryPoint_json = [AbiEvent ''Call'' [(TyAddress, False), (TyUint 256, False)],
      AbiEvent ''CallFailed'' [(TyAddress, False), (TyUint 256, False)],
      AbiEvent ''ChangeAuctioneer'' [(TyAddress, False), (TyAddress, False)],
      AbiEvent ''ChangeDepositVault'' [(TyAddress, False), (TyAddress, False)],
      AbiEvent ''ChangeGasParameters'' [(TyUint 256, False), (TyUint 256, False), (TyUint 256, False),
        (TyUint 256, False), (TyUint 256, False)],
      AbiEvent ''UseNonce'' [(TyAddress, False), (TyUint 256, False)],
      AbiFunction ''auctioneer'' [] [TyAddress] View,
      AbiFunction ''call'' [TyTuple ''IAuctionEntryPoint.AuctionTx'' [TyFixed 32, TyUint 256, TyAddress,
        TyAddress, TyUint 256, TyUint 256, TyUint 256, TyBytes, TyBytes, TyBytes]] [] NonPayable,
      AbiFunction ''changeAuctioneer'' [TyAddress] [] NonPayable,
      AbiFunction ''changeDepositVault'' [TyAddress] [] NonPayable,
      AbiFunction ''changeGasParameters'' [TyUint 256, TyUint 256, TyUint 256, TyUint 256,
        TyUint 256] [] NonPayable,
      AbiFunction ''depositVault'' [] [TyAddress] View,
      AbiFunction ''gasBufferEstimate'' [] [TyUint 256] View,
      AbiFunction ''gasBufferUnmeasured'' [] [TyUint 256] View,
      AbiFunction ''gasContractExecution'' [] [TyUint 256] View,
      AbiFunction ''gasPerByteEip7623'' [] [TyUint 256] View,
      AbiFunction ''gasPerByteIntrinsic'' [] [TyUint 256] View,
      AbiFunction ''getAuctionTxHash'' [TyTuple ''IAuctionEntryPoint.AuctionTx'' [TyFixed 32, TyUint 256,
        TyAddress, TyAddress, TyUint 256, TyUint 256, TyUint 256, TyBytes, TyBytes, TyBytes]] [TyFixed 32] View,
      AbiFunction ''getNoncesAndDeposits'' [TyArray TyAddress] [TyArray (TyUint 256),
        TyArray (TyUint 256)] View]"

definition ep_IAuctionEntryPoint_Sigs :: "(string \<times> string) list" where
  "ep_IAuctionEntryPoint_Sigs = [(''5ec2c7bf'', ''auctioneer()''),
      (''ca157554'', ''call((bytes32,uint256,address,address,uint256,uint256,uint256,bytes,bytes,bytes))''),
      (''774f45ec'', ''changeAuctioneer(address)''), (''9d59928b'', ''changeDepositVault(address)''),
      (''2a215610'', ''changeGasParameters(uint256,uint256,uint256,uint256,uint256)''),
      (''d7cd3949'', ''depositVault()''), (''a5b2ab40'', ''gasBufferEstimate()''),
      (''145aa6c7'', ''gasBufferUnmeasured()''), (''c62a1105'', ''gasContractExecution()''),
      (''5e155d7a'', ''gasPerByteEip7623()''), (''ea147667'', ''gasPerByteIntrinsic()''),
      (''a8aa9450'',
        ''getAuctionTxHash((bytes32,uint256,address,address,uint256,uint256,uint256,bytes,bytes,bytes))''),
      (''0339ed37'', ''getNoncesAndDeposits(address[])'')]"

definition ep_IERC5267_json :: "abi_entry list" where
  "ep_IERC5267_json = [AbiEvent ''EIP712DomainChanged'' [],
      AbiFunction ''eip712Domain'' [] [TyFixed 1, TyString, TyString, TyUint 256, TyAddress, TyFixed 32,
        TyArray (TyUint 256)] View]"

definition ep_IERC5267_Sigs :: "(string \<times> string) list" where
  "ep_IERC5267_Sigs = [(''84b0196e'', ''eip712Domain()'')]"

definition ep_Math_json :: "abi_entry list" where
  "ep_Math_json = [AbiError ''MathOverflowedMulDiv'' []]"

definition ep_MessageHashUtils_json :: "abi_entry list" where
  "ep_MessageHashUtils_json = []"

definition ep_Nonces_json :: "abi_entry list" where
  "ep_Nonces_json = [AbiError ''InvalidAccountNonce'' [TyAddress, TyUint 256],
      AbiFunction ''nonces'' [TyAddress] [TyUint 256] View]"

definition ep_Nonces_Sigs :: "(string \<times> string) list" where
  "ep_Nonces_Sigs = [(''7ecebe00'', ''nonces(address)'')]"

definition ep_Ownable_json :: "abi_entry list" where
  "ep_Ownable_json = [AbiError ''OwnableInvalidOwner'' [TyAddress],
      AbiError ''OwnableUnauthorizedAccount'' [TyAddress],
      AbiEvent ''OwnershipTransferred'' [(TyAddress, True), (TyAddress, True)],
      AbiFunction ''owner'' [] [TyAddress] View, AbiFunction ''renounceOwnership'' [] [] NonPayable,
      AbiFunction ''transferOwnership'' [TyAddress] [] NonPayable]"

definition ep_Ownable_Sigs :: "(string \<times> string) list" where
  "ep_Ownable_Sigs = [(''8da5cb5b'', ''owner()''), (''715018a6'', ''renounceOwnership()''),
      (''f2fde38b'', ''transferOwnership(address)'')]"

definition ep_ShortStrings_json :: "abi_entry list" where
  "ep_ShortStrings_json = [AbiError ''InvalidShortString'' [], AbiError ''StringTooLong'' [TyString]]"

definition ep_SignedMath_json :: "abi_entry list" where
  "ep_SignedMath_json = []"

definition ep_StorageSlot_json :: "abi_entry list" where
  "ep_StorageSlot_json = []"

definition ep_Strings_json :: "abi_entry list" where
  "ep_Strings_json = [AbiError ''StringsInsufficientHexLength'' [TyUint 256, TyUint 256]]"

definition dv_AuctionError_json :: "abi_entry list" where
  "dv_AuctionError_json = [AbiError ''EmptyDepositVault'' [], AbiError ''InvalidInput'' [],
      AbiError ''InvalidRange'' [], AbiError ''MinDepositNotOver'' [],
      AbiError ''OnlyAuctionDepositVault'' [], AbiError ''OnlyEntryPoint'' [], AbiError ''OnlyProposer'' [],
      AbiError ''OnlyStakingAdmin'' [], AbiError ''WithdrawReservationExists'' [],
      AbiError ''WithdrawalFailed'' [], AbiError ''WithdrawalNotAllowedYet'' [],
      AbiError ''ZeroAddress'' [], AbiError ''ZeroDepositAmount'' []]"

definition dv_Context_json :: "abi_entry list" where
  "dv_Context_json = []"

definition dv_EnumerableSet_json :: "abi_entry list" where
  "dv_EnumerableSet_json = []"

definition dv_IAuctionDepositVault_json :: "abi_entry list" where
  "dv_IAuctionDepositVault_json = [
      AbiEvent ''ChangeAuctionFeeVault'' [(TyAddress, False), (TyAddress, False)],
      AbiEvent ''ChangeMinDepositAmount'' [(TyUint 256, False), (TyUint 256, False)],
      AbiEvent ''ChangeMinWithdrawLocktime'' [(TyUint 256, False), (TyUint 256, False)],
      AbiEvent ''InsufficientBalance'' [(TyAddress, False), (TyUint 256, False), (TyUint 256, False)],
      AbiEvent ''TakenBid'' [(TyAddress, False), (TyUint 256, False)],
      AbiEvent ''TakenBidFailed'' [(TyAddress, False), (TyUint 256, False)],
      AbiEvent ''TakenGas'' [(TyAddress, False), (TyUint 256, False)],
      AbiEvent ''TakenGasFailed'' [(TyAddress, False), (TyUint 256, False)],
      AbiEvent ''VaultDeposit'' [(TyAddress, False), (TyUint 256, False), (TyUint 256, False), (TyUint 256,
        False)],
      AbiEvent ''VaultReserveWithdraw'' [(TyAddress, False), (TyUint 256, False), (TyUint 256, False)],
      AbiEvent ''VaultWithdraw'' [(TyAddress, False), (TyUint 256, False), (TyUint 256, False)],
      AbiFunction ''changeAuctionFeeVault'' [TyAddress] [] NonPayable,
      AbiFunction ''changeMinDepositAmount'' [TyUint 256] [] NonPayable,
      AbiFunction ''changeMinWithdrawLocktime'' [TyUint 256] [] NonPayable,
      AbiFunction ''deposit'' [] [] Payable, AbiFunction ''depositBalances'' [TyAddress] [TyUint 256] View,
      AbiFunction ''depositFor'' [TyAddress] [] Payable,
      AbiFunction ''getAllAddrsOverMinDeposit'' [TyUint 256, TyUint 256] [TyArray TyAddress,
        TyArray (TyUint 256), TyArray (TyUint 256)] View,
      AbiFunction ''getDepositAddrs'' [TyUint 256, TyUint 256] [TyArray TyAddress] View,
      AbiFunction ''getDepositAddrsLength'' [] [TyUint 256] View,
      AbiFunction ''isMinDepositOver'' [TyAddress] [TyBool] View,
      AbiFunction ''reserveWithdraw'' [] [] NonPayable,
      AbiFunction ''takeBid'' [TyAddress, TyUint 256] [TyBool] NonPayable,
      AbiFunction ''takeGas'' [TyAddress, TyUint 256] [TyBool] NonPayable,
      AbiFunction ''withdraw'' [] [] NonPayable]"

definition dv_IAuctionDepositVault_Sigs :: "(string \<times> string) list" where
  "dv_IAuctionDepositVault_Sigs = [(''c2cf75ec'', ''changeAuctionFeeVault(address)''),
      (''8caad7b5'', ''changeMinDepositAmount(uint256)''),
      (''39253624'', ''changeMinWithdrawLocktime(uint256)''), (''d0e30db0'', ''deposit()''),
      (''1eb903cf'', ''depositBalances(address)''), (''aa67c919'', ''depositFor(address)''),
      (''5be1a55e'', ''getAllAddrsOverMinDeposit(uint256,uint256)''),
      (''e45076ac'', ''getDepositAddrs(uint256,uint256)''), (''84792e0b'', ''getDepositAddrsLength()''),
      (''48f928e8'', ''isMinDepositOver(address)''), (''bea39cab'', ''reserveWithdraw()''),
      (''08bf759d'', ''takeBid(address,uint256)''), (''b4fdfae5'', ''takeGas(address,uint256)''),
      (''3ccfd60b'', ''withdraw()'')]"

definition dv_IAuctionEntryPoint_json :: "abi_entry list" where
  "dv_IAuctionEntryPoint_json = [AbiEvent ''Call'' [(TyAddress, False), (TyUint 256, False)],
      AbiEvent ''CallFailed'' [(TyAddress, False), (TyUint 256, False)],
      AbiEvent ''ChangeAuctioneer'' [(TyAddress, False), (TyAddress, False)],
      AbiEvent ''ChangeDepositVault'' [(TyAddress, False), (TyAddress, False)],
      AbiEvent ''ChangeGasParameters'' [(TyUint 256, False), (TyUint 256, False), (TyUint 256, False),
        (TyUint 256, False), (TyUint 256, False)],
      AbiEvent ''UseNonce'' [(TyAddress, False), (TyUint 256, False)],
      AbiFunction ''auctioneer'' [] [TyAddress] View,
      AbiFunction ''call'' [TyTuple ''IAuctionEntryPoint.AuctionTx'' [TyFixed 32, TyUint 256, TyAddress,
        TyAddress, TyUint 256, TyUint 256, TyUint 256, TyBytes, TyBytes, TyBytes]] [] NonPayable,
      AbiFunction ''changeAuctioneer'' [TyAddress] [] NonPayable,
      AbiFunction ''changeDepositVault'' [TyAddress] [] NonPayable,
      AbiFunction ''changeGasParameters'' [TyUint 256, TyUint 256, TyUint 256, TyUint 256,
        TyUint 256] [] NonPayable,
      AbiFunction ''depositVault'' [] [TyAddress] View,
      AbiFunction ''gasBufferEstimate'' [] [TyUint 256] View,
      AbiFunction ''gasBufferUnmeasured'' [] [TyUint 256] View,
      AbiFunction ''gasContractExecution'' [] [TyUint 256] View,
      AbiFunction ''gasPerByteEip7623'' [] [TyUint 256] View,
      AbiFunction ''gasPerByteIntrinsic'' [] [TyUint 256] View,
      AbiFunction ''getAuctionTxHash'' [TyTuple ''IAuctionEntryPoint.AuctionTx'' [TyFixed 32, TyUint 256,
        TyAddress, TyAddress, TyUint 256, TyUint 256, TyUint 256, TyBytes, TyBytes, TyBytes]] [TyFixed 32] View,
      AbiFunction ''getNoncesAndDeposits'' [TyArray TyAddress] [TyArray (TyUint 256),
        TyArray (TyUint 256)] View]"

definition dv_IAuctionEntryPoint_Sigs :: "(string \<times> string) list" where
  "dv_IAuctionEntryPoint_Sigs = [(''5ec2c7bf'', ''auctioneer()''),
      (''ca157554'', ''call((bytes32,uint256,address,address,uint256,uint256,uint256,bytes,bytes,bytes))''),
      (''774f45ec'', ''changeAuctioneer(address)''), (''9d59928b'', ''changeDepositVault(address)''),
      (''2a215610'', ''changeGasParameters(uint256,uint256,uint256,uint256,uint256)''),
      (''d7cd3949'', ''depositVault()''), (''a5b2ab40'', ''gasBufferEstimate()''),
      (''145aa6c7'', ''gasBufferUnmeasured()''), (''c62a1105'', ''gasContractExecution()''),
      (''5e155d7a'', ''gasPerByteEip7623()''), (''ea147667'', ''gasPerByteIntrinsic()''),
      (''a8aa9450'',
        ''getAuctionTxHash((bytes32,uint256,address,address,uint256,uint256,uint256,bytes,bytes,bytes))''),
      (''0339ed37'', ''getNoncesAndDeposits(address[])'')]"

definition dv_IAuctionFeeVault_json :: "abi_entry list" where
  "dv_IAuctionFeeVault_json = [
      AbiEvent ''FeeDeposit'' [(TyAddress, True), (TyUint 256, False), (TyUint 256, False), (TyUint 256,
        False)],
      AbiEvent ''FeePaybackFailed'' [(TyAddress, True), (TyUint 256, False)],
      AbiEvent ''FeeWithdrawal'' [(TyUint 256, False)],
      AbiEvent ''RewardAddressRegistered'' [(TyAddress, True), (TyAddress, True)],
      AbiEvent ''SearcherPaybackRateUpdated'' [(TyUint 256, False)],
      AbiEvent ''ValidatorPaybackRateUpdated'' [(TyUint 256, False)],
      AbiFunction ''getRewardAddr'' [TyAddress] [TyAddress] View,
      AbiFunction ''registerRewardAddress'' [TyAddress, TyAddress] [] NonPayable,
      AbiFunction ''registerRewardAddresses'' [TyArray TyAddress, TyArray TyAddress] [] NonPayable,
      AbiFunction ''setSearcherPaybackRate'' [TyUint 256] [] NonPayable,
      AbiFunction ''setValidatorPaybackRate'' [TyUint 256] [] NonPayable,
      AbiFunction ''takeBid'' [TyAddress] [] Payable, AbiFunction ''withdraw'' [TyAddress] [] NonPayable]"

definition dv_IAuctionFeeVault_Sigs :: "(string \<times> string) list" where
  "dv_IAuctionFeeVault_Sigs = [(''27a50f72'', ''getRewardAddr(address)''),
      (''363d5183'', ''registerRewardAddress(address,address)''),
      (''6227cdc9'', ''registerRewardAddresses(address[],address[])''),
      (''36cf2c63'', ''setSearcherPaybackRate(uint256)''),
      (''11062696'', ''setValidatorPaybackRate(uint256)''), (''8573e2ff'', ''takeBid(address)''),
      (''51cff8d9'', ''withdraw(address)'')]"

definition dv_INonce_json :: "abi_entry list" where
  "dv_INonce_json = [AbiFunction ''nonces'' [TyAddress] [TyUint 256] View]"

definition dv_INonce_Sigs :: "(string \<times> string) list" where
  "dv_INonce_Sigs = [(''7ecebe00'', ''nonces(address)'')]"

definition dv_IRegistry_json :: "abi_entry list" where
  "dv_IRegistry_json = [AbiFunction ''getActiveAddr'' [TyString] [TyAddress] View]"

definition dv_IRegistry_Sigs :: "(string \<times> string) list" where
  "dv_IRegistry_Sigs = [(''e2693e3f'', ''getActiveAddr(string)'')]"

definition dv_Ownable_json :: "abi_entry list" where
  "dv_Ownable_json = [AbiError ''OwnableInvalidOwner'' [TyAddress],
      AbiError ''OwnableUnauthorizedAccount'' [TyAddress],
      AbiEvent ''OwnershipTransferred'' [(TyAddress, True), (TyAddress, True)],
      AbiFunction ''owner'' [] [TyAddress] View, AbiFunction ''renounceOwnership'' [] [] NonPayable,
      AbiFunction ''transferOwnership'' [TyAddress] [] NonPayable]"

definition dv_Ownable_Sigs :: "(string \<times> string) list" where
  "dv_Ownable_Sigs = [(''8da5cb5b'', ''owner()''), (''715018a6'', ''renounceOwnership()''),
      (''f2fde38b'', ''transferOwnership(address)'')]"

definition fv_AuctionError_json :: "abi_entry list" where
  "fv_AuctionError_json = [AbiError ''EmptyDepositVault'' [], AbiError ''InvalidInput'' [],
      AbiError ''InvalidRange'' [], AbiError ''MinDepositNotOver'' [],
      AbiError ''OnlyAuctionDepositVault'' [], AbiError ''OnlyEntryPoint'' [], AbiError ''OnlyProposer'' [],
      AbiError ''OnlyStakingAdmin'' [], AbiError ''WithdrawReservationExists'' [],
      AbiError ''WithdrawalFailed'' [], AbiError ''WithdrawalNotAllowedYet'' [],
      AbiError ''ZeroAddress'' [], AbiError ''ZeroDepositAmount'' []]"

definition fv_Context_json :: "abi_entry list" where
  "fv_Context_json = []"

definition fv_EnumerableSet_json :: "abi_entry list" where
  "fv_EnumerableSet_json = []"

definition fv_IAddressBook_json :: "abi_entry list" where
  "fv_IAddressBook_json = [AbiFunction ''getCnInfo'' [TyAddress] [TyAddress, TyAddress, TyAddress] View]"

definition fv_IAddressBook_Sigs :: "(string \<times> string) list" where
  "fv_IAddressBook_Sigs = [(''15575d5a'', ''getCnInfo(address)'')]"

definition fv_IAuctionFeeVault_json :: "abi_entry list" where
  "fv_IAuctionFeeVault_json = [
      AbiEvent ''FeeDeposit'' [(TyAddress, True), (TyUint 256, False), (TyUint 256, False), (TyUint 256,
        False)],
      AbiEvent ''FeePaybackFailed'' [(TyAddress, True), (TyUint 256, False)],
      AbiEvent ''FeeWithdrawal'' [(TyUint 256, False)],
      AbiEvent ''RewardAddressRegistered'' [(TyAddress, True), (TyAddress, True)],
      AbiEvent ''SearcherPaybackRateUpdated'' [(TyUint 256, False)],
      AbiEvent ''ValidatorPaybackRateUpdated'' [(TyUint 256, False)],
      AbiFunction ''getRewardAddr'' [TyAddress] [TyAddress] View,
      AbiFunction ''registerRewardAddress'' [TyAddress, TyAddress] [] NonPayable,
      AbiFunction ''registerRewardAddresses'' [TyArray TyAddress, TyArray TyAddress] [] NonPayable,
      AbiFunction ''setSearcherPaybackRate'' [TyUint 256] [] NonPayable,
      AbiFunction ''setValidatorPaybackRate'' [TyUint 256] [] NonPayable,
      AbiFunction ''takeBid'' [TyAddress] [] Payable, AbiFunction ''withdraw'' [TyAddress] [] NonPayable]"

definition fv_IAuctionFeeVault_Sigs :: "(string \<times> string) list" where
  "fv_IAuctionFeeVault_Sigs = [(''27a50f72'', ''getRewardAddr(address)''),
      (''363d5183'', ''registerRewardAddress(address,address)''),
      (''6227cdc9'', ''registerRewardAddresses(address[],address[])''),
      (''36cf2c63'', ''setSearcherPaybackRate(uint256)''),
      (''11062696'', ''setValidatorPaybackRate(uint256)''), (''8573e2ff'', ''takeBid(address)''),
      (''51cff8d9'', ''withdraw(address)'')]"

definition fv_IStaking_json :: "abi_entry list" where
  "fv_IStaking_json = [AbiFunction ''isAdmin'' [TyAddress] [TyBool] View]"

definition fv_IStaking_Sigs :: "(string \<times> string) list" where
  "fv_IStaking_Sigs = [(''24d7806c'', ''isAdmin(address)'')]"

definition fv_Ownable_json :: "abi_entry list" where
  "fv_Ownable_json = [AbiError ''OwnableInvalidOwner'' [TyAddress],
      AbiError ''OwnableUnauthorizedAccount'' [TyAddress],
      AbiEvent ''OwnershipTransferred'' [(TyAddress, True), (TyAddress, True)],
      AbiFunction ''owner'' [] [TyAddress] View, AbiFunction ''renounceOwnership'' [] [] NonPayable,
      AbiFunction ''transferOwnership'' [TyAddress] [] NonPayable]"

definition fv_Ownable_Sigs :: "(string \<times> string) list" where
  "fv_Ownable_Sigs = [(''8da5cb5b'', ''owner()''), (''715018a6'', ''renounceOwnership()''),
      (''f2fde38b'', ''transferOwnership(address)'')]"

definition bundled_texts :: "((string \<times> string) \<times> abi_entry list) list" where
  "bundled_texts = [((''auctionEntryPoint'', ''AuctionError''), ep_AuctionError_json),
      ((''auctionEntryPoint'', ''Context''), ep_Context_json),
      ((''auctionEntryPoint'', ''ECDSA''), ep_ECDSA_json),
      ((''auctionEntryPoint'', ''EIP712''), ep_EIP712_json),
      ((''auctionEntryPoint'', ''IAuctionDepositVault''), ep_IAuctionDepositVault_json),
      ((''auctionEntryPoint'', ''IAuctionEntryPoint''), ep_IAuctionEntryPoint_json),
      ((''auctionEntryPoint'', ''IERC5267''), ep_IERC5267_json),
      ((''auctionEntryPoint'', ''Math''), ep_Math_json),
      ((''auctionEntryPoint'', ''MessageHashUtils''), ep_MessageHashUtils_json),
      ((''auctionEntryPoint'', ''Nonces''), ep_Nonces_json),
      ((''auctionEntryPoint'', ''Ownable''), ep_Ownable_json),
      ((''auctionEntryPoint'', ''ShortStrings''), ep_ShortStrings_json),
      ((''auctionEntryPoint'', ''SignedMath''), ep_SignedMath_json),
      ((''auctionEntryPoint'', ''StorageSlot''), ep_StorageSlot_json),
      ((''auctionEntryPoint'', ''Strings''), ep_Strings_json),
      ((''auctionDepositVault'', ''AuctionError''), dv_AuctionError_json),
      ((''auctionDepositVault'', ''Context''), dv_Context_json),
      ((''auctionDepositVault'', ''EnumerableSet''), dv_EnumerableSet_json),
      ((''auctionDepositVault'', ''IAuctionDepositVault''), dv_IAuctionDepositVault_json),
      ((''auctionDepositVault'', ''IAuctionEntryPoint''), dv_IAuctionEntryPoint_json),
      ((''auctionDepositVault'', ''IAuctionFeeVault''), dv_IAuctionFeeVault_json),
      ((''auctionDepositVault'', ''INonce''), dv_INonce_json),
      ((''auctionDepositVault'', ''IRegistry''), dv_IRegistry_json),
      ((''auctionDepositVault'', ''Ownable''), dv_Ownable_json),
      ((''auctionFeeVault'', ''AuctionError''), fv_AuctionError_json),
      ((''auctionFeeVault'', ''Context''), fv_Context_json),
      ((''auctionFeeVault'', ''EnumerableSet''), fv_EnumerableSet_json),
      ((''auctionFeeVault'', ''IAddressBook''), fv_IAddressBook_json),
      ((''auctionFeeVault'', ''IAuctionFeeVault''), fv_IAuctionFeeVault_json),
      ((''auctionFeeVault'', ''IStaking''), fv_IStaking_json),
      ((''auctionFeeVault'', ''Ownable''), fv_Ownable_json)]"

section \<open>Looking up a call\<close>

definition abi_text :: "abi_id \<Rightarrow> abi_entry list option" where
  "abi_text i = (case i of
     erc20ABI \<Rightarrow> Some erc20ABI_json | erc721PerformanceABI \<Rightarrow> Some erc721PerformanceABI_json
   | generalPurposeABI \<Rightarrow> Some generalPurposeABI_json | gaslessApproveABI \<Rightarrow> Some gaslessApproveABI_json
   | gaslessSwapABI \<Rightarrow> Some gaslessSwapABI_json | counterAuctionABI \<Rightarrow> Some counterAuctionABI_json
   | cpuHeavySortABI \<Rightarrow> Some cpuHeavySortABI_json | largeMemoABI \<Rightarrow> Some largeMemoABI_json
   | readApiGetABI \<Rightarrow> Some readApiGetABI_json | readApiSetABI \<Rightarrow> Some readApiSetABI_json
   | userStorageGetABI \<Rightarrow> Some userStorageGetABI_json | userStorageSetABI \<Rightarrow> Some userStorageSetABI_json
   | userStorageGetUserDataABI \<Rightarrow> Some userStorageGetUserDataABI_json
   | mintCardABI \<Rightarrow> Some mintCardABI_json | sendRewardsABI \<Rightarrow> Some sendRewardsABI_json
   | internalTxMainConstructorABI \<Rightarrow> Some internalTxMainConstructorABI_json
   | storageTrieABI \<Rightarrow> Some storageTrieABI_json
   | TestTokenABI \<Rightarrow> None | UniswapV2FactoryABI \<Rightarrow> None | UniswapV2Router02ABI \<Rightarrow> None
   | GaslessSwapRouterABI \<Rightarrow> None
   | AuctionFeeVaultABI \<Rightarrow> Some AuctionFeeVaultABI_json
   | AuctionDepositVaultABI \<Rightarrow> Some AuctionDepositVaultABI_json
   | AuctionEntryPointABI \<Rightarrow> Some AuctionEntryPointABI_json
   | TetherContractTCABI \<Rightarrow> Some TetherContractTCABI_json | TetherProxyABI \<Rightarrow> Some TetherProxyABI_json
   | CpuHeavyTCABI \<Rightarrow> Some CpuHeavyTCABI_json | UserStorageTCABI \<Rightarrow> Some UserStorageTCABI_json
   | LargeMemoTCABI \<Rightarrow> Some LargeMemoTCABI_json
   | ReadApiCallContractTCABI \<Rightarrow> Some ReadApiCallContractTCABI_json
   | internalTxContractABI \<Rightarrow> Some internalTxContractABI_json
   | internalTxKIP17TokenContractABI \<Rightarrow> Some internalTxKIP17TokenContractABI_json
   | BundledABI p n \<Rightarrow> map_of bundled_texts (p, n))"

text \<open>
  What \<open>Pack\<close> looks up: the first function of the name (the ABI library renames the later ones of an
  overloaded name), and for the empty name the constructor, without parameters if none is declared.
\<close>

fun function_inputs :: "abi_entry list \<Rightarrow> string \<Rightarrow> abi_type list option" where
  "function_inputs [] m = None"
| "function_inputs (AbiFunction n ins outs mt # es) m = (if n = m then Some ins else function_inputs es m)"
| "function_inputs (_ # es) m = function_inputs es m"

fun constructor_inputs :: "abi_entry list \<Rightarrow> abi_type list" where
  "constructor_inputs [] = []"
| "constructor_inputs (AbiConstructor ins mt # es) = ins"
| "constructor_inputs (_ # es) = constructor_inputs es"

definition call_inputs :: "abi_entry list \<Rightarrow> string \<Rightarrow> abi_type list option" where
  "call_inputs es m = (if m = [] then Some (constructor_inputs es) else function_inputs es m)"

text \<open>The Go values that \<open>Pack\<close> takes for a type: 256-bit integers are \<open>*big.Int\<close>.\<close>

fun fits :: "abi_type \<Rightarrow> abi_arg \<Rightarrow> bool" where
  "fits TyAddress v = (case v of ArgAddress _ \<Rightarrow> True | _ \<Rightarrow> False)"
| "fits TyBool v = (case v of ArgBool _ \<Rightarrow> True | _ \<Rightarrow> False)"
| "fits TyString v = (case v of ArgString _ \<Rightarrow> True | _ \<Rightarrow> False)"
| "fits TyBytes v = (case v of ArgBytes _ \<Rightarrow> True | _ \<Rightarrow> False)"
| "fits (TyUint n) v = (case v of ArgUint _ \<Rightarrow> n = 256 | ArgUint8 _ \<Rightarrow> n = 8 | _ \<Rightarrow> False)"
| "fits (TyFixed n) v = (case v of ArgFixed b \<Rightarrow> length b = n | _ \<Rightarrow> False)"
| "fits (TyArray t) v = (case v of ArgArray vs \<Rightarrow> list_all (fits t) vs | _ \<Rightarrow> False)"
| "fits (TyTuple n ts) v = (case v of ArgTuple vs \<Rightarrow> list_all2 fits ts vs | _ \<Rightarrow> False)"

text \<open>
  The documented behaviour of the ABI library: it reads the texts, and it packs a call of a function (or the
  constructor) that the text has, with one value of the right kind per parameter. \<open>kaiaABI\<close> are the texts of
  the kaia module.
\<close>

definition text_of :: "(abi_id \<Rightarrow> abi_entry list) \<Rightarrow> abi_id \<Rightarrow> abi_entry list" where
  "text_of kaiaABI i = (case abi_text i of None \<Rightarrow> kaiaABI i | Some es \<Rightarrow> es)"

definition well_typed :: "(abi_id \<Rightarrow> abi_entry list) \<Rightarrow> abi_id \<Rightarrow> string \<Rightarrow> abi_arg list \<Rightarrow> bool" where
  "well_typed texts i m args =
     (case call_inputs (texts i) m of None \<Rightarrow> False | Some ts \<Rightarrow> list_all2 fits ts args)"

definition abi_accepts :: "(abi_id \<Rightarrow> abi_entry list) \<Rightarrow> abi_lib \<Rightarrow> bool" where
  "abi_accepts texts B \<longleftrightarrow> (\<forall>i. abiJSON B i = None) \<and>
     (\<forall>i m args. well_typed texts i m args \<longrightarrow> (\<exists>d. abiPack B i m args = Inr d))"

lemma abi_acceptsD:
  assumes "abi_accepts texts B"
  shows "abiJSON B i = None"
    and "well_typed texts i m args \<Longrightarrow> \<exists>d. abiPack B i m args = Inr d"
  using assms by (auto simp: abi_accepts_def)

lemma PackContractCall_accepts:
  assumes "abi_accepts texts B" and "well_typed texts i m args"
  shows "\<exists>d. PackContractCall B i m args = Ret d"
  using abi_acceptsD(2) [OF assms] by (auto simp: PackContractCall_def abi_acceptsD(1) [OF assms(1)])

section \<open>Canonical signatures\<close>

text \<open>The text from which the selector of a function is computed, e.g. \<open>transfer(address,uint256)\<close>.\<close>

fun type_text :: "abi_type \<Rightarrow> string" where
  "type_text TyAddress = ''address''"
| "type_text TyBool = ''bool''"
| "type_text TyString = ''string''"
| "type_text TyBytes = ''bytes''"
| "type_text (TyUint n) = ''uint'' @ int_text 10 (int n)"
| "type_text (TyFixed n) = ''bytes'' @ int_text 10 (int n)"
| "type_text (TyArray t) = type_text t @ ''[]''"
| "type_text (TyTuple n ts) = ''('' @ join_with (CHR '','') (map type_text ts) @ '')''"

definition signature :: "string \<Rightarrow> abi_type list \<Rightarrow> string" where
  "signature n ins = n @ ''('' @ join_with (CHR '','') (map type_text ins) @ '')''"

fun signatures :: "abi_entry list \<Rightarrow> string list" where
  "signatures [] = []"
| "signatures (AbiFunction n ins outs mt # es) = signature n ins # signatures es"
| "signatures (_ # es) = signatures es"

end
