(* ===== verification/Bindings.thy ===== *)
theory Bindings
  imports Abi_Tables
begin

text \<open>
  The generated contract bindings under \<open>klayslave/account/contracts/\<close>. All files follow one pattern; this
  theory models the pattern, with \<open>cpuHeavy/CPUHeavy.go\<close> as its instance: binding a contract to an
  address, deploying it, the read and write methods with their session and raw forms, and the parsing of
  events. The iterators and subscriptions of events are in \<open>Event_Streams\<close>, the tables of the contracts
  in \<open>Binding_Tables\<close> and \<open>Auction_Bindings\<close>. The package \<open>bind\<close> is external: \<open>bind_lib\<close> is its interface.
\<close>

section \<open>Go types of a binding\<close>

datatype go_type =
    GoAddress | GoBigInt | GoUint8 | GoBool | GoString | GoBytes | GoFixed nat
  | GoSlice go_type | GoStruct string "go_type list"

fun has_type :: "go_type \<Rightarrow> abi_arg \<Rightarrow> bool" where
  "has_type GoAddress v = (case v of ArgAddress _ \<Rightarrow> True | _ \<Rightarrow> False)"
| "has_type GoBigInt v = (case v of ArgUint _ \<Rightarrow> True | ArgNil \<Rightarrow> True | _ \<Rightarrow> False)"
| "has_type GoUint8 v = (case v of ArgUint8 _ \<Rightarrow> True | _ \<Rightarrow> False)"
| "has_type GoBool v = (case v of ArgBool _ \<Rightarrow> True | _ \<Rightarrow> False)"
| "has_type GoString v = (case v of ArgString _ \<Rightarrow> True | _ \<Rightarrow> False)"
| "has_type GoBytes v = (case v of ArgBytes _ \<Rightarrow> True | ArgNil \<Rightarrow> True | _ \<Rightarrow> False)"
| "has_type (GoFixed n) v = (case v of ArgFixed b \<Rightarrow> length b = n | _ \<Rightarrow> False)"
| "has_type (GoSlice t) v = (case v of ArgArray vs \<Rightarrow> list_all (has_type t) vs | ArgNil \<Rightarrow> True | _ \<Rightarrow> False)"
| "has_type (GoStruct n ts) v = (case v of ArgTuple vs \<Rightarrow> list_all2 has_type ts vs | _ \<Rightarrow> False)"

text \<open>\<open>*new(T)\<close>: the zero value of a type.\<close>

fun zero_value :: "go_type \<Rightarrow> abi_arg" where
  "zero_value GoAddress = ArgAddress 0"
| "zero_value GoBigInt = ArgNil"
| "zero_value GoUint8 = ArgUint8 0"
| "zero_value GoBool = ArgBool False"
| "zero_value GoString = ArgString []"
| "zero_value GoBytes = ArgNil"
| "zero_value (GoFixed n) = ArgFixed (replicate n 0)"
| "zero_value (GoSlice t) = ArgNil"
| "zero_value (GoStruct n ts) = ArgTuple (map zero_value ts)"

section \<open>The tables\<close>

text \<open>
  A method: its Go name, whether it reads (\<open>contract.Call\<close>), writes (\<open>contract.Transact\<close>) or sends raw
  call data, the name it passes, and its parameters and results.
\<close>

datatype method_kind = Caller | Transactor | FallbackKind | ReceiveKind

record method_binding =
  mb_go :: string
  mb_kind :: method_kind
  mb_abi :: string
  mb_ins :: "go_type list"
  mb_outs :: "go_type list"

definition caller :: "string \<Rightarrow> string \<Rightarrow> go_type list \<Rightarrow> go_type list \<Rightarrow> method_binding" where
  "caller g n ins outs = \<lparr>mb_go = g, mb_kind = Caller, mb_abi = n, mb_ins = ins, mb_outs = outs\<rparr>"

definition transactor :: "string \<Rightarrow> string \<Rightarrow> go_type list \<Rightarrow> method_binding" where
  "transactor g n ins = \<lparr>mb_go = g, mb_kind = Transactor, mb_abi = n, mb_ins = ins, mb_outs = []\<rparr>"

definition fallback_method :: method_binding where
  "fallback_method = \<lparr>mb_go = ''Fallback'', mb_kind = FallbackKind, mb_abi = [], mb_ins = [GoBytes], mb_outs = []\<rparr>"

definition receive_method :: method_binding where
  "receive_method = \<lparr>mb_go = ''Receive'', mb_kind = ReceiveKind, mb_abi = [], mb_ins = [], mb_outs = []\<rparr>"

text \<open>
  An event: the name passed to the contract, the indexed parameters its \<open>Filter\<close> and \<open>Watch\<close> functions take
  rules for, the fields of its struct, and whether its \<open>Parse\<close> function stores the raw log.
\<close>

record event_desc =
  ev_go :: string
  ev_abi :: string
  ev_indexed :: "(string \<times> go_type) list"
  ev_fields :: "(string \<times> go_type) list"
  ev_parseRaw :: bool

type_synonym event_binding = event_desc

definition event_binding :: "string \<Rightarrow> string \<Rightarrow> (string \<times> go_type) list \<Rightarrow> (string \<times> go_type) list
    \<Rightarrow> bool \<Rightarrow> event_binding" where
  "event_binding g n idx fs raw =
     \<lparr>ev_go = g, ev_abi = n, ev_indexed = idx, ev_fields = fs, ev_parseRaw = raw\<rparr>"

record binding =
  bd_abi :: abi_id
  bd_code :: byte_code
  bd_ctor :: "go_type list"
  bd_methods :: "method_binding list"
  bd_events :: "event_binding list"

section \<open>The package bind\<close>

text \<open>
  A bound contract is an address, an ABI, and for each of the three roles whether a backend was given. The
  options of a call (\<open>'c\<close>) and of a transaction (\<open>'t\<close>) are only passed on; \<open>'l\<close> are the logs and \<open>'s\<close> the
  streams that \<open>FilterLogs\<close> and \<open>WatchLogs\<close> return (a channel of logs and its subscription).
\<close>

record bound_contract =
  bc_address :: addr
  bc_abi :: abi_id
  bc_caller :: bool
  bc_transactor :: bool
  bc_filterer :: bool

record ('c, 't, 'l, 's, 'tx, 'w) bind_lib =
  bindCall :: "bound_contract \<Rightarrow> 'c \<Rightarrow> string \<Rightarrow> abi_arg list \<Rightarrow> 'w \<Rightarrow> (gerror + abi_arg list) \<times> 'w"
  bindTransact :: "bound_contract \<Rightarrow> 't \<Rightarrow> string \<Rightarrow> abi_arg list \<Rightarrow> 'w \<Rightarrow> ('tx option \<times> gerror option) \<times> 'w"
  bindRawTransact :: "bound_contract \<Rightarrow> 't \<Rightarrow> abi_arg \<Rightarrow> 'w \<Rightarrow> ('tx option \<times> gerror option) \<times> 'w"
  bindTransfer :: "bound_contract \<Rightarrow> 't \<Rightarrow> 'w \<Rightarrow> ('tx option \<times> gerror option) \<times> 'w"
  bindDeploy :: "'t \<Rightarrow> abi_id \<Rightarrow> bytes \<Rightarrow> abi_arg list \<Rightarrow> 'w \<Rightarrow> (gerror + addr \<times> 'tx \<times> bound_contract) \<times> 'w"
  filterLogs :: "bound_contract \<Rightarrow> string \<Rightarrow> abi_arg list list \<Rightarrow> 'w \<Rightarrow> (gerror + 's) \<times> 'w"
  watchLogs :: "bound_contract \<Rightarrow> string \<Rightarrow> abi_arg list list \<Rightarrow> 'w \<Rightarrow> (gerror + 's) \<times> 'w"
  unpackLog :: "bound_contract \<Rightarrow> string \<Rightarrow> 'l \<Rightarrow> gerror + abi_arg list"

section \<open>Binding and deploying\<close>

text \<open>\<open>bindX\<close>: \<open>MetaData.GetAbi\<close> parses the text, then \<open>NewBoundContract\<close> stores what it is given.\<close>

definition bind_contract :: "abi_lib \<Rightarrow> binding \<Rightarrow> addr \<Rightarrow> bool \<Rightarrow> bool \<Rightarrow> bool \<Rightarrow> gerror + bound_contract" where
  "bind_contract B b address cl tr fl =
     (case abiJSON B (bd_abi b) of
        Some e \<Rightarrow> Inl e
      | None \<Rightarrow> Inr \<lparr>bc_address = address, bc_abi = bd_abi b, bc_caller = cl, bc_transactor = tr, bc_filterer = fl\<rparr>)"

text \<open>\<open>NewX\<close>, \<open>NewXCaller\<close>, \<open>NewXTransactor\<close> and \<open>NewXFilterer\<close>.\<close>

definition new_binding :: "abi_lib \<Rightarrow> binding \<Rightarrow> addr \<Rightarrow> gerror + bound_contract" where
  "new_binding B b address = bind_contract B b address True True True"

definition new_caller :: "abi_lib \<Rightarrow> binding \<Rightarrow> addr \<Rightarrow> gerror + bound_contract" where
  "new_caller B b address = bind_contract B b address True False False"

definition new_transactor :: "abi_lib \<Rightarrow> binding \<Rightarrow> addr \<Rightarrow> gerror + bound_contract" where
  "new_transactor B b address = bind_contract B b address False True False"

definition new_filterer :: "abi_lib \<Rightarrow> binding \<Rightarrow> addr \<Rightarrow> gerror + bound_contract" where
  "new_filterer B b address = bind_contract B b address False False True"

text \<open>
  \<open>DeployX\<close>. \<open>GetAbi\<close> returns an ABI or an error, so the case of neither is not reached; the constructor's
  parameters are passed on as they are.
\<close>

definition deploy_binding :: "('c, 't, 'l, 's, 'tx, 'w) bind_lib \<Rightarrow> abi_lib \<Rightarrow> binding \<Rightarrow> 't \<Rightarrow> abi_arg list
    \<Rightarrow> 'w \<Rightarrow> (gerror + addr \<times> 'tx \<times> bound_contract) \<times> 'w" where
  "deploy_binding L B b opts args w =
     (case abiJSON B (bd_abi b) of
        Some e \<Rightarrow> (Inl e, w)
      | None \<Rightarrow> bindDeploy L opts (bd_abi b) (codeBytes B (bd_code b)) args w)"

section \<open>Methods\<close>

text \<open>
  The results of a call are taken out of the answer one after the other: a missing one is an index out of
  range, one of another type a failed conversion.
\<close>

fun convert_outs :: "go_type list \<Rightarrow> abi_arg list \<Rightarrow> abi_arg list outcome" where
  "convert_outs [] vs = Ret []"
| "convert_outs (t # ts) [] = Panic ''index out of range''"
| "convert_outs (t # ts) (v # vs) =
     (if has_type t v then map_outcome_ret (\<lambda>rs. v # rs) (convert_outs ts vs)
      else Panic ''interface conversion'')"

text \<open>\<open>call\<close> is the \<open>Call\<close> of the bound contract with the options of the call.\<close>

definition call_method :: "(string \<Rightarrow> abi_arg list \<Rightarrow> 'w \<Rightarrow> (gerror + abi_arg list) \<times> 'w) \<Rightarrow> method_binding
    \<Rightarrow> abi_arg list \<Rightarrow> 'w \<Rightarrow> (abi_arg list \<times> gerror option) outcome \<times> 'w" where
  "call_method call m args w =
     (case call (mb_abi m) args w of
        (Inl e, w') \<Rightarrow> (Ret (map zero_value (mb_outs m), Some e), w')
      | (Inr out, w') \<Rightarrow> (map_outcome_ret (\<lambda>vs. (vs, None)) (convert_outs (mb_outs m) out), w'))"

text \<open>A method with call data of its own takes it as its argument; \<open>Receive\<close> passes \<open>nil\<close>.\<close>

definition transact_method :: "('c, 't, 'l, 's, 'tx, 'w) bind_lib \<Rightarrow> bound_contract \<Rightarrow> method_binding \<Rightarrow> 't
    \<Rightarrow> abi_arg list \<Rightarrow> 'w \<Rightarrow> ('tx option \<times> gerror option) \<times> 'w" where
  "transact_method L c m opts args w =
     (case mb_kind m of
        FallbackKind \<Rightarrow> bindRawTransact L c opts (case args of [] \<Rightarrow> ArgNil | d # ds \<Rightarrow> d) w
      | ReceiveKind \<Rightarrow> bindRawTransact L c opts ArgNil w
      | _ \<Rightarrow> bindTransact L c opts (mb_abi m) args w)"

text \<open>The session types hold a binding and the options of every call made through them.\<close>

record ('c, 't) session =
  se_contract :: bound_contract
  se_callOpts :: 'c
  se_transactOpts :: 't

definition session_call :: "('c, 't, 'l, 's, 'tx, 'w) bind_lib \<Rightarrow> ('c, 't) session \<Rightarrow> method_binding
    \<Rightarrow> abi_arg list \<Rightarrow> 'w \<Rightarrow> (abi_arg list \<times> gerror option) outcome \<times> 'w" where
  "session_call L s m args = call_method (bindCall L (se_contract s) (se_callOpts s)) m args"

definition session_transact :: "('c, 't, 'l, 's, 'tx, 'w) bind_lib \<Rightarrow> ('c, 't) session \<Rightarrow> method_binding
    \<Rightarrow> abi_arg list \<Rightarrow> 'w \<Rightarrow> ('tx option \<times> gerror option) \<times> 'w" where
  "session_transact L s m args = transact_method L (se_contract s) m (se_transactOpts s) args"

text \<open>The raw forms take the method's name from the caller.\<close>

definition raw_call :: "('c, 't, 'l, 's, 'tx, 'w) bind_lib \<Rightarrow> bound_contract \<Rightarrow> 'c \<Rightarrow> string \<Rightarrow> abi_arg list
    \<Rightarrow> 'w \<Rightarrow> (gerror + abi_arg list) \<times> 'w" where
  "raw_call L c opts method args = bindCall L c opts method args"

definition raw_transfer :: "('c, 't, 'l, 's, 'tx, 'w) bind_lib \<Rightarrow> bound_contract \<Rightarrow> 't \<Rightarrow> 'w
    \<Rightarrow> ('tx option \<times> gerror option) \<times> 'w" where
  "raw_transfer L c opts = bindTransfer L c opts"

definition raw_transact :: "('c, 't, 'l, 's, 'tx, 'w) bind_lib \<Rightarrow> bound_contract \<Rightarrow> 't \<Rightarrow> string \<Rightarrow> abi_arg list
    \<Rightarrow> 'w \<Rightarrow> ('tx option \<times> gerror option) \<times> 'w" where
  "raw_transact L c opts method args = bindTransact L c opts method args"

section \<open>Parsing and requesting events\<close>

record 'l event_value =
  ev_data :: "abi_arg list"
  ev_raw :: "'l option"

definition parse_event :: "('c, 't, 'l, 's, 'tx, 'w) bind_lib \<Rightarrow> bound_contract \<Rightarrow> event_binding \<Rightarrow> 'l
    \<Rightarrow> gerror + 'l event_value" where
  "parse_event L c ev log =
     (case unpackLog L c (ev_abi ev) log of
        Inl e \<Rightarrow> Inl e
      | Inr d \<Rightarrow> Inr \<lparr>ev_data = d, ev_raw = (if ev_parseRaw ev then Some log else None)\<rparr>)"

text \<open>\<open>FilterX\<close> and \<open>WatchX\<close>: one rule per indexed parameter, its elements in their order.\<close>

definition event_rules :: "event_binding \<Rightarrow> abi_arg list list \<Rightarrow> abi_arg list list" where
  "event_rules ev filters = map (\<lambda>xs. foldl (\<lambda>r x. r @ [x]) [] xs) (take (length (ev_indexed ev)) filters)"

definition filter_event :: "('c, 't, 'l, 's, 'tx, 'w) bind_lib \<Rightarrow> bound_contract \<Rightarrow> event_binding
    \<Rightarrow> abi_arg list list \<Rightarrow> 'w \<Rightarrow> (gerror + 's) \<times> 'w" where
  "filter_event L c ev filters = filterLogs L c (ev_abi ev) (event_rules ev filters)"

definition watch_event :: "('c, 't, 'l, 's, 'tx, 'w) bind_lib \<Rightarrow> bound_contract \<Rightarrow> event_binding
    \<Rightarrow> abi_arg list list \<Rightarrow> 'w \<Rightarrow> (gerror + 's) \<times> 'w" where
  "watch_event L c ev filters = watchLogs L c (ev_abi ev) (event_rules ev filters)"

section \<open>Bindings and their ABI\<close>

text \<open>
  The Go type that the generator chooses for an ABI type, as the tables have it. The struct of a tuple is named
  after its Solidity name without the dot.
\<close>

fun go_of_abi :: "abi_type \<Rightarrow> go_type" where
  "go_of_abi TyAddress = GoAddress"
| "go_of_abi TyBool = GoBool"
| "go_of_abi TyString = GoString"
| "go_of_abi TyBytes = GoBytes"
| "go_of_abi (TyUint n) = (if n = 8 then GoUint8 else GoBigInt)"
| "go_of_abi (TyFixed n) = GoFixed n"
| "go_of_abi (TyArray t) = GoSlice (go_of_abi t)"
| "go_of_abi (TyTuple n ts) = GoStruct (filter (\<lambda>c. c \<noteq> CHR ''.'') n) (map go_of_abi ts)"

definition method_of :: "abi_entry \<Rightarrow> (method_kind \<times> string \<times> go_type list \<times> go_type list) option" where
  "method_of e = (case e of
     AbiFunction n ins outs mt \<Rightarrow>
       (if mt = View \<or> mt = Pure then Some (Caller, n, map go_of_abi ins, map go_of_abi outs)
        else Some (Transactor, n, map go_of_abi ins, []))
   | AbiFallback mt \<Rightarrow> Some (FallbackKind, [], [GoBytes], [])
   | AbiReceive \<Rightarrow> Some (ReceiveKind, [], [], [])
   | _ \<Rightarrow> None)"

definition method_row :: "method_binding \<Rightarrow> method_kind \<times> string \<times> go_type list \<times> go_type list" where
  "method_row m = (mb_kind m, mb_abi m, mb_ins m, mb_outs m)"

text \<open>An event of the ABI and an event of the table: the name, the types, and which of them have rules.\<close>

definition event_of :: "abi_entry \<Rightarrow> (string \<times> go_type list \<times> go_type list) option" where
  "event_of e = (case e of
     AbiEvent n ps \<Rightarrow> Some (n, map (\<lambda>p. go_of_abi (fst p)) (filter snd ps), map (\<lambda>p. go_of_abi (fst p)) ps)
   | _ \<Rightarrow> None)"

definition event_row :: "event_binding \<Rightarrow> string \<times> go_type list \<times> go_type list" where
  "event_row ev = (ev_abi ev, map snd (ev_indexed ev), map snd (ev_fields ev))"

text \<open>
  A binding matches an ABI when it has exactly the methods and events that the ABI declares, each once, in the
  order of the ABI and with their types, first the reading and then the writing methods, and the
  constructor's parameters.
\<close>

definition rows_of :: "method_kind \<Rightarrow> abi_entry list \<Rightarrow> (method_kind \<times> string \<times> go_type list \<times> go_type list) list" where
  "rows_of k es = filter (\<lambda>r. fst r = k) (List.map_filter method_of es)"

definition binding_matches :: "abi_entry list \<Rightarrow> binding \<Rightarrow> bool" where
  "binding_matches es b \<longleftrightarrow>
     map method_row (bd_methods b) =
       concat (map (\<lambda>k. rows_of k es) [Caller, Transactor, FallbackKind, ReceiveKind]) \<and>
     map event_row (bd_events b) = List.map_filter event_of es \<and>
     distinct (map mb_go (bd_methods b)) \<and> distinct (map ev_go (bd_events b)) \<and>
     bd_ctor b = map go_of_abi (constructor_inputs es)"

section \<open>Calls of documented contracts\<close>

text \<open>
  Documented behaviour of \<open>BoundContract.Call\<close>: an answer without error has one value per result of the
  called function of the ABI, of the type that the ABI library decodes it to.
\<close>

fun function_outputs :: "abi_entry list \<Rightarrow> string \<Rightarrow> abi_type list option" where
  "function_outputs [] m = None"
| "function_outputs (AbiFunction n ins outs mt # es) m = (if n = m then Some outs else function_outputs es m)"
| "function_outputs (_ # es) m = function_outputs es m"

definition answer_typed :: "abi_entry list \<Rightarrow> string \<Rightarrow> abi_arg list \<Rightarrow> bool" where
  "answer_typed es m vs = (case function_outputs es m of None \<Rightarrow> False | Some ts \<Rightarrow> list_all2 fits ts vs)"

lemma fits_has_type: "fits t v \<Longrightarrow> has_type (go_of_abi t) v"
  by (induction t arbitrary: v) (auto simp: list_all_iff list_all2_conv_all_nth split: abi_arg.splits)

lemma convert_outs_typed: "list_all2 has_type ts vs \<Longrightarrow> convert_outs ts vs = Ret vs"
  by (induction rule: list_all2_induct) auto

lemma convert_outs_not_Block [simp]: "convert_outs ts vs \<noteq> Block"
  by (induction ts vs rule: convert_outs.induct) auto

lemma call_method_not_Block [simp]: "call_method call m args w \<noteq> (Block, w')"
  by (auto simp: call_method_def split: prod.splits sum.splits)

lemma call_method_typed:
  assumes "function_outputs es (mb_abi m) = Some outs" and "mb_outs m = map go_of_abi outs"
    and "\<And>vs w'. call (mb_abi m) args w = (Inr vs, w') \<Longrightarrow> answer_typed es (mb_abi m) vs"
  shows "\<exists>vs err w'. call_method call m args w = (Ret (vs, err), w') \<and> list_all2 has_type (mb_outs m) vs"
proof -
  obtain r w' where r: "call (mb_abi m) args w = (r, w')" by (metis prod.exhaust)
  show ?thesis
  proof (cases r)
    case (Inl e)
    have "has_type t (zero_value t)" for t
      by (induction t) (auto simp: list_all2_conv_all_nth)
    then have "list_all2 has_type ts (map zero_value ts)" for ts by (simp add: list_all2_conv_all_nth)
    with r Inl show ?thesis by (auto simp: call_method_def)
  next
    case (Inr vs)
    with assms r have "list_all2 fits outs vs" by (auto simp: answer_typed_def)
    then have "list_all2 has_type (mb_outs m) vs"
      unfolding assms(2) by (auto simp: list_all2_conv_all_nth intro: fits_has_type)
    with r Inr convert_outs_typed [OF this] show ?thesis by (auto simp: call_method_def)
  qed
qed

end
