(* ===== verification/Token_Ledger.thy ===== *)
theory Token_Ledger
  imports Go_Prelude
begin

text \<open>
  \<open>klayslave/account/erc721_ledger.go\<close>: the ledger of the ERC-721 tokens that the test
  accounts hold. The code keeps two \<open>sync.Map\<close>s, one from addresses to token queues and
  one from addresses to mutexes; every queue operation runs under the mutex of its address,
  so an operation is one atomic step. Token ids are \<open>*big.Int\<close>, that is \<open>int\<close>.
\<close>

section \<open>State and operations\<close>

type_synonym mutex_id = nat

record ledger =
  tokenQueues :: "addr \<rightharpoonup> int list"
  accountMutexes :: "addr \<rightharpoonup> mutex_id"

definition NewERC721TokenLedger :: ledger where
  "NewERC721TokenLedger = \<lparr>tokenQueues = Map.empty, accountMutexes = Map.empty\<rparr>"

text \<open>
  \<open>getAccountMutex\<close>: \<open>fresh\<close> is the identity of the \<open>&sync.Mutex{}\<close> that the call
  allocates when its first \<open>Load\<close> misses; \<open>other\<close> is what another goroutine may have
  stored between the \<open>Load\<close> and the \<open>LoadOrStore\<close> (\<open>None\<close>: nothing).
\<close>

definition getAccountMutex :: "addr \<Rightarrow> mutex_id \<Rightarrow> mutex_id option \<Rightarrow> ledger
    \<Rightarrow> mutex_id \<times> ledger" where
  "getAccountMutex a fresh other l =
     (case accountMutexes l a of
        Some m \<Rightarrow> (m, l)
      | None \<Rightarrow>
          (case other of
             Some m \<Rightarrow> (m, l\<lparr>accountMutexes := (accountMutexes l)(a \<mapsto> m)\<rparr>)
           | None \<Rightarrow> (fresh, l\<lparr>accountMutexes := (accountMutexes l)(a \<mapsto> fresh)\<rparr>)))"

text \<open>The queue operations, each the code between \<open>Lock\<close> and the deferred \<open>Unlock\<close>.\<close>

definition PutToken :: "addr \<Rightarrow> int \<Rightarrow> ledger \<Rightarrow> ledger" where
  "PutToken a tokenId l =
     (let tokens = (case tokenQueues l a of Some ts \<Rightarrow> ts | None \<Rightarrow> [])
      in l\<lparr>tokenQueues := (tokenQueues l)(a \<mapsto> tokens @ [tokenId])\<rparr>)"

definition RemoveToken :: "addr \<Rightarrow> ledger \<Rightarrow> int option \<times> ledger" where
  "RemoveToken a l =
     (case tokenQueues l a of
        None \<Rightarrow> (None, l)
      | Some tokens \<Rightarrow>
          (case tokens of
             [] \<Rightarrow> (None, l)
           | token # newTokens \<Rightarrow>
               (Some token, l\<lparr>tokenQueues := (tokenQueues l)(a \<mapsto> newTokens)\<rparr>)))"

definition InitializeAccount :: "addr \<Rightarrow> ledger \<Rightarrow> ledger" where
  "InitializeAccount a l =
     (case tokenQueues l a of
        Some _ \<Rightarrow> l
      | None \<Rightarrow> l\<lparr>tokenQueues := (tokenQueues l)(a \<mapsto> [])\<rparr>)"

section \<open>Abstraction: the queue of an address\<close>

definition tokens_of :: "ledger \<Rightarrow> addr \<Rightarrow> int list" where
  "tokens_of l a = (case tokenQueues l a of Some ts \<Rightarrow> ts | None \<Rightarrow> [])"

lemma tokens_of_New [simp]: "tokens_of NewERC721TokenLedger a = []"
  by (simp add: tokens_of_def NewERC721TokenLedger_def)

lemma tokens_of_Put: "tokens_of (PutToken a t l) b =
    (if b = a then tokens_of l a @ [t] else tokens_of l b)"
  by (auto simp: tokens_of_def PutToken_def Let_def)

lemma tokens_of_Init [simp]: "tokens_of (InitializeAccount a l) b = tokens_of l b"
  by (auto simp: tokens_of_def InitializeAccount_def split: option.splits)

lemma RemoveToken_Nil: "tokens_of l a = [] \<Longrightarrow> RemoveToken a l = (None, l)"
  by (auto simp: tokens_of_def RemoveToken_def split: option.splits)

lemma RemoveToken_Cons:
  "tokens_of l a = t # ts \<Longrightarrow>
   RemoveToken a l = (Some t, l\<lparr>tokenQueues := (tokenQueues l)(a \<mapsto> ts)\<rparr>)"
  by (auto simp: tokens_of_def RemoveToken_def split: option.splits list.splits)

lemma tokens_of_Remove:
  "RemoveToken a l = (r, l') \<Longrightarrow>
   tokens_of l' b = (if b = a then tl (tokens_of l a) else tokens_of l b)"
  by (auto simp: tokens_of_def RemoveToken_def split: option.splits list.splits if_splits)

lemma RemoveToken_result:
  "RemoveToken a l = (r, l') \<Longrightarrow>
   r = (case tokens_of l a of [] \<Rightarrow> None | t # _ \<Rightarrow> Some t)"
  by (auto simp: tokens_of_def RemoveToken_def split: option.splits list.splits)

section \<open>The interface the test case relies on\<close>

text \<open>
  A token store: tokens are put under an owner and taken from it in the order they were
  put. The ERC-721 transfer test relies on exactly these laws.
\<close>

locale token_store =
  fixes put :: "'k \<Rightarrow> 't \<Rightarrow> 's \<Rightarrow> 's"
    and take :: "'k \<Rightarrow> 's \<Rightarrow> 't option \<times> 's"
    and contents :: "'s \<Rightarrow> 'k \<Rightarrow> 't list"
  assumes contents_put:
      "contents (put k t s) j = (if j = k then contents s k @ [t] else contents s j)"
    and contents_take:
      "take k s = (r, s') \<Longrightarrow> contents s' j = (if j = k then tl (contents s k) else contents s j)"
    and take_result:
      "take k s = (r, s') \<Longrightarrow> r = (case contents s k of [] \<Rightarrow> None | t # _ \<Rightarrow> Some t)"
begin

text \<open>All tokens that the listed owners hold, as a multiset.\<close>

definition held :: "'k list \<Rightarrow> 's \<Rightarrow> 't multiset" where
  "held ks s = sum_list (map (\<lambda>k. mset (contents s k)) ks)"

lemma held_Nil [simp]: "held [] s = {#}"
  by (simp add: held_def)

lemma held_Cons [simp]: "held (k # ks) s = mset (contents s k) + held ks s"
  by (simp add: held_def)

lemma held_cong: "(\<And>k. k \<in> set ks \<Longrightarrow> contents s k = contents s' k) \<Longrightarrow> held ks s = held ks s'"
  by (induction ks) auto

lemma held_put_notin: "k \<notin> set ks \<Longrightarrow> held ks (put k t s) = held ks s"
  by (rule held_cong) (auto simp: contents_put)

lemma held_put: "distinct ks \<Longrightarrow> k \<in> set ks \<Longrightarrow> held ks (put k t s) = add_mset t (held ks s)"
proof (induction ks)
  case Nil
  then show ?case by simp
next
  case (Cons j ks)
  show ?case
  proof (cases "j = k")
    case True
    with Cons.prems have "held ks (put k t s) = held ks s" by (intro held_put_notin) auto
    with True show ?thesis by (simp add: contents_put)
  next
    case False
    with Cons show ?thesis by (auto simp: contents_put)
  qed
qed

lemma take_None: "take k s = (None, s') \<Longrightarrow> contents s k = [] \<and> (\<forall>j. contents s' j = contents s j)"
  using take_result [of k s None s'] contents_take [of k s None s']
  by (auto split: list.splits)

lemma take_Some: "take k s = (Some t, s') \<Longrightarrow> contents s k = t # contents s' k
    \<and> (\<forall>j. j \<noteq> k \<longrightarrow> contents s' j = contents s j)"
  using take_result [of k s "Some t" s'] contents_take [of k s "Some t" s']
  by (auto split: list.splits)

lemma held_take_Some: "distinct ks \<Longrightarrow> k \<in> set ks \<Longrightarrow> take k s = (Some t, s') \<Longrightarrow>
    held ks s = add_mset t (held ks s')"
proof (induction ks)
  case Nil
  then show ?case by simp
next
  case (Cons j ks)
  note step = take_Some [OF Cons.prems(3)]
  show ?case
  proof (cases "j = k")
    case True
    with Cons.prems step have "held ks s = held ks s'" by (intro held_cong) auto
    with True step show ?thesis by simp
  next
    case False
    with Cons step show ?thesis by auto
  qed
qed

lemma held_take_None: "take k s = (None, s') \<Longrightarrow> held ks s' = held ks s"
  by (rule held_cong) (auto dest: take_None)

text \<open>FIFO: a token put into a queue comes out after exactly the tokens before it.\<close>

lemma take_after_put_empty: "contents s k = [] \<Longrightarrow> fst (take k (put k t s)) = Some t"
  using take_result [of k "put k t s" "fst (take k (put k t s))" "snd (take k (put k t s))"]
  by (simp add: contents_put)

lemma take_after_put_nonempty:
  "contents s k = u # us \<Longrightarrow> fst (take k (put k t s)) = Some u"
  using take_result [of k "put k t s" "fst (take k (put k t s))" "snd (take k (put k t s))"]
  by (simp add: contents_put)

end

interpretation ledger_store: token_store PutToken RemoveToken tokens_of
  by unfold_locales (rule tokens_of_Put, rule tokens_of_Remove, assumption,
      rule RemoveToken_result, assumption)

end
