(* ===== verification/Process.thy ===== *)
theory Process
  imports Retry Acc_Group Bindings Token_Ledger
begin

text \<open>
  The process around the account operations: the package variables, the accounts the process
  holds (they are pointers in the code, so they live in a store under references), the ERC-721
  ledger, the account group and the world. \<open>run\<close> is a computation on that state: it does not
  return (\<open>None\<close>), or it ends with an outcome and the state after it.
\<close>

section \<open>Package variables\<close>

text \<open>The accounts that \<open>klayslave/account/contract.go\<close> declares at package level.\<close>

datatype fixed_acc = ERC20Deployer | ERC721Deployer | StorageTrieDeployer | GeneralPurposeDeployer
  | GaslessTokenDeployer | WKaiaDeployer | UniswapFactoryDeployer | UniswapRouterDeployer
  | GaslessSwapRouterDeployer | CounterForTestAuctionDeployer | AuctionFeeVaultDeployer
  | AuctionDepositVaultDeployer | AuctionEntryPointDeployer | GSRSetupManager | Auctioneer
  | CPUHeavyDeployer | LargeMemoDeployer | ReadApiCallContractDeployer | UserStorageDeployer
  | InternalTxKIP17Deployer | InternalTxMainDeployer | TetherLogicDeployer | TetherProxyDeployer

fun fixed_key :: "fixed_acc \<Rightarrow> string" where
  "fixed_key ERC20Deployer = ''eb2c84d41c639178ff26a81f488c196584d678bb1390cc20a3aeb536f3969a98''"
| "fixed_key ERC721Deployer = ''45c40d95c9b7898a21e073b5bf952bcb05f2e70072e239a8bbd87bb74a53355e''"
| "fixed_key StorageTrieDeployer = ''3737c381633deaaa4c0bdbc64728f6ef7d381b17e1d30bbb74665839cec942b8''"
| "fixed_key GeneralPurposeDeployer = ''c0cd1721f60535cb7779e5db43a94390aff9ead01ee3d654abffcb0453bdc927''"
| "fixed_key GaslessTokenDeployer = ''e095e5fdfc55ce9002edc26fdf402b8ece64586e9673f09b0a91dde39ccc8abe''"
| "fixed_key WKaiaDeployer = ''56f48de8c67737661df6b66d968e2597754051e9967dc665d901bc2e7aa2ee39''"
| "fixed_key UniswapFactoryDeployer = ''c6f61a31be1ca48b7774568bd47eacd03aed8fa9265d9eeb64a97136ea8e411a''"
| "fixed_key UniswapRouterDeployer = ''780d71b4ee7121673cf28492a3185bf97fcd9fe280c72d6df77d99648ba74541''"
| "fixed_key GaslessSwapRouterDeployer = ''5a212da24b990b2164a2cbe070d15e8f2948b636cb224f9f72979faa564ef42f''"
| "fixed_key CounterForTestAuctionDeployer = ''caa1c841d600a7a37f08ca38478480a3ee254cefc30324048efd16a4f473d26d''"
| "fixed_key AuctionFeeVaultDeployer = ''34e4baf3acf5fe6eeda59ffbe7e7c525c835aa58c671889cab95c3210b27f2cf''"
| "fixed_key AuctionDepositVaultDeployer = ''ae2a792e63ffe80c098d70f9d486e775790b6abb74db54dc5f0894965c3d9578''"
| "fixed_key AuctionEntryPointDeployer = ''2702a7f5f21a17ced7edd46f1d930e5b0d36d36278cfd343973b69a3673bce6c''"
| "fixed_key GSRSetupManager = ''76a5b8060388e1f83f7b3bdbcc5248d13b3c7e9771e8445afb2754ad5e192237''"
| "fixed_key Auctioneer = ''b7dce0e6f88e4591bb8dc8c0f4d5082a10e38b4836e06a4a7f9d92cdb4a6f671''"
| "fixed_key CPUHeavyDeployer = ''f8d7eccaf0d2bb863daf2301f5e6a29626cadb8746f29565aaabfdf6e0f0c073''"
| "fixed_key LargeMemoDeployer = ''b2c3d4e5f6789012345678901234567890abcdef1234567890abcdef12345678''"
| "fixed_key ReadApiCallContractDeployer = ''d1e2c3f4a5b6789012345678901234567890abcdef1234567890abcdef123456''"
| "fixed_key UserStorageDeployer = ''c3d4e5f6789012345678901234567890abcdef1234567890abcdef1234567890''"
| "fixed_key InternalTxKIP17Deployer = ''f5a6b7c890123456789012345678901234567890abcdef1234567890abcdef12''"
| "fixed_key InternalTxMainDeployer = ''e4f5a6b7c890123456789012345678901234567890abcdef1234567890abcdef''"
| "fixed_key TetherLogicDeployer = ''a1b2c3d4e5f678901234567890abcdef1234567890abcdef1234567890abcd01''"
| "fixed_key TetherProxyDeployer = ''a1b2c3d4e5f678901234567890abcdef1234567890abcdef1234567890abcd02''"

section \<open>The external environment\<close>

text \<open>
  The contract bindings of the kaia module that the set-up calls, and the package \<open>bind\<close>: binding a
  contract to an address may fail, the reads go to the node, \<open>transact\<close> signs and sends one contract
  call, and \<open>boundCall\<close> is \<open>BoundContract.Call\<close> with empty options, for the bindings of the program itself.
  \<open>transactOpts\<close> are the fields the code sets on \<open>bind.NewKeyedTransactor\<close>.
\<close>

datatype chain_call =
    CreatePair addr addr | DepositKaia | ApproveToken addr int
  | AddLiquidity addr addr int int int int addr int | AddToken addr addr addr
  | RegisterName string addr int

record transact_opts =
  to_Nonce :: "int option"
  to_GasLimit :: u64
  to_Value :: "int option"

record ('tx, 'w) bindings =
  newRegistry :: "gerror option"
  getActiveAddr :: "string \<Rightarrow> 'w \<Rightarrow> (gerror + addr) \<times> 'w"
  boundCall :: "bound_contract \<Rightarrow> string \<Rightarrow> abi_arg list \<Rightarrow> 'w \<Rightarrow> (gerror + abi_arg list) \<times> 'w"
  newSwapRouter :: "addr \<Rightarrow> gerror option"
  getSupportedTokens :: "addr \<Rightarrow> 'w \<Rightarrow> (gerror + addr list) \<times> 'w"
  newTestToken :: "addr \<Rightarrow> gerror option"
  newWKAIA :: "addr \<Rightarrow> gerror option"
  newFactory :: "addr \<Rightarrow> gerror option"
  newRouter :: "addr \<Rightarrow> gerror option"
  transact :: "privkey \<Rightarrow> transact_opts \<Rightarrow> addr \<Rightarrow> chain_call \<Rightarrow> 'w
    \<Rightarrow> ('tx option \<times> gerror option) \<times> 'w"
  RegistryAddr :: addr
  GaslessSwapRouterName :: string
  AuctionEntryPointName :: string

text \<open>
  Everything a run takes from outside. \<open>unixNow\<close> is \<open>time.Now().Unix()\<close>, \<open>rand63\<close> draws
  from \<open>math/rand\<close>, \<open>randStream\<close> the draws of one random text, \<open>pkg\<close> are the package-level accounts (only their address and keys are read
  here), and \<open>sched n\<close> is the order in which the goroutines of a \<open>ConcurrentTransactionSend\<close> over
  \<open>n\<close> accounts call \<open>transactionSend\<close>.
\<close>

record ('tx, 'w) env =
  e_lib :: "'tx kaia_lib"
  e_cli :: "('tx, 'w) client"
  e_abi :: abi_lib
  e_crypto :: "'w crypto"
  e_glob :: globals
  e_bnd :: "('tx, 'w) bindings"
  unixNow :: "'w \<Rightarrow> int"
  rand63 :: "'w \<Rightarrow> nat \<times> 'w"
  randStream :: "'w \<Rightarrow> (nat \<Rightarrow> nat) \<times> 'w"
  KAIA :: int
  pkg :: "fixed_acc \<Rightarrow> account"
  sched :: "nat \<Rightarrow> nat list"

text \<open>The package variables are what \<open>GetAccountFromKey\<close> makes of the key texts.\<close>

definition pkg_init :: "('tx, 'w) env \<Rightarrow> bool" where
  "pkg_init E \<longleftrightarrow> (\<forall>d. GetAccountFromKey (e_crypto E) 0 (fixed_key d) = Ret (pkg E d))"

text \<open>Every schedule runs each account once: \<open>Concurrent_Send\<close> proves it of the function.\<close>

definition full_sched :: "('tx, 'w) env \<Rightarrow> bool" where
  "full_sched E \<longleftrightarrow> (\<forall>n. mset (sched E n) = mset [0..<n])"

section \<open>The process state\<close>

datatype acc_ref = Fixed fixed_acc | LocalReservoir | GlobalReservoir | TestAcc nat | ContractAcc nat

record 'w proc =
  accs :: "acc_ref \<Rightarrow> account"
  erc721 :: ledger
  grp :: "acc_ref AccGroup"
  wld :: 'w

type_synonym ('w, 'r) run = "'w proc \<Rightarrow> ('r outcome \<times> 'w proc) option"

definition ret_run :: "'r \<Rightarrow> ('w, 'r) run" where
  "ret_run x s = Some (Ret x, s)"

definition bind_run :: "('w, 'q) run \<Rightarrow> ('q \<Rightarrow> ('w, 'r) run) \<Rightarrow> ('w, 'r) run" where
  "bind_run m f s =
     (case m s of
        None \<Rightarrow> None
      | Some (r, s1) \<Rightarrow>
          (case r of
             Ret x \<Rightarrow> f x s1
           | Exit e \<Rightarrow> Some (Exit e, s1)
           | Panic e \<Rightarrow> Some (Panic e, s1)
           | Block \<Rightarrow> Some (Block, s1)))"

definition then_run :: "('w, 'q) run \<Rightarrow> ('w, 'r) run \<Rightarrow> ('w, 'r) run" where
  "then_run m k = bind_run m (\<lambda>_. k)"

fun for_run :: "'x list \<Rightarrow> ('x \<Rightarrow> ('w, unit) run) \<Rightarrow> ('w, unit) run" where
  "for_run [] f = ret_run ()"
| "for_run (x # xs) f = then_run (f x) (for_run xs f)"

definition out_run :: "'r outcome \<Rightarrow> ('w, 'r) run" where
  "out_run r s = Some (r, s)"

definition exit_if :: "gerror option \<Rightarrow> string \<Rightarrow> ('w, unit) run" where
  "exit_if e msg = (case e of None \<Rightarrow> ret_run () | Some _ \<Rightarrow> out_run (Exit msg))"

definition get_run :: "('w proc \<Rightarrow> 'r) \<Rightarrow> ('w, 'r) run" where
  "get_run f s = Some (Ret (f s), s)"

definition world_run :: "('w \<Rightarrow> 'r \<times> 'w) \<Rightarrow> ('w, 'r) run" where
  "world_run f s = (case f (wld s) of (r, w') \<Rightarrow> Some (Ret r, s\<lparr>wld := w'\<rparr>))"

definition ledger_run :: "(ledger \<Rightarrow> ledger) \<Rightarrow> ('w, unit) run" where
  "ledger_run f s = Some (Ret (), s\<lparr>erc721 := f (erc721 s)\<rparr>)"

text \<open>An account operation, and one that may not return, on the account under a reference.\<close>

definition on_acc :: "acc_ref \<Rightarrow> ('w, 'r) op \<Rightarrow> ('w, 'r) run" where
  "on_acc ref f s =
     (case f (accs s ref) (wld s) of
        (r, a', w') \<Rightarrow> Some (r, s\<lparr>accs := (accs s)(ref := a'), wld := w'\<rparr>))"

definition on_acc_opt :: "acc_ref \<Rightarrow> (account \<Rightarrow> 'w \<Rightarrow> ('r outcome \<times> account \<times> 'w) option)
    \<Rightarrow> ('w, 'r) run" where
  "on_acc_opt ref f s =
     map_option (\<lambda>(r, a', w'). (r, s\<lparr>accs := (accs s)(ref := a'), wld := w'\<rparr>))
       (f (accs s ref) (wld s))"

text \<open>Using a contract of the group: a \<open>nil\<close> entry panics when its address is read.\<close>

definition contract_run :: "TestContract \<Rightarrow> ('w, account) run" where
  "contract_run t s =
     (case GetTestContractByName (grp s) t of
        None \<Rightarrow> Some (Panic ''nil pointer dereference'', s)
      | Some ref \<Rightarrow> Some (Ret (accs s ref), s))"

text \<open>\<open>ConcurrentTransactionSend\<close>: \<open>transactionSend(idx, acc)\<close> in the order of the schedule.\<close>

definition concurrent_run :: "('tx, 'w) env \<Rightarrow> acc_ref list \<Rightarrow> (nat \<Rightarrow> acc_ref \<Rightarrow> ('w, unit) run)
    \<Rightarrow> ('w, unit) run" where
  "concurrent_run E refs f = for_run (sched E (length refs)) (\<lambda>idx. f idx (refs ! idx))"

section \<open>Lemmas\<close>

lemma bind_run_Ret:
  "bind_run m f s = Some (Ret y, s') \<longleftrightarrow> (\<exists>x s1. m s = Some (Ret x, s1) \<and> f x s1 = Some (Ret y, s'))"
  by (auto simp: bind_run_def split: option.splits outcome.splits)

lemma then_run_Ret:
  "then_run m k s = Some (Ret y, s') \<longleftrightarrow> (\<exists>x s1. m s = Some (Ret x, s1) \<and> k s1 = Some (Ret y, s'))"
  by (simp add: then_run_def bind_run_Ret)

lemmas run_simps = bind_run_Ret then_run_Ret ret_run_def out_run_def get_run_def

text \<open>A property of the state that every step of a loop keeps is kept by the loop.\<close>

lemma for_run_keeps:
  assumes step: "\<And>x s r s'. x \<in> set xs \<Longrightarrow> P s \<Longrightarrow> f x s = Some (r, s') \<Longrightarrow> P s'"
  shows "P s \<Longrightarrow> for_run xs f s = Some (r, s') \<Longrightarrow> P s'"
  using step
proof (induction xs arbitrary: s)
  case Nil
  then show ?case by (simp add: ret_run_def)
next
  case (Cons x xs)
  from Cons.prems(2) obtain r1 s1 where s1: "f x s = Some (r1, s1)"
    by (auto simp: then_run_def bind_run_def split: option.splits)
  with Cons.prems(1,3) have P1: "P s1" by auto
  show ?case
  proof (cases r1)
    case (Ret u)
    with Cons.prems(2) s1 have "for_run xs f s1 = Some (r, s')"
      by (simp add: then_run_def bind_run_def)
    with Cons.IH [OF P1] Cons.prems(3) show ?thesis by auto
  qed (use Cons.prems(2) s1 P1 in \<open>auto simp: then_run_def bind_run_def\<close>)
qed

lemma sched_mem: "full_sched E \<Longrightarrow> i \<in> set (sched E n) \<longleftrightarrow> i < n"
  by (metis atLeast0LessThan full_sched_def lessThan_iff set_mset_mset set_upt)

end
