(* ===== verification/Auction_Bindings.thy ===== *)
theory Auction_Bindings
  imports Bindings
begin

text \<open>
  The generated bindings of the three auction contracts (\<open>auctionEntryPoint\<close>, \<open>auctionDepositVault\<close>,
  \<open>auctionFeeVault\<close>), in the format of \<open>Binding_Tables\<close>. The interfaces and libraries that the same files
  bind a second time (\<open>IAuctionEntryPoint\<close>, \<open>Ownable\<close>, \<open>ECDSA\<close> and others) are in \<open>Bundled_Bindings\<close>.
\<close>

text \<open>The struct that the entry point's \<open>call\<close> takes.\<close>

definition IAuctionEntryPointAuctionTx :: go_type where
  "IAuctionEntryPointAuctionTx = GoStruct ''IAuctionEntryPointAuctionTx''
     [GoFixed 32, GoBigInt, GoAddress, GoAddress, GoBigInt, GoBigInt, GoBigInt, GoBytes, GoBytes, GoBytes]"

section \<open>AuctionEntryPoint\<close>

definition AuctionEntryPoint_AUCTIONNAME :: method_binding where
  "AuctionEntryPoint_AUCTIONNAME = caller ''AUCTIONNAME'' ''AUCTION_NAME'' [] [GoString]"

definition AuctionEntryPoint_AUCTIONVERSION :: method_binding where
  "AuctionEntryPoint_AUCTIONVERSION = caller ''AUCTIONVERSION'' ''AUCTION_VERSION'' [] [GoString]"

definition AuctionEntryPoint_MAXDATASIZE :: method_binding where
  "AuctionEntryPoint_MAXDATASIZE = caller ''MAXDATASIZE'' ''MAX_DATA_SIZE'' [] [GoBigInt]"

definition AuctionEntryPoint_Auctioneer :: method_binding where
  "AuctionEntryPoint_Auctioneer = caller ''Auctioneer'' ''auctioneer'' [] [GoAddress]"

definition AuctionEntryPoint_DepositVault :: method_binding where
  "AuctionEntryPoint_DepositVault = caller ''DepositVault'' ''depositVault'' [] [GoAddress]"

definition AuctionEntryPoint_Eip712Domain :: method_binding where
  "AuctionEntryPoint_Eip712Domain = caller ''Eip712Domain'' ''eip712Domain'' [] [GoFixed 1, GoString, GoString,
        GoBigInt, GoAddress, GoFixed 32, GoSlice GoBigInt]"

definition AuctionEntryPoint_GasBufferEstimate :: method_binding where
  "AuctionEntryPoint_GasBufferEstimate = caller ''GasBufferEstimate'' ''gasBufferEstimate'' [] [GoBigInt]"

definition AuctionEntryPoint_GasBufferUnmeasured :: method_binding where
  "AuctionEntryPoint_GasBufferUnmeasured = caller ''GasBufferUnmeasured'' ''gasBufferUnmeasured'' [] [GoBigInt]"

definition AuctionEntryPoint_GasContractExecution :: method_binding where
  "AuctionEntryPoint_GasContractExecution = caller ''GasContractExecution'' ''gasContractExecution'' [] [GoBigInt]"

definition AuctionEntryPoint_GasPerByteEip7623 :: method_binding where
  "AuctionEntryPoint_GasPerByteEip7623 = caller ''GasPerByteEip7623'' ''gasPerByteEip7623'' [] [GoBigInt]"

definition AuctionEntryPoint_GasPerByteIntrinsic :: method_binding where
  "AuctionEntryPoint_GasPerByteIntrinsic = caller ''GasPerByteIntrinsic'' ''gasPerByteIntrinsic'' [] [GoBigInt]"

definition AuctionEntryPoint_GetAuctionTxHash :: method_binding where
  "AuctionEntryPoint_GetAuctionTxHash = caller ''GetAuctionTxHash'' ''getAuctionTxHash'' [IAuctionEntryPointAuctionTx] [GoFixed 32]"

definition AuctionEntryPoint_GetNoncesAndDeposits :: method_binding where
  "AuctionEntryPoint_GetNoncesAndDeposits = caller ''GetNoncesAndDeposits'' ''getNoncesAndDeposits'' [GoSlice GoAddress] [GoSlice GoBigInt, GoSlice GoBigInt]"

definition AuctionEntryPoint_Nonces :: method_binding where
  "AuctionEntryPoint_Nonces = caller ''Nonces'' ''nonces'' [GoAddress] [GoBigInt]"

definition AuctionEntryPoint_Owner :: method_binding where
  "AuctionEntryPoint_Owner = caller ''Owner'' ''owner'' [] [GoAddress]"

definition AuctionEntryPoint_Call :: method_binding where
  "AuctionEntryPoint_Call = transactor ''Call'' ''call'' [IAuctionEntryPointAuctionTx]"

definition AuctionEntryPoint_ChangeAuctioneer :: method_binding where
  "AuctionEntryPoint_ChangeAuctioneer = transactor ''ChangeAuctioneer'' ''changeAuctioneer'' [GoAddress]"

definition AuctionEntryPoint_ChangeDepositVault :: method_binding where
  "AuctionEntryPoint_ChangeDepositVault = transactor ''ChangeDepositVault'' ''changeDepositVault'' [GoAddress]"

definition AuctionEntryPoint_ChangeGasParameters :: method_binding where
  "AuctionEntryPoint_ChangeGasParameters = transactor ''ChangeGasParameters'' ''changeGasParameters'' [GoBigInt, GoBigInt, GoBigInt, GoBigInt, GoBigInt]"

definition AuctionEntryPoint_RenounceOwnership :: method_binding where
  "AuctionEntryPoint_RenounceOwnership = transactor ''RenounceOwnership'' ''renounceOwnership'' []"

definition AuctionEntryPoint_TransferOwnership :: method_binding where
  "AuctionEntryPoint_TransferOwnership = transactor ''TransferOwnership'' ''transferOwnership'' [GoAddress]"

definition AuctionEntryPoint_Call_event :: event_binding where
  "AuctionEntryPoint_Call_event = event_binding ''Call'' ''Call''
     []
     [(''Sender'', GoAddress), (''Nonce'', GoBigInt)] True"

definition AuctionEntryPoint_CallFailed_event :: event_binding where
  "AuctionEntryPoint_CallFailed_event = event_binding ''CallFailed'' ''CallFailed''
     []
     [(''Sender'', GoAddress), (''Nonce'', GoBigInt)] True"

definition AuctionEntryPoint_ChangeAuctioneer_event :: event_binding where
  "AuctionEntryPoint_ChangeAuctioneer_event = event_binding ''ChangeAuctioneer'' ''ChangeAuctioneer''
     []
     [(''OldAuctioneer'', GoAddress), (''NewAuctioneer'', GoAddress)] True"

definition AuctionEntryPoint_ChangeDepositVault_event :: event_binding where
  "AuctionEntryPoint_ChangeDepositVault_event = event_binding ''ChangeDepositVault'' ''ChangeDepositVault''
     []
     [(''OldDepositVault'', GoAddress), (''NewDepositVault'', GoAddress)] True"

definition AuctionEntryPoint_ChangeGasParameters_event :: event_binding where
  "AuctionEntryPoint_ChangeGasParameters_event = event_binding ''ChangeGasParameters'' ''ChangeGasParameters''
     []
     [(''GasPerByteIntrinsic'', GoBigInt), (''GasPerByteEip7623'', GoBigInt), (''GasContractExecution'', GoBigInt), (''GasBufferEstimate'', GoBigInt), (''GasBufferUnmeasured'', GoBigInt)] True"

definition AuctionEntryPoint_EIP712DomainChanged_event :: event_binding where
  "AuctionEntryPoint_EIP712DomainChanged_event = event_binding ''EIP712DomainChanged'' ''EIP712DomainChanged''
     []
     [] True"

definition AuctionEntryPoint_OwnershipTransferred_event :: event_binding where
  "AuctionEntryPoint_OwnershipTransferred_event = event_binding ''OwnershipTransferred'' ''OwnershipTransferred''
     [(''previousOwner'', GoAddress), (''newOwner'', GoAddress)]
     [(''PreviousOwner'', GoAddress), (''NewOwner'', GoAddress)] True"

definition AuctionEntryPoint_UseNonce_event :: event_binding where
  "AuctionEntryPoint_UseNonce_event = event_binding ''UseNonce'' ''UseNonce''
     []
     [(''Searcher'', GoAddress), (''Nonce'', GoBigInt)] True"

definition AuctionEntryPoint_binding :: binding where
  "AuctionEntryPoint_binding = \<lparr>bd_abi = AuctionEntryPointABI, bd_code = AuctionEntryPointBin, bd_ctor = [GoAddress, GoAddress, GoAddress],
     bd_methods = [AuctionEntryPoint_AUCTIONNAME, AuctionEntryPoint_AUCTIONVERSION,
       AuctionEntryPoint_MAXDATASIZE, AuctionEntryPoint_Auctioneer, AuctionEntryPoint_DepositVault,
       AuctionEntryPoint_Eip712Domain, AuctionEntryPoint_GasBufferEstimate,
       AuctionEntryPoint_GasBufferUnmeasured, AuctionEntryPoint_GasContractExecution,
       AuctionEntryPoint_GasPerByteEip7623, AuctionEntryPoint_GasPerByteIntrinsic,
       AuctionEntryPoint_GetAuctionTxHash, AuctionEntryPoint_GetNoncesAndDeposits, AuctionEntryPoint_Nonces,
       AuctionEntryPoint_Owner, AuctionEntryPoint_Call, AuctionEntryPoint_ChangeAuctioneer,
       AuctionEntryPoint_ChangeDepositVault, AuctionEntryPoint_ChangeGasParameters,
       AuctionEntryPoint_RenounceOwnership, AuctionEntryPoint_TransferOwnership],
     bd_events = [AuctionEntryPoint_Call_event, AuctionEntryPoint_CallFailed_event,
       AuctionEntryPoint_ChangeAuctioneer_event, AuctionEntryPoint_ChangeDepositVault_event,
       AuctionEntryPoint_ChangeGasParameters_event, AuctionEntryPoint_EIP712DomainChanged_event,
       AuctionEntryPoint_OwnershipTransferred_event, AuctionEntryPoint_UseNonce_event]\<rparr>"

section \<open>AuctionDepositVault\<close>

definition AuctionDepositVault_REGISTRYADDRESS :: method_binding where
  "AuctionDepositVault_REGISTRYADDRESS = caller ''REGISTRYADDRESS'' ''REGISTRY_ADDRESS'' [] [GoAddress]"

definition AuctionDepositVault_AuctionFeeVault :: method_binding where
  "AuctionDepositVault_AuctionFeeVault = caller ''AuctionFeeVault'' ''auctionFeeVault'' [] [GoAddress]"

definition AuctionDepositVault_DepositBalances :: method_binding where
  "AuctionDepositVault_DepositBalances = caller ''DepositBalances'' ''depositBalances'' [GoAddress] [GoBigInt]"

definition AuctionDepositVault_GetAllAddrsOverMinDeposit :: method_binding where
  "AuctionDepositVault_GetAllAddrsOverMinDeposit = caller ''GetAllAddrsOverMinDeposit'' ''getAllAddrsOverMinDeposit'' [GoBigInt, GoBigInt] [GoSlice GoAddress, GoSlice GoBigInt, GoSlice GoBigInt]"

definition AuctionDepositVault_GetDepositAddrs :: method_binding where
  "AuctionDepositVault_GetDepositAddrs = caller ''GetDepositAddrs'' ''getDepositAddrs'' [GoBigInt,
        GoBigInt] [GoSlice GoAddress]"

definition AuctionDepositVault_GetDepositAddrsLength :: method_binding where
  "AuctionDepositVault_GetDepositAddrsLength = caller ''GetDepositAddrsLength'' ''getDepositAddrsLength'' [] [GoBigInt]"

definition AuctionDepositVault_IsMinDepositOver :: method_binding where
  "AuctionDepositVault_IsMinDepositOver = caller ''IsMinDepositOver'' ''isMinDepositOver'' [GoAddress] [GoBool]"

definition AuctionDepositVault_MinDepositAmount :: method_binding where
  "AuctionDepositVault_MinDepositAmount = caller ''MinDepositAmount'' ''minDepositAmount'' [] [GoBigInt]"

definition AuctionDepositVault_MinWithdrawLockTime :: method_binding where
  "AuctionDepositVault_MinWithdrawLockTime = caller ''MinWithdrawLockTime'' ''minWithdrawLockTime'' [] [GoBigInt]"

definition AuctionDepositVault_Owner :: method_binding where
  "AuctionDepositVault_Owner = caller ''Owner'' ''owner'' [] [GoAddress]"

definition AuctionDepositVault_WithdrawReservations :: method_binding where
  "AuctionDepositVault_WithdrawReservations = caller ''WithdrawReservations'' ''withdrawReservations'' [GoAddress] [GoBigInt, GoBigInt]"

definition AuctionDepositVault_ChangeAuctionFeeVault :: method_binding where
  "AuctionDepositVault_ChangeAuctionFeeVault = transactor ''ChangeAuctionFeeVault'' ''changeAuctionFeeVault'' [GoAddress]"

definition AuctionDepositVault_ChangeMinDepositAmount :: method_binding where
  "AuctionDepositVault_ChangeMinDepositAmount = transactor ''ChangeMinDepositAmount'' ''changeMinDepositAmount'' [GoBigInt]"

definition AuctionDepositVault_ChangeMinWithdrawLocktime :: method_binding where
  "AuctionDepositVault_ChangeMinWithdrawLocktime = transactor ''ChangeMinWithdrawLocktime'' ''changeMinWithdrawLocktime'' [GoBigInt]"

definition AuctionDepositVault_Deposit :: method_binding where
  "AuctionDepositVault_Deposit = transactor ''Deposit'' ''deposit'' []"

definition AuctionDepositVault_DepositFor :: method_binding where
  "AuctionDepositVault_DepositFor = transactor ''DepositFor'' ''depositFor'' [GoAddress]"

definition AuctionDepositVault_RenounceOwnership :: method_binding where
  "AuctionDepositVault_RenounceOwnership = transactor ''RenounceOwnership'' ''renounceOwnership'' []"

definition AuctionDepositVault_ReserveWithdraw :: method_binding where
  "AuctionDepositVault_ReserveWithdraw = transactor ''ReserveWithdraw'' ''reserveWithdraw'' []"

definition AuctionDepositVault_TakeBid :: method_binding where
  "AuctionDepositVault_TakeBid = transactor ''TakeBid'' ''takeBid'' [GoAddress, GoBigInt]"

definition AuctionDepositVault_TakeGas :: method_binding where
  "AuctionDepositVault_TakeGas = transactor ''TakeGas'' ''takeGas'' [GoAddress, GoBigInt]"

definition AuctionDepositVault_TransferOwnership :: method_binding where
  "AuctionDepositVault_TransferOwnership = transactor ''TransferOwnership'' ''transferOwnership'' [GoAddress]"

definition AuctionDepositVault_Withdraw :: method_binding where
  "AuctionDepositVault_Withdraw = transactor ''Withdraw'' ''withdraw'' []"

definition AuctionDepositVault_ChangeAuctionFeeVault_event :: event_binding where
  "AuctionDepositVault_ChangeAuctionFeeVault_event = event_binding ''ChangeAuctionFeeVault'' ''ChangeAuctionFeeVault''
     []
     [(''OldFeeVault'', GoAddress), (''NewFeeVault'', GoAddress)] True"

definition AuctionDepositVault_ChangeMinDepositAmount_event :: event_binding where
  "AuctionDepositVault_ChangeMinDepositAmount_event = event_binding ''ChangeMinDepositAmount'' ''ChangeMinDepositAmount''
     []
     [(''OldAmount'', GoBigInt), (''NewAmount'', GoBigInt)] True"

definition AuctionDepositVault_ChangeMinWithdrawLocktime_event :: event_binding where
  "AuctionDepositVault_ChangeMinWithdrawLocktime_event = event_binding ''ChangeMinWithdrawLocktime'' ''ChangeMinWithdrawLocktime''
     []
     [(''OldLocktime'', GoBigInt), (''NewLocktime'', GoBigInt)] True"

definition AuctionDepositVault_InsufficientBalance_event :: event_binding where
  "AuctionDepositVault_InsufficientBalance_event = event_binding ''InsufficientBalance'' ''InsufficientBalance''
     []
     [(''Searcher'', GoAddress), (''Balance'', GoBigInt), (''Amount'', GoBigInt)] True"

definition AuctionDepositVault_OwnershipTransferred_event :: event_binding where
  "AuctionDepositVault_OwnershipTransferred_event = event_binding ''OwnershipTransferred'' ''OwnershipTransferred''
     [(''previousOwner'', GoAddress), (''newOwner'', GoAddress)]
     [(''PreviousOwner'', GoAddress), (''NewOwner'', GoAddress)] True"

definition AuctionDepositVault_TakenBid_event :: event_binding where
  "AuctionDepositVault_TakenBid_event = event_binding ''TakenBid'' ''TakenBid''
     []
     [(''Searcher'', GoAddress), (''Amount'', GoBigInt)] True"

definition AuctionDepositVault_TakenBidFailed_event :: event_binding where
  "AuctionDepositVault_TakenBidFailed_event = event_binding ''TakenBidFailed'' ''TakenBidFailed''
     []
     [(''Searcher'', GoAddress), (''Amount'', GoBigInt)] True"

definition AuctionDepositVault_TakenGas_event :: event_binding where
  "AuctionDepositVault_TakenGas_event = event_binding ''TakenGas'' ''TakenGas''
     []
     [(''Searcher'', GoAddress), (''GasAmount'', GoBigInt)] True"

definition AuctionDepositVault_TakenGasFailed_event :: event_binding where
  "AuctionDepositVault_TakenGasFailed_event = event_binding ''TakenGasFailed'' ''TakenGasFailed''
     []
     [(''Searcher'', GoAddress), (''GasAmount'', GoBigInt)] True"

definition AuctionDepositVault_VaultDeposit_event :: event_binding where
  "AuctionDepositVault_VaultDeposit_event = event_binding ''VaultDeposit'' ''VaultDeposit''
     []
     [(''Searcher'', GoAddress), (''Amount'', GoBigInt), (''TotalAmount'', GoBigInt), (''Nonce'', GoBigInt)] True"

definition AuctionDepositVault_VaultReserveWithdraw_event :: event_binding where
  "AuctionDepositVault_VaultReserveWithdraw_event = event_binding ''VaultReserveWithdraw'' ''VaultReserveWithdraw''
     []
     [(''Searcher'', GoAddress), (''Amount'', GoBigInt), (''Nonce'', GoBigInt)] True"

definition AuctionDepositVault_VaultWithdraw_event :: event_binding where
  "AuctionDepositVault_VaultWithdraw_event = event_binding ''VaultWithdraw'' ''VaultWithdraw''
     []
     [(''Searcher'', GoAddress), (''Amount'', GoBigInt), (''Nonce'', GoBigInt)] True"

definition AuctionDepositVault_binding :: binding where
  "AuctionDepositVault_binding = \<lparr>bd_abi = AuctionDepositVaultABI, bd_code = AuctionDepositVaultBin, bd_ctor = [GoAddress, GoAddress],
     bd_methods = [AuctionDepositVault_REGISTRYADDRESS, AuctionDepositVault_AuctionFeeVault,
       AuctionDepositVault_DepositBalances, AuctionDepositVault_GetAllAddrsOverMinDeposit,
       AuctionDepositVault_GetDepositAddrs, AuctionDepositVault_GetDepositAddrsLength,
       AuctionDepositVault_IsMinDepositOver, AuctionDepositVault_MinDepositAmount,
       AuctionDepositVault_MinWithdrawLockTime, AuctionDepositVault_Owner,
       AuctionDepositVault_WithdrawReservations, AuctionDepositVault_ChangeAuctionFeeVault,
       AuctionDepositVault_ChangeMinDepositAmount, AuctionDepositVault_ChangeMinWithdrawLocktime,
       AuctionDepositVault_Deposit, AuctionDepositVault_DepositFor, AuctionDepositVault_RenounceOwnership,
       AuctionDepositVault_ReserveWithdraw, AuctionDepositVault_TakeBid, AuctionDepositVault_TakeGas,
       AuctionDepositVault_TransferOwnership, AuctionDepositVault_Withdraw],
     bd_events = [AuctionDepositVault_ChangeAuctionFeeVault_event,
       AuctionDepositVault_ChangeMinDepositAmount_event,
       AuctionDepositVault_ChangeMinWithdrawLocktime_event, AuctionDepositVault_InsufficientBalance_event,
       AuctionDepositVault_OwnershipTransferred_event, AuctionDepositVault_TakenBid_event,
       AuctionDepositVault_TakenBidFailed_event, AuctionDepositVault_TakenGas_event,
       AuctionDepositVault_TakenGasFailed_event, AuctionDepositVault_VaultDeposit_event,
       AuctionDepositVault_VaultReserveWithdraw_event, AuctionDepositVault_VaultWithdraw_event]\<rparr>"

section \<open>AuctionFeeVault\<close>

definition AuctionFeeVault_ADDRESSBOOK :: method_binding where
  "AuctionFeeVault_ADDRESSBOOK = caller ''ADDRESSBOOK'' ''ADDRESS_BOOK'' [] [GoAddress]"

definition AuctionFeeVault_MAXPAYBACKRATE :: method_binding where
  "AuctionFeeVault_MAXPAYBACKRATE = caller ''MAXPAYBACKRATE'' ''MAX_PAYBACK_RATE'' [] [GoBigInt]"

definition AuctionFeeVault_AccumulatedBids :: method_binding where
  "AuctionFeeVault_AccumulatedBids = caller ''AccumulatedBids'' ''accumulatedBids'' [] [GoBigInt]"

definition AuctionFeeVault_GetRewardAddr :: method_binding where
  "AuctionFeeVault_GetRewardAddr = caller ''GetRewardAddr'' ''getRewardAddr'' [GoAddress] [GoAddress]"

definition AuctionFeeVault_Owner :: method_binding where
  "AuctionFeeVault_Owner = caller ''Owner'' ''owner'' [] [GoAddress]"

definition AuctionFeeVault_SearcherPaybackRate :: method_binding where
  "AuctionFeeVault_SearcherPaybackRate = caller ''SearcherPaybackRate'' ''searcherPaybackRate'' [] [GoBigInt]"

definition AuctionFeeVault_ValidatorPaybackRate :: method_binding where
  "AuctionFeeVault_ValidatorPaybackRate = caller ''ValidatorPaybackRate'' ''validatorPaybackRate'' [] [GoBigInt]"

definition AuctionFeeVault_RegisterRewardAddress :: method_binding where
  "AuctionFeeVault_RegisterRewardAddress = transactor ''RegisterRewardAddress'' ''registerRewardAddress'' [GoAddress, GoAddress]"

definition AuctionFeeVault_RegisterRewardAddresses :: method_binding where
  "AuctionFeeVault_RegisterRewardAddresses = transactor ''RegisterRewardAddresses'' ''registerRewardAddresses'' [GoSlice GoAddress, GoSlice GoAddress]"

definition AuctionFeeVault_RenounceOwnership :: method_binding where
  "AuctionFeeVault_RenounceOwnership = transactor ''RenounceOwnership'' ''renounceOwnership'' []"

definition AuctionFeeVault_SetSearcherPaybackRate :: method_binding where
  "AuctionFeeVault_SetSearcherPaybackRate = transactor ''SetSearcherPaybackRate'' ''setSearcherPaybackRate'' [GoBigInt]"

definition AuctionFeeVault_SetValidatorPaybackRate :: method_binding where
  "AuctionFeeVault_SetValidatorPaybackRate = transactor ''SetValidatorPaybackRate'' ''setValidatorPaybackRate'' [GoBigInt]"

definition AuctionFeeVault_TakeBid :: method_binding where
  "AuctionFeeVault_TakeBid = transactor ''TakeBid'' ''takeBid'' [GoAddress]"

definition AuctionFeeVault_TransferOwnership :: method_binding where
  "AuctionFeeVault_TransferOwnership = transactor ''TransferOwnership'' ''transferOwnership'' [GoAddress]"

definition AuctionFeeVault_Withdraw :: method_binding where
  "AuctionFeeVault_Withdraw = transactor ''Withdraw'' ''withdraw'' [GoAddress]"

definition AuctionFeeVault_FeeDeposit_event :: event_binding where
  "AuctionFeeVault_FeeDeposit_event = event_binding ''FeeDeposit'' ''FeeDeposit''
     [(''sender'', GoAddress)]
     [(''Sender'', GoAddress), (''Amount'', GoBigInt), (''PaybackAmount'', GoBigInt), (''ValidatorPaybackAmount'', GoBigInt)] True"

definition AuctionFeeVault_FeePaybackFailed_event :: event_binding where
  "AuctionFeeVault_FeePaybackFailed_event = event_binding ''FeePaybackFailed'' ''FeePaybackFailed''
     [(''receiver'', GoAddress)]
     [(''Receiver'', GoAddress), (''Amount'', GoBigInt)] True"

definition AuctionFeeVault_FeeWithdrawal_event :: event_binding where
  "AuctionFeeVault_FeeWithdrawal_event = event_binding ''FeeWithdrawal'' ''FeeWithdrawal''
     []
     [(''Amount'', GoBigInt)] True"

definition AuctionFeeVault_OwnershipTransferred_event :: event_binding where
  "AuctionFeeVault_OwnershipTransferred_event = event_binding ''OwnershipTransferred'' ''OwnershipTransferred''
     [(''previousOwner'', GoAddress), (''newOwner'', GoAddress)]
     [(''PreviousOwner'', GoAddress), (''NewOwner'', GoAddress)] True"

definition AuctionFeeVault_RewardAddressRegistered_event :: event_binding where
  "AuctionFeeVault_RewardAddressRegistered_event = event_binding ''RewardAddressRegistered'' ''RewardAddressRegistered''
     [(''nodeId'', GoAddress), (''reward'', GoAddress)]
     [(''NodeId'', GoAddress), (''Reward'', GoAddress)] True"

definition AuctionFeeVault_SearcherPaybackRateUpdated_event :: event_binding where
  "AuctionFeeVault_SearcherPaybackRateUpdated_event = event_binding ''SearcherPaybackRateUpdated'' ''SearcherPaybackRateUpdated''
     []
     [(''SearcherPaybackRate'', GoBigInt)] True"

definition AuctionFeeVault_ValidatorPaybackRateUpdated_event :: event_binding where
  "AuctionFeeVault_ValidatorPaybackRateUpdated_event = event_binding ''ValidatorPaybackRateUpdated'' ''ValidatorPaybackRateUpdated''
     []
     [(''ValidatorPaybackRate'', GoBigInt)] True"

definition AuctionFeeVault_binding :: binding where
  "AuctionFeeVault_binding = \<lparr>bd_abi = AuctionFeeVaultABI, bd_code = AuctionFeeVaultBin, bd_ctor = [GoAddress, GoBigInt, GoBigInt],
     bd_methods = [AuctionFeeVault_ADDRESSBOOK, AuctionFeeVault_MAXPAYBACKRATE,
       AuctionFeeVault_AccumulatedBids, AuctionFeeVault_GetRewardAddr, AuctionFeeVault_Owner,
       AuctionFeeVault_SearcherPaybackRate, AuctionFeeVault_ValidatorPaybackRate,
       AuctionFeeVault_RegisterRewardAddress, AuctionFeeVault_RegisterRewardAddresses,
       AuctionFeeVault_RenounceOwnership, AuctionFeeVault_SetSearcherPaybackRate,
       AuctionFeeVault_SetValidatorPaybackRate, AuctionFeeVault_TakeBid, AuctionFeeVault_TransferOwnership,
       AuctionFeeVault_Withdraw],
     bd_events = [AuctionFeeVault_FeeDeposit_event, AuctionFeeVault_FeePaybackFailed_event,
       AuctionFeeVault_FeeWithdrawal_event, AuctionFeeVault_OwnershipTransferred_event,
       AuctionFeeVault_RewardAddressRegistered_event, AuctionFeeVault_SearcherPaybackRateUpdated_event,
       AuctionFeeVault_ValidatorPaybackRateUpdated_event]\<rparr>"

end
