(* ===== verification/Contract_Info.thy ===== *)
theory Contract_Info
  imports Process Go_Strconv Auction_Bindings
begin

text \<open>
  The contract table of \<open>klayslave/account/contract.go\<close>: what each test contract is called, who
  deploys it, which test cases need it, its call data, its constructor parameters, and how the
  program finds out whether and where it is deployed. The set-up and charging work of the
  entries (\<open>DoSetupWork\<close>, \<open>DoChargingWork\<close>) is in \<open>Deployment\<close>.
\<close>

section \<open>Registry and address lookups\<close>

definition getNonce0ContractAddress :: "('tx, 'w) env \<Rightarrow> account option \<Rightarrow> addr" where
  "getNonce0ContractAddress E d =
     (case d of None \<Rightarrow> 0 | Some a \<Rightarrow> createAddress (e_lib E) (GetAddress a) 0)"

definition isDeployerNonceNotZero :: "('tx, 'w) env \<Rightarrow> ('w, bool) op" where
  "isDeployerNonceNotZero E a w =
     (case GetNonce (e_cli E) a w of (n, a', w') \<Rightarrow> (Ret (n > 0), a', w'))"

definition getGSRAddressInRegistry :: "('tx, 'w) env \<Rightarrow> 'w \<Rightarrow> addr \<times> 'w" where
  "getGSRAddressInRegistry E w =
     (case newRegistry (e_bnd E) of
        Some e \<Rightarrow> (0, w)
      | None \<Rightarrow>
          (case getActiveAddr (e_bnd E) (GaslessSwapRouterName (e_bnd E)) w of
             (Inl e, w') \<Rightarrow> (0, w')
           | (Inr a, w') \<Rightarrow> (a, w')))"

definition getAuctionEntryPointAddressInRegistry :: "('tx, 'w) env \<Rightarrow> 'w \<Rightarrow> addr \<times> 'w" where
  "getAuctionEntryPointAddressInRegistry E w =
     (case newRegistry (e_bnd E) of
        Some e \<Rightarrow> (0, w)
      | None \<Rightarrow>
          (case getActiveAddr (e_bnd E) (AuctionEntryPointName (e_bnd E)) w of
             (Inl e, w') \<Rightarrow> (0, w')
           | (Inr a, w') \<Rightarrow> (a, w')))"

definition IsGSRExistInRegistry :: "('tx, 'w) env \<Rightarrow> 'w \<Rightarrow> bool \<times> 'w" where
  "IsGSRExistInRegistry E w = (case getGSRAddressInRegistry E w of (a, w') \<Rightarrow> (a \<noteq> 0, w'))"

definition IsAuctionEntryPointExistInRegistry :: "('tx, 'w) env \<Rightarrow> 'w \<Rightarrow> bool \<times> 'w" where
  "IsAuctionEntryPointExistInRegistry E w =
     (case getAuctionEntryPointAddressInRegistry E w of (a, w') \<Rightarrow> (a \<noteq> 0, w'))"

definition getGSRAddress :: "('tx, 'w) env \<Rightarrow> 'w \<Rightarrow> addr \<times> 'w" where
  "getGSRAddress E w =
     (let expected = getNonce0ContractAddress E (Some (pkg E GaslessSwapRouterDeployer)) in
      case getGSRAddressInRegistry E w of
        (a, w') \<Rightarrow> (if a \<noteq> 0 then a else expected, w'))"

definition getAuctionEntryPointAddress :: "('tx, 'w) env \<Rightarrow> 'w \<Rightarrow> addr \<times> 'w" where
  "getAuctionEntryPointAddress E w =
     (let expected = getNonce0ContractAddress E (Some (pkg E AuctionEntryPointDeployer)) in
      case getAuctionEntryPointAddressInRegistry E w of
        (a, w') \<Rightarrow> (if a \<noteq> 0 then a else expected, w'))"

text \<open>The nonce is a \<open>*big.Int\<close>; \<open>None\<close> is a nil one. \<open>out0\<close> is the first result of the call.\<close>

definition getEntrypointNonce :: "('tx, 'w) env \<Rightarrow> addr \<Rightarrow> 'w \<Rightarrow> int option outcome \<times> 'w" where
  "getEntrypointNonce E searcher w =
     (case getAuctionEntryPointAddress E w of
        (ep, w1) \<Rightarrow>
          (case new_binding (e_abi E) AuctionEntryPoint_binding ep of
             Inl e \<Rightarrow> (Ret (Some 0), w1)
           | Inr c \<Rightarrow>
               (case call_method (boundCall (e_bnd E) c) AuctionEntryPoint_Nonces [ArgAddress searcher] w1 of
                  (r, w2) \<Rightarrow>
                    (map_outcome_ret (\<lambda>(vs, err). if err \<noteq> None then Some 0
                       else case vs of ArgUint n # _ \<Rightarrow> Some n | _ \<Rightarrow> None) r, w2))))"

lemma getEntrypointNonce_not_Block [simp]: "fst (getEntrypointNonce E a w) \<noteq> Block"
  by (auto simp: getEntrypointNonce_def split: prod.splits sum.splits)

definition getGaslessTokenAddress :: "('tx, 'w) env \<Rightarrow> 'w \<Rightarrow> addr \<times> 'w" where
  "getGaslessTokenAddress E w =
     (let expected = getNonce0ContractAddress E (Some (pkg E GaslessTokenDeployer)) in
      case getGSRAddress E w of
        (a, w1) \<Rightarrow>
          (if a = 0 then (expected, w1)
           else case newSwapRouter (e_bnd E) a of
                  Some e \<Rightarrow> (expected, w1)
                | None \<Rightarrow>
                    (case getSupportedTokens (e_bnd E) a w1 of
                       (Inl e, w2) \<Rightarrow> (expected, w2)
                     | (Inr ts, w2) \<Rightarrow> (case ts of [] \<Rightarrow> (expected, w2) | t # _ \<Rightarrow> (t, w2)))))"

definition GetInitialLiquidity :: "('tx, 'w) env \<Rightarrow> int" where
  "GetInitialLiquidity E = 10000000000 * KAIA E"

definition returnBinAsIs :: "bytes \<Rightarrow> account option list \<Rightarrow> account \<Rightarrow> bytes outcome" where
  "returnBinAsIs bin cs d = Ret bin"

section \<open>The table entry\<close>

text \<open>
  \<open>IsDeployed\<close> is called on the deployer (\<open>GetNonce\<close> may cache its nonce); \<open>GetAddress\<close> is
  \<open>InfoGetAddress\<close> here, to keep the account's accessor apart. \<open>Abi\<close> is \<open>None\<close> for the empty text.
\<close>

record ('tx, 'w) TestContractInfo =
  testNames :: "string list"
  auctionTargetTxTypes :: "string list"
  Bytecode :: bytes
  deployer :: fixed_acc
  contractName :: string
  Abi :: "abi_id option"
  GenData :: "(addr \<Rightarrow> int option \<Rightarrow> 'w \<Rightarrow> bytes outcome \<times> 'w) option"
  GetBytecodeWithConstructorParam :: "bytes \<Rightarrow> account option list \<Rightarrow> account \<Rightarrow> bytes outcome"
  IsDeployed :: "('w, bool) op"
  InfoGetAddress :: "account \<Rightarrow> 'w \<Rightarrow> addr \<times> 'w"
  WaitForSetup :: "('w \<Rightarrow> bool \<times> 'w) option"

text \<open>Small helpers of the entries: a pure packer, a world read as an account operation.\<close>

definition pure_gen :: "bytes outcome \<Rightarrow> 'w \<Rightarrow> bytes outcome \<times> 'w" where
  "pure_gen d w = (d, w)"

definition reg_op :: "('w \<Rightarrow> bool \<times> 'w) \<Rightarrow> ('w, bool) op" where
  "reg_op f a w = (case f w of (b, w') \<Rightarrow> (Ret b, a, w'))"

definition nonce0 :: "('tx, 'w) env \<Rightarrow> account \<Rightarrow> 'w \<Rightarrow> addr \<times> 'w" where
  "nonce0 E d w = (getNonce0ContractAddress E (Some d), w)"

definition nil_panic :: "'a outcome" where
  "nil_panic = Panic ''nil pointer dereference''"

text \<open>\<open>append(bin, packed...)\<close> and \<open>contracts[t].address\<close>.\<close>

definition append_packed :: "bytes \<Rightarrow> bytes outcome \<Rightarrow> bytes outcome" where
  "append_packed bin d = map_outcome_ret (\<lambda>p. bin @ p) d"

definition contract_addr :: "account option list \<Rightarrow> TestContract \<Rightarrow> (addr \<Rightarrow> 'r outcome) \<Rightarrow> 'r outcome" where
  "contract_addr cs t f =
     (if TestContract_idx t < length cs then
        (case cs ! TestContract_idx t of None \<Rightarrow> nil_panic | Some a \<Rightarrow> f (acc_address a))
      else Panic ''index out of range'')"

lemmas info_helpers = pure_gen_def append_packed_def contract_addr_def nil_panic_def

section \<open>The entries\<close>

definition createERC20ContractInfo :: "('tx, 'w) env \<Rightarrow> ('tx, 'w) TestContractInfo" where
  "createERC20ContractInfo E =
     \<lparr>testNames = [''erc20TransferTC''],
      auctionTargetTxTypes = [],
      Bytecode = codeBytes (e_abi E) erc20Bytecode, deployer = ERC20Deployer,
      contractName = ''ERC20 Performance Test Contract'', Abi = Some erc20ABI,
      GenData = Some (\<lambda>recipientAddr v. pure_gen (case v of None \<Rightarrow> nil_panic
          | Some x \<Rightarrow> PackContractCall (e_abi E) erc20ABI
              (if x = 100000000000 then ''mint'' else ''transfer'') [ArgAddress recipientAddr, ArgUint x])),
      GetBytecodeWithConstructorParam = returnBinAsIs,
      IsDeployed = isDeployerNonceNotZero E, InfoGetAddress = nonce0 E, WaitForSetup = None\<rparr>"

definition createERC721ContractInfo :: "('tx, 'w) env \<Rightarrow> ('tx, 'w) TestContractInfo" where
  "createERC721ContractInfo E =
     \<lparr>testNames = [''erc721TransferTC''],
      auctionTargetTxTypes = [],
      Bytecode = codeBytes (e_abi E) erc721Bytecode, deployer = ERC721Deployer,
      contractName = ''ERC721 Performance Test Contract'', Abi = Some erc721PerformanceABI,
      GenData = None,
      GetBytecodeWithConstructorParam = returnBinAsIs,
      IsDeployed = isDeployerNonceNotZero E, InfoGetAddress = nonce0 E, WaitForSetup = None\<rparr>"

definition createStorageTrieContractInfo :: "('tx, 'w) env \<Rightarrow> ('tx, 'w) TestContractInfo" where
  "createStorageTrieContractInfo E =
     \<lparr>testNames = [''storageTrieWriteTC''],
      auctionTargetTxTypes = [],
      Bytecode = codeBytes (e_abi E) storageTrieBytecode, deployer = StorageTrieDeployer,
      contractName = ''Storage Trie Performance Test Contract'', Abi = None,
      GenData = None,
      GetBytecodeWithConstructorParam = returnBinAsIs,
      IsDeployed = isDeployerNonceNotZero E, InfoGetAddress = nonce0 E, WaitForSetup = None\<rparr>"

text \<open>The second test name starts with a blank in the source.\<close>

definition createGeneralPurposeContractInfo :: "('tx, 'w) env \<Rightarrow> ('tx, 'w) TestContractInfo" where
  "createGeneralPurposeContractInfo E =
     \<lparr>testNames = [''newSmartContractExecutionTC'', '' newFeeDelegatedSmartContractExecutionTC'',
        ''newFeeDelegatedSmartContractExecutionWithRatioTC'', ''ethereumTxLegacyTC'',
        ''ethereumTxAccessListTC'', ''newEthereumAccessListTC'', ''newEthereumDynamicFeeTC''],
      auctionTargetTxTypes = [],
      Bytecode = codeBytes (e_abi E) generalPurposeBytecode, deployer = GeneralPurposeDeployer,
      contractName = ''General Purpose Test Smart Contract'', Abi = Some generalPurposeABI,
      GenData = Some (\<lambda>a v. pure_gen (PackContractCall (e_abi E) generalPurposeABI ''reward'' [ArgAddress a])),
      GetBytecodeWithConstructorParam = returnBinAsIs,
      IsDeployed = isDeployerNonceNotZero E, InfoGetAddress = nonce0 E, WaitForSetup = None\<rparr>"

definition createGaslessTokenContractInfo :: "('tx, 'w) env \<Rightarrow> ('tx, 'w) TestContractInfo" where
  "createGaslessTokenContractInfo E =
     \<lparr>testNames = [''gaslessTransactionTC'', ''gaslessRevertTransactionTC'', ''gaslessOnlyApproveTC''],
      auctionTargetTxTypes = [''GAA'', ''GAS'', ''rGAA'', ''rGAS''],
      Bytecode = codeBytes (e_abi E) gaslessTokenBytecode, deployer = GaslessTokenDeployer,
      contractName = ''ERC20 Test Token for gasless swap'', Abi = Some gaslessApproveABI,
      GenData = Some (\<lambda>gsrAddress v. pure_gen (case v of None \<Rightarrow> nil_panic
          | Some x \<Rightarrow> PackContractCall (e_abi E) gaslessApproveABI ''approve''
              [ArgAddress gsrAddress, ArgUint x])),
      GetBytecodeWithConstructorParam = (\<lambda>bin cs initialHolder. append_packed bin
         (PackContractCall (e_abi E) TestTokenABI [] [ArgAddress (acc_address initialHolder)])),
      IsDeployed = reg_op (IsGSRExistInRegistry E), InfoGetAddress = (\<lambda>d. getGaslessTokenAddress E), WaitForSetup = Some (IsGSRExistInRegistry E)\<rparr>"

definition createWKaiaContractInfo :: "('tx, 'w) env \<Rightarrow> ('tx, 'w) TestContractInfo" where
  "createWKaiaContractInfo E =
     \<lparr>testNames = [''gaslessTransactionTC'', ''gaslessRevertTransactionTC'', ''gaslessOnlyApproveTC''],
      auctionTargetTxTypes = [''GAA'', ''GAS'', ''rGAA'', ''rGAS''],
      Bytecode = codeBytes (e_abi E) WKAIABin, deployer = WKaiaDeployer,
      contractName = ''Wrapped Kaia Contract'', Abi = None,
      GenData = None,
      GetBytecodeWithConstructorParam = returnBinAsIs,
      IsDeployed = reg_op (IsGSRExistInRegistry E), InfoGetAddress = nonce0 E, WaitForSetup = None\<rparr>"

definition createUniswapFactoryContractInfo :: "('tx, 'w) env \<Rightarrow> ('tx, 'w) TestContractInfo" where
  "createUniswapFactoryContractInfo E =
     \<lparr>testNames = [''gaslessTransactionTC'', ''gaslessRevertTransactionTC'', ''gaslessOnlyApproveTC''],
      auctionTargetTxTypes = [''GAA'', ''GAS'', ''rGAA'', ''rGAS''],
      Bytecode = codeBytes (e_abi E) UniswapV2FactoryBin, deployer = UniswapFactoryDeployer,
      contractName = ''Uniswap V2 Factory Contract'', Abi = None,
      GenData = None,
      GetBytecodeWithConstructorParam = (\<lambda>bin cs feeToSetter. append_packed bin
         (PackContractCall (e_abi E) UniswapV2FactoryABI [] [ArgAddress (acc_address feeToSetter)])),
      IsDeployed = reg_op (IsGSRExistInRegistry E), InfoGetAddress = nonce0 E, WaitForSetup = None\<rparr>"

definition createUniswapRouterContractInfo :: "('tx, 'w) env \<Rightarrow> ('tx, 'w) TestContractInfo" where
  "createUniswapRouterContractInfo E =
     \<lparr>testNames = [''gaslessTransactionTC'', ''gaslessRevertTransactionTC'', ''gaslessOnlyApproveTC''],
      auctionTargetTxTypes = [''GAA'', ''GAS'', ''rGAA'', ''rGAS''],
      Bytecode = codeBytes (e_abi E) UniswapV2Router02Bin, deployer = UniswapRouterDeployer,
      contractName = ''Uniswap V2 Router Contract'', Abi = None,
      GenData = None,
      GetBytecodeWithConstructorParam = (\<lambda>bin cs d. contract_addr cs ContractUniswapV2Factory (\<lambda>factory.
         contract_addr cs ContractWKaia (\<lambda>wkaia. append_packed bin
           (PackContractCall (e_abi E) UniswapV2Router02ABI [] [ArgAddress factory, ArgAddress wkaia])))),
      IsDeployed = reg_op (IsGSRExistInRegistry E), InfoGetAddress = nonce0 E, WaitForSetup = None\<rparr>"

text \<open>The swap's call data: repay the gas of the lend, approve and swap transactions.\<close>

definition swap_amounts :: "int \<Rightarrow> int \<times> int \<times> int" where
  "swap_amounts suggestedGasPrice =
     (let R1 = 21000 * suggestedGasPrice; R2 = 100000 * suggestedGasPrice;
          R3 = 500000 * suggestedGasPrice; amountRepay = R1 + (R2 + R3)
      in (amountRepay * 10, amountRepay, amountRepay))"

definition createGaslessSwapRouterContractInfo :: "('tx, 'w) env \<Rightarrow> ('tx, 'w) TestContractInfo" where
  "createGaslessSwapRouterContractInfo E =
     \<lparr>testNames = [''gaslessTransactionTC'', ''gaslessRevertTransactionTC'', ''gaslessOnlyApproveTC''],
      auctionTargetTxTypes = [''GAA'', ''GAS'', ''rGAA'', ''rGAS''],
      Bytecode = codeBytes (e_abi E) GaslessSwapRouterBin, deployer = GaslessSwapRouterDeployer,
      contractName = ''Gasless Swap Router for testing GA'', Abi = Some gaslessSwapABI,
      GenData = Some (\<lambda>testTokenAddress v w. case v of None \<Rightarrow> (nil_panic, w)
          | Some suggestedGasPrice \<Rightarrow>
              (case swap_amounts suggestedGasPrice of (amountIn, minAmountOut, amountRepay) \<Rightarrow>
                 (PackContractCall (e_abi E) gaslessSwapABI ''swapForGas''
                    [ArgAddress testTokenAddress, ArgUint amountIn, ArgUint minAmountOut,
                     ArgUint amountRepay, ArgUint (unixNow E w + 3600)], w))),
      GetBytecodeWithConstructorParam = (\<lambda>bin cs d. contract_addr cs ContractWKaia (\<lambda>wkaia. append_packed bin
         (PackContractCall (e_abi E) GaslessSwapRouterABI [] [ArgAddress wkaia]))),
      IsDeployed = reg_op (IsGSRExistInRegistry E), InfoGetAddress = (\<lambda>d. getGSRAddress E), WaitForSetup = Some (IsGSRExistInRegistry E)\<rparr>"

text \<open>\<open>methodNum.Int64()\<close> is the value's low 64 bits, read as signed.\<close>

definition Int64 :: "int \<Rightarrow> int" where
  "Int64 x = sint (word_of_int x :: 64 word)"

definition createCounterForTestAuctionContractInfo :: "('tx, 'w) env \<Rightarrow> ('tx, 'w) TestContractInfo" where
  "createCounterForTestAuctionContractInfo E =
     \<lparr>testNames = [''auctionBidTC'', ''auctionRevertedBidTC''],
      auctionTargetTxTypes = [],
      Bytecode = codeBytes (e_abi E) counterBytecode, deployer = CounterForTestAuctionDeployer,
      contractName = ''Counter for Test Auction'', Abi = Some counterAuctionABI,
      GenData = Some (\<lambda>a v. pure_gen
         (let methodNum = Int64 (case v of None \<Rightarrow> 0 | Some x \<Rightarrow> x) in
          if methodNum = 0 then PackContractCall (e_abi E) counterAuctionABI ''incForAuction'' []
          else if methodNum = 1 then PackContractCall (e_abi E) counterAuctionABI ''incForSC'' []
          else if methodNum = 2 then PackContractCall (e_abi E) counterAuctionABI ''intendedRevert'' []
          else Exit ''unknown method number'')),
      GetBytecodeWithConstructorParam = returnBinAsIs,
      IsDeployed = reg_op (IsAuctionEntryPointExistInRegistry E), InfoGetAddress = nonce0 E, WaitForSetup = None\<rparr>"

definition createAuctionFeeVaultContractInfo :: "('tx, 'w) env \<Rightarrow> ('tx, 'w) TestContractInfo" where
  "createAuctionFeeVaultContractInfo E =
     \<lparr>testNames = [''auctionBidTC'', ''auctionRevertedBidTC''],
      auctionTargetTxTypes = [],
      Bytecode = codeBytes (e_abi E) AuctionFeeVaultBin, deployer = AuctionFeeVaultDeployer,
      contractName = ''Auction Fee Vault'', Abi = None,
      GenData = None,
      GetBytecodeWithConstructorParam = (\<lambda>bin cs d. append_packed bin
         (PackContractCall (e_abi E) AuctionFeeVaultABI []
            [ArgAddress (acc_address (pkg E Auctioneer)), ArgUint 1000, ArgUint 1000])),
      IsDeployed = reg_op (IsAuctionEntryPointExistInRegistry E), InfoGetAddress = nonce0 E, WaitForSetup = None\<rparr>"

text \<open>
  The vault's ABI comes from \<open>MetaData.GetAbi\<close>; its errors end the process like those of
  \<open>PackContractCall\<close>, with other texts.
\<close>

definition pack_fatal :: "abi_lib \<Rightarrow> abi_id \<Rightarrow> string \<Rightarrow> string \<Rightarrow> string \<Rightarrow> abi_arg list \<Rightarrow> bytes outcome" where
  "pack_fatal B abi msgABI msgPack meth args =
     (case abiJSON B abi of
        Some e \<Rightarrow> Exit msgABI
      | None \<Rightarrow> (case abiPack B abi meth args of Inl e \<Rightarrow> Exit msgPack | Inr d \<Rightarrow> Ret d))"

definition createAuctionDepositVaultContractInfo :: "('tx, 'w) env \<Rightarrow> ('tx, 'w) TestContractInfo" where
  "createAuctionDepositVaultContractInfo E =
     \<lparr>testNames = [''auctionBidTC'', ''auctionRevertedBidTC''],
      auctionTargetTxTypes = [],
      Bytecode = codeBytes (e_abi E) AuctionDepositVaultBin, deployer = AuctionDepositVaultDeployer,
      contractName = ''Auction Deposit Vault'', Abi = None,
      GenData = Some (\<lambda>searcher v. pure_gen (pack_fatal (e_abi E) AuctionDepositVaultABI
         ''failed to get ABI'' ''failed to pack deposit data'' ''depositFor'' [ArgAddress searcher])),
      GetBytecodeWithConstructorParam = (\<lambda>bin cs d. contract_addr cs ContractAuctionFeeVault (\<lambda>vault. append_packed bin
         (PackContractCall (e_abi E) AuctionDepositVaultABI []
            [ArgAddress (acc_address (pkg E Auctioneer)), ArgAddress vault]))),
      IsDeployed = reg_op (IsAuctionEntryPointExistInRegistry E), InfoGetAddress = nonce0 E, WaitForSetup = None\<rparr>"

definition createAuctionEntryPointContractInfo :: "('tx, 'w) env \<Rightarrow> ('tx, 'w) TestContractInfo" where
  "createAuctionEntryPointContractInfo E =
     \<lparr>testNames = [''auctionBidTC'', ''auctionRevertedBidTC''],
      auctionTargetTxTypes = [],
      Bytecode = codeBytes (e_abi E) AuctionEntryPointBin, deployer = AuctionEntryPointDeployer,
      contractName = ''Auction Entry Point'', Abi = None,
      GenData = None,
      GetBytecodeWithConstructorParam = (\<lambda>bin cs d. contract_addr cs ContractAuctionDepositVault (\<lambda>vault. append_packed bin
         (PackContractCall (e_abi E) AuctionEntryPointABI []
            [ArgAddress (acc_address (pkg E Auctioneer)), ArgAddress vault,
             ArgAddress (acc_address (pkg E Auctioneer))]))),
      IsDeployed = reg_op (IsAuctionEntryPointExistInRegistry E), InfoGetAddress = (\<lambda>d. getAuctionEntryPointAddress E), WaitForSetup = Some (IsAuctionEntryPointExistInRegistry E)\<rparr>"

definition createCPUHeavyContractInfo :: "('tx, 'w) env \<Rightarrow> ('tx, 'w) TestContractInfo" where
  "createCPUHeavyContractInfo E =
     \<lparr>testNames = [''cpuHeavyTC''],
      auctionTargetTxTypes = [],
      Bytecode = codeBytes (e_abi E) cpuHeavyBytecode, deployer = CPUHeavyDeployer,
      contractName = ''CPU Heavy Performance Test Contract'', Abi = Some cpuHeavySortABI,
      GenData = Some (\<lambda>a v. pure_gen (case v of None \<Rightarrow> nil_panic
          | Some x \<Rightarrow> PackContractCall (e_abi E) cpuHeavySortABI ''sort'' [ArgUint x, ArgUint 1])),
      GetBytecodeWithConstructorParam = returnBinAsIs,
      IsDeployed = isDeployerNonceNotZero E, InfoGetAddress = nonce0 E, WaitForSetup = None\<rparr>"

definition createLargeMemoContractInfo :: "('tx, 'w) env \<Rightarrow> ('tx, 'w) TestContractInfo" where
  "createLargeMemoContractInfo E =
     \<lparr>testNames = [''largeMemoTC''],
      auctionTargetTxTypes = [],
      Bytecode = codeBytes (e_abi E) largeMemoBytecode, deployer = LargeMemoDeployer,
      contractName = ''Large Memo Performance Test Contract'', Abi = Some largeMemoABI,
      GenData = Some (\<lambda>a v. pure_gen (PackContractCall (e_abi E) largeMemoABI ''setName''
         [ArgString (''test_memo_'' @ (case v of None \<Rightarrow> ''<nil>'' | Some x \<Rightarrow> int_text 10 x))])),
      GetBytecodeWithConstructorParam = returnBinAsIs,
      IsDeployed = isDeployerNonceNotZero E, InfoGetAddress = nonce0 E, WaitForSetup = None\<rparr>"

definition createReadApiCallContractInfo :: "('tx, 'w) env \<Rightarrow> ('tx, 'w) TestContractInfo" where
  "createReadApiCallContractInfo E =
     \<lparr>testNames = [''readCall'', ''readGetStorageAt'', ''readEstimateGas''],
      auctionTargetTxTypes = [],
      Bytecode = codeBytes (e_abi E) readApiBytecode, deployer = ReadApiCallContractDeployer,
      contractName = ''Read API Call Contract Test'', Abi = Some readApiSetABI,
      GenData = Some (\<lambda>a v. pure_gen (case v of None \<Rightarrow> nil_panic
          | Some x \<Rightarrow> (if x = 0 then PackContractCall (e_abi E) readApiGetABI ''get'' []
                        else PackContractCall (e_abi E) readApiSetABI ''set'' []))),
      GetBytecodeWithConstructorParam = returnBinAsIs,
      IsDeployed = isDeployerNonceNotZero E, InfoGetAddress = nonce0 E, WaitForSetup = None\<rparr>"

definition createUserStorageContractInfo :: "('tx, 'w) env \<Rightarrow> ('tx, 'w) TestContractInfo" where
  "createUserStorageContractInfo E =
     \<lparr>testNames = [''userStorageSetTC'', ''userStorageSetGetTC''],
      auctionTargetTxTypes = [],
      Bytecode = codeBytes (e_abi E) userStorageBytecode, deployer = UserStorageDeployer,
      contractName = ''User Storage Test Contract'', Abi = Some userStorageSetABI,
      GenData = Some (\<lambda>a v w. case v of None \<Rightarrow> (nil_panic, w)
          | Some x \<Rightarrow>
              (if Int64 x = 0 then (PackContractCall (e_abi E) userStorageGetABI ''get'' [], w)
               else if Int64 x = 1 then
                 (case rand63 E w of (r, w') \<Rightarrow>
                    (PackContractCall (e_abi E) userStorageSetABI ''set'' [ArgUint (int (r mod 1000))], w'))
               else (PackContractCall (e_abi E) userStorageGetUserDataABI ''getUserData'' [ArgAddress a], w))),
      GetBytecodeWithConstructorParam = returnBinAsIs,
      IsDeployed = isDeployerNonceNotZero E, InfoGetAddress = nonce0 E, WaitForSetup = None\<rparr>"

definition createInternalTxKIP17ContractInfo :: "('tx, 'w) env \<Rightarrow> ('tx, 'w) TestContractInfo" where
  "createInternalTxKIP17ContractInfo E =
     \<lparr>testNames = [''internalTxTC'', ''mintNFTTC''],
      auctionTargetTxTypes = [],
      Bytecode = codeBytes (e_abi E) internalTxKIP17Bytecode, deployer = InternalTxKIP17Deployer,
      contractName = ''Internal Transaction Test Kip17 Contract'', Abi = Some mintCardABI,
      GenData = Some (\<lambda>a v. pure_gen (PackContractCall (e_abi E) mintCardABI ''mintCard'' [])),
      GetBytecodeWithConstructorParam = returnBinAsIs,
      IsDeployed = isDeployerNonceNotZero E, InfoGetAddress = nonce0 E, WaitForSetup = None\<rparr>"

text \<open>\<open>contracts\<close> holds at least one entry in the only call; an unset KIP-17 entry leaves the code bare.\<close>

definition createInternalTxMainContractInfo :: "('tx, 'w) env \<Rightarrow> ('tx, 'w) TestContractInfo" where
  "createInternalTxMainContractInfo E =
     \<lparr>testNames = [''internalTxTC'', ''mintNFTTC''],
      auctionTargetTxTypes = [],
      Bytecode = codeBytes (e_abi E) internalTxMainBytecode, deployer = InternalTxMainDeployer,
      contractName = ''Internal Transaction Test Main Contract'', Abi = Some sendRewardsABI,
      GenData = Some (\<lambda>a v w. case rand63 E w of (r1, w1) \<Rightarrow> case rand63 E w1 of (r2, w2) \<Rightarrow>
         (PackContractCall (e_abi E) sendRewardsABI ''sendRewards''
            [ArgAddress (of_nat r1), ArgAddress (of_nat r2)], w2)),
      GetBytecodeWithConstructorParam = (\<lambda>bin cs d.
         if length cs > 0 then
           (if TestContract_idx ContractInternalTxKIP17 < length cs then
              (case cs ! TestContract_idx ContractInternalTxKIP17 of
                 None \<Rightarrow> Ret bin
               | Some k \<Rightarrow> append_packed bin (PackContractCall (e_abi E) internalTxMainConstructorABI []
                   [ArgAddress (acc_address k), ArgUint 0, ArgUint 0]))
            else Panic ''index out of range'')
         else Ret bin),
      IsDeployed = isDeployerNonceNotZero E, InfoGetAddress = nonce0 E, WaitForSetup = None\<rparr>"

definition createTetherLogicContractInfo :: "('tx, 'w) env \<Rightarrow> ('tx, 'w) TestContractInfo" where
  "createTetherLogicContractInfo E =
     \<lparr>testNames = [''erc20TransferWithBlockedListTC''],
      auctionTargetTxTypes = [],
      Bytecode = codeBytes (e_abi E) TetherContractTCBin, deployer = TetherLogicDeployer,
      contractName = ''Tether Token Logic Contract'', Abi = None,
      GenData = None,
      GetBytecodeWithConstructorParam = returnBinAsIs,
      IsDeployed = isDeployerNonceNotZero E, InfoGetAddress = nonce0 E, WaitForSetup = None\<rparr>"

text \<open>The token symbol ends in U+20AE, three bytes of UTF-8.\<close>

definition tether_symbol :: string where
  "tether_symbol = ''USD'' @ [CHR 0xE2, CHR 0x82, CHR 0xAE]"

definition createTetherProxyContractInfo :: "('tx, 'w) env \<Rightarrow> ('tx, 'w) TestContractInfo" where
  "createTetherProxyContractInfo E =
     \<lparr>testNames = [''erc20TransferWithBlockedListTC''],
      auctionTargetTxTypes = [],
      Bytecode = codeBytes (e_abi E) TetherProxyBin, deployer = TetherProxyDeployer,
      contractName = ''Tether Token Proxy Contract'', Abi = None,
      GenData = Some (\<lambda>recipientAddr v. pure_gen (case v of None \<Rightarrow> nil_panic
          | Some x \<Rightarrow> pack_fatal (e_abi E) TetherContractTCABI ''failed to abi.JSON'' ''failed to abi.Pack''
              ''transfer'' [ArgAddress recipientAddr, ArgUint x])),
      GetBytecodeWithConstructorParam = (\<lambda>bin cs d. contract_addr cs ContractTetherLogic (\<lambda>logicAddr.
         case pack_fatal (e_abi E) TetherContractTCABI ''failed to parse TetherToken ABI''
                ''failed to pack initialize data'' ''initialize''
                [ArgString ''Tether USD'', ArgString tether_symbol, ArgUint8 6] of
           Ret initData \<Rightarrow> append_packed bin
             (pack_fatal (e_abi E) TetherProxyABI ''failed to parse TetherProxy ABI''
                ''failed to pack proxy constructor data'' []
                [ArgAddress logicAddr, ArgAddress (acc_address (pkg E TetherLogicDeployer)),
                 ArgBytes initData])
         | Exit m \<Rightarrow> Exit m | Panic m \<Rightarrow> Panic m | Block \<Rightarrow> Block)),
      IsDeployed = isDeployerNonceNotZero E, InfoGetAddress = nonce0 E, WaitForSetup = None\<rparr>"

definition TestContractInfos :: "('tx, 'w) env \<Rightarrow> ('tx, 'w) TestContractInfo list" where
  "TestContractInfos E =
     [createERC20ContractInfo E, createERC721ContractInfo E, createStorageTrieContractInfo E,
      createGeneralPurposeContractInfo E, createGaslessTokenContractInfo E,
      createWKaiaContractInfo E, createUniswapFactoryContractInfo E,
      createUniswapRouterContractInfo E, createGaslessSwapRouterContractInfo E,
      createCounterForTestAuctionContractInfo E, createAuctionFeeVaultContractInfo E,
      createAuctionDepositVaultContractInfo E, createAuctionEntryPointContractInfo E,
      createCPUHeavyContractInfo E, createLargeMemoContractInfo E, createReadApiCallContractInfo E,
      createUserStorageContractInfo E, createInternalTxKIP17ContractInfo E,
      createInternalTxMainContractInfo E, createTetherLogicContractInfo E,
      createTetherProxyContractInfo E]"

text \<open>\<open>TestContractInfos[t].GenData(a, v)\<close> and \<open>.GetAddress(c, deployer)\<close>.\<close>

definition info_of :: "('tx, 'w) env \<Rightarrow> TestContract \<Rightarrow> ('tx, 'w) TestContractInfo" where
  "info_of E t = TestContractInfos E ! TestContract_idx t"

definition gen_data :: "('tx, 'w) env \<Rightarrow> TestContract \<Rightarrow> addr \<Rightarrow> int option \<Rightarrow> 'w
    \<Rightarrow> bytes outcome \<times> 'w" where
  "gen_data E t a v w =
     (case GenData (info_of E t) of None \<Rightarrow> (nil_panic, w) | Some f \<Rightarrow> f a v w)"

lemma info_of_simps [simp, code]:
  "info_of E ContractErc20 = createERC20ContractInfo E"
  "info_of E ContractErc721 = createERC721ContractInfo E"
  "info_of E ContractStorageTrie = createStorageTrieContractInfo E"
  "info_of E ContractGeneral = createGeneralPurposeContractInfo E"
  "info_of E ContractGaslessToken = createGaslessTokenContractInfo E"
  "info_of E ContractWKaia = createWKaiaContractInfo E"
  "info_of E ContractUniswapV2Factory = createUniswapFactoryContractInfo E"
  "info_of E ContractUniswapV2Router = createUniswapRouterContractInfo E"
  "info_of E ContractGaslessSwapRouter = createGaslessSwapRouterContractInfo E"
  "info_of E ContractCounterForTestAuction = createCounterForTestAuctionContractInfo E"
  "info_of E ContractAuctionFeeVault = createAuctionFeeVaultContractInfo E"
  "info_of E ContractAuctionDepositVault = createAuctionDepositVaultContractInfo E"
  "info_of E ContractAuctionEntryPoint = createAuctionEntryPointContractInfo E"
  "info_of E ContractCPUHeavy = createCPUHeavyContractInfo E"
  "info_of E ContractLargeMemo = createLargeMemoContractInfo E"
  "info_of E ContractReadApiCallContract = createReadApiCallContractInfo E"
  "info_of E ContractUserStorage = createUserStorageContractInfo E"
  "info_of E ContractInternalTxKIP17 = createInternalTxKIP17ContractInfo E"
  "info_of E ContractInternalTxMain = createInternalTxMainContractInfo E"
  "info_of E ContractTetherLogic = createTetherLogicContractInfo E"
  "info_of E ContractTetherProxy = createTetherProxyContractInfo E"
  by (simp_all add: info_of_def TestContractInfos_def)

lemmas contract_info_defs = createERC20ContractInfo_def createERC721ContractInfo_def createStorageTrieContractInfo_def
  createGeneralPurposeContractInfo_def createGaslessTokenContractInfo_def createWKaiaContractInfo_def
  createUniswapFactoryContractInfo_def createUniswapRouterContractInfo_def createGaslessSwapRouterContractInfo_def
  createCounterForTestAuctionContractInfo_def createAuctionFeeVaultContractInfo_def
  createAuctionDepositVaultContractInfo_def createAuctionEntryPointContractInfo_def createCPUHeavyContractInfo_def
  createLargeMemoContractInfo_def createReadApiCallContractInfo_def createUserStorageContractInfo_def
  createInternalTxKIP17ContractInfo_def createInternalTxMainContractInfo_def createTetherLogicContractInfo_def
  createTetherProxyContractInfo_def

end
