(* ===== verification/Auction.thy ===== *)
theory Auction
  imports Contract_Info
begin

text \<open>
  The gasless operations and the auction bids of \<open>klayslave/account/account.go\<close>, and the target
  transaction types of \<open>klayslave/account/targetTxTypeLIst.go\<close>. Handlers are written with
  the sequencing combinators of account operations below.
\<close>

section \<open>Sequencing account operations\<close>

definition op_ret :: "'r \<Rightarrow> ('w, 'r) op" where
  "op_ret x a w = (Ret x, a, w)"

definition op_out :: "'r outcome \<Rightarrow> ('w, 'r) op" where
  "op_out r a w = (r, a, w)"

definition op_bind :: "('w, 'q) op \<Rightarrow> ('q \<Rightarrow> ('w, 'r) op) \<Rightarrow> ('w, 'r) op" where
  "op_bind f g a w =
     (case f a w of
        (Ret x, a1, w1) \<Rightarrow> g x a1 w1
      | (Exit m, a1, w1) \<Rightarrow> (Exit m, a1, w1)
      | (Panic m, a1, w1) \<Rightarrow> (Panic m, a1, w1)
      | (Block, a1, w1) \<Rightarrow> (Block, a1, w1))"

definition op_get :: "(account \<Rightarrow> 'r) \<Rightarrow> ('w, 'r) op" where
  "op_get f a w = (Ret (f a), a, w)"

definition op_world :: "('w \<Rightarrow> 'r \<times> 'w) \<Rightarrow> ('w, 'r) op" where
  "op_world f a w = (case f w of (r, w') \<Rightarrow> (Ret r, a, w'))"

definition op_gen :: "('w \<Rightarrow> 'r outcome \<times> 'w) \<Rightarrow> ('w, 'r) op" where
  "op_gen f a w = (case f w of (r, w') \<Rightarrow> (r, a, w'))"

definition op_add_nonce :: "u64 \<Rightarrow> ('w, unit) op" where
  "op_add_nonce k a w = (Ret (), a\<lparr>acc_nonce := acc_nonce a + k\<rparr>, w)"

definition op_last_block :: "int \<Rightarrow> ('w, unit) op" where
  "op_last_block bn a w = (Ret (), updateLastBlocknumSentTx (word_of_int bn) a, w)"

definition op_nonce :: "('tx, 'w) client \<Rightarrow> ('w, u64) op" where
  "op_nonce C a w = (case GetNonce C a w of (n, a', w') \<Rightarrow> (Ret n, a', w'))"

definition first_key :: "account \<Rightarrow> privkey outcome" where
  "first_key a = (case acc_privateKey a of [] \<Rightarrow> Panic ''index out of range'' | k # _ \<Rightarrow> Ret k)"

definition op_eval :: "(account \<Rightarrow> 'r outcome) \<Rightarrow> ('w, 'r) op" where
  "op_eval v a w = (v a, a, w)"

definition op_first_key :: "('w, privkey) op" where
  "op_first_key = op_eval first_key"

text \<open>A sequence that returns: each of its steps returned.\<close>

lemma op_bindE:
  assumes "op_bind f g a w = (Ret y, a', w')"
  obtains x a1 w1 where "f a w = (Ret x, a1, w1)" "g x a1 w1 = (Ret y, a', w')"
  using assms by (auto simp: op_bind_def split: prod.splits outcome.splits)

lemma op_ret_Ret: "op_ret x a w = (Ret y, a', w') \<longleftrightarrow> y = x \<and> a' = a \<and> w' = w"
  by (auto simp: op_ret_def)

lemma op_out_Ret: "op_out r a w = (Ret y, a', w') \<longleftrightarrow> r = Ret y \<and> a' = a \<and> w' = w"
  by (auto simp: op_out_def)

lemma op_get_Ret: "op_get f a w = (Ret y, a', w') \<longleftrightarrow> y = f a \<and> a' = a \<and> w' = w"
  by (auto simp: op_get_def)

lemma op_eval_Ret: "op_eval v a w = (Ret y, a', w') \<longleftrightarrow> v a = Ret y \<and> a' = a \<and> w' = w"
  by (auto simp: op_eval_def)

lemma op_world_Ret: "op_world f a w = (Ret y, a', w') \<longleftrightarrow> f w = (y, w') \<and> a' = a"
  by (auto simp: op_world_def split: prod.splits)

lemma op_gen_Ret: "op_gen f a w = (Ret y, a', w') \<longleftrightarrow> f w = (Ret y, w') \<and> a' = a"
  by (auto simp: op_gen_def split: prod.splits)

lemma op_add_nonce_Ret: "op_add_nonce i a w = (Ret y, a', w') \<longleftrightarrow> a' = a\<lparr>acc_nonce := acc_nonce a + i\<rparr> \<and> w' = w"
  by (auto simp: op_add_nonce_def)

lemma op_nonce_Ret: "op_nonce C a w = (Ret n, a', w') \<longleftrightarrow> GetNonce C a w = (n, a', w')"
  by (auto simp: op_nonce_def split: prod.splits)

text \<open>Sequencing keeps the contract of an operation's body.\<close>

lemma op_body_bind: "op_body f \<Longrightarrow> (\<And>x. op_body (g x)) \<Longrightarrow> op_body (op_bind f g)"
proof (rule op_body.intro)
  fix a :: account and w r a' w'
  assume f: "op_body f" and g: "\<And>x. op_body (g x)" and run: "op_bind f g a w = (r, a', w')"
  obtain q a1 w1 where fa: "f a w = (q, a1, w1)" by (rule prod_cases3)
  note F = op_body.body_identity [OF f fa] op_body.body_mutex [OF f fa] op_body.body_no_wait [OF f fa]
  show "identity a' = identity a" using run fa F
    by (cases q) (auto simp: op_bind_def dest: op_body.body_identity [OF g])
  show "acc_mutex a' = acc_mutex a" using run fa F
    by (cases q) (auto simp: op_bind_def dest: op_body.body_mutex [OF g])
  show "r \<noteq> Block" using run fa F
    by (cases q) (auto simp: op_bind_def dest: op_body.body_no_wait [OF g])
qed

lemma op_body_ret [simp]: "op_body (op_ret x)"
  by unfold_locales (auto simp: op_ret_def)

lemma op_body_out [simp]: "r \<noteq> Block \<Longrightarrow> op_body (op_out r)"
  by unfold_locales (auto simp: op_out_def)

lemma op_body_get [simp]: "op_body (op_get f)"
  by unfold_locales (auto simp: op_get_def)

lemma op_body_world [simp]: "op_body (op_world f)"
  by unfold_locales (auto simp: op_world_def split: prod.splits)

lemma op_body_gen: "(\<And>w. fst (f w) \<noteq> Block) \<Longrightarrow> op_body (op_gen f)"
  by unfold_locales (auto simp: op_gen_def split: prod.splits, metis fst_conv)

lemma op_body_add_nonce [simp]: "op_body (op_add_nonce k)"
  by unfold_locales (auto simp: op_add_nonce_def)

lemma op_body_last_block [simp]: "op_body (op_last_block bn)"
  by unfold_locales (auto simp: op_last_block_def updateLastBlocknumSentTx_def)

lemma op_body_nonce [simp]: "op_body (op_nonce C)"
  by unfold_locales (auto simp: op_nonce_def split: prod.splits dest!: GetNonce_frame)

lemma op_body_eval: "(\<And>a. v a \<noteq> Block) \<Longrightarrow> op_body (op_eval v)"
  by unfold_locales (auto simp: op_eval_def)

lemma op_body_first_key [simp]: "op_body op_first_key"
  by (auto simp: op_first_key_def first_key_def intro!: op_body_eval split: list.splits)

section \<open>Call data never blocks\<close>

lemma pack_fatal_not_Block [simp]: "pack_fatal B abi m1 m2 f args \<noteq> Block"
  by (auto simp: pack_fatal_def split: option.splits sum.splits)

lemma gen_data_not_Block [simp]: "fst (gen_data E t a v w) \<noteq> Block"
  by (cases t)
    (auto simp: gen_data_def contract_info_defs pure_gen_def nil_panic_def Let_def
      split: option.splits prod.splits)

lemma op_body_gen_data [simp]: "op_body (op_gen (gen_data E t a v))"
  by (rule op_body_gen) simp

lemma op_body_entry_nonce [simp]: "op_body (op_gen (getEntrypointNonce E a))"
  by (rule op_body_gen) simp

section \<open>Gasless transactions\<close>

text \<open>
  Sending inside the gasless and auction handlers: a used nonce is skipped, an accepted
  transaction leaves the counter to the handler.
\<close>

definition op_send :: "('tx, 'w) client \<Rightarrow> 'tx \<Rightarrow> ('w, gerror option) op" where
  "op_send C tx = op_world (\<lambda>w. case SendRawTransaction C tx w of ((_, err), w') \<Rightarrow> (err, w'))"

lemma op_send_Ret:
  "op_send C tx a w = (Ret e, a', w') \<longleftrightarrow> (\<exists>h. SendRawTransaction C tx w = ((h, e), w')) \<and> a' = a"
  by (auto simp: op_send_def op_world_def split: prod.splits)

lemmas op_Ret = op_ret_Ret op_out_Ret op_get_Ret op_eval_Ret op_world_Ret op_gen_Ret op_add_nonce_Ret
  op_nonce_Ret op_send_Ret

definition op_skip_used :: "('tx, 'w) env \<Rightarrow> gerror \<Rightarrow> ('w, unit) op" where
  "op_skip_used E e = (if nonce_conflict (e_lib E) e then op_add_nonce 1 else op_ret ())"

definition approve_tx :: "('tx, 'w) env \<Rightarrow> u64 \<Rightarrow> addr \<Rightarrow> int \<Rightarrow> bytes \<Rightarrow> 'tx" where
  "approve_tx E nonce token gp d = newTransaction (e_lib E) nonce token (Some 0) 100000 gp (Some d)"

definition swap_tx :: "('tx, 'w) env \<Rightarrow> u64 \<Rightarrow> addr \<Rightarrow> int \<Rightarrow> bytes \<Rightarrow> 'tx" where
  "swap_tx E nonce gsr gp d = newTransaction (e_lib E) nonce gsr (Some 0) 500000 gp (Some d)"

definition sign_155 :: "('tx, 'w) env \<Rightarrow> privkey \<Rightarrow> 'tx \<Rightarrow> gerror + 'tx" where
  "sign_155 E k tx = signTx (e_lib E) (EIP155Signer (chainID (e_glob E))) k tx"

type_synonym bid_op_result = "hash \<times> hash \<times> int \<times> gerror option"

definition Gasless_body :: "('tx, 'w) env \<Rightarrow> account \<Rightarrow> account \<Rightarrow> ('w, bid_op_result) op" where
  "Gasless_body E testToken gsr =
     op_bind (op_nonce (e_cli E)) (\<lambda>nonce.
     op_bind (op_world (SuggestGasPrice (e_cli E))) (\<lambda>sgp.
     case sgp of
       Inl e \<Rightarrow> op_ret (0, 0, gasPrice (e_glob E), Some e)
     | Inr gp \<Rightarrow>
         op_bind (op_gen (gen_data E ContractGaslessToken (GetAddress gsr) (Some MaxUint256))) (\<lambda>d1.
         let approveTx = approve_tx E nonce (acc_address testToken) gp d1 in
         op_bind op_first_key (\<lambda>k.
         case sign_155 E k approveTx of
           Inl e \<Rightarrow> op_out (Exit ''Failed to encode approve tx'')
         | Inr signApproveTx \<Rightarrow>
             op_bind (op_gen (gen_data E ContractGaslessSwapRouter (GetAddress testToken) (Some gp))) (\<lambda>d2.
             let swapTx = swap_tx E (nonce + 1) (acc_address gsr) gp d2 in
             case sign_155 E k swapTx of
               Inl e \<Rightarrow> op_out (Exit ''Failed to encode swap tx'')
             | Inr signSwapTx \<Rightarrow>
                 op_bind (op_send (e_cli E) signApproveTx) (\<lambda>err1.
                 case err1 of
                   Some e \<Rightarrow> op_bind (op_skip_used E e) (\<lambda>_.
                     op_ret (txHash (e_lib E) approveTx, txHash (e_lib E) swapTx, gp, Some e))
                 | None \<Rightarrow>
                     op_bind (op_send (e_cli E) signSwapTx) (\<lambda>err2.
                     case err2 of
                       Some e \<Rightarrow> op_bind (op_skip_used E e) (\<lambda>_.
                         op_ret (txHash (e_lib E) approveTx, txHash (e_lib E) swapTx, gp, Some e))
                     | None \<Rightarrow> op_bind (op_add_nonce 2) (\<lambda>_.
                         op_ret (txHash (e_lib E) approveTx, txHash (e_lib E) swapTx, gp, None)))))))))"

definition TransferNewGaslessTx :: "('tx, 'w) env \<Rightarrow> account \<Rightarrow> account \<Rightarrow> ('w, bid_op_result) op" where
  "TransferNewGaslessTx E testToken gsr = with_lock (Gasless_body E testToken gsr)"

definition GaslessApprove_body :: "('tx, 'w) env \<Rightarrow> account \<Rightarrow> account \<Rightarrow> ('w, hash_result) op" where
  "GaslessApprove_body E testToken gsr =
     op_bind (op_nonce (e_cli E)) (\<lambda>nonce.
     op_bind (op_world (SuggestGasPrice (e_cli E))) (\<lambda>sgp.
     case sgp of
       Inl e \<Rightarrow> op_ret (0, gasPrice (e_glob E), Some e)
     | Inr gp \<Rightarrow>
         op_bind (op_gen (gen_data E ContractGaslessToken (GetAddress gsr) (Some MaxUint256))) (\<lambda>d.
         let approveTx = approve_tx E nonce (acc_address testToken) gp d in
         op_bind op_first_key (\<lambda>k.
         case sign_155 E k approveTx of
           Inl e \<Rightarrow> op_out (Exit ''Failed to encode approve tx'')
         | Inr signApproveTx \<Rightarrow>
             op_bind (op_send (e_cli E) signApproveTx) (\<lambda>err.
             op_ret (txHash (e_lib E) approveTx, gp, err))))))"

definition TransferNewGaslessApproveTx :: "('tx, 'w) env \<Rightarrow> account \<Rightarrow> account \<Rightarrow> ('w, hash_result) op" where
  "TransferNewGaslessApproveTx E testToken gsr = with_lock (GaslessApprove_body E testToken gsr)"

section \<open>Target transaction types\<close>

text \<open>
  The handlers get the bidding account as the account of the operation. \<open>GenerateTx\<close> gives
  \<open>None\<close> where the code gives \<open>nil\<close>. \<open>send_nil\<close> is what the client does with a \<open>nil\<close>
  transaction (the two places that ignore the signer's error).
\<close>

record ('tx, 'w) TargetTxType =
  GenerateTx :: "account \<Rightarrow> u64 \<Rightarrow> int \<Rightarrow> ('w, 'tx option) op"
  PreSendBid :: "account \<Rightarrow> u64 \<Rightarrow> int \<Rightarrow> ('w, gerror option) op"
  PostSendBid :: "account \<Rightarrow> u64 \<Rightarrow> int \<Rightarrow> int \<Rightarrow> ('w, unit) op"

definition info_addr :: "('tx, 'w) env \<Rightarrow> TestContract \<Rightarrow> fixed_acc \<Rightarrow> ('w, addr) op" where
  "info_addr E t d = op_world (InfoGetAddress (info_of E t) (pkg E d))"

definition op_key_of :: "account \<Rightarrow> ('w, privkey) op" where
  "op_key_of acc = op_out (first_key acc)"

definition sign_with_keys :: "('tx, 'w) env \<Rightarrow> tx_type \<Rightarrow> tx_values \<Rightarrow> ('w, 'tx option) op" where
  "sign_with_keys E ty m = op_get (\<lambda>a.
     case newTransactionWithMap (e_lib E) ty m of
       Inl e \<Rightarrow> None
     | Inr tx \<Rightarrow>
         (case signWithKeys (e_lib E) (EIP155Signer (chainID (e_glob E))) (acc_privateKey a) tx of
            (Some e, _) \<Rightarrow> None
          | (None, tx') \<Rightarrow> Some tx'))"

definition no_pre_send :: "account \<Rightarrow> u64 \<Rightarrow> int \<Rightarrow> ('w, gerror option) op" where
  "no_pre_send tmp nonce gp = op_ret None"

definition post_one :: "account \<Rightarrow> u64 \<Rightarrow> int \<Rightarrow> int \<Rightarrow> ('w, unit) op" where
  "post_one tmp nonce gp bn = op_bind (op_add_nonce 1) (\<lambda>_. op_last_block bn)"

definition target_VT :: "('tx, 'w) env \<Rightarrow> ('tx, 'w) TargetTxType" where
  "target_VT E = \<lparr>
     GenerateTx = (\<lambda>tmp nonce gp. op_bind (op_get acc_address) (\<lambda>self_addr.
       sign_with_keys E TxTypeValueTransfer
         [TxValueKeyNonce \<mapsto> VU64 nonce, TxValueKeyTo \<mapsto> VAddr self_addr,
          TxValueKeyAmount \<mapsto> VBig (Some 1), TxValueKeyGasLimit \<mapsto> VU64 100000,
          TxValueKeyGasPrice \<mapsto> VBig (Some gp), TxValueKeyFrom \<mapsto> VAddr self_addr])),
     PreSendBid = no_pre_send, PostSendBid = post_one\<rparr>"

definition counter_call :: "('tx, 'w) env \<Rightarrow> int \<Rightarrow> u64 \<Rightarrow> int \<Rightarrow> ('w, 'tx option) op" where
  "counter_call E methodNum nonce gp =
     op_bind (info_addr E ContractCounterForTestAuction CounterForTestAuctionDeployer) (\<lambda>to.
     op_bind (op_gen (gen_data E ContractCounterForTestAuction 0 (Some methodNum))) (\<lambda>d.
     op_bind (op_get acc_address) (\<lambda>self_addr.
       sign_with_keys E TxTypeSmartContractExecution
         [TxValueKeyNonce \<mapsto> VU64 nonce, TxValueKeyTo \<mapsto> VAddr to, TxValueKeyData \<mapsto> VData d,
          TxValueKeyAmount \<mapsto> VBig (Some 0), TxValueKeyGasLimit \<mapsto> VU64 5000000,
          TxValueKeyGasPrice \<mapsto> VBig (Some gp), TxValueKeyFrom \<mapsto> VAddr self_addr])))"

definition target_SC :: "('tx, 'w) env \<Rightarrow> ('tx, 'w) TargetTxType" where
  "target_SC E = \<lparr>GenerateTx = (\<lambda>tmp nonce gp. counter_call E 1 nonce gp),
     PreSendBid = no_pre_send, PostSendBid = post_one\<rparr>"

definition target_rSC :: "('tx, 'w) env \<Rightarrow> ('tx, 'w) TargetTxType" where
  "target_rSC E = \<lparr>GenerateTx = (\<lambda>tmp nonce gp. counter_call E 2 nonce gp),
     PreSendBid = no_pre_send, PostSendBid = post_one\<rparr>"

text \<open>The approve and swap transactions of the four gasless types, unsigned.\<close>

definition make_approve :: "('tx, 'w) env \<Rightarrow> u64 \<Rightarrow> int \<Rightarrow> ('w, 'tx) op" where
  "make_approve E nonce gp =
     op_bind (info_addr E ContractGaslessToken GaslessTokenDeployer) (\<lambda>token.
     op_bind (info_addr E ContractGaslessSwapRouter GaslessSwapRouterDeployer) (\<lambda>gsr.
     op_bind (op_gen (gen_data E ContractGaslessToken gsr (Some MaxUint256))) (\<lambda>d.
       op_ret (approve_tx E nonce token gp d))))"

definition make_swap :: "('tx, 'w) env \<Rightarrow> u64 \<Rightarrow> int \<Rightarrow> ('w, 'tx) op" where
  "make_swap E nonce gp =
     op_bind (info_addr E ContractGaslessSwapRouter GaslessSwapRouterDeployer) (\<lambda>gsr.
     op_bind (info_addr E ContractGaslessToken GaslessTokenDeployer) (\<lambda>token.
     op_bind (op_gen (gen_data E ContractGaslessSwapRouter token (Some gp))) (\<lambda>d.
       op_ret (swap_tx E nonce gsr gp d))))"

definition signed_or_nil :: "('tx, 'w) env \<Rightarrow> privkey \<Rightarrow> 'tx \<Rightarrow> 'tx option" where
  "signed_or_nil E k tx = (case sign_155 E k tx of Inl e \<Rightarrow> None | Inr stx \<Rightarrow> Some stx)"

text \<open>\<open>SendRawTransaction\<close> of a transaction whose signing error was ignored.\<close>

definition op_send_nil :: "('w \<Rightarrow> (hash \<times> gerror option) \<times> 'w) \<Rightarrow> ('tx, 'w) client \<Rightarrow> 'tx option
    \<Rightarrow> ('w, gerror option) op" where
  "op_send_nil send_nil C otx =
     (case otx of
        Some tx \<Rightarrow> op_send C tx
      | None \<Rightarrow> op_world (\<lambda>w. case send_nil w of ((_, err), w') \<Rightarrow> (err, w')))"

definition target_GAA :: "('w \<Rightarrow> (hash \<times> gerror option) \<times> 'w) \<Rightarrow> ('tx, 'w) env
    \<Rightarrow> ('tx, 'w) TargetTxType" where
  "target_GAA send_nil E = \<lparr>
     GenerateTx = (\<lambda>tmp nonce gp.
       op_bind (make_approve E nonce gp) (\<lambda>tx. op_bind op_first_key (\<lambda>k. op_ret (signed_or_nil E k tx)))),
     PreSendBid = no_pre_send,
     PostSendBid = (\<lambda>tmp nonce gp bn.
       op_bind (make_swap E (nonce + 1) gp) (\<lambda>tx.
       op_bind op_first_key (\<lambda>k.
       op_bind (op_send_nil send_nil (e_cli E) (signed_or_nil E k tx)) (\<lambda>err.
       case err of
         Some e \<Rightarrow> op_skip_used E e
       | None \<Rightarrow> op_bind (op_add_nonce 2) (\<lambda>_. op_last_block bn)))))\<rparr>"

definition target_GAS :: "('tx, 'w) env \<Rightarrow> ('tx, 'w) TargetTxType" where
  "target_GAS E = \<lparr>
     GenerateTx = (\<lambda>tmp nonce gp.
       op_bind (make_swap E (nonce + 1) gp) (\<lambda>tx. op_bind op_first_key (\<lambda>k. op_ret (signed_or_nil E k tx)))),
     PreSendBid = (\<lambda>tmp nonce gp.
       op_bind (make_approve E nonce gp) (\<lambda>tx.
       op_bind op_first_key (\<lambda>k.
       case sign_155 E k tx of
         Inl e \<Rightarrow> op_ret (Some e)
       | Inr stx \<Rightarrow>
           op_bind (op_send (e_cli E) stx) (\<lambda>err.
           case err of
             Some e \<Rightarrow> op_bind (op_skip_used E e) (\<lambda>_. op_ret (Some e))
           | None \<Rightarrow> op_ret None)))),
     PostSendBid = (\<lambda>tmp nonce gp bn. op_bind (op_add_nonce 2) (\<lambda>_. op_last_block bn))\<rparr>"

text \<open>The reverted types sign with the fresh account \<open>tmp\<close>, from nonce 0.\<close>

definition target_rGAA :: "('w \<Rightarrow> (hash \<times> gerror option) \<times> 'w) \<Rightarrow> ('tx, 'w) env
    \<Rightarrow> ('tx, 'w) TargetTxType" where
  "target_rGAA send_nil E = \<lparr>
     GenerateTx = (\<lambda>tmp nonce gp.
       op_bind (make_approve E 0 gp) (\<lambda>tx.
       op_bind (op_key_of tmp) (\<lambda>k. op_ret (signed_or_nil E k tx)))),
     PreSendBid = no_pre_send,
     PostSendBid = (\<lambda>tmp nonce gp bn.
       op_bind (make_swap E 1 gp) (\<lambda>tx.
       op_bind (op_key_of tmp) (\<lambda>k.
       op_bind (op_send_nil send_nil (e_cli E) (signed_or_nil E k tx)) (\<lambda>err. op_ret ()))))\<rparr>"

definition target_rGAS :: "('tx, 'w) env \<Rightarrow> ('tx, 'w) TargetTxType" where
  "target_rGAS E = \<lparr>
     GenerateTx = (\<lambda>tmp nonce gp.
       op_bind (make_swap E 1 gp) (\<lambda>tx.
       op_bind (op_key_of tmp) (\<lambda>k. op_ret (signed_or_nil E k tx)))),
     PreSendBid = (\<lambda>tmp nonce gp.
       op_bind (make_approve E 0 gp) (\<lambda>tx.
       op_bind (op_key_of tmp) (\<lambda>k.
       case sign_155 E k tx of
         Inl e \<Rightarrow> op_ret (Some e)
       | Inr stx \<Rightarrow> op_send (e_cli E) stx))),
     PostSendBid = (\<lambda>tmp nonce gp bn. op_ret ())\<rparr>"

definition TargetTxTypeList :: "('w \<Rightarrow> (hash \<times> gerror option) \<times> 'w) \<Rightarrow> ('tx, 'w) env \<Rightarrow> string
    \<Rightarrow> ('tx, 'w) TargetTxType option" where
  "TargetTxTypeList send_nil E =
     [''VT'' \<mapsto> target_VT E, ''SC'' \<mapsto> target_SC E, ''rSC'' \<mapsto> target_rSC E,
      ''GAA'' \<mapsto> target_GAA send_nil E, ''GAS'' \<mapsto> target_GAS E,
      ''rGAA'' \<mapsto> target_rGAA send_nil E, ''rGAS'' \<mapsto> target_rGAS E]"

section \<open>Bids\<close>

text \<open>
  External parts of a bid: its hashes, the signature primitive, the transaction encoding, and
  the RPC, whose answer is the call's error and the text under \<open>RPC_AUCTION_ERROR_PROP\<close>.
\<close>

record bid =
  bid_TargetTxHash :: hash
  bid_BlockNumber :: u64
  bid_Sender :: addr
  bid_To :: addr
  bid_Nonce :: u64
  bid_Bid :: int
  bid_CallGasLimit :: u64
  bid_Data :: bytes
  bid_SearcherSig :: bytes

record bid_input =
  bi_TargetTxRaw :: bytes
  bi_Bid :: bid
  bi_AuctioneerSig :: bytes

record ('tx, 'w) auction_lib =
  bidHash :: "bid \<Rightarrow> hash"
  bidTypedHash :: "int \<Rightarrow> addr \<Rightarrow> bid \<Rightarrow> bytes"
  cryptoSign :: "bytes \<Rightarrow> privkey \<Rightarrow> gerror + bytes"
  encodeRlp :: "'tx \<Rightarrow> bytes"
  SendAuctionTx :: "bid_input \<Rightarrow> 'w \<Rightarrow> (gerror option \<times> string option) \<times> 'w"
  sendNil :: "'w \<Rightarrow> (hash \<times> gerror option) \<times> 'w"

text \<open>\<open>sig[crypto.RecoveryIDOffset] += 27\<close>; the offset is 64.\<close>

definition bump_recovery :: "bytes \<Rightarrow> bytes outcome" where
  "bump_recovery s = (if 64 < length s then Ret (s[64 := s ! 64 + 27])
                      else Panic ''index out of range'')"

definition signAuctionBidAsSearcher :: "('tx, 'w) env \<Rightarrow> ('tx, 'w) auction_lib \<Rightarrow> account \<Rightarrow> bid
    \<Rightarrow> account \<Rightarrow> (gerror + bid) outcome" where
  "signAuctionBidAsSearcher E A a b entryPoint =
     (case first_key a of
        Ret k \<Rightarrow>
          (case cryptoSign A (bidTypedHash A (chainID (e_glob E)) (GetAddress entryPoint) b) k of
             Inl e \<Rightarrow> Ret (Inl e)
           | Inr sig \<Rightarrow>
               map_outcome_ret (\<lambda>s. Inr (b\<lparr>bid_SearcherSig := s\<rparr>)) (bump_recovery sig))
      | Exit m \<Rightarrow> Exit m | Panic m \<Rightarrow> Panic m | Block \<Rightarrow> Block)"

definition signAuctionBidAsAuctioneer :: "('tx, 'w) env \<Rightarrow> ('tx, 'w) auction_lib \<Rightarrow> account \<Rightarrow> bid
    \<Rightarrow> bytes \<Rightarrow> (gerror + bid_input) outcome" where
  "signAuctionBidAsAuctioneer E A a b targetTxRaw =
     (case first_key a of
        Ret k \<Rightarrow>
          (let msg = [0x19] @ str_bytes ''Ethereum Signed Message:'' @ [10]
                 @ str_bytes (int_text 10 (int (length (bid_SearcherSig b)))) @ bid_SearcherSig b
           in case cryptoSign A (keccak256 (e_crypto E) msg) k of
                Inl e \<Rightarrow> Ret (Inl e)
              | Inr sig \<Rightarrow>
                  map_outcome_ret (\<lambda>s. Inr \<lparr>bi_TargetTxRaw = targetTxRaw, bi_Bid = b,
                     bi_AuctioneerSig = s\<rparr>) (bump_recovery sig))
      | Exit m \<Rightarrow> Exit m | Panic m \<Rightarrow> Panic m | Block \<Rightarrow> Block)"

definition toRlp :: "('tx, 'w) auction_lib \<Rightarrow> 'tx \<Rightarrow> bytes" where
  "toRlp A tx = encodeRlp A tx"

text \<open>The beginning both operations share: the target transaction and \<open>PreSendBid\<close>.\<close>

definition op_new_account :: "('tx, 'w) env \<Rightarrow> ('w, account) op" where
  "op_new_account E = op_gen (NewAccount (e_crypto E) 0)"

definition bid_failed :: "int \<Rightarrow> gerror \<Rightarrow> ('w, bid_op_result) op" where
  "bid_failed gp e = op_ret (0, 0, gp, Some e)"

definition prepare_bid :: "('tx, 'w) env \<Rightarrow> ('tx, 'w) auction_lib \<Rightarrow> string
    \<Rightarrow> (('tx, 'w) TargetTxType \<Rightarrow> account \<Rightarrow> u64 \<Rightarrow> int \<Rightarrow> 'tx \<Rightarrow> ('w, bid_op_result) op)
    \<Rightarrow> ('w, bid_op_result) op" where
  "prepare_bid E A key rest =
     op_bind (op_new_account E) (\<lambda>tmp.
     op_bind (op_nonce (e_cli E)) (\<lambda>nonce.
     op_bind (op_world (SuggestGasPrice (e_cli E))) (\<lambda>sgp.
     case sgp of
       Inl e \<Rightarrow> bid_failed (gasPrice (e_glob E)) e
     | Inr gp \<Rightarrow>
         (case TargetTxTypeList (sendNil A) E key of
            None \<Rightarrow> op_out (Panic ''nil pointer dereference'')
          | Some T \<Rightarrow>
              op_bind (GenerateTx T tmp nonce gp) (\<lambda>otx.
              case otx of
                None \<Rightarrow> bid_failed gp ''failed to generate target tx''
              | Some targetTx \<Rightarrow>
                  op_bind (PreSendBid T tmp nonce gp) (\<lambda>err.
                  case err of
                    Some e \<Rightarrow> bid_failed gp e
                  | None \<Rightarrow> rest T tmp nonce gp targetTx))))))"

text \<open>The block checks; \<open>blockNumber.Uint64()\<close> truncates.\<close>

definition with_block :: "('tx, 'w) env \<Rightarrow> int \<Rightarrow> (int \<Rightarrow> ('w, bid_op_result) op) \<Rightarrow> ('w, bid_op_result) op" where
  "with_block E gp rest =
     op_bind (op_world (BlockNumber (e_cli E))) (\<lambda>rb.
     case rb of
       Inl e \<Rightarrow> bid_failed gp e
     | Inr bn \<Rightarrow>
         op_bind (op_get (\<lambda>a. isLastBlocknumSentTx a (word_of_int bn))) (\<lambda>already.
         if already then bid_failed gp ''this account has already sent a tx for the block''
         else rest bn))"

definition make_bid :: "('tx, 'w) env \<Rightarrow> 'tx \<Rightarrow> int \<Rightarrow> addr \<Rightarrow> addr \<Rightarrow> u64 \<Rightarrow> bytes \<Rightarrow> bid" where
  "make_bid E targetTx blockNum sender to nonce d =
     \<lparr>bid_TargetTxHash = txHash (e_lib E) targetTx, bid_BlockNumber = word_of_int blockNum,
      bid_Sender = sender, bid_To = to, bid_Nonce = nonce, bid_Bid = 2,
      bid_CallGasLimit = 5000000, bid_Data = d, bid_SearcherSig = []\<rparr>"

definition sign_bid :: "('tx, 'w) env \<Rightarrow> ('tx, 'w) auction_lib \<Rightarrow> account \<Rightarrow> account \<Rightarrow> bid \<Rightarrow> 'tx
    \<Rightarrow> (gerror + bid_input) outcome" where
  "sign_bid E A self entryPoint b targetTx =
     (case signAuctionBidAsSearcher E A self b entryPoint of
        Ret (Inl e) \<Rightarrow> Ret (Inl e)
      | Ret (Inr sb) \<Rightarrow> signAuctionBidAsAuctioneer E A (pkg E Auctioneer) sb (toRlp A targetTx)
      | Exit m \<Rightarrow> Exit m | Panic m \<Rightarrow> Panic m | Block \<Rightarrow> Block)"

text \<open>The loop over the block offsets: the hash of each bid, and the signed bids.\<close>

fun sign_bids :: "('tx, 'w) env \<Rightarrow> ('tx, 'w) auction_lib \<Rightarrow> account \<Rightarrow> account \<Rightarrow> 'tx \<Rightarrow> bid list
    \<Rightarrow> (gerror + (hash \<times> bid_input) list) outcome" where
  "sign_bids E A self entryPoint targetTx [] = Ret (Inr [])"
| "sign_bids E A self entryPoint targetTx (b # bs) =
     (case sign_bid E A self entryPoint b targetTx of
        Ret (Inl e) \<Rightarrow> Ret (Inl e)
      | Ret (Inr bi) \<Rightarrow>
          map_outcome_ret (map_sum id ((#) (bidHash A b, bi))) (sign_bids E A self entryPoint targetTx bs)
      | Exit m \<Rightarrow> Exit m | Panic m \<Rightarrow> Panic m | Block \<Rightarrow> Block)"

text \<open>
  One result per bid: \<open>BidResult\<close>. The goroutines send in the order \<open>sched E 2\<close>; \<open>arrive\<close> is the
  order in which the channel delivers the results.
\<close>

record bid_result =
  br_BidHash :: hash
  br_Error :: "gerror option"
  br_RpcError :: "string option"

fun send_bids :: "('tx, 'w) auction_lib \<Rightarrow> (nat \<Rightarrow> hash \<times> bid_input) \<Rightarrow> nat list
    \<Rightarrow> (nat \<Rightarrow> bid_result option) \<Rightarrow> 'w \<Rightarrow> (nat \<Rightarrow> bid_result option) \<times> 'w" where
  "send_bids A bids [] res w = (res, w)"
| "send_bids A bids (i # is) res w =
     (case SendAuctionTx A (snd (bids i)) w of
        ((err, rpc), w') \<Rightarrow>
          send_bids A bids is
            (res(i \<mapsto> \<lparr>br_BidHash = fst (bids i), br_Error = err, br_RpcError = rpc\<rparr>)) w')"

text \<open>
  The loop over the results: the first success ends it; otherwise \<open>submitErr\<close> keeps the last RPC
  error text (it is not reset for a result without one) and the used-nonce errors are counted.
\<close>

fun scan_results :: "'tx kaia_lib \<Rightarrow> bid_result list \<Rightarrow> nat \<Rightarrow> string
    \<Rightarrow> bid_result option \<times> nat \<times> string" where
  "scan_results L [] n submitErr = (None, n, submitErr)"
| "scan_results L (r # rs) n submitErr =
     (if br_Error r = None \<and> br_RpcError r = None then (Some r, n, submitErr)
      else let se = (case br_RpcError r of Some e \<Rightarrow> e | None \<Rightarrow> submitErr)
           in scan_results L rs (if se \<noteq> [] \<and> nonce_conflict L se then Suc n else n) se)"

text \<open>\<open>Uint64\<close> of a \<open>*big.Int\<close>: the low 64 bits, or a nil dereference.\<close>

definition Uint64 :: "int option \<Rightarrow> u64 outcome" where
  "Uint64 x = (case x of None \<Rightarrow> nil_panic | Some n \<Rightarrow> Ret (word_of_int n))"

lemma Uint64_not_Block [simp]: "Uint64 x \<noteq> Block"
  by (simp add: Uint64_def nil_panic_def split: option.split)

definition Bid_body :: "('tx, 'w) env \<Rightarrow> ('tx, 'w) auction_lib \<Rightarrow> nat list \<Rightarrow> account \<Rightarrow> account \<Rightarrow> string
    \<Rightarrow> ('w, bid_op_result) op" where
  "Bid_body E A arrive entryPoint target key =
     prepare_bid E A key (\<lambda>T tmp nonce gp targetTx.
     op_bind (op_get GetAddress) (\<lambda>self_addr.
     op_bind (op_gen (getEntrypointNonce E self_addr)) (\<lambda>appNonce.
     op_bind (op_gen (gen_data E ContractCounterForTestAuction 0 (Some 0))) (\<lambda>d.
     with_block E gp (\<lambda>bn.
     op_bind (op_out (Uint64 appNonce)) (\<lambda>appNonce.
     op_bind (op_eval (\<lambda>a. sign_bids E A a entryPoint targetTx
       (map (\<lambda>i. make_bid E targetTx (bn + i) self_addr (acc_address target) appNonce d)
          [1, 2]))) (\<lambda>sr.
     case sr of
       Inl e \<Rightarrow> bid_failed gp e
     | Inr bids \<Rightarrow>
         op_bind (op_world (send_bids A ((!) bids) (sched E 2) Map.empty)) (\<lambda>res.
         case scan_results (e_lib E) (map (\<lambda>i. the (res i)) arrive) 0 [] of
           (Some r, _, _) \<Rightarrow>
             op_bind (PostSendBid T tmp nonce gp bn) (\<lambda>_.
             op_ret (txHash (e_lib E) targetTx, br_BidHash r, gp, None))
         | (None, n, submitErr) \<Rightarrow>
             op_bind (if n = length arrive then op_add_nonce 1 else op_ret ()) (\<lambda>_.
             op_ret (txHash (e_lib E) targetTx, 0, gp,
                     Some (''failed to send auction bid: '' @ submitErr)))))))))))"

definition AuctionBid :: "('tx, 'w) env \<Rightarrow> ('tx, 'w) auction_lib \<Rightarrow> nat list \<Rightarrow> account \<Rightarrow> account
    \<Rightarrow> string \<Rightarrow> ('w, bid_op_result) op" where
  "AuctionBid E A arrive entryPoint target key = with_lock (Bid_body E A arrive entryPoint target key)"

definition RevertedBid_body :: "('tx, 'w) env \<Rightarrow> ('tx, 'w) auction_lib \<Rightarrow> account \<Rightarrow> account \<Rightarrow> string
    \<Rightarrow> ('w, bid_op_result) op" where
  "RevertedBid_body E A entryPoint target key =
     prepare_bid E A key (\<lambda>T tmp nonce gp targetTx.
     op_bind (op_gen (gen_data E ContractCounterForTestAuction 0 (Some 0))) (\<lambda>d.
     with_block E gp (\<lambda>bn.
     op_bind (op_get acc_address) (\<lambda>self_addr.
     let b = make_bid E targetTx (bn + 1) self_addr (acc_address target) 0x7FFFFFFFFFFFFFFF d in
     op_bind (op_eval (\<lambda>a. sign_bid E A a entryPoint b targetTx)) (\<lambda>sr.
     case sr of
       Inl e \<Rightarrow> bid_failed gp e
     | Inr bi \<Rightarrow>
         op_bind (op_world (SendAuctionTx A bi)) (\<lambda>(err, rpc).
         case err of
           Some e \<Rightarrow> op_ret (txHash (e_lib E) targetTx, bidHash A b, gp, Some e)
         | None \<Rightarrow>
             (let submitErr = (case rpc of Some e \<Rightarrow> e | None \<Rightarrow> []) in
              if submitErr \<noteq> [] then
                op_bind (op_skip_used E submitErr) (\<lambda>_.
                op_ret (txHash (e_lib E) targetTx, bidHash A b, gp, Some submitErr))
              else
                op_bind (PostSendBid T tmp nonce gp bn) (\<lambda>_.
                op_ret (txHash (e_lib E) targetTx, bidHash A b, gp, None)))))))))"

definition AuctionRevertedBid :: "('tx, 'w) env \<Rightarrow> ('tx, 'w) auction_lib \<Rightarrow> account \<Rightarrow> account
    \<Rightarrow> string \<Rightarrow> ('w, bid_op_result) op" where
  "AuctionRevertedBid E A entryPoint target key = with_lock (RevertedBid_body E A entryPoint target key)"

section \<open>The handlers are bodies of account operations\<close>

named_theorems op_bodies

declare op_body_bind [op_bodies] op_body_ret [op_bodies] op_body_out [op_bodies]
  op_body_get [op_bodies] op_body_world [op_bodies] op_body_gen_data [op_bodies] op_body_entry_nonce [op_bodies]
  op_body_add_nonce [op_bodies] op_body_last_block [op_bodies] op_body_nonce [op_bodies]
  op_body_first_key [op_bodies]

lemma first_key_not_Block [simp]: "first_key a \<noteq> Block"
  by (auto simp: first_key_def split: list.splits)

lemma op_body_key_of [op_bodies]: "op_body (op_key_of acc)"
  by (simp add: op_key_of_def)

lemma op_body_send [op_bodies]: "op_body (op_send C tx)"
  by (simp add: op_send_def)

lemma op_body_skip_used [op_bodies]: "op_body (op_skip_used E e)"
  by (simp add: op_skip_used_def)

lemma op_body_send_nil [op_bodies]: "op_body (op_send_nil sn C otx)"
  by (auto simp: op_send_nil_def intro: op_bodies split: option.split)

lemma op_body_info_addr [op_bodies]: "op_body (info_addr E t d)"
  by (simp add: info_addr_def)

lemma op_body_sign_with_keys [op_bodies]: "op_body (sign_with_keys E ty m)"
  by (simp add: sign_with_keys_def)

lemma op_body_no_pre_send [op_bodies]: "op_body (no_pre_send tmp n gp)"
  by (simp add: no_pre_send_def)

lemma op_body_post_one [op_bodies]: "op_body (post_one tmp n gp bn)"
  unfolding post_one_def by (intro op_bodies)

lemma op_body_counter_call [op_bodies]: "op_body (counter_call E i n gp)"
  unfolding counter_call_def by (intro op_bodies)

lemma op_body_make_approve [op_bodies]: "op_body (make_approve E n gp)"
  unfolding make_approve_def by (intro op_bodies)

lemma op_body_make_swap [op_bodies]: "op_body (make_swap E n gp)"
  unfolding make_swap_def by (intro op_bodies)

lemmas target_defs = target_VT_def target_SC_def target_rSC_def target_GAA_def target_GAS_def
  target_rGAA_def target_rGAS_def

lemma target_bodies:
  assumes "TargetTxTypeList sn E key = Some T"
  shows "op_body (GenerateTx T tmp n gp)" "op_body (PreSendBid T tmp n gp)"
    "op_body (PostSendBid T tmp n gp bn)"
  using assms
  by (auto simp: TargetTxTypeList_def target_defs intro!: op_bodies split: if_splits sum.split option.split)

lemma op_body_new_account [op_bodies]: "op_body (op_new_account E)"
  unfolding op_new_account_def by (rule op_body_gen) simp

lemma op_body_bid_failed [op_bodies]: "op_body (bid_failed gp e)"
  by (simp add: bid_failed_def)

lemma op_body_prepare_bid:
  "(\<And>T tmp n gp tx. TargetTxTypeList (sendNil A) E key = Some T \<Longrightarrow> op_body (rest T tmp n gp tx)) \<Longrightarrow>
   op_body (prepare_bid E A key rest)"
  unfolding prepare_bid_def
  by (auto intro!: op_bodies target_bodies split: sum.split option.split)

lemma op_body_with_block: "(\<And>bn. op_body (rest bn)) \<Longrightarrow> op_body (with_block E gp rest)"
  unfolding with_block_def by (auto intro!: op_bodies split: sum.split)

lemma bump_recovery_not_Block [simp]: "bump_recovery s \<noteq> Block"
  by (simp add: bump_recovery_def)

lemma sign_bid_not_Block [simp]: "sign_bid E A a ep b tx \<noteq> Block"
  by (auto simp: sign_bid_def signAuctionBidAsSearcher_def signAuctionBidAsAuctioneer_def Let_def
      split: outcome.splits sum.splits)

lemma sign_bids_not_Block [simp]: "sign_bids E A a ep tx bs \<noteq> Block"
  by (induction bs) (auto split: outcome.splits sum.splits)

interpretation gasless_body: op_body "Gasless_body E t s" for E t s
  unfolding Gasless_body_def by (auto intro!: op_bodies split: sum.split option.split simp: Let_def)

interpretation gasless_approve_body: op_body "GaslessApprove_body E t s" for E t s
  unfolding GaslessApprove_body_def by (auto intro!: op_bodies split: sum.split option.split simp: Let_def)

interpretation bid_body: op_body "Bid_body E A arr ep t key" for E A arr ep t key
  unfolding Bid_body_def
  by (auto intro!: op_body_prepare_bid op_body_with_block op_body_eval op_bodies
      simp del: sign_bids.simps split: sum.split option.split prod.split) (erule target_bodies)+

interpretation reverted_bid_body: op_body "RevertedBid_body E A ep t key" for E A ep t key
  unfolding RevertedBid_body_def Let_def
  by (auto intro!: op_body_prepare_bid op_body_with_block op_body_eval op_bodies
      split: sum.split option.split prod.split) (erule target_bodies)+

end
