(* ===== verification/Deployment.thy ===== *)
theory Deployment
  imports Contract_Info Auction
begin

text \<open>
  Preparing the test contracts: \<open>DeployTestContracts\<close> of \<open>klayslave/account/accgroup.go\<close>, and of
  \<open>klayslave/account/contract.go\<close> the set-up work (liquidity, registrations) and the charging work
  of the table's entries.
\<close>

section \<open>Binding calls through the retry layer\<close>

definition transact_send :: "('tx, 'w) env \<Rightarrow> transact_opts \<Rightarrow> addr \<Rightarrow> chain_call
    \<Rightarrow> ('tx, 'w) send_func" where
  "transact_send E opts c call = op_bind op_first_key (\<lambda>k. op_world (transact (e_bnd E) k opts c call))"

definition opts_fixed :: "int \<Rightarrow> int option \<Rightarrow> transact_opts" where
  "opts_fixed n v = \<lparr>to_Nonce = Some n, to_GasLimit = 3000000, to_Value = v\<rparr>"

definition try_run :: "('tx, 'w) env \<Rightarrow> acc_ref \<Rightarrow> gerror list \<Rightarrow> ('tx, 'w) send_func
    \<Rightarrow> ('w, unit) run" where
  "try_run E ref allowed f =
     on_acc_opt ref (TryRunTxSendFunctionWithGuaranteeRetry (e_cli E) allowed f)"

definition transfer_retry :: "('tx, 'w) env \<Rightarrow> acc_ref \<Rightarrow> account \<Rightarrow> int option \<Rightarrow> bytes option
    \<Rightarrow> ('w, unit) run" where
  "transfer_retry E ref to v input =
     then_run (on_acc_opt ref (TransferSignedTxWithGuaranteeRetry (e_lib E) (e_cli E) (e_glob E) to v input))
       (ret_run ())"

definition transfer_once :: "('tx, 'w) env \<Rightarrow> acc_ref \<Rightarrow> account \<Rightarrow> int option \<Rightarrow> bytes option
    \<Rightarrow> ('w, unit) run" where
  "transfer_once E ref to v input =
     then_run (on_acc ref (TransferSignedTx (e_lib E) (e_cli E) (e_glob E) to v input)) (ret_run ())"

definition acc_run :: "acc_ref \<Rightarrow> ('w, account) run" where
  "acc_run ref = get_run (\<lambda>s. accs s ref)"

definition pack_run :: "('tx, 'w) env \<Rightarrow> abi_id \<Rightarrow> string \<Rightarrow> abi_arg list \<Rightarrow> ('w, bytes) run" where
  "pack_run E abi m args = out_run (PackContractCall (e_abi E) abi m args)"

section \<open>Liquidity\<close>

text \<open>
  \<open>SetupLiquidity\<close> issues six transactions with fixed nonces; a nonce that is already used means
  that the step was done before, and is skipped.
\<close>

definition liquidity_steps :: "('tx, 'w) env \<Rightarrow> addr \<Rightarrow> addr \<Rightarrow> addr \<Rightarrow> addr \<Rightarrow> addr
    \<Rightarrow> (fixed_acc \<times> transact_opts \<times> addr \<times> (addr \<Rightarrow> int \<Rightarrow> chain_call)) list" where
  "liquidity_steps E testToken wkaia factory router gsr =
     (let liq = GetInitialLiquidity E in
      [(GSRSetupManager, opts_fixed 0 None, factory, \<lambda>self now. CreatePair testToken wkaia),
       (GSRSetupManager, opts_fixed 1 (Some liq), wkaia, \<lambda>self now. DepositKaia),
       (GSRSetupManager, opts_fixed 2 None, testToken, \<lambda>self now. ApproveToken router liq),
       (GSRSetupManager, opts_fixed 3 None, wkaia, \<lambda>self now. ApproveToken router liq),
       (GSRSetupManager, opts_fixed 4 None, router,
          \<lambda>self now. AddLiquidity testToken wkaia liq liq 0 0 self (now + 60 * 20)),
       (GaslessSwapRouterDeployer, opts_fixed 1 None, gsr, \<lambda>self now. AddToken testToken factory router)])"

definition liquidity_send :: "('tx, 'w) env
    \<Rightarrow> fixed_acc \<times> transact_opts \<times> addr \<times> (addr \<Rightarrow> int \<Rightarrow> chain_call) \<Rightarrow> ('tx, 'w) send_func" where
  "liquidity_send E st a w =
     (case st of (d, opts, c, call) \<Rightarrow> transact_send E opts c (call (acc_address a) (unixNow E w)) a w)"

definition SetupLiquidity :: "('tx, 'w) env \<Rightarrow> ('w, unit) run" where
  "SetupLiquidity E =
     bind_run (contract_run ContractGaslessToken) (\<lambda>testToken.
     bind_run (contract_run ContractWKaia) (\<lambda>wkaia.
     bind_run (contract_run ContractUniswapV2Factory) (\<lambda>factory.
     bind_run (contract_run ContractUniswapV2Router) (\<lambda>router.
     bind_run (contract_run ContractGaslessSwapRouter) (\<lambda>gsr.
     then_run (exit_if (newTestToken (e_bnd E) (acc_address testToken)) ''failed to get test token contract'')
    (then_run (exit_if (newWKAIA (e_bnd E) (acc_address wkaia)) ''failed to get wkaia contract'')
    (then_run (exit_if (newFactory (e_bnd E) (acc_address factory)) ''failed to get factory contract'')
    (then_run (exit_if (newRouter (e_bnd E) (acc_address router)) ''failed to get router contract'')
    (then_run (exit_if (newSwapRouter (e_bnd E) (acc_address gsr)) ''failed to get gsr contract'')
    (for_run (liquidity_steps E (acc_address testToken) (acc_address wkaia) (acc_address factory)
                (acc_address router) (acc_address gsr))
       (\<lambda>st. try_run E (Fixed (fst st)) [ErrNonceTooLow (e_lib E)] (liquidity_send E st))))))))))))"

section \<open>Registrations\<close>

text \<open>
  The loop that waits for the target block: a timer that fires \<open>timeoutSec\<close> after its start ends
  the process, an unreadable block number is retried.
\<close>

partial_function (option) wait_block :: "('tx, 'w) env \<Rightarrow> int \<Rightarrow> int \<Rightarrow> 'w \<Rightarrow> (unit outcome \<times> 'w) option" where
  "wait_block E deadline target w =
     (if deadline \<le> unixNow E w then Some (Exit ''Timeout waiting for target block'', w)
      else case BlockNumber (e_cli E) (Elapse (e_cli E) 1000 w) of
             (r, w') \<Rightarrow>
               (case r of
                  Inl e \<Rightarrow> wait_block E deadline target w'
                | Inr bn \<Rightarrow> (if target \<le> bn then Some (Ret (), w') else wait_block E deadline target w')))"

definition world_opt_run :: "('w \<Rightarrow> ('r outcome \<times> 'w) option) \<Rightarrow> ('w, 'r) run" where
  "world_opt_run f s = map_option (\<lambda>(r, w'). (r, s\<lparr>wld := w'\<rparr>)) (f (wld s))"

definition wait_target :: "('tx, 'w) env \<Rightarrow> int \<Rightarrow> int \<Rightarrow> ('w, unit) run" where
  "wait_target E blockNum target =
     bind_run (get_run (\<lambda>s. unixNow E (wld s))) (\<lambda>start.
     world_opt_run (wait_block E (start + (target - blockNum + 10)) target))"

text \<open>The two registrations differ in the name and the contract.\<close>

definition register_run :: "('tx, 'w) env \<Rightarrow> string \<Rightarrow> TestContract \<Rightarrow> ('w, unit) run" where
  "register_run E name t =
     (case newRegistry (e_bnd E) of
        Some e \<Rightarrow> ret_run ()
      | None \<Rightarrow>
          bind_run (world_run (BlockNumber (e_cli E))) (\<lambda>rb.
          case rb of
            Inl e \<Rightarrow> ret_run ()
          | Inr blockNum \<Rightarrow>
              (let target = blockNum + 10 in
               bind_run (contract_run t) (\<lambda>c.
               then_run (try_run E GlobalReservoir []
                  (transact_send E \<lparr>to_Nonce = None, to_GasLimit = 3000000, to_Value = None\<rparr>
                     (RegistryAddr (e_bnd E)) (RegisterName name (acc_address c) target)))
                 (wait_target E blockNum target)))))"

definition RegisterGSR :: "('tx, 'w) env \<Rightarrow> ('w, unit) run" where
  "RegisterGSR E = register_run E (GaslessSwapRouterName (e_bnd E)) ContractGaslessSwapRouter"

definition RegisterAuctionEntryPoint :: "('tx, 'w) env \<Rightarrow> ('w, unit) run" where
  "RegisterAuctionEntryPoint E = register_run E (AuctionEntryPointName (e_bnd E)) ContractAuctionEntryPoint"

section \<open>Set-up and charging work\<close>

record AdditionalWorkContext =
  ChargeValue :: int
  IsLeader :: bool
  ctxTcList :: "string list"
  ctxTargetTxTypes :: "string list"

definition gsr_setup :: "('tx, 'w) env \<Rightarrow> AdditionalWorkContext \<Rightarrow> ('w, unit) run" where
  "gsr_setup E ctx =
     bind_run (world_run (IsGSRExistInRegistry E)) (\<lambda>ex.
     if ex then ret_run ()
     else
       bind_run (acc_run (Fixed GSRSetupManager)) (\<lambda>manager.
       then_run (transfer_once E LocalReservoir manager (Some (ChargeValue ctx + GetInitialLiquidity E)) None)
      (bind_run (contract_run ContractGaslessToken) (\<lambda>token.
       bind_run (pack_run E erc20ABI ''transfer''
          [ArgAddress (GetAddress manager), ArgUint (GetInitialLiquidity E)]) (\<lambda>d.
       then_run (transfer_once E (Fixed GaslessTokenDeployer) token None (Some d))
      (then_run (SetupLiquidity E) (RegisterGSR E)))))))"

definition entry_point_setup :: "('tx, 'w) env \<Rightarrow> ('w, unit) run" where
  "entry_point_setup E =
     bind_run (world_run (IsAuctionEntryPointExistInRegistry E)) (\<lambda>ex.
     if ex then ret_run () else RegisterAuctionEntryPoint E)"

definition DoSetupWork :: "('tx, 'w) env \<Rightarrow> AdditionalWorkContext \<Rightarrow> TestContract \<Rightarrow> ('w, unit) run" where
  "DoSetupWork E ctx t =
     (case t of
        ContractGaslessSwapRouter \<Rightarrow> gsr_setup E ctx
      | ContractAuctionEntryPoint \<Rightarrow> entry_point_setup E
      | _ \<Rightarrow> ret_run ())"

definition erc20_charging :: "('tx, 'w) env \<Rightarrow> ('w, unit) run" where
  "erc20_charging E =
     bind_run (contract_run ContractErc20) (\<lambda>c.
     bind_run (acc_run LocalReservoir) (\<lambda>local.
     bind_run (pack_run E erc20ABI ''mint'' [ArgAddress (acc_address local), ArgUint 100000000000]) (\<lambda>d.
     then_run (transfer_once E (Fixed ERC20Deployer) c None (Some d))
    (bind_run (get_run (\<lambda>s. GetValidAccGrp (grp s))) (\<lambda>valid.
     concurrent_run E valid (\<lambda>idx ref.
       bind_run (acc_run ref) (\<lambda>acc.
       bind_run (pack_run E erc20ABI ''transfer'' [ArgAddress (acc_address acc), ArgUint 10000]) (\<lambda>d.
       transfer_once E LocalReservoir c None (Some d)))))))))"

text \<open>One account of the ERC-721 charging: five tokens from a base that is a time stamp.\<close>

fun put_tokens :: "addr \<Rightarrow> int \<Rightarrow> nat \<Rightarrow> ledger \<Rightarrow> ledger" where
  "put_tokens a tokenId 0 l = l"
| "put_tokens a tokenId (Suc n) l = put_tokens a (tokenId + 1) n (PutToken a tokenId l)"

definition erc721_mint_one :: "('tx, 'w) env \<Rightarrow> account \<Rightarrow> int \<Rightarrow> nat \<Rightarrow> acc_ref \<Rightarrow> ('w, unit) run" where
  "erc721_mint_one E c baseOffset idx ref =
     bind_run (acc_run ref) (\<lambda>acc.
     then_run (ledger_run (InitializeAccount (acc_address acc)))
    (let startTokenId = baseOffset + int (idx * 5); endTokenId = baseOffset + int ((idx + 1) * 5) in
     bind_run (pack_run E erc721PerformanceABI ''registerBulk''
        [ArgAddress (acc_address acc), ArgUint startTokenId, ArgUint endTokenId]) (\<lambda>d.
     then_run (transfer_once E LocalReservoir c None (Some d))
       (ledger_run (put_tokens (acc_address acc) startTokenId (nat (endTokenId - startTokenId)))))))"

definition erc721_charging :: "('tx, 'w) env \<Rightarrow> ('w, unit) run" where
  "erc721_charging E =
     bind_run (contract_run ContractErc721) (\<lambda>c.
     bind_run (get_run (\<lambda>s. unixNow E (wld s) * 1000000)) (\<lambda>baseOffset.
     bind_run (get_run (\<lambda>s. GetValidAccGrp (grp s))) (\<lambda>valid.
     concurrent_run E valid (erc721_mint_one E c baseOffset))))"

definition gasless_charging :: "('tx, 'w) env \<Rightarrow> AdditionalWorkContext \<Rightarrow> ('w, unit) run" where
  "gasless_charging E ctx =
     (if \<not> ContainsAnyInList (ctxTcList ctx) [''gaslessTransactionTC'', ''gaslessOnlyApproveTC'']
         \<and> \<not> ContainsAnyInList (ctxTargetTxTypes ctx) [''GAA'', ''GAS'']
      then ret_run ()
      else
        bind_run (contract_run ContractGaslessToken) (\<lambda>c.
        bind_run (get_run (\<lambda>s. GetValidAccGrp (grp s)
           @ GetAccListByName (grp s) AccListForGaslessApproveTx)) (\<lambda>refs.
        bind_run (acc_run LocalReservoir) (\<lambda>local.
        bind_run (pack_run E erc20ABI ''transfer''
           [ArgAddress (acc_address local), ArgUint (ChargeValue ctx * int (length refs))]) (\<lambda>d.
        then_run (transfer_once E (Fixed GaslessTokenDeployer) c None (Some d))
       (concurrent_run E refs (\<lambda>idx ref.
          bind_run (acc_run ref) (\<lambda>acc.
          bind_run (pack_run E erc20ABI ''transfer''
             [ArgAddress (acc_address acc), ArgUint (ChargeValue ctx)]) (\<lambda>d.
          transfer_once E LocalReservoir c None (Some d))))))))))"

definition deposit_charging :: "('tx, 'w) env \<Rightarrow> AdditionalWorkContext \<Rightarrow> ('w, unit) run" where
  "deposit_charging E ctx =
     then_run (exit_if (abiJSON (e_abi E) AuctionDepositVaultABI) ''failed to get ABI'')
    (bind_run (get_run (\<lambda>s. GetValidAccGrp (grp s))) (\<lambda>valid.
     concurrent_run E valid (\<lambda>idx ref.
       bind_run (acc_run ref) (\<lambda>acc.
       bind_run (out_run (pack_fatal (e_abi E) AuctionDepositVaultABI ''failed to get ABI''
          ''failed to pack deposit data'' ''depositFor'' [ArgAddress (GetAddress acc)])) (\<lambda>d.
       bind_run (contract_run ContractAuctionDepositVault) (\<lambda>vault.
       transfer_retry E LocalReservoir vault (Some (ChargeValue ctx)) (Some d)))))))"

definition tether_charging :: "('tx, 'w) env \<Rightarrow> ('w, unit) run" where
  "tether_charging E =
     then_run (exit_if (abiJSON (e_abi E) TetherContractTCABI) ''failed to parse TetherToken ABI'')
    (bind_run (contract_run ContractTetherProxy) (\<lambda>proxy.
     bind_run (get_run (\<lambda>s. GetValidAccGrp (grp s))) (\<lambda>valid.
     concurrent_run E valid (\<lambda>idx ref.
       bind_run (acc_run ref) (\<lambda>acc.
       bind_run (out_run (pack_fatal (e_abi E) TetherContractTCABI ''failed to parse TetherToken ABI''
          ''failed to pack mint data'' ''mint''
          [ArgAddress (acc_address acc), ArgUint 1000000000000000000])) (\<lambda>d.
       transfer_retry E (Fixed TetherProxyDeployer) proxy None (Some d)))))))"

definition DoChargingWork :: "('tx, 'w) env \<Rightarrow> AdditionalWorkContext \<Rightarrow> TestContract \<Rightarrow> ('w, unit) run" where
  "DoChargingWork E ctx t =
     (case t of
        ContractErc20 \<Rightarrow> erc20_charging E
      | ContractErc721 \<Rightarrow> erc721_charging E
      | ContractGaslessToken \<Rightarrow> gasless_charging E ctx
      | ContractAuctionEntryPoint \<Rightarrow> deposit_charging E ctx
      | ContractTetherProxy \<Rightarrow> tether_charging E
      | _ \<Rightarrow> ret_run ())"

section \<open>Deploying the contracts\<close>

definition all_contracts :: "TestContract list" where
  "all_contracts = [ContractErc20, ContractErc721, ContractStorageTrie, ContractGeneral,
     ContractGaslessToken, ContractWKaia, ContractUniswapV2Factory, ContractUniswapV2Router,
     ContractGaslessSwapRouter, ContractCounterForTestAuction, ContractAuctionFeeVault,
     ContractAuctionDepositVault, ContractAuctionEntryPoint, ContractCPUHeavy, ContractLargeMemo,
     ContractReadApiCallContract, ContractUserStorage, ContractInternalTxKIP17,
     ContractInternalTxMain, ContractTetherLogic, ContractTetherProxy]"

text \<open>The guard both phases start with.\<close>

definition not_needed :: "('tx, 'w) env \<Rightarrow> string list \<Rightarrow> string list \<Rightarrow> TestContract \<Rightarrow> bool" where
  "not_needed E tcList targetTxTypes t \<longleftrightarrow>
     t \<noteq> ContractGeneral \<and> \<not> ContainsAnyInList tcList (testNames (info_of E t))
     \<and> \<not> ContainsAnyInList targetTxTypes (auctionTargetTxTypes (info_of E t))"

text \<open>\<open>a.contracts[idx] = acc\<close>: the new account is stored under its own reference.\<close>

definition set_contract :: "TestContract \<Rightarrow> account \<Rightarrow> ('w, unit) run" where
  "set_contract t acc s =
     (let ref = ContractAcc (TestContract_idx t) in
      Some (Ret (), s\<lparr>accs := (accs s)(ref := acc), grp := SetTestContractByName (Some ref) t (grp s)\<rparr>))"

definition resolved_contracts :: "'w proc \<Rightarrow> account option list" where
  "resolved_contracts s = map (map_option (accs s)) (GetTestContractList (grp s))"

definition locate_contract :: "('tx, 'w) env \<Rightarrow> TestContract \<Rightarrow> ('w, unit) run" where
  "locate_contract E t =
     (let info = info_of E t in
      bind_run (acc_run (Fixed (deployer info))) (\<lambda>d.
      bind_run (world_run (InfoGetAddress info d)) (\<lambda>addr.
      bind_run (world_run (NewKaiaAccountWithAddr (e_crypto E) 0 addr)) (\<lambda>r.
      bind_run (out_run r) (set_contract t)))))"

definition deploy_contract :: "('tx, 'w) env \<Rightarrow> AdditionalWorkContext \<Rightarrow> TestContract \<Rightarrow> ('w, unit) run" where
  "deploy_contract E ctx t =
     (let info = info_of E t in
      bind_run (acc_run (Fixed (deployer info))) (\<lambda>d.
      then_run (transfer_retry E LocalReservoir d (Some (ChargeValue ctx)) None)
     (bind_run (get_run resolved_contracts) (\<lambda>cs.
      bind_run (out_run (GetBytecodeWithConstructorParam info (Bytecode info) cs d)) (\<lambda>code.
      bind_run (on_acc_opt (Fixed (deployer info))
         (SmartContractDeployWithGuaranteeRetry (e_crypto E) (e_lib E) (e_cli E) (e_glob E) code True))
        (set_contract t))))))"

definition phase1 :: "('tx, 'w) env \<Rightarrow> AdditionalWorkContext \<Rightarrow> TestContract \<Rightarrow> ('w, unit) run" where
  "phase1 E ctx t =
     (if not_needed E (ctxTcList ctx) (ctxTargetTxTypes ctx) t then ret_run ()
      else if IsLeader ctx then
        bind_run (on_acc (Fixed (deployer (info_of E t))) (IsDeployed (info_of E t))) (\<lambda>deployed.
        then_run (if deployed then locate_contract E t else deploy_contract E ctx t)
          (DoSetupWork E ctx t))
      else ret_run ())"

text \<open>
  One poll of the followers. \<open>IsDeployed\<close> and \<open>WaitForSetup\<close> always return, so the last case of
  \<open>poll\<close> is never reached.
\<close>

definition poll :: "('w, bool) run \<Rightarrow> 'w proc \<Rightarrow> bool \<times> 'w proc" where
  "poll m s = (case m s of Some (Ret b, s') \<Rightarrow> (b, s') | Some (_, s') \<Rightarrow> (False, s') | None \<Rightarrow> (False, s))"

definition setup_poll :: "('tx, 'w) env \<Rightarrow> TestContract \<Rightarrow> ('w, bool) run" where
  "setup_poll E t =
     (case WaitForSetup (info_of E t) of
        Some f \<Rightarrow> world_run f
      | None \<Rightarrow> on_acc (Fixed (deployer (info_of E t))) (IsDeployed (info_of E t)))"

definition await_setup :: "('tx, 'w) env \<Rightarrow> TestContract \<Rightarrow> ('w, unit) run" where
  "await_setup E t s =
     (case WaitForSetupCompletion (poll (setup_poll E t))
             (\<lambda>ms s. s\<lparr>wld := Elapse (e_cli E) ms (wld s)\<rparr>) s of
        (_, s') \<Rightarrow> Some (Ret (), s'))"

definition phase2 :: "('tx, 'w) env \<Rightarrow> AdditionalWorkContext \<Rightarrow> TestContract \<Rightarrow> ('w, unit) run" where
  "phase2 E ctx t =
     (if not_needed E (ctxTcList ctx) (ctxTargetTxTypes ctx) t then ret_run ()
      else
        then_run (if IsLeader ctx then ret_run () else then_run (await_setup E t) (locate_contract E t))
          (DoChargingWork E ctx t))"

definition DeployTestContracts :: "('tx, 'w) env \<Rightarrow> AdditionalWorkContext \<Rightarrow> ('w, unit) run" where
  "DeployTestContracts E ctx =
     then_run (for_run all_contracts (phase1 E ctx)) (for_run all_contracts (phase2 E ctx))"

section \<open>What a run keeps\<close>

text \<open>
  Apart from \<open>set_contract\<close>, no step of the set-up changes the account group or who an account
  is. \<open>keeps\<close> is closed under the combinators.
\<close>

definition keeps :: "('w, 'r) run \<Rightarrow> bool" where
  "keeps m \<longleftrightarrow> (\<forall>s r s'. m s = Some (r, s') \<longrightarrow>
     grp s' = grp s \<and> (\<forall>ref. identity (accs s' ref) = identity (accs s ref)))"

named_theorems keeps_rules

lemma keepsD: "keeps m \<Longrightarrow> m s = Some (r, s') \<Longrightarrow>
   grp s' = grp s \<and> (\<forall>ref. identity (accs s' ref) = identity (accs s ref))"
  by (simp add: keeps_def)

lemma keeps_ret [keeps_rules]: "keeps (ret_run x)"
  by (simp add: keeps_def ret_run_def)

lemma keeps_out [keeps_rules]: "keeps (out_run x)"
  by (simp add: keeps_def out_run_def)

lemma keeps_get [keeps_rules]: "keeps (get_run f)"
  by (simp add: keeps_def get_run_def)

lemma keeps_acc [keeps_rules]: "keeps (acc_run ref)"
  by (simp add: acc_run_def keeps_get)

lemma keeps_world [keeps_rules]: "keeps (world_run f)"
  by (auto simp: keeps_def world_run_def split: prod.splits)

lemma keeps_world_opt [keeps_rules]: "keeps (world_opt_run f)"
  by (auto simp: keeps_def world_opt_run_def)

lemma keeps_ledger [keeps_rules]: "keeps (ledger_run f)"
  by (simp add: keeps_def ledger_run_def)

lemma keeps_exit_if [keeps_rules]: "keeps (exit_if e m)"
  by (simp add: exit_if_def keeps_rules split: option.split)

lemma keeps_pack [keeps_rules]: "keeps (pack_run E abi m args)"
  by (simp add: pack_run_def keeps_rules)

lemma keeps_contract [keeps_rules]: "keeps (contract_run t)"
  by (auto simp: keeps_def contract_run_def split: option.splits)

lemma keeps_bind [keeps_rules]:
  assumes m: "keeps m" and f: "\<And>x. keeps (f x)"
  shows "keeps (bind_run m f)"
  unfolding keeps_def
proof (intro allI impI)
  fix s r s' assume run: "bind_run m f s = Some (r, s')"
  then obtain q s1 where q: "m s = Some (q, s1)" by (auto simp: bind_run_def split: option.splits)
  show "grp s' = grp s \<and> (\<forall>ref. identity (accs s' ref) = identity (accs s ref))"
    using run q keepsD [OF m q] by (cases q) (auto simp: bind_run_def dest: keepsD [OF f])
qed

lemma keeps_then [keeps_rules]: "keeps m \<Longrightarrow> keeps k \<Longrightarrow> keeps (then_run m k)"
  by (simp add: then_run_def keeps_bind)

lemma keeps_for [keeps_rules]: "(\<And>x. keeps (f x)) \<Longrightarrow> keeps (for_run xs f)"
  by (induction xs) (auto intro: keeps_rules)

lemma keeps_concurrent [keeps_rules]: "(\<And>i ref. keeps (f i ref)) \<Longrightarrow> keeps (concurrent_run E refs f)"
  by (simp add: concurrent_run_def keeps_rules)

lemma keeps_on_acc [keeps_rules]: "account_op f \<Longrightarrow> keeps (on_acc ref f)"
  by (auto simp: keeps_def on_acc_def split: prod.splits dest: account_op.keeps_identity)

lemma keeps_on_acc_opt:
  "(\<And>a w r a' w'. f a w = Some (r, a', w') \<Longrightarrow> identity a' = identity a) \<Longrightarrow> keeps (on_acc_opt ref f)"
  by (auto simp: keeps_def on_acc_opt_def)

lemma RunWithRetry_identity:
  "account_op f \<Longrightarrow> RunWithRetry C cfg f a w = Some (r, a', w') \<Longrightarrow> identity a' = identity a"
  by (auto simp: RunWithRetry_iff dest: retry_run_frame)

lemma keeps_transfer_retry [keeps_rules]: "keeps (transfer_retry E ref to v i)"
  unfolding transfer_retry_def TransferSignedTxWithGuaranteeRetry_def
  by (intro keeps_then keeps_ret keeps_on_acc_opt, erule RunWithRetry_identity [rotated])
    (rule account_op.mapped [OF signed_op.account_op_axioms])

lemma keeps_transfer_once [keeps_rules]: "keeps (transfer_once E ref to v i)"
  unfolding transfer_once_def TransferSignedTx_def
  by (intro keeps_then keeps_ret keeps_on_acc account_op.mapped signed_op.account_op_axioms)

lemma keeps_try_run: "account_op f \<Longrightarrow> keeps (try_run E ref allowed f)"
  unfolding try_run_def TryRunTxSendFunctionWithGuaranteeRetry_def
  by (rule keeps_on_acc_opt) (auto dest: RunWithRetry_identity)

interpretation transact_op: op_body "transact_send E opts c call" for E opts c call
  unfolding transact_send_def by (intro op_bodies)

interpretation liquidity_op: op_body "liquidity_send E st" for E st
  by unfold_locales (auto simp: liquidity_send_def split: prod.splits dest: transact_op.body_identity
      transact_op.body_mutex transact_op.body_no_wait)

lemma keeps_try_transact [keeps_rules]: "keeps (try_run E ref al (transact_send E opts c call))"
  by (rule keeps_try_run) (rule transact_op.account_op_axioms)

lemma keeps_try_liquidity [keeps_rules]: "keeps (try_run E ref al (liquidity_send E st))"
  by (rule keeps_try_run) (rule liquidity_op.account_op_axioms)

lemma keeps_register: "keeps (register_run E name t)"
  unfolding register_run_def wait_target_def Let_def
  by (auto intro!: keeps_rules split: option.split sum.split)

lemma keeps_setup [keeps_rules]: "keeps (DoSetupWork E ctx t)"
  unfolding DoSetupWork_def gsr_setup_def entry_point_setup_def SetupLiquidity_def RegisterGSR_def
    RegisterAuctionEntryPoint_def
  by (auto intro!: keeps_rules keeps_register split: TestContract.split)

lemma keeps_charging [keeps_rules]: "keeps (DoChargingWork E ctx t)"
  unfolding DoChargingWork_def erc20_charging_def erc721_charging_def erc721_mint_one_def
    gasless_charging_def deposit_charging_def tether_charging_def Let_def
  by (auto intro!: keeps_rules split: TestContract.split)

section \<open>What the deployment establishes\<close>

lemma identity_address: "identity a = identity b \<Longrightarrow> acc_address a = acc_address b"
  by (simp add: identity_def)

definition contract_ref :: "TestContract \<Rightarrow> acc_ref" where
  "contract_ref t = ContractAcc (TestContract_idx t)"

lemma contract_ref_eq [simp]: "contract_ref t = contract_ref u \<longleftrightarrow> t = u"
  by (simp add: contract_ref_def)

lemma contract_ref_not_Fixed [simp]: "contract_ref t \<noteq> Fixed d" "Fixed d \<noteq> contract_ref t"
  by (simp_all add: contract_ref_def)

text \<open>The address every process computes for an entry that is looked up by its deployer's nonce 0.\<close>

definition expected_addr :: "('tx, 'w) env \<Rightarrow> TestContract \<Rightarrow> 'w proc \<Rightarrow> addr" where
  "expected_addr E t s = createAddress (e_lib E) (acc_address (accs s (Fixed (deployer (info_of E t))))) 0"

definition located :: "('tx, 'w) env \<Rightarrow> TestContract \<Rightarrow> 'w proc \<Rightarrow> bool" where
  "located E t s \<longleftrightarrow> GetTestContractByName (grp s) t = Some (contract_ref t) \<and>
     (InfoGetAddress (info_of E t) = nonce0 E \<longrightarrow>
        acc_address (accs s (contract_ref t)) = expected_addr E t s)"

text \<open>\<open>touch E t s s'\<close>: the step may have set contract \<open>t\<close>, to the right address, and nothing else.\<close>

definition touch :: "('tx, 'w) env \<Rightarrow> TestContract \<Rightarrow> 'w proc \<Rightarrow> 'w proc \<Rightarrow> bool" where
  "touch E t s s' \<longleftrightarrow>
     (\<forall>ref. ref \<noteq> contract_ref t \<longrightarrow> identity (accs s' ref) = identity (accs s ref)) \<and>
     (grp s' = grp s \<and> identity (accs s' (contract_ref t)) = identity (accs s (contract_ref t)) \<or>
      grp s' = SetTestContractByName (Some (contract_ref t)) t (grp s) \<and>
      (InfoGetAddress (info_of E t) = nonce0 E \<longrightarrow>
         acc_address (accs s' (contract_ref t)) = expected_addr E t s))"

lemma SetTestContractByName_twice [simp]:
  "SetTestContractByName c t (SetTestContractByName c t g) = SetTestContractByName c t g"
  by (simp add: SetTestContractByName_def)

lemma touch_address: "touch E t s s' \<Longrightarrow> ref \<noteq> contract_ref t \<Longrightarrow>
   acc_address (accs s' ref) = acc_address (accs s ref)"
  by (metis identity_address touch_def)

lemma touch_expected: "touch E t s s' \<Longrightarrow> expected_addr E u s' = expected_addr E u s"
  by (simp add: expected_addr_def touch_address)

lemma touch_keeps: "keeps m \<Longrightarrow> m s = Some (r, s') \<Longrightarrow> touch E t s s'"
  by (auto simp: touch_def dest: keepsD)

lemma touch_refl: "touch E t s s"
  by (simp add: touch_def)

lemma touch_trans:
  assumes "touch E t s s1" "touch E t s1 s2" shows "touch E t s s2"
  using assms touch_expected [OF assms(1), of t]
  by (auto simp: touch_def dest: identity_address)

lemma touch_located: "touch E t s s' \<Longrightarrow> length (contracts (grp s)) = ContractEnd \<Longrightarrow> located E u s \<Longrightarrow> located E u s'"
  using touch_expected [of E t s s' u] touch_address [of E t s s' "contract_ref u"]
  by (cases "t = u")
    (auto simp: touch_def located_def GetTestContractByName_def SetTestContractByName_def
      nth_list_update dest: identity_address)

lemma touch_contracts: "touch E t s s' \<Longrightarrow>
   length (contracts (grp s')) = length (contracts (grp s)) \<and> accLists (grp s') = accLists (grp s) \<and>
   (u \<noteq> t \<longrightarrow> GetTestContractByName (grp s') u = GetTestContractByName (grp s) u)"
  by (auto simp: touch_def SetTestContractByName_def GetTestContractByName_def nth_list_update)

lemma NewKaiaAccountWithAddr_address: "NewKaiaAccountWithAddr X i ad w = (Ret a, w') \<Longrightarrow> acc_address a = ad"
  by (auto simp: NewKaiaAccountWithAddr_def fresh_account_def split: prod.splits sum.splits)

lemma SmartContractDeploy_retry:
  assumes "SmartContractDeployWithGuaranteeRetry X L C g code True a w = Some (r, a', w')"
  shows "identity a' = identity a" and "r = Ret acc \<Longrightarrow> acc_address acc = createAddress L (acc_address a) 0"
proof -
  obtain n b v where gn: "GetNonce C a w = (n, b, v)" by (rule prod_cases3)
  note G = GetNonce_frame [OF gn]
  have op: "account_op (op_map drop_price (TransferNewLegacyTxWithEth L C g None (Some 0) (Some code)))"
    unfolding TransferNewLegacyTxWithEth_def by (rule account_op.mapped [OF eth_style_op.account_op_axioms])
  obtain q b1 v1 where run: "RunWithRetry C \<lparr>SendRetryInterval = 5000, WaitMinedTimeout = 60,
      ShouldSkip = Some (deploy_skip L True)\<rparr> (op_map drop_price (TransferNewLegacyTxWithEth L C g None
      (Some 0) (Some code))) b v = Some (q, b1, v1)"
    and rest: "(case q of Ret _ \<Rightarrow> (case NewKaiaAccountWithAddr X 1 (createAddress L (GetAddress b1) 0) v1 of
           (acc, w3) \<Rightarrow> Some (acc, b1, w3))
       | Exit m \<Rightarrow> Some (Exit m, b1, v1) | Panic m \<Rightarrow> Some (Panic m, b1, v1)
       | Block \<Rightarrow> Some (Block, b1, v1)) = Some (r, a', w')"
    using assms gn by (auto simp: SmartContractDeployWithGuaranteeRetry_def Let_def bind_eq_Some_conv)
  note I = RunWithRetry_identity [OF op run]
  have "identity a' = identity b \<and> (\<forall>acc. r = Ret acc \<longrightarrow> acc_address acc = createAddress L (acc_address b) 0)"
    using rest I identity_address [OF I]
    by (cases q) (auto simp: GetAddress_def split: prod.splits dest: NewKaiaAccountWithAddr_address)
  with G show "identity a' = identity a" "r = Ret acc \<Longrightarrow> acc_address acc = createAddress L (acc_address a) 0"
    by (auto dest: identity_address)
qed

lemma set_contract_touch:
  "set_contract t acc s = Some (Ret (), s') \<Longrightarrow>
   InfoGetAddress (info_of E t) = nonce0 E \<longrightarrow> acc_address acc = expected_addr E t s \<Longrightarrow>
   length (contracts (grp s)) = ContractEnd \<Longrightarrow> touch E t s s' \<and> located E t s'"
  by (auto simp: set_contract_def Let_def touch_def located_def contract_ref_def [symmetric] expected_addr_def
      GetTestContractByName_def SetTestContractByName_def)

lemma locate_contract_touch:
  assumes "locate_contract E t s = Some (Ret (), s')" and len: "length (contracts (grp s)) = ContractEnd"
  shows "touch E t s s' \<and> located E t s'"
proof -
  let ?d = "accs s (Fixed (deployer (info_of E t)))"
  obtain addr w1 acc w2 where addr: "InfoGetAddress (info_of E t) ?d (wld s) = (addr, w1)"
    and new: "NewKaiaAccountWithAddr (e_crypto E) 0 addr w1 = (Ret acc, w2)"
    and set_c: "set_contract t acc (s\<lparr>wld := w2\<rparr>) = Some (Ret (), s')"
    using assms(1)
    by (auto simp: locate_contract_def Let_def acc_run_def run_simps world_run_def
        split: prod.splits)
  have "InfoGetAddress (info_of E t) = nonce0 E \<Longrightarrow> acc_address acc = expected_addr E t (s\<lparr>wld := w2\<rparr>)"
    using NewKaiaAccountWithAddr_address [OF new] addr
    by (simp add: nonce0_def getNonce0ContractAddress_def expected_addr_def GetAddress_def)
  with set_contract_touch [OF set_c, of E] len show ?thesis
    by (auto simp: touch_def expected_addr_def)
qed

lemma deploy_contract_touch:
  assumes "deploy_contract E ctx t s = Some (Ret (), s')" and len: "length (contracts (grp s)) = ContractEnd"
  shows "touch E t s s' \<and> located E t s'"
proof -
  let ?ref = "Fixed (deployer (info_of E t))"
  obtain s1 code acc s2 where
    pay: "transfer_retry E LocalReservoir (accs s ?ref) (Some (ChargeValue ctx)) None s = Some (Ret (), s1)" and
    dep: "on_acc_opt ?ref (SmartContractDeployWithGuaranteeRetry (e_crypto E) (e_lib E) (e_cli E) (e_glob E)
        code True) s1 = Some (Ret acc, s2)" and set_c: "set_contract t acc s2 = Some (Ret (), s')"
    using assms(1) by (auto simp: deploy_contract_def Let_def acc_run_def run_simps)
  have t1: "touch E t s s1" by (rule touch_keeps [OF keeps_transfer_retry pay])
  have t2: "touch E t s1 s2"
    by (rule touch_keeps [OF keeps_on_acc_opt dep]) (rule SmartContractDeploy_retry(1))
  have "acc_address acc = expected_addr E t s1"
    using dep by (auto simp: on_acc_opt_def expected_addr_def dest!: SmartContractDeploy_retry(2) [OF _ refl])
  with touch_expected [OF t2] have "acc_address acc = expected_addr E t s2" by simp
  with set_contract_touch [OF set_c, of E] len touch_contracts [OF t1] touch_contracts [OF t2]
  have "touch E t s2 s'" "located E t s'" by auto
  with touch_trans [OF touch_trans [OF t1 t2]] show ?thesis by blast
qed

text \<open>The two phases, one contract at a time.\<close>

lemma op_body_reg_op: "op_body (reg_op f)"
  by unfold_locales (auto simp: reg_op_def split: prod.splits)

lemma op_body_nonce_check: "op_body (isDeployerNonceNotZero E)"
  by unfold_locales (auto simp: isDeployerNonceNotZero_def split: prod.splits dest!: GetNonce_frame)

lemma IsDeployed_op: "account_op (IsDeployed (info_of E t))"
  by (rule op_body.as_op) (cases t; simp add: contract_info_defs op_body_reg_op op_body_nonce_check)

lemma keeps_setup_poll: "keeps (setup_poll E t)"
  by (auto simp: setup_poll_def intro: keeps_world keeps_on_acc IsDeployed_op split: option.split)

lemma wait_loop_keeps:
  assumes "\<And>s b s'. waitFn s = (b, s') \<Longrightarrow> P s \<Longrightarrow> P s'" and "\<And>ms s. P s \<Longrightarrow> P (elapse ms s)"
  shows "wait_loop n waitFn elapse s = (b, s') \<Longrightarrow> P s \<Longrightarrow> P s'"
  by (induction n arbitrary: s) (auto split: prod.splits bool.splits dest: assms(1) intro: assms(2))

lemma poll_keeps: "keeps m \<Longrightarrow> poll m s = (b, s') \<Longrightarrow>
   grp s' = grp s \<and> (\<forall>ref. identity (accs s' ref) = identity (accs s ref))"
  by (auto simp: poll_def dest: keepsD split: option.splits prod.splits outcome.splits)

lemma keeps_await: "keeps (await_setup E t)"
  unfolding keeps_def
proof (intro allI impI)
  fix s r s' assume run: "await_setup E t s = Some (r, s')"
  let ?P = "\<lambda>u. grp u = grp s \<and> (\<forall>ref. identity (accs u ref) = identity (accs s ref))"
  from run obtain b where "wait_loop 60 (poll (setup_poll E t)) (\<lambda>ms s. s\<lparr>wld := Elapse (e_cli E) ms (wld s)\<rparr>) s = (b, s')"
    by (auto simp: await_setup_def WaitForSetupCompletion_def split: prod.splits)
  then show "?P s'"
    by (rule wait_loop_keeps [where P = ?P, rotated 2])
      (auto dest: poll_keeps [OF keeps_setup_poll])
qed

lemma phase1_touch:
  assumes "phase1 E ctx t s = Some (Ret (), s')" and "length (contracts (grp s)) = ContractEnd"
  shows "touch E t s s' \<and>
    (IsLeader ctx \<and> \<not> not_needed E (ctxTcList ctx) (ctxTargetTxTypes ctx) t \<longrightarrow> located E t s') \<and>
    (\<not> IsLeader ctx \<or> not_needed E (ctxTcList ctx) (ctxTargetTxTypes ctx) t \<longrightarrow> s' = s)"
proof (cases "IsLeader ctx \<and> \<not> not_needed E (ctxTcList ctx) (ctxTargetTxTypes ctx) t")
  case False
  with assms show ?thesis by (auto simp: phase1_def ret_run_def touch_refl split: if_splits)
next
  case True
  with assms(1) obtain b s1 s2 where
    chk: "on_acc (Fixed (deployer (info_of E t))) (IsDeployed (info_of E t)) s = Some (Ret b, s1)" and
    dep: "(if b then locate_contract E t else deploy_contract E ctx t) s1 = Some (Ret (), s2)" and
    su: "DoSetupWork E ctx t s2 = Some (Ret (), s')"
    by (auto simp: phase1_def bind_run_Ret then_run_Ret simp del: split_paired_Ex)
  have t1: "touch E t s s1" by (rule touch_keeps [OF keeps_on_acc [OF IsDeployed_op] chk])
  from touch_contracts [OF t1] assms(2) have l1: "length (contracts (grp s1)) = ContractEnd" by simp
  have t2: "touch E t s1 s2 \<and> located E t s2"
    using dep by (cases b) (auto dest: locate_contract_touch [OF _ l1] deploy_contract_touch [OF _ l1])
  have t3: "touch E t s2 s'" by (rule touch_keeps [OF keeps_setup su])
  have "length (contracts (grp s2)) = ContractEnd" using touch_contracts [of E t s1 s2] t2 l1 by simp
  with t2 t3 have "located E t s'" by (blast intro: touch_located)
  with True touch_trans [OF touch_trans [OF t1] t3] t2 show ?thesis by blast
qed

lemma phase2_touch:
  assumes "phase2 E ctx t s = Some (Ret (), s')" and "length (contracts (grp s)) = ContractEnd"
  shows "touch E t s s' \<and>
    (\<not> IsLeader ctx \<and> \<not> not_needed E (ctxTcList ctx) (ctxTargetTxTypes ctx) t \<longrightarrow> located E t s')"
    and "not_needed E (ctxTcList ctx) (ctxTargetTxTypes ctx) t \<Longrightarrow> s' = s"
proof -
  show "not_needed E (ctxTcList ctx) (ctxTargetTxTypes ctx) t \<Longrightarrow> s' = s"
    using assms(1) by (simp add: phase2_def ret_run_def)
  consider "not_needed E (ctxTcList ctx) (ctxTargetTxTypes ctx) t"
    | "IsLeader ctx" "\<not> not_needed E (ctxTcList ctx) (ctxTargetTxTypes ctx) t"
    | "\<not> IsLeader ctx" "\<not> not_needed E (ctxTcList ctx) (ctxTargetTxTypes ctx) t" by blast
  then show "touch E t s s' \<and>
    (\<not> IsLeader ctx \<and> \<not> not_needed E (ctxTcList ctx) (ctxTargetTxTypes ctx) t \<longrightarrow> located E t s')"
  proof cases
    case 1
    with assms show ?thesis by (simp add: phase2_def ret_run_def touch_refl)
  next
    case 2
    with assms(1) have "DoChargingWork E ctx t s = Some (Ret (), s')"
      by (simp add: phase2_def then_run_def bind_run_def ret_run_def)
    from touch_keeps [OF keeps_charging this] 2 show ?thesis by blast
  next
    case 3
    with assms(1) obtain s1 s2 where w: "await_setup E t s = Some (Ret (), s1)"
      and l: "locate_contract E t s1 = Some (Ret (), s2)" and c: "DoChargingWork E ctx t s2 = Some (Ret (), s')"
      by (auto simp: phase2_def then_run_Ret)
    have t1: "touch E t s s1" by (rule touch_keeps [OF keeps_await w])
    from touch_contracts [OF t1] assms(2) have l1: "length (contracts (grp s1)) = ContractEnd" by simp
    note t2 = locate_contract_touch [OF l l1]
    have t3: "touch E t s2 s'" by (rule touch_keeps [OF keeps_charging c])
    have "length (contracts (grp s2)) = ContractEnd" using touch_contracts [of E t s1 s2] t2 l1 by simp
    with t2 t3 have "located E t s'" by (blast intro: touch_located)
    with touch_trans [OF touch_trans [OF t1] t3] t2 show ?thesis by blast
  qed
qed

text \<open>The loops: \<open>deployed E ctx done s\<close> after the contracts in \<open>done\<close> were handled.\<close>

definition deployed :: "('tx, 'w) env \<Rightarrow> AdditionalWorkContext \<Rightarrow> 'w proc \<Rightarrow> TestContract set \<Rightarrow> 'w proc \<Rightarrow> bool" where
  "deployed E ctx s0 handled s \<longleftrightarrow>
     length (contracts (grp s)) = ContractEnd \<and> accLists (grp s) = accLists (grp s0) \<and>
     (\<forall>t. expected_addr E t s = expected_addr E t s0) \<and>
     (\<forall>t. not_needed E (ctxTcList ctx) (ctxTargetTxTypes ctx) t \<longrightarrow>
        GetTestContractByName (grp s) t = GetTestContractByName (grp s0) t) \<and>
     (\<forall>t \<in> handled. \<not> not_needed E (ctxTcList ctx) (ctxTargetTxTypes ctx) t \<longrightarrow> located E t s)"

lemma deployed_step:
  assumes d: "deployed E ctx s0 H s" and t: "touch E t s s'"
    and skip: "not_needed E (ctxTcList ctx) (ctxTargetTxTypes ctx) t \<Longrightarrow> s' = s"
  shows "deployed E ctx s0 H s'"
proof (cases "not_needed E (ctxTcList ctx) (ctxTargetTxTypes ctx) t")
  case True
  with skip d show ?thesis by simp
next
  case False
  from d have len: "length (contracts (grp s)) = ContractEnd" by (simp add: deployed_def)
  from False d touch_contracts [OF t] touch_expected [OF t] touch_located [OF t len]
  show ?thesis unfolding deployed_def by metis
qed

lemma for_run_collect:
  assumes step: "\<And>H x s s'. P H s \<Longrightarrow> f x s = Some (Ret (), s') \<Longrightarrow> P (insert x H) s'"
  shows "for_run xs f s = Some (Ret (), s') \<Longrightarrow> P H s \<Longrightarrow> P (H \<union> set xs) s'"
proof (induction xs arbitrary: s H)
  case Nil
  then show ?case by (simp add: ret_run_def)
next
  case (Cons x xs)
  from Cons.prems(1) obtain s1 where "f x s = Some (Ret (), s1)" "for_run xs f s1 = Some (Ret (), s')"
    by (auto simp: then_run_Ret)
  with Cons.IH [OF _ step [OF Cons.prems(2)]] show ?case by simp
qed

lemma phase1_deployed: "IsLeader ctx \<Longrightarrow> deployed E ctx s0 H s \<Longrightarrow> phase1 E ctx t s = Some (Ret (), s') \<Longrightarrow>
    deployed E ctx s0 (insert t H) s'"
  using phase1_touch [of E ctx t s s'] deployed_step [of E ctx s0 H s t s']
  by (auto simp: deployed_def)

lemma phase1_idle: "\<not> IsLeader ctx \<Longrightarrow> phase1 E ctx t s = Some (Ret (), s') \<Longrightarrow> s' = s"
  by (simp add: phase1_def ret_run_def split: if_splits)

lemma phase2_deployed: "\<not> IsLeader ctx \<Longrightarrow> deployed E ctx s0 H s \<Longrightarrow> phase2 E ctx t s = Some (Ret (), s') \<Longrightarrow>
    deployed E ctx s0 (insert t H) s'"
  using phase2_touch [of E ctx t s s'] deployed_step [of E ctx s0 H s t s']
  by (auto simp: deployed_def)

lemma phase2_keeps_deployed: "deployed E ctx s0 H s \<Longrightarrow> phase2 E ctx t s = Some (Ret (), s') \<Longrightarrow>
    deployed E ctx s0 H s'"
  using phase2_touch [of E ctx t s s'] deployed_step [of E ctx s0 H s t s']
  by (auto simp: deployed_def)

lemma all_contracts_UNIV: "set all_contracts = UNIV"
proof -
  have "t \<in> set all_contracts" for t by (cases t) (simp_all add: all_contracts_def)
  then show ?thesis by blast
qed

lemma all_contracts_idx: "map TestContract_idx all_contracts = [0..<ContractEnd]"
  by (simp add: all_contracts_def ContractEnd_def upt_rec)

lemma deployed_start: "length (contracts (grp s)) = ContractEnd \<Longrightarrow> deployed E ctx s {} s"
  by (simp add: deployed_def)

lemma DeployTestContracts_deployed:
  assumes "DeployTestContracts E ctx s = Some (Ret (), s')" and len: "length (contracts (grp s)) = ContractEnd"
  shows "deployed E ctx s UNIV s'"
proof -
  from assms(1) obtain s1 where p1: "for_run all_contracts (phase1 E ctx) s = Some (Ret (), s1)"
    and p2: "for_run all_contracts (phase2 E ctx) s1 = Some (Ret (), s')"
    by (auto simp: DeployTestContracts_def then_run_Ret)
  show ?thesis
  proof (cases "IsLeader ctx")
    case True
    from for_run_collect [where P = "deployed E ctx s", OF phase1_deployed [OF True] p1 deployed_start [OF len]]
    have d1: "deployed E ctx s UNIV s1" by (simp add: all_contracts_UNIV)
    show ?thesis
      by (rule for_run_collect [where P = "\<lambda>H. deployed E ctx s UNIV", OF _ p2 d1])
        (rule phase2_keeps_deployed)
  next
    case False
    have "s1 = s"
      using for_run_collect [where P = "\<lambda>H u. u = s", OF _ p1] phase1_idle [OF False] by blast
    then have d0: "deployed E ctx s {} s1" using deployed_start [OF len] by simp
    have "deployed E ctx s ({} \<union> set all_contracts) s'"
      by (rule for_run_collect [where P = "deployed E ctx s", OF _ p2 d0]) (rule phase2_deployed [OF False])
    then show ?thesis by (simp add: all_contracts_UNIV)
  qed
qed

end
