(* ===== verification/Client_Pool.thy ===== *)
theory Client_Pool
  imports Go_Prelude
begin

text \<open>
  \<open>klayslave/clipool/clipool.go\<close>: the pool of RPC clients a test case allocates from.
  The factory \<open>allocFunc\<close> is external (it dials an endpoint); it is a state transformer on
  the world \<open>'w\<close>. Each operation holds the pool's lock for its whole body, so one
  operation is one atomic step and a concurrent run is a sequence of steps.
\<close>

section \<open>State and operations\<close>

record ('c, 'w) ClientPool =
  cp_max :: int
  cp_init :: int
  cp_cnt :: int
  cp_freeList :: "'c list"
  cp_allocFunc :: "'w \<Rightarrow> 'c \<times> 'w"

text \<open>The loop \<open>for i := 0; i < p.init; i++\<close> of \<open>Init\<close>; \<open>n\<close> is the number of rounds left.\<close>

fun Init_loop :: "nat \<Rightarrow> ('c, 'w) ClientPool \<Rightarrow> 'w \<Rightarrow> ('c, 'w) ClientPool \<times> 'w" where
  "Init_loop 0 p w = (p, w)"
| "Init_loop (Suc n) p w =
     (case cp_allocFunc p w of (cli, w') \<Rightarrow>
        Init_loop n (p\<lparr>cp_freeList := cp_freeList p @ [cli], cp_cnt := cp_cnt p + 1\<rparr>) w')"

definition Init :: "int \<Rightarrow> int \<Rightarrow> ('w \<Rightarrow> 'c \<times> 'w) \<Rightarrow> ('c, 'w) ClientPool \<Rightarrow> 'w
    \<Rightarrow> ('c, 'w) ClientPool \<times> 'w" where
  "Init i m f p w =
     Init_loop (nat i) (p\<lparr>cp_init := i, cp_max := m, cp_allocFunc := f\<rparr>) w"

definition Alloc :: "('c, 'w) ClientPool \<Rightarrow> 'w \<Rightarrow> 'c \<times> ('c, 'w) ClientPool \<times> 'w" where
  "Alloc p w =
     (case cp_freeList p of
        [] \<Rightarrow> (case cp_allocFunc p w of (cli, w') \<Rightarrow> (cli, p\<lparr>cp_cnt := cp_cnt p + 1\<rparr>, w'))
      | c # cs \<Rightarrow> (c, p\<lparr>cp_freeList := cs\<rparr>, w))"

definition Free :: "'c \<Rightarrow> ('c, 'w) ClientPool \<Rightarrow> ('c, 'w) ClientPool" where
  "Free v p = p\<lparr>cp_freeList := cp_freeList p @ [v]\<rparr>"

text \<open>The zero value of the struct, as embedded in \<open>TCConfig\<close>.\<close>

definition empty_pool :: "('w \<Rightarrow> 'c \<times> 'w) \<Rightarrow> ('c, 'w) ClientPool" where
  "empty_pool f = \<lparr>cp_max = 0, cp_init = 0, cp_cnt = 0, cp_freeList = [], cp_allocFunc = f\<rparr>"

section \<open>The ownership machine\<close>

text \<open>
  A run of the pool: the clients handed out and not yet returned are tracked next to the
  pool. A step allocates a client, or returns one that is out (the code's
  \<open>defer Free(cli)\<close>).
\<close>

inductive pool_step :: "('c, 'w) ClientPool \<times> 'c multiset \<times> 'w
    \<Rightarrow> ('c, 'w) ClientPool \<times> 'c multiset \<times> 'w \<Rightarrow> bool" where
  step_alloc: "Alloc p w = (c, p', w') \<Longrightarrow> pool_step (p, out, w) (p', add_mset c out, w')"
| step_free: "c \<in># out \<Longrightarrow> pool_step (p, out, w) (Free c p, out - {#c#}, w)"

inductive_cases pool_stepE: "pool_step (p, out, w) (p', out', w')"

text \<open>\<open>cnt\<close> counts the clients that exist: those in the free list and those handed out.\<close>

definition pool_inv :: "('c, 'w) ClientPool \<times> 'c multiset \<times> 'w \<Rightarrow> bool" where
  "pool_inv s = (case s of (p, out, w) \<Rightarrow>
     cp_cnt p = int (length (cp_freeList p)) + int (size out))"

section \<open>Lemmas\<close>

lemma Init_loop_free:
  "Init_loop n p w = (p', w') \<Longrightarrow>
   length (cp_freeList p') = length (cp_freeList p) + n \<and> cp_cnt p' = cp_cnt p + int n
   \<and> cp_allocFunc p' = cp_allocFunc p \<and> cp_max p' = cp_max p \<and> cp_init p' = cp_init p"
proof (induction n arbitrary: p w)
  case 0
  then show ?case by simp
next
  case (Suc n)
  obtain c v where cv: "cp_allocFunc p w = (c, v)" by fastforce
  with Suc.prems have "Init_loop n (p\<lparr>cp_freeList := cp_freeList p @ [c],
      cp_cnt := cp_cnt p + 1\<rparr>) v = (p', w')" by simp
  from Suc.IH [OF this] show ?case by simp
qed

lemma Alloc_nonempty: "cp_freeList p = c # cs \<Longrightarrow> Alloc p w = (c, p\<lparr>cp_freeList := cs\<rparr>, w)"
  by (simp add: Alloc_def)

lemma Alloc_empty:
  "cp_freeList p = [] \<Longrightarrow> cp_allocFunc p w = (c, w') \<Longrightarrow>
   Alloc p w = (c, p\<lparr>cp_cnt := cp_cnt p + 1\<rparr>, w')"
  by (simp add: Alloc_def)

lemma Alloc_inv: "Alloc p w = (c, p', w') \<Longrightarrow>
   cp_cnt p' - int (length (cp_freeList p')) = cp_cnt p - int (length (cp_freeList p)) + 1"
  by (auto simp: Alloc_def split: list.splits prod.splits)

lemma pool_step_inv: "pool_step s t \<Longrightarrow> pool_inv s \<Longrightarrow> pool_inv t"
proof (induction rule: pool_step.induct)
  case (step_alloc p w c p' w' out)
  from Alloc_inv [OF step_alloc(1)] step_alloc(2) show ?case by (simp add: pool_inv_def)
next
  case (step_free c out p w)
  then obtain rest where "out = add_mset c rest" by (auto dest: multi_member_split)
  with step_free(2) show ?case by (simp add: pool_inv_def Free_def)
qed

end
