(* ===== verification/Test_Case.thy ===== *)
theory Test_Case
  imports Deployment Client_Pool
begin

text \<open>
  What the test cases of \<open>testcase/\<close> share: the configuration and its \<open>Init\<close>
  (\<open>tcconfig.go\<close>), the closures' state, the events they publish, and the combinators the
  closures are written with. A client from a pool is a number; which one it is does not matter
  to the RPC interface.
\<close>

section \<open>State\<close>

datatype event = Success string string | Failure string string string

text \<open>
  The goroutines that the Ethereum test cases start with \<open>go func(...)\<close>: they run after the
  closure, so a closure only records what they capture (the event's name, the transaction's
  hash, the request type and the type the receipt must have).
\<close>

datatype expected_type = ExpLegacy | ExpAccessList | ExpDynamicFee

datatype goroutine = GoCheckResult string hash nat expected_type

text \<open>Package variables of \<open>run_receipt_check.go\<close> and \<open>run_read_api_call.go\<close>.\<close>

record receipt_vars =
  rv_tail :: nat
  rv_isFull :: bool
  rv_hashPool :: "hash list"
  rv_cnt :: u32
  rv_initFlag :: bool

record read_vars =
  latestBlockNumber :: int
  rv_count :: u64

text \<open>The pools and the account set are the mutable part of \<open>TCConfig\<close>.\<close>

record 'w tcs =
  tc_proc :: "'w proc"
  tc_CliPool :: "(nat, 'w) ClientPool"
  tc_RpcCliPool :: "(nat, 'w) ClientPool"
  tc_EthCliPool :: "(nat, 'w) ClientPool"
  tc_AccGrp :: "acc_ref AccountSet"
  tc_receipt :: receipt_vars
  tc_read :: read_vars
  tc_events :: "event list"
  tc_spawned :: "goroutine list"

record TCConfig =
  tc_Name :: string
  tc_EndPoint :: string
  tc_SmartContractAccounts :: "TestContract \<Rightarrow> acc_ref option option"
  tc_TestContracts :: "TestContract list"
  tc_AuctionTargetTxTypeList :: "string list"

section \<open>Init\<close>

definition init_accounts :: "string \<Rightarrow> acc_ref AccGroup \<Rightarrow> acc_ref list" where
  "init_accounts tcName g =
     (if tcName = ''transferUnsignedTx'' then GetAccListByName g AccListForUnsignedTx
      else if tcName = ''gaslessRevertTransactionTC'' then GetAccListByName g AccListForGaslessRevertTx
      else if tcName = ''gaslessOnlyApproveTC'' then GetAccListByName g AccListForGaslessApproveTx
      else GetAccListByName g AccListForSignedTx)"

definition ethereum_tests :: "string list" where
  "ethereum_tests = [''ethereumTxLegacyTC'', ''ethereumTxAccessListTC'', ''ethereumTxDynamicFeeTC'',
     ''newEthereumAccessListTC'', ''newEthereumDynamicFeeTC'']"

text \<open>
  \<open>kaiaDial\<close>, \<open>rpcDial\<close> and \<open>ethDial\<close> are the pools' factories (a failed dial ends the process inside
  them, so they are total here). The pools are created in the world \<open>w\<close>.
\<close>

definition tc_Init :: "('w \<Rightarrow> nat \<times> 'w) \<Rightarrow> ('w \<Rightarrow> nat \<times> 'w) \<Rightarrow> ('w \<Rightarrow> nat \<times> 'w) \<Rightarrow> acc_ref AccGroup
    \<Rightarrow> string \<Rightarrow> TestContract list \<Rightarrow> string \<Rightarrow> string list \<Rightarrow> 'w
    \<Rightarrow> (TCConfig \<times> ((nat, 'w) ClientPool \<times> (nat, 'w) ClientPool \<times> (nat, 'w) ClientPool)
        \<times> acc_ref AccountSet) \<times> 'w" where
  "tc_Init kaiaDial rpcDial ethDial g endpoint testContracts tcName targetTxTypes w =
     (case Client_Pool.Init 20 300 kaiaDial (empty_pool kaiaDial) w of
        (cp, w1) \<Rightarrow>
          (case Client_Pool.Init 20 300 rpcDial (empty_pool rpcDial) w1 of
             (rp, w2) \<Rightarrow>
               (let cfg = \<lparr>tc_Name = tcName, tc_EndPoint = endpoint,
                      tc_SmartContractAccounts = (\<lambda>t. if t \<in> set testContracts
                         then Some (GetTestContractList g ! TestContract_idx t) else None),
                      tc_TestContracts = testContracts,
                      tc_AuctionTargetTxTypeList =
                        (if tcName = ''auctionBidTC'' \<or> tcName = ''auctionRevertedBidTC''
                         then targetTxTypes else [])\<rparr>;
                    accs0 = NewAccountSet (init_accounts tcName g)
                in if tcName \<in> set ethereum_tests
                   then (case Client_Pool.Init 20 300 ethDial (empty_pool ethDial) w2 of
                           (ep, w3) \<Rightarrow> ((cfg, (cp, rp, ep), accs0), w3))
                   else ((cfg, (cp, rp, empty_pool ethDial), accs0), w2))))"

section \<open>Closures\<close>

type_synonym ('w, 'r) trun = "'w tcs \<Rightarrow> 'r outcome \<times> 'w tcs"

definition t_ret :: "'r \<Rightarrow> ('w, 'r) trun" where
  "t_ret x s = (Ret x, s)"

definition t_out :: "'r outcome \<Rightarrow> ('w, 'r) trun" where
  "t_out r s = (r, s)"

definition t_bind :: "('w, 'q) trun \<Rightarrow> ('q \<Rightarrow> ('w, 'r) trun) \<Rightarrow> ('w, 'r) trun" where
  "t_bind m f s =
     (case m s of
        (Ret x, s1) \<Rightarrow> f x s1
      | (Exit e, s1) \<Rightarrow> (Exit e, s1)
      | (Panic e, s1) \<Rightarrow> (Panic e, s1)
      | (Block, s1) \<Rightarrow> (Block, s1))"

definition t_get :: "('w tcs \<Rightarrow> 'r) \<Rightarrow> ('w, 'r) trun" where
  "t_get f s = (Ret (f s), s)"

definition t_upd :: "('w tcs \<Rightarrow> 'w tcs) \<Rightarrow> ('w, unit) trun" where
  "t_upd f s = (Ret (), f s)"

definition t_wld :: "'w tcs \<Rightarrow> 'w" where
  "t_wld s = wld (tc_proc s)"

definition set_wld :: "'w \<Rightarrow> 'w tcs \<Rightarrow> 'w tcs" where
  "set_wld w s = s\<lparr>tc_proc := (tc_proc s)\<lparr>wld := w\<rparr>\<rparr>"

definition t_world :: "('w \<Rightarrow> 'r \<times> 'w) \<Rightarrow> ('w, 'r) trun" where
  "t_world f s = (case f (t_wld s) of (r, w') \<Rightarrow> (Ret r, set_wld w' s))"

definition t_gen :: "('w \<Rightarrow> 'r outcome \<times> 'w) \<Rightarrow> ('w, 'r) trun" where
  "t_gen f s = (case f (t_wld s) of (r, w') \<Rightarrow> (r, set_wld w' s))"

text \<open>An operation of the account under a reference; \<open>nil\<close> accounts panic.\<close>

definition t_acc :: "acc_ref \<Rightarrow> ('w, 'r) op \<Rightarrow> ('w, 'r) trun" where
  "t_acc ref f s =
     (let p = tc_proc s in
      case f (accs p ref) (wld p) of
        (r, a', w') \<Rightarrow> (r, s\<lparr>tc_proc := p\<lparr>accs := (accs p)(ref := a'), wld := w'\<rparr>\<rparr>))"

definition t_deref :: "acc_ref option \<Rightarrow> ('w, acc_ref) trun" where
  "t_deref r = (case r of None \<Rightarrow> t_out (Panic ''nil pointer dereference'') | Some x \<Rightarrow> t_ret x)"

definition t_account :: "acc_ref \<Rightarrow> ('w, account) trun" where
  "t_account ref = t_get (\<lambda>s. accs (tc_proc s) ref)"

definition t_publish :: "event \<Rightarrow> ('w, unit) trun" where
  "t_publish e = t_upd (\<lambda>s. s\<lparr>tc_events := tc_events s @ [e]\<rparr>)"

text \<open>\<open>config.SmartContractAccounts[t]\<close>: a missing key gives \<open>nil\<close> too.\<close>

definition t_contract :: "TCConfig \<Rightarrow> TestContract \<Rightarrow> ('w, account) trun" where
  "t_contract cfg t =
     t_bind (t_deref (case tc_SmartContractAccounts cfg t of Some (Some r) \<Rightarrow> Some r | _ \<Rightarrow> None)) t_account"

text \<open>\<open>Alloc\<close> and the deferred \<open>Free\<close>, which also runs when the body panics.\<close>

definition with_pool :: "('w tcs \<Rightarrow> (nat, 'w) ClientPool)
    \<Rightarrow> (((nat, 'w) ClientPool \<Rightarrow> (nat, 'w) ClientPool) \<Rightarrow> 'w tcs \<Rightarrow> 'w tcs)
    \<Rightarrow> ('w, 'r) trun \<Rightarrow> ('w, 'r) trun" where
  "with_pool get upd body s =
     (case Alloc (get s) (t_wld s) of
        (cli, p, w) \<Rightarrow>
          (case body (set_wld w (upd (\<lambda>_. p) s)) of
             (Ret x, s1) \<Rightarrow> (Ret x, upd (Free cli) s1)
           | (Panic e, s1) \<Rightarrow> (Panic e, upd (Free cli) s1)
           | (Exit e, s1) \<Rightarrow> (Exit e, s1)
           | (Block, s1) \<Rightarrow> (Block, s1)))"

definition with_cli :: "('w, 'r) trun \<Rightarrow> ('w, 'r) trun" where
  "with_cli = with_pool tc_CliPool (\<lambda>f s. s\<lparr>tc_CliPool := f (tc_CliPool s)\<rparr>)"

definition with_rpc :: "('w, 'r) trun \<Rightarrow> ('w, 'r) trun" where
  "with_rpc = with_pool tc_RpcCliPool (\<lambda>f s. s\<lparr>tc_RpcCliPool := f (tc_RpcCliPool s)\<rparr>)"

definition with_eth :: "('w, 'r) trun \<Rightarrow> ('w, 'r) trun" where
  "with_eth = with_pool tc_EthCliPool (\<lambda>f s. s\<lparr>tc_EthCliPool := f (tc_EthCliPool s)\<rparr>)"

definition t_rand :: "('tx, 'w) env \<Rightarrow> ('w, nat) trun" where
  "t_rand E = t_world (rand63 E)"

text \<open>\<open>GetAccountRandomly\<close>: the set is empty before the random source is asked.\<close>

definition t_random_acc :: "('tx, 'w) env \<Rightarrow> ('w, acc_ref option) trun" where
  "t_random_acc E =
     t_bind (t_get (\<lambda>s. AS_Len (tc_AccGrp s))) (\<lambda>n.
     if n = 0 then t_ret None
     else t_bind (t_rand E) (\<lambda>r. t_get (\<lambda>s. GetAccountRandomly r (tc_AccGrp s))))"

definition t_round_robin :: "('w, acc_ref option) trun" where
  "t_round_robin s =
     (case GetAccountRoundRobin (tc_AccGrp s) of (r, g) \<Rightarrow> (r, s\<lparr>tc_AccGrp := g\<rparr>))"

text \<open>\<open>config.Name+" to "+config.EndPoint\<close> and the event that a result publishes.\<close>

definition event_name :: "string \<Rightarrow> TCConfig \<Rightarrow> string" where
  "event_name n cfg = n @ '' to '' @ tc_EndPoint cfg"

definition publish_result :: "string \<Rightarrow> string \<Rightarrow> TCConfig \<Rightarrow> gerror option \<Rightarrow> ('w, unit) trun" where
  "publish_result ty n cfg err =
     t_publish (case err of None \<Rightarrow> Success ty (event_name n cfg)
                          | Some e \<Rightarrow> Failure ty (event_name n cfg) e)"

text \<open>After a return and after a panic the deferred calls have run, and the process goes on.\<close>

fun settles :: "'r outcome \<Rightarrow> bool" where
  "settles (Ret x) = True"
| "settles (Panic e) = True"
| "settles _ = False"

lemma returns_settles: "returns r \<Longrightarrow> settles r"
  by (cases r) auto

section \<open>Closures that may not return\<close>

text \<open>A closure with a loop that polls the node: \<open>None\<close> is a run that does not return.\<close>

type_synonym ('w, 'r) prun = "'w tcs \<Rightarrow> ('r outcome \<times> 'w tcs) option"

definition p_lift :: "('w, 'r) trun \<Rightarrow> ('w, 'r) prun" where
  "p_lift m s = Some (m s)"

definition p_bind :: "('w, 'q) prun \<Rightarrow> ('q \<Rightarrow> ('w, 'r) prun) \<Rightarrow> ('w, 'r) prun" where
  "p_bind m f s =
     (case m s of
        None \<Rightarrow> None
      | Some (Ret x, s1) \<Rightarrow> f x s1
      | Some (Exit e, s1) \<Rightarrow> Some (Exit e, s1)
      | Some (Panic e, s1) \<Rightarrow> Some (Panic e, s1)
      | Some (Block, s1) \<Rightarrow> Some (Block, s1))"

definition p_world :: "('w \<Rightarrow> ('r \<times> 'w) option) \<Rightarrow> ('w, 'r) prun" where
  "p_world f s = (case f (t_wld s) of None \<Rightarrow> None | Some (r, w') \<Rightarrow> Some (Ret r, set_wld w' s))"

text \<open>\<open>Alloc\<close>, the body, and the deferred \<open>Free\<close> of \<open>CliPool\<close>.\<close>

definition with_cli_p :: "('w, 'r) prun \<Rightarrow> ('w, 'r) prun" where
  "with_cli_p body s =
     (case Alloc (tc_CliPool s) (t_wld s) of
        (cli, p, w) \<Rightarrow>
          (case body (set_wld w (s\<lparr>tc_CliPool := p\<rparr>)) of
             None \<Rightarrow> None
           | Some (r, s1) \<Rightarrow>
               Some (r, case r of Ret x \<Rightarrow> s1\<lparr>tc_CliPool := Free cli (tc_CliPool s1)\<rparr>
                                | Panic e \<Rightarrow> s1\<lparr>tc_CliPool := Free cli (tc_CliPool s1)\<rparr>
                                | Exit e \<Rightarrow> s1
                                | Block \<Rightarrow> s1)))"

section \<open>Reading from the node\<close>

text \<open>
  What the test cases read through the clients. \<open>ReceiptRpcOutput\<close> gives the receipt as a map
  from field names to JSON values, of which only texts matter; \<open>CallContext\<close> gives the raw JSON
  that \<open>gjsonGet\<close> reads a field of; \<open>BlockByNumber\<close> gives the number in the block's header.
  \<open>addrText\<close> is \<open>Address.String\<close>, \<open>typeCode\<close> the value of the \<open>types.TxType\<close> constants,
  \<open>bigRand n\<close> the draw of \<open>big.Int.Rand\<close> below a positive \<open>n\<close>, and \<open>unpackGet\<close> is
  \<open>UnpackIntoInterface\<close> of one integer.
\<close>

datatype json_val = JText string | JOther

type_synonym rpc_receipt = "string \<rightharpoonup> json_val"

datatype rpc_arg = RpcAddr addr | RpcText string

record 'w reader =
  addrText :: "addr \<Rightarrow> string"
  typeCode :: "expected_type \<Rightarrow> int"
  ReceiptRpcOutput :: "hash \<Rightarrow> 'w \<Rightarrow> (rpc_receipt option \<times> gerror option) \<times> 'w"
  BlockByNumber :: "int \<Rightarrow> 'w \<Rightarrow> (gerror + int) \<times> 'w"
  CallContext :: "string \<Rightarrow> rpc_arg list \<Rightarrow> 'w \<Rightarrow> (gerror + bytes) \<times> 'w"
  gjsonGet :: "bytes \<Rightarrow> string \<Rightarrow> string"
  StorageAt :: "addr \<Rightarrow> hash \<Rightarrow> 'w \<Rightarrow> (gerror + bytes) \<times> 'w"
  CallContract :: "call_msg \<Rightarrow> 'w \<Rightarrow> (gerror + bytes) \<times> 'w"
  EstimateGas :: "call_msg \<Rightarrow> 'w \<Rightarrow> (gerror + u64) \<times> 'w"
  bigRand :: "int \<Rightarrow> 'w \<Rightarrow> int \<times> 'w"
  unpackGet :: "bytes \<Rightarrow> gerror + int"

section \<open>The two base closures\<close>

definition RunBaseValueTransfer :: "('tx, 'w) env \<Rightarrow> TCConfig
    \<Rightarrow> (acc_ref \<Rightarrow> account \<Rightarrow> int \<Rightarrow> ('w, gerror option) trun) \<Rightarrow> ('w, unit) trun" where
  "RunBaseValueTransfer E cfg txFunc =
     with_cli (
       t_bind (t_random_acc E) (\<lambda>ofrom.
       t_bind (t_random_acc E) (\<lambda>oto.
       t_bind (t_rand E) (\<lambda>r.
       t_bind (t_deref ofrom) (\<lambda>from.
       t_bind (t_bind (t_deref oto) t_account) (\<lambda>to.
       t_bind (txFunc from to (int (r mod 3))) (\<lambda>err.
       publish_result ''http'' (tc_Name cfg) cfg err)))))))"

text \<open>
  \<open>RunBaseWithContract\<close>: \<open>to\<close> is the account of the first test contract of the configuration; it
  may be \<open>nil\<close>, so the transaction function gets it as a computation.
\<close>

definition RunBaseWithContract :: "('tx, 'w) env \<Rightarrow> TCConfig
    \<Rightarrow> (acc_ref \<Rightarrow> ('w, account) trun \<Rightarrow> ('w, gerror option) trun) \<Rightarrow> ('w, unit) trun" where
  "RunBaseWithContract E cfg txFunc =
     with_cli (
       t_bind (t_random_acc E) (\<lambda>ofrom.
       case tc_TestContracts cfg of
         [] \<Rightarrow> t_out (Panic ''index out of range'')
       | t0 # _ \<Rightarrow>
           t_bind (t_deref ofrom) (\<lambda>from.
           t_bind (txFunc from (t_contract cfg t0)) (\<lambda>err.
           publish_result ''http'' (tc_Name cfg) cfg err))))"

end
