(* ===== verification/Run_Transactions.thy ===== *)
theory Run_Transactions
  imports Test_Case
begin

text \<open>
  The test cases that send transactions: \<open>testcase/run_value_transfer.go\<close>,
  \<open>testcase/run_execute_contract.go\<close> and \<open>testcase/run_auction.go\<close>. Each \<open>Run...\<close> function gives
  a closure; the definitions carry the transaction function the source passes to the base.
\<close>

section \<open>Sending from a test case\<close>

definition err_of :: "'a \<times> 'b \<times> gerror option \<Rightarrow> gerror option" where
  "err_of r = snd (snd r)"

text \<open>An operation of the sender; only its error is used.\<close>

definition t_send :: "acc_ref \<Rightarrow> ('w, 'a \<times> 'b \<times> gerror option) op \<Rightarrow> ('w, gerror option) trun" where
  "t_send from f = t_acc from (op_map err_of f)"

definition t_exec :: "('tx, 'w) env \<Rightarrow> acc_ref \<Rightarrow> account \<Rightarrow> int option \<Rightarrow> bytes \<Rightarrow> ('w, gerror option) trun" where
  "t_exec E from to v d =
     t_send from (TransferNewSmartContractExecutionTx (e_lib E) (e_cli E) (e_glob E) to v d)"

definition t_data :: "('tx, 'w) env \<Rightarrow> TestContract \<Rightarrow> addr \<Rightarrow> int option \<Rightarrow> ('w, bytes) trun" where
  "t_data E t a v = t_gen (gen_data E t a v)"

section \<open>Value transfers\<close>

definition RunNewValueTransferTC :: "('tx, 'w) env \<Rightarrow> TCConfig \<Rightarrow> ('w, unit) trun" where
  "RunNewValueTransferTC E cfg = RunBaseValueTransfer E cfg (\<lambda>from to v.
     t_send from (TransferNewValueTransferTx (e_lib E) (e_cli E) (e_glob E) to (Some v)))"

definition RunNewFeeDelegatedValueTransferTC :: "('tx, 'w) env \<Rightarrow> TCConfig \<Rightarrow> ('w, unit) trun" where
  "RunNewFeeDelegatedValueTransferTC E cfg = RunBaseValueTransfer E cfg (\<lambda>from to v.
     t_send from (TransferNewFeeDelegatedValueTransferTx (e_lib E) (e_cli E) (e_glob E) to (Some v)))"

definition RunNewFeeDelegatedValueTransferWithRatioTC :: "('tx, 'w) env \<Rightarrow> TCConfig \<Rightarrow> ('w, unit) trun" where
  "RunNewFeeDelegatedValueTransferWithRatioTC E cfg = RunBaseValueTransfer E cfg (\<lambda>from to v.
     t_send from (TransferNewFeeDelegatedValueTransferWithRatioTx (e_lib E) (e_cli E) (e_glob E) to (Some v)))"

definition RunNewCancelTC :: "('tx, 'w) env \<Rightarrow> TCConfig \<Rightarrow> ('w, unit) trun" where
  "RunNewCancelTC E cfg = RunBaseValueTransfer E cfg (\<lambda>from to v.
     t_send from (TransferNewCancelTx (e_lib E) (e_cli E) (e_glob E) to (Some v)))"

definition RunNewValueTransferWithCancelTC :: "('tx, 'w) env \<Rightarrow> TCConfig \<Rightarrow> ('w, unit) trun" where
  "RunNewValueTransferWithCancelTC E cfg = RunBaseValueTransfer E cfg (\<lambda>from to v.
     t_send from (TransferNewValueTransferWithCancelTx (e_lib E) (e_cli E) (e_glob E) to (Some v)))"

definition RunNewFeeDelegatedCancelTC :: "('tx, 'w) env \<Rightarrow> TCConfig \<Rightarrow> ('w, unit) trun" where
  "RunNewFeeDelegatedCancelTC E cfg = RunBaseValueTransfer E cfg (\<lambda>from to v.
     t_send from (TransferNewFeeDelegatedCancelTx (e_lib E) (e_cli E) (e_glob E) to (Some v)))"

definition RunNewFeeDelegatedCancelWithRatioTC :: "('tx, 'w) env \<Rightarrow> TCConfig \<Rightarrow> ('w, unit) trun" where
  "RunNewFeeDelegatedCancelWithRatioTC E cfg = RunBaseValueTransfer E cfg (\<lambda>from to v.
     t_send from (TransferNewFeeDelegatedCancelWithRatioTx (e_lib E) (e_cli E) (e_glob E) to (Some v)))"

text \<open>The deployment test makes a fresh account first, and does not use it.\<close>

definition RunNewSmartContractDeployTC :: "('tx, 'w) env \<Rightarrow> TCConfig \<Rightarrow> ('w, unit) trun" where
  "RunNewSmartContractDeployTC E cfg = RunBaseValueTransfer E cfg (\<lambda>from to v.
     t_bind (t_gen (NewKaiaAccount (e_crypto E) 0)) (\<lambda>newTo.
     t_send from (op_map (\<lambda>(a, tx, gp, err). (a, gp, err)) (TransferNewSmartContractDeployTx (e_lib E) (e_cli E) (e_glob E) newTo (Some v)
       (Bytecode (info_of E ContractGeneral)) False))))"

definition RunNewFeeDelegatedSmartContractDeployTC :: "('tx, 'w) env \<Rightarrow> TCConfig \<Rightarrow> ('w, unit) trun" where
  "RunNewFeeDelegatedSmartContractDeployTC E cfg = RunBaseValueTransfer E cfg (\<lambda>from to v.
     t_send from (TransferNewFeeDelegatedSmartContractDeployTx (e_abi E) (e_lib E) (e_cli E) (e_glob E) to (Some v)))"

definition RunNewFeeDelegatedSmartContractDeployWithRatioTC :: "('tx, 'w) env \<Rightarrow> TCConfig \<Rightarrow> ('w, unit) trun" where
  "RunNewFeeDelegatedSmartContractDeployWithRatioTC E cfg = RunBaseValueTransfer E cfg (\<lambda>from to v.
     t_send from (TransferNewFeeDelegatedSmartContractDeployWithRatioTx (e_abi E) (e_lib E) (e_cli E) (e_glob E) to (Some v)))"

definition RunNewValueTransferMemoTC :: "('tx, 'w) env \<Rightarrow> TCConfig \<Rightarrow> ('w, unit) trun" where
  "RunNewValueTransferMemoTC E cfg = RunBaseValueTransfer E cfg (\<lambda>from to v.
     t_send from (TransferNewValueTransferMemoTx (e_lib E) (e_cli E) (e_glob E) to (Some v)))"

definition RunNewFeeDelegatedValueTransferMemoTC :: "('tx, 'w) env \<Rightarrow> TCConfig \<Rightarrow> ('w, unit) trun" where
  "RunNewFeeDelegatedValueTransferMemoTC E cfg = RunBaseValueTransfer E cfg (\<lambda>from to v.
     t_send from (TransferNewFeeDelegatedValueTransferMemoTx (e_lib E) (e_cli E) (e_glob E) to (Some v)))"

definition RunNewFeeDelegatedValueTransferMemoWithRatioTC :: "('tx, 'w) env \<Rightarrow> TCConfig \<Rightarrow> ('w, unit) trun" where
  "RunNewFeeDelegatedValueTransferMemoWithRatioTC E cfg = RunBaseValueTransfer E cfg (\<lambda>from to v.
     t_send from (TransferNewFeeDelegatedValueTransferMemoWithRatioTx (e_lib E) (e_cli E) (e_glob E) to (Some v)))"

definition RunNewValueTransferLargeMemoTC :: "('tx, 'w) env \<Rightarrow> TCConfig \<Rightarrow> ('w, unit) trun" where
  "RunNewValueTransferLargeMemoTC E cfg = RunBaseValueTransfer E cfg (\<lambda>from to v.
     t_bind (t_world (randStream E)) (\<lambda>draw.
     t_send from (TransferNewValueTransferLargeMemoTx (e_lib E) (e_cli E) (e_glob E) draw to (Some v))))"

definition RunNewValueTransferSmallMemoTC :: "('tx, 'w) env \<Rightarrow> TCConfig \<Rightarrow> ('w, unit) trun" where
  "RunNewValueTransferSmallMemoTC E cfg = RunBaseValueTransfer E cfg (\<lambda>from to v.
     t_bind (t_world (randStream E)) (\<lambda>draw.
     t_send from (TransferNewValueTransferSmallMemoTx (e_lib E) (e_cli E) (e_glob E) draw to (Some v))))"

definition RunNewAccountUpdateTC :: "('tx, 'w) env \<Rightarrow> TCConfig \<Rightarrow> ('w, unit) trun" where
  "RunNewAccountUpdateTC E cfg = RunBaseValueTransfer E cfg (\<lambda>from to v.
     t_send from (TransferNewAccountUpdateTx (e_lib E) (e_cli E) (e_glob E) to (Some v)))"

definition RunNewFeeDelegatedAccountUpdateTC :: "('tx, 'w) env \<Rightarrow> TCConfig \<Rightarrow> ('w, unit) trun" where
  "RunNewFeeDelegatedAccountUpdateTC E cfg = RunBaseValueTransfer E cfg (\<lambda>from to v.
     t_send from (TransferNewFeeDelegatedAccountUpdateTx (e_lib E) (e_cli E) (e_glob E) to (Some v)))"

definition RunNewFeeDelegatedAccountUpdateWithRatioTC :: "('tx, 'w) env \<Rightarrow> TCConfig \<Rightarrow> ('w, unit) trun" where
  "RunNewFeeDelegatedAccountUpdateWithRatioTC E cfg = RunBaseValueTransfer E cfg (\<lambda>from to v.
     t_send from (TransferNewFeeDelegatedAccountUpdateWithRatioTx (e_lib E) (e_cli E) (e_glob E) to (Some v)))"

definition RunTransferSignedTC :: "('tx, 'w) env \<Rightarrow> TCConfig \<Rightarrow> ('w, unit) trun" where
  "RunTransferSignedTC E cfg = RunBaseValueTransfer E cfg (\<lambda>from to v.
     t_send from (TransferSignedTx (e_lib E) (e_cli E) (e_glob E) to (Some v) None))"

definition RunTransferUnsignedTC :: "('tx, 'w) env \<Rightarrow> TCConfig \<Rightarrow> ('w, unit) trun" where
  "RunTransferUnsignedTC E cfg = RunBaseValueTransfer E cfg (\<lambda>from to v.
     t_acc from (op_map snd (TransferUnsignedTx (e_cli E) (e_glob E) to (Some v))))"

section \<open>Contract executions\<close>

definition RunNewSmartContractExecutionTC :: "('tx, 'w) env \<Rightarrow> TCConfig \<Rightarrow> ('w, unit) trun" where
  "RunNewSmartContractExecutionTC E cfg = RunBaseWithContract E cfg (\<lambda>from to.
     t_bind (t_account from) (\<lambda>self.
     t_bind (t_data E ContractGeneral (GetAddress self) None) (\<lambda>d.
     t_bind to (\<lambda>c. t_exec E from c None d))))"

definition RunNewFeeDelegatedSmartContractExecutionTC :: "('tx, 'w) env \<Rightarrow> TCConfig \<Rightarrow> ('w, unit) trun" where
  "RunNewFeeDelegatedSmartContractExecutionTC E cfg = RunBaseWithContract E cfg (\<lambda>from to.
     t_bind to (\<lambda>c. t_send from (TransferNewFeeDelegatedSmartContractExecutionTx (e_abi E) (e_lib E) (e_cli E) (e_glob E) c (Some 0))))"

definition RunNewFeeDelegatedSmartContractExecutionWithRatioTC :: "('tx, 'w) env \<Rightarrow> TCConfig \<Rightarrow> ('w, unit) trun" where
  "RunNewFeeDelegatedSmartContractExecutionWithRatioTC E cfg = RunBaseWithContract E cfg (\<lambda>from to.
     t_bind to (\<lambda>c. t_send from (TransferNewFeeDelegatedSmartContractExecutionWithRatioTx (e_abi E) (e_lib E) (e_cli E) (e_glob E) c (Some 0))))"

definition RunCpuHeavyTC :: "('tx, 'w) env \<Rightarrow> TCConfig \<Rightarrow> ('w, unit) trun" where
  "RunCpuHeavyTC E cfg = RunBaseWithContract E cfg (\<lambda>from to.
     t_bind (t_account from) (\<lambda>self.
     t_bind (t_data E ContractCPUHeavy (GetAddress self) (Some 100)) (\<lambda>d.
     t_bind to (\<lambda>c. t_exec E from c (Some 0) d))))"

definition RunLargeMemoTC :: "('tx, 'w) env \<Rightarrow> TCConfig \<Rightarrow> ('w, unit) trun" where
  "RunLargeMemoTC E cfg = RunBaseWithContract E cfg (\<lambda>from to.
     t_bind (t_rand E) (\<lambda>r.
     t_bind (t_account from) (\<lambda>self.
     t_bind (t_data E ContractLargeMemo (GetAddress self) (Some (int (50 + r mod 1951)))) (\<lambda>d.
     t_bind to (\<lambda>c. t_exec E from c (Some 0) d)))))"

text \<open>The two token transfers send 0 to 2 tokens to a random account of the set.\<close>

definition RunErc20TransferTC :: "('tx, 'w) env \<Rightarrow> TCConfig \<Rightarrow> ('w, unit) trun" where
  "RunErc20TransferTC E cfg = RunBaseWithContract E cfg (\<lambda>from to.
     t_bind (t_rand E) (\<lambda>r.
     t_bind (t_bind (t_bind (t_random_acc E) t_deref) t_account) (\<lambda>receiver.
     t_bind (t_data E ContractErc20 (GetAddress receiver) (Some (int (r mod 3)))) (\<lambda>d.
     t_bind to (\<lambda>c. t_exec E from c None d)))))"

definition RunErc20TransferWithBlockedListTC :: "('tx, 'w) env \<Rightarrow> TCConfig \<Rightarrow> ('w, unit) trun" where
  "RunErc20TransferWithBlockedListTC E cfg = RunBaseWithContract E cfg (\<lambda>from to.
     t_bind (t_rand E) (\<lambda>r.
     t_bind (t_bind (t_bind (t_random_acc E) t_deref) t_account) (\<lambda>receiver.
     t_bind (t_data E ContractTetherProxy (GetAddress receiver) (Some (int (r mod 3)))) (\<lambda>d.
     t_bind to (\<lambda>c. t_exec E from c None d)))))"

text \<open>
  \<open>RunErc721TransferTC\<close>: from a random position on, the first account that has a token gives it; a
  failed transfer puts the token back.
\<close>

fun find_token :: "acc_ref list \<Rightarrow> (acc_ref \<Rightarrow> addr) \<Rightarrow> nat \<Rightarrow> nat \<Rightarrow> ledger
    \<Rightarrow> (acc_ref \<times> int) option \<times> ledger" where
  "find_token refs addr_of 0 candidateIdx l = (None, l)"
| "find_token refs addr_of (Suc n) candidateIdx l =
     (case RemoveToken (addr_of (refs ! candidateIdx)) l of
        (Some tokenId, l') \<Rightarrow> (Some (refs ! candidateIdx, tokenId), l')
      | (None, l') \<Rightarrow> find_token refs addr_of n ((candidateIdx + 1) mod length refs) l')"

definition t_find_token :: "nat \<Rightarrow> ('w, (acc_ref \<times> int) option) trun" where
  "t_find_token candidateIdx s =
     (let p = tc_proc s; refs = accounts (tc_AccGrp s) in
      case find_token refs (\<lambda>r. GetAddress (accs p r)) (length refs) candidateIdx (erc721 p) of
        (r, l) \<Rightarrow> (Ret r, s\<lparr>tc_proc := p\<lparr>erc721 := l\<rparr>\<rparr>))"

definition t_put_token :: "addr \<Rightarrow> int \<Rightarrow> ('w, unit) trun" where
  "t_put_token a tokenId = t_upd (\<lambda>s. s\<lparr>tc_proc := (tc_proc s)\<lparr>erc721 := PutToken a tokenId (erc721 (tc_proc s))\<rparr>\<rparr>)"

definition erc721_transfer :: "('tx, 'w) env \<Rightarrow> TCConfig \<Rightarrow> acc_ref \<Rightarrow> acc_ref \<Rightarrow> int \<Rightarrow> ('w, unit) trun" where
  "erc721_transfer E cfg from to tokenId =
     t_bind (t_account from) (\<lambda>fromAcc.
     t_bind (t_account to) (\<lambda>toAcc.
     t_bind (t_out (PackContractCall (e_abi E) erc721PerformanceABI ''transferFrom''
        [ArgAddress (GetAddress fromAcc), ArgAddress (GetAddress toAcc), ArgUint tokenId])) (\<lambda>d.
     t_bind (t_contract cfg ContractErc721) (\<lambda>c.
     t_bind (t_exec E from c None d) (\<lambda>err.
     t_bind (publish_result ''http'' (tc_Name cfg) cfg err) (\<lambda>_.
     t_put_token (case err of None \<Rightarrow> GetAddress toAcc | Some _ \<Rightarrow> GetAddress fromAcc) tokenId))))))"

definition RunErc721TransferTC :: "('tx, 'w) env \<Rightarrow> TCConfig \<Rightarrow> ('w, unit) trun" where
  "RunErc721TransferTC E cfg = with_cli (
     t_bind (t_random_acc E) (\<lambda>oto.
     t_bind (t_get (\<lambda>s. AS_Len (tc_AccGrp s))) (\<lambda>n.
     if n = 0 then t_out (Panic ''invalid argument to Intn'')
     else
       t_bind (t_rand E) (\<lambda>r.
       t_bind (t_find_token (r mod n)) (\<lambda>found.
       case found of
         None \<Rightarrow> t_publish (Failure ''http'' (event_name (tc_Name cfg) cfg) ''No tokens available'')
       | Some (from, tokenId) \<Rightarrow>
           t_bind (t_deref oto) (\<lambda>to. erc721_transfer E cfg from to tokenId))))))"

section \<open>Gasless, internal and storage tests\<close>

definition RunGaslessTransactionTC :: "('tx, 'w) env \<Rightarrow> TCConfig \<Rightarrow> ('w, unit) trun" where
  "RunGaslessTransactionTC E cfg = RunBaseWithContract E cfg (\<lambda>from to.
     t_bind (t_contract cfg ContractGaslessToken) (\<lambda>token.
     t_bind (t_contract cfg ContractGaslessSwapRouter) (\<lambda>gsr.
     t_send from (op_map (\<lambda>(h1, h2, gp, err). (h1, gp, err)) (TransferNewGaslessTx E token gsr)))))"

definition RunGaslessRevertTransactionTC :: "('tx, 'w) env \<Rightarrow> TCConfig \<Rightarrow> ('w, unit) trun" where
  "RunGaslessRevertTransactionTC E cfg = RunBaseWithContract E cfg (\<lambda>from to.
     t_bind (t_contract cfg ContractGaslessToken) (\<lambda>token.
     t_bind (t_contract cfg ContractGaslessSwapRouter) (\<lambda>gsr.
     t_send from (op_map (\<lambda>(h1, h2, gp, err). (h1, gp, err)) (TransferNewGaslessTx E token gsr)))))"

definition RunGaslessOnlyApproveTC :: "('tx, 'w) env \<Rightarrow> TCConfig \<Rightarrow> ('w, unit) trun" where
  "RunGaslessOnlyApproveTC E cfg = RunBaseWithContract E cfg (\<lambda>from to.
     t_bind (t_contract cfg ContractGaslessToken) (\<lambda>token.
     t_bind (t_contract cfg ContractGaslessSwapRouter) (\<lambda>gsr.
     t_send from (TransferNewGaslessApproveTx E token gsr))))"

definition RunInternalTxTC :: "('tx, 'w) env \<Rightarrow> TCConfig \<Rightarrow> ('w, unit) trun" where
  "RunInternalTxTC E cfg = RunBaseWithContract E cfg (\<lambda>from to.
     t_bind (t_account from) (\<lambda>self.
     t_bind (t_data E ContractInternalTxMain (GetAddress self) (Some 100)) (\<lambda>d.
     t_bind (t_contract cfg ContractInternalTxMain) (\<lambda>c. t_exec E from c (Some 100) d))))"

definition RunMintNFTTC :: "('tx, 'w) env \<Rightarrow> TCConfig \<Rightarrow> ('w, unit) trun" where
  "RunMintNFTTC E cfg = RunBaseWithContract E cfg (\<lambda>from to.
     t_bind (t_account from) (\<lambda>self.
     t_bind (t_data E ContractInternalTxKIP17 (GetAddress self) None) (\<lambda>d.
     t_bind (t_contract cfg ContractInternalTxKIP17) (\<lambda>c. t_exec E from c None d))))"

definition RunStorageTrieWriteTC :: "('tx, 'w) env \<Rightarrow> TCConfig \<Rightarrow> ('w, unit) trun" where
  "RunStorageTrieWriteTC E cfg = RunBaseWithContract E cfg (\<lambda>from to.
     t_bind (t_rand E) (\<lambda>r.
     t_bind (t_world (randStream E)) (\<lambda>draw.
     t_bind (t_contract cfg ContractStorageTrie) (\<lambda>c.
     t_send from (ExecuteStorageTrieStore (e_abi E) (e_lib E) (e_cli E) (e_glob E) draw c (Some (int (r mod 3))))))))"

definition RunUserStorageSetTC :: "('tx, 'w) env \<Rightarrow> TCConfig \<Rightarrow> ('w, unit) trun" where
  "RunUserStorageSetTC E cfg = RunBaseWithContract E cfg (\<lambda>from to.
     t_bind (t_account from) (\<lambda>self.
     t_bind (t_data E ContractUserStorage (GetAddress self) (Some 1)) (\<lambda>d.
     t_bind to (\<lambda>c. t_exec E from c None d))))"

definition RunUserStorageSetGetTC :: "('tx, 'w) env \<Rightarrow> TCConfig \<Rightarrow> ('w, unit) trun" where
  "RunUserStorageSetGetTC E cfg = with_cli (
     t_bind (t_bind (t_random_acc E) t_deref) (\<lambda>from.
     t_bind (t_account from) (\<lambda>self.
     t_bind (t_data E ContractUserStorage (GetAddress self) (Some 1)) (\<lambda>setData.
     t_bind (t_contract cfg ContractUserStorage) (\<lambda>c.
     t_bind (t_exec E from c None setData) (\<lambda>setErr.
     case setErr of
       Some e \<Rightarrow> t_publish (Failure ''http'' (event_name ''userStorageSetGet'' cfg) e)
     | None \<Rightarrow>
         t_bind (t_data E ContractUserStorage (GetAddress self) (Some 0)) (\<lambda>getData.
         t_bind (t_exec E from c None getData) (\<lambda>getErr.
         publish_result ''http'' ''userStorageSetGet'' cfg getErr))))))))"

section \<open>Auction tests\<close>

definition RunBaseWithAuction :: "('tx, 'w) env \<Rightarrow> TCConfig
    \<Rightarrow> (account \<Rightarrow> account \<Rightarrow> string \<Rightarrow> ('w, bid_op_result) op) \<Rightarrow> ('w, unit) trun" where
  "RunBaseWithAuction E cfg auctionTxFunc = with_cli (
     t_bind t_round_robin (\<lambda>ofrom.
     let keys = tc_AuctionTargetTxTypeList cfg in
     if keys = [] then t_out (Panic ''integer divide by zero'')
     else
       t_bind (t_rand E) (\<lambda>r.
       t_bind (t_deref ofrom) (\<lambda>from.
       t_bind (t_contract cfg ContractAuctionEntryPoint) (\<lambda>entryPoint.
       t_bind (t_contract cfg ContractCounterForTestAuction) (\<lambda>target.
       t_bind (t_send from (op_map (\<lambda>(h1, h2, gp, err). (h1, gp, err))
          (auctionTxFunc entryPoint target (keys ! (r mod length keys))))) (\<lambda>err.
       publish_result ''http'' (tc_Name cfg) cfg err)))))))"

definition RunAuctionBidTC :: "('tx, 'w) env \<Rightarrow> ('tx, 'w) auction_lib \<Rightarrow> nat list \<Rightarrow> TCConfig
    \<Rightarrow> ('w, unit) trun" where
  "RunAuctionBidTC E A arrive cfg = RunBaseWithAuction E cfg (AuctionBid E A arrive)"

definition RunAuctionRevertedBidTC :: "('tx, 'w) env \<Rightarrow> ('tx, 'w) auction_lib \<Rightarrow> TCConfig \<Rightarrow> ('w, unit) trun" where
  "RunAuctionRevertedBidTC E A cfg = RunBaseWithAuction E cfg (AuctionRevertedBid E A)"

end
