(* ===== verification/Run_Ethereum.thy ===== *)
theory Run_Ethereum
  imports Run_Transactions
begin

text \<open>
  \<open>testcase/run_ethereum.go\<close>: the Ethereum transaction types. A closure sends one transaction with
  random arguments and starts a goroutine that fetches the receipt and checks it.
\<close>

section \<open>Random arguments\<close>

definition makeFunctionCall :: "('tx, 'w) env \<Rightarrow> addr \<Rightarrow> bytes outcome" where
  "makeFunctionCall E a = PackContractCall (e_abi E) generalPurposeABI ''reward'' [ArgAddress a]"

text \<open>
  Request type 0 is a value transfer, 1 a deployment, 2 an execution. The recipient is read as an
  account when the transaction is sent; it is \<open>nil\<close> for a deployment, for a random account of an
  empty set, and for a contract that is not in the configuration.
\<close>

definition nilable_account :: "acc_ref option \<Rightarrow> ('w, account option) trun" where
  "nilable_account r =
     (case r of None \<Rightarrow> t_ret None | Some x \<Rightarrow> t_bind (t_account x) (\<lambda>a. t_ret (Some a)))"

definition config_contract :: "TCConfig \<Rightarrow> TestContract \<Rightarrow> acc_ref option" where
  "config_contract cfg t = (case tc_SmartContractAccounts cfg t of Some r \<Rightarrow> r | None \<Rightarrow> None)"

definition createRandomArguments :: "('tx, 'w) env \<Rightarrow> TCConfig \<Rightarrow> addr
    \<Rightarrow> ('w, account option \<times> int \<times> bytes option \<times> nat) trun" where
  "createRandomArguments E cfg a =
     t_bind (t_rand E) (\<lambda>r.
     let reqType = r mod 3 in
     if reqType = 0 then
       t_bind (t_bind (t_random_acc E) nilable_account) (\<lambda>to.
       t_bind (t_rand E) (\<lambda>v. t_ret (to, int (v mod 3), None, reqType)))
     else if reqType = 1 then
       t_ret (None, 0, Some (codeBytes (e_abi E) ethereumContractCode), reqType)
     else
       t_bind (nilable_account (config_contract cfg ContractGeneral)) (\<lambda>to.
       t_bind (t_out (makeFunctionCall E a)) (\<lambda>input. t_ret (to, 0, Some input, reqType))))"

section \<open>Receipts\<close>

definition maxRetryCount :: nat where
  "maxRetryCount = 30"

text \<open>
  \<open>getReceipt\<close>: an answer without receipt and without error is polled again without a bound; the
  error \<open>not found\<close> is retried \<open>maxRetry\<close> times.
\<close>

partial_function (option) getReceipt_loop :: "('tx, 'w) env \<Rightarrow> 'w reader \<Rightarrow> hash \<Rightarrow> nat \<Rightarrow> nat \<Rightarrow> 'w
    \<Rightarrow> (rpc_receipt option \<times> 'w) option" where
  "getReceipt_loop E R h maxRetry retryCount w =
     (case ReceiptRpcOutput R h (Elapse (e_cli E) 500 w) of
        (r, w') \<Rightarrow>
          (case r of
             (Some receipt, err) \<Rightarrow> Some (Some receipt, w')
           | (None, None) \<Rightarrow> getReceipt_loop E R h maxRetry retryCount w'
           | (None, Some e) \<Rightarrow>
               (if e = ErrNotFound (e_lib E) \<and> retryCount < maxRetry
                then getReceipt_loop E R h maxRetry (retryCount + 1) w'
                else Some (None, w'))))"

definition getReceipt :: "('tx, 'w) env \<Rightarrow> 'w reader \<Rightarrow> hash \<Rightarrow> nat \<Rightarrow> 'w
    \<Rightarrow> (rpc_receipt option \<times> 'w) option" where
  "getReceipt E R h maxRetry w = getReceipt_loop E R h maxRetry 0 w"

text \<open>A comma-ok type assertion of a field to \<open>string\<close>; without \<open>ok\<close> a missing text is empty.\<close>

definition text_field :: "rpc_receipt \<Rightarrow> string \<Rightarrow> string option" where
  "text_field m f = (case m f of Some (JText t) \<Rightarrow> Some t | _ \<Rightarrow> None)"

text \<open>The part of \<open>checkResult\<close> that looks at the request type; \<open>None\<close> is a panic on a \<open>nil\<close> account.\<close>

definition check_request :: "'w reader \<Rightarrow> addr option \<Rightarrow> rpc_receipt \<Rightarrow> nat \<Rightarrow> gerror option outcome" where
  "check_request R general m reqType =
     (if reqType = 1 then
        (case text_field m ''contractAddress'' of
           None \<Rightarrow> Ret (Some ''failed to get contract address from the receipt'')
         | Some _ \<Rightarrow> Ret None)
      else if reqType = 2 then
        (case text_field m ''to'' of
           None \<Rightarrow> Ret (Some ''mismatched to address in the receipt and smart contract address'')
         | Some toFromReceipt \<Rightarrow>
             (case general of
                None \<Rightarrow> Panic ''nil pointer dereference''
              | Some a \<Rightarrow>
                  (if to_lower toFromReceipt \<noteq> to_lower (addrText R a)
                   then Ret (Some ''mismatched to address in the receipt and smart contract address'')
                   else Ret None)))
      else Ret None)"

definition check_type :: "'w reader \<Rightarrow> rpc_receipt \<Rightarrow> expected_type \<Rightarrow> gerror option" where
  "check_type R m expected =
     (if expected = ExpLegacy then None
      else
        (let expectedTxTypeInt = typeCode R expected mod 256 in
         case text_field m ''type'' of
           None \<Rightarrow> Some ''failed to get type from the receipt''
         | Some typeString \<Rightarrow>
             (case ParseInt0 typeString of
                None \<Rightarrow> Some ''failed to parse type from the receipt''
              | Some typeInt \<Rightarrow>
                  (if typeInt \<noteq> expectedTxTypeInt then Some ''type mismatched in transaction receipt''
                   else None))))"

definition check_receipt :: "'w reader \<Rightarrow> addr option \<Rightarrow> rpc_receipt option \<Rightarrow> nat \<Rightarrow> expected_type
    \<Rightarrow> gerror option outcome" where
  "check_receipt R general receipt reqType expected =
     (case receipt of
        None \<Rightarrow> Ret (Some ''failed to get transaction receipt'')
      | Some m \<Rightarrow>
          (if (case text_field m ''status'' of None \<Rightarrow> [] | Some t \<Rightarrow> t) \<noteq> ''0x1''
           then Ret (Some ''transaction status in receipt is fail'')
           else
             (case check_request R general m reqType of
                Ret None \<Rightarrow> Ret (check_type R m expected)
              | Ret (Some e) \<Rightarrow> Ret (Some e)
              | Exit e \<Rightarrow> Exit e
              | Panic e \<Rightarrow> Panic e
              | Block \<Rightarrow> Block)))"

text \<open>\<open>checkResult\<close> returns \<open>(err == nil, err)\<close>; only the error is kept.\<close>

definition general_address :: "TCConfig \<Rightarrow> 'w tcs \<Rightarrow> addr option" where
  "general_address cfg s =
     map_option (\<lambda>r. GetAddress (accs (tc_proc s) r)) (config_contract cfg ContractGeneral)"

definition checkResult :: "('tx, 'w) env \<Rightarrow> 'w reader \<Rightarrow> TCConfig \<Rightarrow> hash \<Rightarrow> nat \<Rightarrow> expected_type
    \<Rightarrow> ('w, gerror option) prun" where
  "checkResult E R cfg h reqType expected =
     p_bind (p_world (getReceipt E R h maxRetryCount)) (\<lambda>receipt.
     p_lift (t_bind (t_get (general_address cfg)) (\<lambda>general.
       t_out (check_receipt R general receipt reqType expected))))"

definition run_goroutine :: "('tx, 'w) env \<Rightarrow> 'w reader \<Rightarrow> TCConfig \<Rightarrow> goroutine \<Rightarrow> ('w, unit) prun" where
  "run_goroutine E R cfg g =
     (case g of GoCheckResult name h reqType expected \<Rightarrow>
        p_bind (checkResult E R cfg h reqType expected) (\<lambda>err.
        p_lift (publish_result ''http'' name cfg err)))"

section \<open>The test cases\<close>

text \<open>
  The five closures have the same text but for the sending operation, the event's name and the
  type expected in the receipt; \<open>run_eth\<close> is that text. A transaction without recipient is sent as
  a legacy one, which the last argument accounts for.
\<close>

definition eth_closure :: "('tx, 'w) env \<Rightarrow> TCConfig \<Rightarrow> string
    \<Rightarrow> (account option \<Rightarrow> int option \<Rightarrow> bytes option \<Rightarrow> ('w, 'tx \<times> int \<times> gerror option) op)
    \<Rightarrow> (account option \<Rightarrow> expected_type) \<Rightarrow> ('w, unit) trun" where
  "eth_closure E cfg name send expect =
     with_eth (
       t_bind (t_random_acc E) (\<lambda>ofrom.
       t_bind (t_deref ofrom) (\<lambda>from.
       t_bind (t_account from) (\<lambda>self.
       t_bind (createRandomArguments E cfg (GetAddress self)) (\<lambda>(to, v, input, reqType).
       t_bind (t_acc from (send to (Some v) input)) (\<lambda>(tx, gp, err).
       case err of
         Some e \<Rightarrow> t_publish (Failure ''http'' (event_name name cfg) e)
       | None \<Rightarrow> t_upd (\<lambda>s. s\<lparr>tc_spawned := tc_spawned s @
           [GoCheckResult name (txHash (e_lib E) tx) reqType (expect to)]\<rparr>)))))))"

definition RunEthereumTxLegacyTC :: "('tx, 'w) env \<Rightarrow> TCConfig \<Rightarrow> ('w, unit) trun" where
  "RunEthereumTxLegacyTC E cfg = eth_closure E cfg ''TransferNewLegacyTx''
     (TransferNewLegacyTxWithEth (e_lib E) (e_cli E) (e_glob E)) (\<lambda>to. ExpLegacy)"

definition RunEthereumTxAccessListTC :: "('tx, 'w) env \<Rightarrow> TCConfig \<Rightarrow> ('w, unit) trun" where
  "RunEthereumTxAccessListTC E cfg = eth_closure E cfg ''TransferNewEthAccessListTx''
     (TransferNewEthAccessListTxWithEth (e_lib E) (e_cli E) (e_glob E))
     (\<lambda>to. if to = None then ExpLegacy else ExpAccessList)"

definition RunEthereumTxDynamicFeeTC :: "('tx, 'w) env \<Rightarrow> TCConfig \<Rightarrow> ('w, unit) trun" where
  "RunEthereumTxDynamicFeeTC E cfg = eth_closure E cfg ''TransferNewEthDynamicFeeTx''
     (TransferNewEthDynamicFeeTxWithEth (e_lib E) (e_cli E) (e_glob E))
     (\<lambda>to. if to = None then ExpLegacy else ExpDynamicFee)"

definition RunNewEthereumAccessListTC :: "('tx, 'w) env \<Rightarrow> TCConfig \<Rightarrow> ('w, unit) trun" where
  "RunNewEthereumAccessListTC E cfg = eth_closure E cfg ''transferNewEthereumAccessListTx''
     (TransferNewEthereumAccessListTx (e_lib E) (e_cli E) (e_glob E))
     (\<lambda>to. if to = None then ExpLegacy else ExpAccessList)"

definition RunNewEthereumDynamicFeeTC :: "('tx, 'w) env \<Rightarrow> TCConfig \<Rightarrow> ('w, unit) trun" where
  "RunNewEthereumDynamicFeeTC E cfg = eth_closure E cfg ''transferNewEthereumDynamicFeeTx''
     (TransferNewEthereumDynamicFeeTx (e_lib E) (e_cli E) (e_glob E))
     (\<lambda>to. if to = None then ExpLegacy else ExpDynamicFee)"

section \<open>Lemmas\<close>

text \<open>
  \<open>answers R h\<close>: the node never answers with neither a receipt nor an error, which is how the
  client of the library behaves. Then the polling ends after \<open>maxRetry\<close> retries.
\<close>

definition answers :: "'w reader \<Rightarrow> hash \<Rightarrow> bool" where
  "answers R h \<longleftrightarrow> (\<forall>w. fst (ReceiptRpcOutput R h w) \<noteq> (None, None))"

lemma getReceipt_loop_returns:
  assumes "answers R h"
  shows "retryCount \<le> maxRetry \<Longrightarrow> \<exists>x. getReceipt_loop E R h maxRetry retryCount w = Some x"
proof (induction "maxRetry - retryCount" arbitrary: retryCount w)
  case 0
  show ?case
    using assms 0 by (subst getReceipt_loop.simps)
      (auto simp: answers_def split: prod.splits option.splits, metis fst_conv)
next
  case (Suc n)
  show ?case
    using assms Suc.hyps(1) [of "retryCount + 1"] Suc.hyps(2)
    by (subst getReceipt_loop.simps)
      (auto simp: answers_def split: prod.splits option.splits, metis fst_conv)
qed

lemma getReceipt_returns: "answers R h \<Longrightarrow> \<exists>x. getReceipt E R h maxRetry w = Some x"
  unfolding getReceipt_def by (rule getReceipt_loop_returns) auto

text \<open>What a passed check means.\<close>

definition receipt_ok :: "'w reader \<Rightarrow> addr option \<Rightarrow> rpc_receipt \<Rightarrow> nat \<Rightarrow> expected_type \<Rightarrow> bool" where
  "receipt_ok R general m reqType expected \<longleftrightarrow>
     m ''status'' = Some (JText ''0x1'') \<and>
     (reqType = 1 \<longrightarrow> (\<exists>t. m ''contractAddress'' = Some (JText t))) \<and>
     (reqType = 2 \<longrightarrow> (\<exists>t a. m ''to'' = Some (JText t) \<and> general = Some a \<and>
        to_lower t = to_lower (addrText R a))) \<and>
     (expected \<noteq> ExpLegacy \<longrightarrow>
        (\<exists>t. m ''type'' = Some (JText t) \<and> ParseInt0 t = Some (typeCode R expected mod 256)))"

lemma text_field_Some: "text_field m f = Some t \<longleftrightarrow> m f = Some (JText t)"
  by (auto simp: text_field_def split: option.splits json_val.splits)

lemma text_field_None: "text_field m f = None \<longleftrightarrow> (\<forall>t. m f \<noteq> Some (JText t))"
  by (auto simp: text_field_def split: option.splits json_val.splits)

lemma check_request_None:
  "check_request R general m reqType = Ret None \<longleftrightarrow>
     (reqType = 1 \<longrightarrow> (\<exists>t. m ''contractAddress'' = Some (JText t))) \<and>
     (reqType = 2 \<longrightarrow> (\<exists>t a. m ''to'' = Some (JText t) \<and> general = Some a \<and>
        to_lower t = to_lower (addrText R a)))"
  by (auto simp: check_request_def text_field_Some text_field_None split: option.splits)

lemma check_type_None:
  "check_type R m expected = None \<longleftrightarrow>
     (expected \<noteq> ExpLegacy \<longrightarrow>
        (\<exists>t. m ''type'' = Some (JText t) \<and> ParseInt0 t = Some (typeCode R expected mod 256)))"
  by (auto simp: check_type_def Let_def text_field_Some text_field_None split: option.splits)

lemma status_ok:
  "(case text_field m ''status'' of None \<Rightarrow> [] | Some t \<Rightarrow> t) = ''0x1'' \<longleftrightarrow>
   m ''status'' = Some (JText ''0x1'')"
  by (auto simp: text_field_Some text_field_None split: option.splits)

lemma check_receipt_iff:
  "check_receipt R general receipt reqType expected = Ret None \<longleftrightarrow>
     (\<exists>m. receipt = Some m \<and> receipt_ok R general m reqType expected)"
proof (cases receipt)
  case None
  then show ?thesis by (simp add: check_receipt_def)
next
  case (Some m)
  show ?thesis
  proof (cases "m ''status'' = Some (JText ''0x1'')")
    case False
    then show ?thesis using Some status_ok [of m]
      by (simp add: check_receipt_def receipt_ok_def)
  next
    case True
    then have "check_receipt R general receipt reqType expected = Ret None \<longleftrightarrow>
        check_request R general m reqType = Ret None \<and> check_type R m expected = None"
      using Some status_ok [of m] by (auto simp: check_receipt_def split: outcome.splits option.splits)
    then show ?thesis using True Some by (simp add: receipt_ok_def check_request_None check_type_None)
  qed
qed

end
