(* ===== verification/Run_Read.thy ===== *)
theory Run_Read
  imports Run_Ethereum
begin

text \<open>
  \<open>testcase/run_read_api_call.go\<close>: the test cases that read from the node and check the answer.
  Each publishes one event; the elapsed times are not modelled.
\<close>

section \<open>Helpers\<close>

definition sendBoomerEvent :: "string \<Rightarrow> gerror option \<Rightarrow> TCConfig \<Rightarrow> ('w, unit) trun" where
  "sendBoomerEvent tcName err cfg = publish_result ''http'' tcName cfg err"

definition retValOfCall :: int where
  "retValOfCall = 4"

definition retValOfStorageAt :: int where
  "retValOfStorageAt = 4"

definition read_init :: read_vars where
  "read_init = \<lparr>latestBlockNumber = 0, rv_count = 0\<rparr>"

text \<open>
  The counter is reduced, every 10,000th call asks for the newest block, and the result is
  drawn below the newest block known: \<open>big.Int.Rand\<close> gives zero for a bound that is not positive.
\<close>

definition refresh_block :: "('tx, 'w) env \<Rightarrow> read_vars \<Rightarrow> 'w \<Rightarrow> read_vars \<times> 'w" where
  "refresh_block E v w =
     (let v1 = v\<lparr>rv_count := rv_count v mod 10000000\<rparr> in
      if rv_count v1 mod 10000 = 0 then
        (case BlockNumber (e_cli E) w of
           (Inl e, w1) \<Rightarrow> (v1\<lparr>rv_count := rv_count v1 + 1\<rparr>, w1)
         | (Inr bn, w1) \<Rightarrow> (v1\<lparr>latestBlockNumber := bn, rv_count := rv_count v1 + 1\<rparr>, w1))
      else (v1\<lparr>rv_count := rv_count v1 + 1\<rparr>, w))"

definition getRandomBlockNumber :: "('tx, 'w) env \<Rightarrow> 'w reader \<Rightarrow> ('w, int) trun" where
  "getRandomBlockNumber E R s =
     (case refresh_block E (tc_read s) (t_wld s) of
        (v, w1) \<Rightarrow>
          (case (if latestBlockNumber v \<le> 0 then (0, w1) else bigRand R (latestBlockNumber v) w1) of
             (n, w2) \<Rightarrow> (Ret n, set_wld w2 (s\<lparr>tc_read := v\<rparr>))))"

definition hex_text :: "int \<Rightarrow> string" where
  "hex_text n = ''0x'' @ int_text 16 n"

text \<open>\<open>new(big.Int).SetBytes\<close>, and the bytes of a \<open>string\<close> conversion.\<close>

definition bytes_int :: "bytes \<Rightarrow> int" where
  "bytes_int bs = foldl (\<lambda>acc b. acc * 256 + uint b) 0 bs"

definition bytes_text :: "bytes \<Rightarrow> string" where
  "bytes_text bs = map (\<lambda>b. char_of (unat b)) bs"

section \<open>Block and gas price reads\<close>

definition RunGasPrice :: "('tx, 'w) env \<Rightarrow> TCConfig \<Rightarrow> ('w, unit) trun" where
  "RunGasPrice E cfg = with_cli (
     t_bind (t_world (SuggestGasPrice (e_cli E))) (\<lambda>r.
     sendBoomerEvent ''readGasPrice'' (case r of Inl e \<Rightarrow> Some e | Inr _ \<Rightarrow> None) cfg))"

definition block_number_error :: "gerror + int \<Rightarrow> gerror option" where
  "block_number_error r =
     (case r of
        Inl e \<Rightarrow> Some e
      | Inr bn \<Rightarrow> (if bn > 0 then None
                  else Some (''wrong block number: '' @ hex_text bn @ '', answer: smaller than 0'')))"

definition RunBlockNumber :: "('tx, 'w) env \<Rightarrow> TCConfig \<Rightarrow> ('w, unit) trun" where
  "RunBlockNumber E cfg = with_cli (
     t_bind (t_world (BlockNumber (e_cli E))) (\<lambda>r.
     sendBoomerEvent ''readBlockNumber'' (block_number_error r) cfg))"

definition RunGetBlockByNumber :: "('tx, 'w) env \<Rightarrow> 'w reader \<Rightarrow> TCConfig \<Rightarrow> ('w, unit) trun" where
  "RunGetBlockByNumber E R cfg = with_cli (
     t_bind (getRandomBlockNumber E R) (\<lambda>ansBN.
     t_bind (t_world (BlockByNumber R ansBN)) (\<lambda>r.
     sendBoomerEvent ''readGetBlockByNumber''
       (case r of
          Inl e \<Rightarrow> Some e
        | Inr n \<Rightarrow> (if n \<noteq> ansBN
                   then Some (''wrong block: '' @ hex_text n @ '', answer: '' @ hex_text ansBN)
                   else None)) cfg)))"

definition RunGetAccount :: "('tx, 'w) env \<Rightarrow> 'w reader \<Rightarrow> TCConfig \<Rightarrow> ('w, unit) trun" where
  "RunGetAccount E R cfg = with_rpc (
     t_bind (t_random_acc E) (\<lambda>ofrom.
     t_bind (t_bind (t_deref ofrom) t_account) (\<lambda>fromAccount.
     t_bind (t_world (CallContext R ''klay_getAccount'' [RpcAddr (GetAddress fromAccount), RpcText ''latest'']))
       (\<lambda>r.
     sendBoomerEvent ''readGetAccount''
       (case r of
          Inl e \<Rightarrow> Some e
        | Inr j \<Rightarrow> (let ret = gjsonGet R j ''accType'' in
            if ret \<noteq> ''1'' then Some (''wrong account type: '' @ ret @ '', answer: 1'') else None)) cfg))))"

definition RunGetBlockWithConsensusInfoByNumber :: "('tx, 'w) env \<Rightarrow> 'w reader \<Rightarrow> TCConfig \<Rightarrow> ('w, unit) trun" where
  "RunGetBlockWithConsensusInfoByNumber E R cfg = with_cli (with_rpc (
     t_bind (getRandomBlockNumber E R) (\<lambda>ansBN.
     t_bind (t_world (CallContext R ''klay_getBlockWithConsensusInfoByNumber'' [RpcText (hex_text ansBN)])) (\<lambda>r.
     sendBoomerEvent ''readGetBlockWithConsensusInfoByNumber''
       (case r of
          Inl e \<Rightarrow> Some e
        | Inr j \<Rightarrow> (let ret = gjsonGet R j ''number'' in
            if \<not> contains_text ret (hex_text ansBN)
            then Some (''wrong block: '' @ ret @ '', answer: '' @ hex_text ansBN) else None)) cfg))))"

section \<open>Contract reads\<close>

definition storage_error :: "gerror + bytes \<Rightarrow> gerror option" where
  "storage_error r =
     (case r of
        Inl e \<Rightarrow> Some e
      | Inr ret \<Rightarrow>
          (if bytes_int ret \<noteq> retValOfStorageAt
           then Some (''wrong storage value: '' @ bytes_text ret @ '', answer: ''
             @ int_text 10 retValOfStorageAt)
           else None))"

definition RunGetStorageAt :: "('tx, 'w) env \<Rightarrow> 'w reader \<Rightarrow> TCConfig \<Rightarrow> ('w, unit) trun" where
  "RunGetStorageAt E R cfg = with_cli (
     t_bind (t_contract cfg ContractReadApiCallContract) (\<lambda>c.
     t_bind (t_world (StorageAt R (GetAddress c) 0)) (\<lambda>r.
     sendBoomerEvent ''readGetStorageAt'' (storage_error r) cfg)))"

text \<open>The error that \<open>RunCall\<close> computes from the result of the call, in a variable of its own.\<close>

definition call_result_error :: "('tx, 'w) env \<Rightarrow> 'w reader \<Rightarrow> bytes \<Rightarrow> gerror option" where
  "call_result_error E R result =
     (case abiJSON (e_abi E) readApiGetABI of
        Some e \<Rightarrow> Some e
      | None \<Rightarrow>
          (case unpackGet R result of
             Inl e \<Rightarrow> Some e
           | Inr ret \<Rightarrow>
               (if ret \<noteq> retValOfCall
                then Some (''wrong call: '' @ int_text 10 ret @ '', answer: '' @ int_text 10 retValOfCall)
                else None)))"

text \<open>
  \<open>RunCall\<close>: the inner \<open>parsedABI, err := ...\<close> declares a new \<open>err\<close>, so what the check of the result
  finds (\<open>inner\<close>) does not reach the event, which gets the error of the call itself.
\<close>

definition RunCall :: "('tx, 'w) env \<Rightarrow> 'w reader \<Rightarrow> TCConfig \<Rightarrow> ('w, unit) trun" where
  "RunCall E R cfg = with_cli (
     t_bind (t_random_acc E) (\<lambda>ofrom.
     t_bind (t_bind (t_deref ofrom) t_account) (\<lambda>from.
     t_bind (t_contract cfg ContractReadApiCallContract) (\<lambda>c.
     t_bind (t_data E ContractReadApiCallContract (GetAddress from) (Some 0)) (\<lambda>data.
     t_bind (t_world (CallContract R
        \<lparr>cm_from = GetAddress from, cm_to = Some (GetAddress c), cm_gas = 0, cm_gasPrice = None,
         cm_value = None, cm_data = Some data\<rparr>)) (\<lambda>r.
     let err = (case r of Inl e \<Rightarrow> Some e | Inr _ \<Rightarrow> None);
         inner = (case r of Inl e \<Rightarrow> None | Inr result \<Rightarrow> call_result_error E R result)
     in sendBoomerEvent ''readCall'' err cfg))))))"

definition estimate_error :: "gerror + u64 \<Rightarrow> gerror option" where
  "estimate_error r =
     (case r of
        Inl e \<Rightarrow> Some e
      | Inr ret \<Rightarrow> (if ret = 0 then Some (''wrong estimate gas: '' @ int_text 10 (sint ret)) else None))"

definition RunEstimateGas :: "('tx, 'w) env \<Rightarrow> 'w reader \<Rightarrow> TCConfig \<Rightarrow> ('w, unit) trun" where
  "RunEstimateGas E R cfg = with_cli (
     t_bind (t_random_acc E) (\<lambda>ofrom.
     t_bind (t_bind (t_deref ofrom) t_account) (\<lambda>from.
     t_bind (t_contract cfg ContractReadApiCallContract) (\<lambda>c.
     t_bind (t_data E ContractReadApiCallContract (GetAddress from) (Some 1)) (\<lambda>data.
     t_bind (t_world (EstimateGas R
        \<lparr>cm_from = GetAddress from, cm_to = Some (GetAddress c), cm_gas = 1100000,
         cm_gasPrice = Some 75000000000, cm_value = Some 0, cm_data = Some data\<rparr>)) (\<lambda>r.
     sendBoomerEvent ''readEstimateGas'' (estimate_error r) cfg))))))"

section \<open>Lemmas\<close>

text \<open>
  The block number that is asked for lies in the known range, for a random source that draws
  below its bound.
\<close>

lemma getRandomBlockNumber_range:
  assumes rand: "\<And>n w. 0 < n \<Longrightarrow> 0 \<le> fst (bigRand R n w) \<and> fst (bigRand R n w) < n"
    and run: "getRandomBlockNumber E R s = (r, s')"
  shows "\<exists>n. r = Ret n \<and> 0 \<le> n \<and> (n < latestBlockNumber (tc_read s') \<or> n = 0 \<and> latestBlockNumber (tc_read s') \<le> 0)"
proof -
  obtain v w1 where v: "refresh_block E (tc_read s) (t_wld s) = (v, w1)"
    by (cases "refresh_block E (tc_read s) (t_wld s)")
  show ?thesis
  proof (cases "latestBlockNumber v \<le> 0")
    case True
    with run v show ?thesis by (auto simp: getRandomBlockNumber_def set_wld_def)
  next
    case False
    obtain n w2 where n: "bigRand R (latestBlockNumber v) w1 = (n, w2)"
      by (cases "bigRand R (latestBlockNumber v) w1")
    with rand [of "latestBlockNumber v" w1] False run v show ?thesis
      by (auto simp: getRandomBlockNumber_def set_wld_def)
  qed
qed

text \<open>The newest block is asked for on the first call and then once in 10,000 calls.\<close>

lemma refresh_block_count:
  "rv_count (fst (refresh_block E v w)) = rv_count v mod 10000000 + 1"
  by (auto simp: refresh_block_def Let_def split: prod.splits sum.splits)

lemma refresh_block_skips:
  "rv_count v mod 10000000 mod 10000 \<noteq> 0 \<Longrightarrow> refresh_block E v w =
     (v\<lparr>rv_count := rv_count v mod 10000000 + 1\<rparr>, w)"
  by (simp add: refresh_block_def Let_def)

end
