(* ===== verification/Lock_Order.thy ===== *)
theory Lock_Order
  imports Go_Prelude "HOL-Library.List_Lexorder" "HOL-Library.Char_ord"
begin

text \<open>
  \<open>doubleLock\<close> and \<open>doubleUnlock\<close> of \<open>testcase/run_receipt_check.go\<close>: a checked transfer
  locks both accounts, in an order fixed by the texts of their addresses, so that concurrent
  transfers cannot wait for each other in a circle. The mutex of an account is named by the
  text of its address (\<open>String()\<close>, external); Go compares strings bytewise, which is the
  lexicographic order of \<open>HOL-Library.List_Lexorder\<close>.
\<close>

section \<open>The order of the locks\<close>

definition doubleLock :: "('a \<Rightarrow> string) \<Rightarrow> 'a \<Rightarrow> 'a \<Rightarrow> string list" where
  "doubleLock text to from =
     (if text from = text to then [text from]
      else if text from > text to then [text from, text to]
      else [text to, text from])"

definition doubleUnlock :: "('a \<Rightarrow> string) \<Rightarrow> 'a \<Rightarrow> 'a \<Rightarrow> string list" where
  "doubleUnlock text to from =
     (if text from = text to then [text from]
      else if text from > text to then [text from, text to]
      else [text to, text from])"

fun descending :: "string list \<Rightarrow> bool" where
  "descending [] = True"
| "descending [x] = True"
| "descending (x # y # xs) = (x > y \<and> descending (y # xs))"

lemma doubleLock_descending: "descending (doubleLock text to from)"
  by (auto simp: doubleLock_def)

lemma doubleLock_set: "set (doubleLock text to from) = {text to, text from}"
  by (auto simp: doubleLock_def)

lemma doubleUnlock_eq: "doubleUnlock text to from = doubleLock text to from"
  by (simp add: doubleUnlock_def doubleLock_def)

section \<open>Goroutines that take locks\<close>

text \<open>
  A goroutine: the locks it holds and those it still has to take, in order. When it has them
  all it runs its body and the deferred unlock gives them back. The system is a list of
  goroutines, stepped in any order.
\<close>

record gor =
  held :: "string list"
  todo :: "string list"
  ended :: bool

definition start :: "string list \<Rightarrow> gor" where
  "start ls = \<lparr>held = [], todo = ls, ended = False\<rparr>"

definition free_in :: "gor list \<Rightarrow> string \<Rightarrow> bool" where
  "free_in gs l \<longleftrightarrow> (\<forall>g \<in> set gs. l \<notin> set (held g))"

inductive lock_step :: "gor list \<Rightarrow> gor list \<Rightarrow> bool" where
  acquire: "i < length gs \<Longrightarrow> \<not> ended (gs ! i) \<Longrightarrow> todo (gs ! i) = l # ls \<Longrightarrow> free_in gs l \<Longrightarrow>
     lock_step gs (gs[i := (gs ! i)\<lparr>held := held (gs ! i) @ [l], todo := ls\<rparr>])"
| finish: "i < length gs \<Longrightarrow> \<not> ended (gs ! i) \<Longrightarrow> todo (gs ! i) = [] \<Longrightarrow>
     lock_step gs (gs[i := (gs ! i)\<lparr>held := [], ended := True\<rparr>])"

inductive lock_reach :: "gor list \<Rightarrow> gor list \<Rightarrow> bool" for gs0 where
  lr_start: "lock_reach gs0 gs0"
| lr_step: "lock_reach gs0 gs \<Longrightarrow> lock_step gs hs \<Longrightarrow> lock_reach gs0 hs"

text \<open>
  The invariant: a goroutine holds only locks above every lock it still wants, what it wants
  is descending, an ended goroutine holds nothing, and no lock is held by two goroutines.
\<close>

definition gor_ok :: "gor \<Rightarrow> bool" where
  "gor_ok g \<longleftrightarrow> descending (todo g) \<and> (\<forall>h \<in> set (held g). \<forall>l \<in> set (todo g). l < h) \<and>
     (ended g \<longrightarrow> held g = [])"

definition locks_ok :: "gor list \<Rightarrow> bool" where
  "locks_ok gs \<longleftrightarrow> (\<forall>g \<in> set gs. gor_ok g) \<and>
     (\<forall>i j. i < length gs \<longrightarrow> j < length gs \<longrightarrow> i \<noteq> j \<longrightarrow> set (held (gs ! i)) \<inter> set (held (gs ! j)) = {})"

lemma descending_ConsD: "descending (x # xs) \<Longrightarrow> descending xs \<and> (\<forall>y \<in> set xs. y < x)"
proof (induction xs arbitrary: x)
  case Nil
  then show ?case by simp
next
  case (Cons y ys)
  then have "y < x" "descending (y # ys)" by auto
  with Cons.IH [of y] show ?case by auto
qed

lemma gor_ok_start: "descending ls \<Longrightarrow> gor_ok (start ls)"
  by (simp add: gor_ok_def start_def)

lemma locks_ok_start: "\<forall>ls \<in> set jobs. descending ls \<Longrightarrow> locks_ok (map start jobs)"
  by (auto simp: locks_ok_def gor_ok_start) (auto simp: start_def)

lemma gor_ok_acquire: "gor_ok g \<Longrightarrow> \<not> ended g \<Longrightarrow> todo g = l # ls \<Longrightarrow>
   gor_ok (g\<lparr>held := held g @ [l], todo := ls\<rparr>)"
  by (auto simp: gor_ok_def dest: descending_ConsD)

lemma locks_ok_update:
  assumes ok: "locks_ok gs" and i: "i < length gs" and g: "gor_ok g"
    and disj: "\<And>j. j < length gs \<Longrightarrow> j \<noteq> i \<Longrightarrow> set (held g) \<inter> set (held (gs ! j)) = {}"
  shows "locks_ok (gs[i := g])"
proof -
  have "\<forall>h \<in> set (gs[i := g]). gor_ok h"
    using ok g set_update_subset_insert [of gs i g] by (auto simp: locks_ok_def)
  moreover have "set (held (gs[i := g] ! j)) \<inter> set (held (gs[i := g] ! k)) = {}"
    if "j < length gs" "k < length gs" "j \<noteq> k" for j k
    using ok that disj [of j] disj [of k]
    by (cases "j = i"; cases "k = i") (auto simp: locks_ok_def Int_commute)
  ultimately show ?thesis by (simp add: locks_ok_def)
qed

lemma lock_step_ok: "lock_step gs hs \<Longrightarrow> locks_ok gs \<Longrightarrow> locks_ok hs"
proof (induction rule: lock_step.induct)
  case (acquire i gs l ls)
  then have ok: "gor_ok (gs ! i)" by (auto simp: locks_ok_def)
  show ?case
  proof (rule locks_ok_update [OF acquire(5,1) gor_ok_acquire [OF ok acquire(2,3)]])
    fix j assume j: "j < length gs" "j \<noteq> i"
    with acquire have "set (held (gs ! i)) \<inter> set (held (gs ! j)) = {}" by (auto simp: locks_ok_def)
    moreover from j acquire(4) have "l \<notin> set (held (gs ! j))" by (auto simp: free_in_def)
    ultimately show "set (held ((gs ! i)\<lparr>held := held (gs ! i) @ [l], todo := ls\<rparr>))
        \<inter> set (held (gs ! j)) = {}" by auto
  qed
next
  case (finish i gs)
  then have ok: "gor_ok (gs ! i)" by (auto simp: locks_ok_def)
  show ?case
    by (rule locks_ok_update [OF finish(4,1)]) (use ok finish(3) in \<open>auto simp: gor_ok_def\<close>)
qed

lemma lock_reach_ok: "lock_reach gs0 gs \<Longrightarrow> locks_ok gs0 \<Longrightarrow> locks_ok gs"
  by (induction rule: lock_reach.induct) (auto intro: lock_step_ok)

section \<open>No deadlock\<close>

text \<open>
  Among the waiting goroutines take the one that waits for the least lock. Its holder has not
  ended and, if it waits too, waits for a lesser one: so the holder can run.
\<close>

lemma lock_progress:
  assumes ok: "locks_ok gs" and live: "\<exists>g \<in> set gs. \<not> ended g"
  shows "\<exists>hs. lock_step gs hs"
proof (rule ccontr)
  assume stuck: "\<not> (\<exists>hs. lock_step gs hs)"
  define W where "W = {l. \<exists>g \<in> set gs. \<not> ended g \<and> (\<exists>ls. todo g = l # ls)}"
  have waits: "\<exists>l ls. todo g = l # ls" if "g \<in> set gs" "\<not> ended g" for g
    using stuck that by (metis finish in_set_conv_nth list.exhaust)
  have "W \<subseteq> (\<Union>g \<in> set gs. set (todo g))" by (auto simp: W_def)
  then have fin: "finite W" by (rule finite_subset) auto
  from live waits have ne: "W \<noteq> {}" by (fastforce simp: W_def)
  define m where "m = Min W"
  from fin ne have "m \<in> W" by (simp add: m_def)
  then obtain g ls where g: "g \<in> set gs" "\<not> ended g" "todo g = m # ls" by (auto simp: W_def)
  then have "\<not> free_in gs m" using stuck by (metis acquire in_set_conv_nth)
  then obtain h where h: "h \<in> set gs" "m \<in> set (held h)" by (auto simp: free_in_def)
  from ok h have okh: "gor_ok h" by (auto simp: locks_ok_def)
  with h have "\<not> ended h" by (auto simp: gor_ok_def)
  with waits h obtain l ks where l: "todo h = l # ks" by blast
  with okh h have "l < m" by (auto simp: gor_ok_def)
  moreover from l h \<open>\<not> ended h\<close> have "l \<in> W" by (auto simp: W_def)
  ultimately show False using fin by (auto simp: m_def dest: Min_le)
qed

text \<open>The goroutines of checked transfers between the given pairs of accounts.\<close>

definition lockers :: "('a \<Rightarrow> string) \<Rightarrow> ('a \<times> 'a) list \<Rightarrow> gor list" where
  "lockers text jobs = map (\<lambda>(to, from). start (doubleLock text to from)) jobs"

lemma lockers_ok: "lock_reach (lockers text jobs) gs \<Longrightarrow> locks_ok gs"
  by (rule lock_reach_ok, assumption)
    (use locks_ok_start [of "map (\<lambda>(to, from). doubleLock text to from) jobs"] in
      \<open>auto simp: lockers_def doubleLock_descending o_def case_prod_unfold\<close>)

end
