(* ===== verification/Run_Receipt.thy ===== *)
theory Run_Receipt
  imports Run_Transactions Lock_Order
begin

text \<open>
  \<open>testcase/run_receipt_check.go\<close>: the pool of sent hashes with the test that reads their receipts,
  and the transfer that checks both balances afterwards. The package variables of the file are
  the record \<open>receipt_vars\<close>.
\<close>

section \<open>The pool of hashes\<close>

definition hashPoolSize :: nat where
  "hashPoolSize = 100 * 5 * 60"

definition defaultInitSendTx :: nat where
  "defaultInitSendTx = 1000 * 10"

definition ratioReadPerSend :: nat where
  "ratioReadPerSend = 9"

definition receipt_init :: receipt_vars where
  "receipt_init = \<lparr>rv_tail = 0, rv_isFull = False, rv_hashPool = replicate hashPoolSize 0,
     rv_cnt = 0, rv_initFlag = False\<rparr>"

definition addHash :: "hash \<Rightarrow> receipt_vars \<Rightarrow> unit outcome \<times> receipt_vars" where
  "addHash h v =
     (if length (rv_hashPool v) \<le> rv_tail v then (Panic ''index out of range'', v)
      else
        (let tail' = (rv_tail v + 1) mod hashPoolSize in
         (Ret (), v\<lparr>rv_hashPool := (rv_hashPool v)[rv_tail v := h], rv_tail := tail',
            rv_isFull := (if tail' = 0 then True else rv_isFull v)\<rparr>)))"

text \<open>\<open>r\<close> is what \<open>rand.Int()\<close> gives; the remainder by a zero \<open>tail\<close> panics.\<close>

definition getHash :: "nat \<Rightarrow> receipt_vars \<Rightarrow> hash outcome" where
  "getHash r v =
     (let i = (if rv_isFull v then r mod hashPoolSize else r mod rv_tail v) in
      if \<not> rv_isFull v \<and> rv_tail v = 0 then Panic ''integer divide by zero''
      else if length (rv_hashPool v) \<le> i then Panic ''index out of range''
      else Ret (rv_hashPool v ! i))"

definition t_addHash :: "hash \<Rightarrow> ('w, unit) trun" where
  "t_addHash h s = (case addHash h (tc_receipt s) of (r, v) \<Rightarrow> (r, s\<lparr>tc_receipt := v\<rparr>))"

definition t_getHash :: "('tx, 'w) env \<Rightarrow> ('w, hash) trun" where
  "t_getHash E = t_bind (t_rand E) (\<lambda>r. t_bind (t_get tc_receipt) (\<lambda>v. t_out (getHash r v)))"

section \<open>The receipt test\<close>

definition runReceiptCheckSendTx :: "('tx, 'w) env \<Rightarrow> TCConfig \<Rightarrow> ('w, unit) trun" where
  "runReceiptCheckSendTx E cfg = with_cli (
     t_bind (t_random_acc E) (\<lambda>ofrom.
     t_bind (t_random_acc E) (\<lambda>oto.
     t_bind (t_rand E) (\<lambda>r.
     t_bind (t_deref ofrom) (\<lambda>from.
     t_bind (t_bind (t_deref oto) t_account) (\<lambda>to.
     t_bind (t_acc from (TransferSignedTx (e_lib E) (e_cli E) (e_glob E) to (Some (int (r mod 3))) None))
       (\<lambda>(h, gp, err).
     t_bind (t_addHash h) (\<lambda>_.
     publish_result ''receiptCheckTx'' ''send tx'' cfg err))))))))"

text \<open>After a receipt was found the code draws again, to log one in 60,000.\<close>

definition runReceiptCheckReadTx :: "('tx, 'w) env \<Rightarrow> TCConfig \<Rightarrow> ('w, unit) trun" where
  "runReceiptCheckReadTx E cfg = with_cli (
     t_bind (t_getHash E) (\<lambda>h.
     t_bind (t_world (TransactionReceipt (e_cli E) h)) (\<lambda>res.
     case res of
       Inl e \<Rightarrow> publish_result ''receiptCheckTx'' ''read tx'' cfg (Some e)
     | Inr rc \<Rightarrow> t_bind (t_rand E) (\<lambda>_. publish_result ''receiptCheckTx'' ''read tx'' cfg None))))"

text \<open>
  Which of the two a call runs. The counter is a \<open>uint32\<close> that is added to atomically; during the
  first calls everything sends.
\<close>

definition receipt_choice :: "receipt_vars \<Rightarrow> bool \<times> receipt_vars" where
  "receipt_choice v =
     (let nc = rv_cnt v + 1; v1 = v\<lparr>rv_cnt := nc\<rparr> in
      if \<not> rv_initFlag v \<and> nc < of_nat defaultInitSendTx then (True, v1)
      else (nc mod of_nat (ratioReadPerSend + 1) = of_nat ratioReadPerSend, v1\<lparr>rv_initFlag := True\<rparr>))"

definition RunReceiptCheckTC :: "('tx, 'w) env \<Rightarrow> TCConfig \<Rightarrow> ('w, unit) trun" where
  "RunReceiptCheckTC E cfg =
     t_bind (\<lambda>s. case receipt_choice (tc_receipt s) of (b, v) \<Rightarrow> (Ret b, s\<lparr>tc_receipt := v\<rparr>)) (\<lambda>sends.
     if sends then runReceiptCheckSendTx E cfg else runReceiptCheckReadTx E cfg)"

section \<open>Locking two accounts\<close>

definition ref_text :: "'w reader \<Rightarrow> 'w tcs \<Rightarrow> acc_ref \<Rightarrow> string" where
  "ref_text R s r = addrText R (GetAddress (accs (tc_proc s) r))"

text \<open>The accounts whose mutexes \<open>doubleLock\<close> takes, in its order.\<close>

definition lock_order :: "('a \<Rightarrow> string) \<Rightarrow> 'a \<Rightarrow> 'a \<Rightarrow> 'a list" where
  "lock_order text to from =
     (if text from = text to then [from] else if text from > text to then [from, to] else [to, from])"

lemma lock_order_texts: "map text (lock_order text to from) = doubleLock text to from"
  by (simp add: lock_order_def doubleLock_def)

definition t_mutex :: "(account \<Rightarrow> unit outcome \<times> account) \<Rightarrow> acc_ref \<Rightarrow> ('w, unit) trun" where
  "t_mutex f r s =
     (let p = tc_proc s in
      case f (accs p r) of (out, a) \<Rightarrow> (out, s\<lparr>tc_proc := p\<lparr>accs := (accs p)(r := a)\<rparr>\<rparr>))"

primrec lock_refs :: "acc_ref list \<Rightarrow> ('w, unit) trun" where
  "lock_refs [] = t_ret ()"
| "lock_refs (r # rs) = t_bind (t_mutex Lock r) (\<lambda>_. lock_refs rs)"

primrec unlock_refs :: "acc_ref list \<Rightarrow> ('w, unit) trun" where
  "unlock_refs [] = t_ret ()"
| "unlock_refs (r # rs) = t_bind (t_mutex UnLock r) (\<lambda>_. unlock_refs rs)"

text \<open>A deferred call runs after a return and after a panic; what it does itself is the outcome then.\<close>

definition t_deferred :: "('w, unit) trun \<Rightarrow> 'r outcome \<times> 'w tcs \<Rightarrow> 'r outcome \<times> 'w tcs" where
  "t_deferred m x =
     (case x of
        (Exit e, s) \<Rightarrow> (Exit e, s)
      | (Block, s) \<Rightarrow> (Block, s)
      | (r, s) \<Rightarrow> (case m s of
            (Ret u, s') \<Rightarrow> (r, s')
          | (Exit e, s') \<Rightarrow> (Exit e, s')
          | (Panic e, s') \<Rightarrow> (Panic e, s')
          | (Block, s') \<Rightarrow> (Block, s')))"

lemma t_deferred_Ret:
  "t_deferred m (r, s) = (Ret x, s') \<Longrightarrow> r = Ret x \<and> (\<exists>u. m s = (Ret u, s'))"
  by (auto simp: t_deferred_def split: outcome.splits prod.splits)

text \<open>\<open>doubleLock(to, from); defer doubleUnlock(to, from)\<close> around a body.\<close>

definition with_both :: "'w reader \<Rightarrow> acc_ref \<Rightarrow> acc_ref \<Rightarrow> ('w, 'r) prun \<Rightarrow> ('w, 'r) prun" where
  "with_both R to from body s =
     (let refs = lock_order (ref_text R s) to from in
      p_bind (p_lift (lock_refs refs)) (\<lambda>_ s1.
        map_option (t_deferred (unlock_refs refs)) (body s1)) s)"

section \<open>Transfer and check\<close>

definition CheckBalance :: "('tx, 'w) client \<Rightarrow> account \<Rightarrow> int \<Rightarrow> 'w \<Rightarrow> gerror option outcome \<times> 'w" where
  "CheckBalance C a expected w =
     (case GetBalance C a w of
        ((None, e), w') \<Rightarrow> (Panic ''nil pointer dereference'', w')
      | ((Some b, e), w') \<Rightarrow>
          (Ret (if b \<noteq> expected
                then Some (''expected : '' @ int_text 10 expected @ '' actual : '' @ int_text 10 b)
                else None), w'))"

text \<open>The two polling loops; \<open>None\<close> and \<open>False\<close> are their time-outs after 100 and 10 seconds.\<close>

partial_function (option) await_receipt :: "('tx, 'w) env \<Rightarrow> hash \<Rightarrow> int \<Rightarrow> 'w
    \<Rightarrow> (receipt option \<times> 'w) option" where
  "await_receipt E h startTime w =
     (case TransactionReceipt (e_cli E) h w of
        (r, w1) \<Rightarrow>
          (case r of
             Inr rc \<Rightarrow> Some (Some rc, w1)
           | Inl e \<Rightarrow>
               (let w2 = Elapse (e_cli E) 100 w1 in
                if unixNow E w2 - startTime > 100 then Some (None, w2)
                else await_receipt E h startTime w2)))"

partial_function (option) await_balance :: "('tx, 'w) env \<Rightarrow> account \<Rightarrow> int \<Rightarrow> int \<Rightarrow> 'w
    \<Rightarrow> (bool outcome \<times> 'w) option" where
  "await_balance E a expected startTime w =
     (case CheckBalance (e_cli E) a expected w of
        (r, w1) \<Rightarrow>
          (case r of
             Ret err \<Rightarrow>
               (if err = None then Some (Ret True, w1)
                else
                  (let w2 = Elapse (e_cli E) 100 w1 in
                   if unixNow E w2 - startTime > 10 then Some (Ret False, w2)
                   else await_balance E a expected startTime w2))
           | Exit e \<Rightarrow> Some (Exit e, w1)
           | Panic e \<Rightarrow> Some (Panic e, w1)
           | Block \<Rightarrow> Some (Block, w1)))"

definition t_now :: "('tx, 'w) env \<Rightarrow> ('w, int) trun" where
  "t_now E = t_get (\<lambda>s. unixNow E (t_wld s))"

definition p_balance :: "('tx, 'w) env \<Rightarrow> acc_ref \<Rightarrow> int \<Rightarrow> ('w, bool) prun" where
  "p_balance E r expected =
     p_bind (p_lift (t_now E)) (\<lambda>startTime.
     p_bind (p_lift (t_account r)) (\<lambda>a.
     p_bind (p_world (await_balance E a expected startTime)) (\<lambda>res. p_lift (t_out res))))"

text \<open>The balances both accounts must have after a transfer of \<open>v\<close>.\<close>

definition expected_balances :: "bool \<Rightarrow> int \<Rightarrow> int \<Rightarrow> int \<Rightarrow> receipt \<Rightarrow> int \<Rightarrow> int \<times> int" where
  "expected_balances same fromFormer toFormer v rc gp =
     (let v' = (if same then 0 else v) in
      (fromFormer - v' - sint (rc_gasUsed rc) * gp, toFormer + v'))"

definition check_balances :: "('tx, 'w) env \<Rightarrow> acc_ref \<Rightarrow> acc_ref \<Rightarrow> bool \<Rightarrow> int \<times> int
    \<Rightarrow> ('w, gerror option) prun" where
  "check_balances E to from same b =
     p_bind (p_balance E from (fst b)) (\<lambda>okFrom.
     if \<not> okFrom then p_lift (t_ret (Some
       ''Time out (from) : It took more than 10 seconds to retrieve the correct receipt ''))
     else if same then p_lift (t_ret None)
     else p_bind (p_balance E to (snd b)) (\<lambda>okTo.
       p_lift (t_ret (if okTo then None else Some
         ''Time out (to) : It took more than 10 seconds to retrieve the correct receipt ''))))"

text \<open>From the accepted send on: wait for the receipt, then compare the balances.\<close>

definition settle :: "('tx, 'w) env \<Rightarrow> acc_ref \<Rightarrow> acc_ref \<Rightarrow> int \<Rightarrow> bool \<Rightarrow> int option \<Rightarrow> int option
    \<Rightarrow> int \<Rightarrow> receipt option \<Rightarrow> ('w, gerror option) prun" where
  "settle E to from v same fromFormer toFormer gp receipt =
     (case receipt of
        None \<Rightarrow> p_lift (t_ret (Some ''Time out : It took more than 100 seconds to make a block ''))
      | Some rc \<Rightarrow>
          (case fromFormer of
             None \<Rightarrow> p_lift (t_out (Panic ''nil pointer dereference''))
           | Some fb \<Rightarrow>
               (case toFormer of
                  None \<Rightarrow> p_lift (t_out (Panic ''nil pointer dereference''))
                | Some tb \<Rightarrow>
                    check_balances E to from same (expected_balances same fb tb v rc gp))))"

definition transfer_body :: "('tx, 'w) env \<Rightarrow> acc_ref \<Rightarrow> acc_ref \<Rightarrow> int \<Rightarrow> ('w, gerror option) prun" where
  "transfer_body E to from v =
     p_bind (p_lift (t_account from)) (\<lambda>fromAcc.
     p_bind (p_lift (t_account to)) (\<lambda>toAcc.
     p_bind (p_lift (t_world (GetBalance (e_cli E) fromAcc))) (\<lambda>(fromFormer, _).
     p_bind (p_lift (t_world (GetBalance (e_cli E) toAcc))) (\<lambda>(toFormer, _).
     p_bind (p_lift (t_acc from (TransferSignedTxWithoutLock (e_lib E) (e_cli E) (e_glob E)
        toAcc (Some v) None))) (\<lambda>(h, gp, err).
     case err of
       Some e \<Rightarrow> p_lift (t_ret (Some e))
     | None \<Rightarrow>
         p_bind (p_lift (t_now E)) (\<lambda>startTime.
         p_bind (p_world (await_receipt E h startTime))
           (settle E to from v (GetAddress toAcc = GetAddress fromAcc) fromFormer toFormer gp)))))))"

definition transferAndCheck :: "('tx, 'w) env \<Rightarrow> 'w reader \<Rightarrow> acc_ref \<Rightarrow> acc_ref \<Rightarrow> int
    \<Rightarrow> ('w, gerror option) prun" where
  "transferAndCheck E R to from v = with_both R to from (transfer_body E to from v)"

definition RunTransferSignedWithCheckTC :: "('tx, 'w) env \<Rightarrow> 'w reader \<Rightarrow> TCConfig \<Rightarrow> ('w, unit) prun" where
  "RunTransferSignedWithCheckTC E R cfg = with_cli_p (
     p_bind (p_lift (t_random_acc E)) (\<lambda>ofrom.
     p_bind (p_lift (t_random_acc E)) (\<lambda>oto.
     p_bind (p_lift (t_rand E)) (\<lambda>r.
     p_bind (p_lift (t_deref ofrom)) (\<lambda>from.
     p_bind (p_lift (t_deref oto)) (\<lambda>to.
     p_bind (transferAndCheck E R to from (int (r mod 3))) (\<lambda>err.
     p_lift (publish_result ''http'' ''signedtransfer_with_check'' cfg err))))))))"

section \<open>The pool as a ring\<close>

text \<open>
  \<open>pool_holds v hs\<close>: the variables are what adding the hashes \<open>hs\<close>, oldest first, leaves. The last
  \<open>hashPoolSize\<close> of them are in the array, each at its position modulo the size.
\<close>

definition pool_holds :: "receipt_vars \<Rightarrow> hash list \<Rightarrow> bool" where
  "pool_holds v hs \<longleftrightarrow>
     length (rv_hashPool v) = hashPoolSize \<and> rv_tail v = length hs mod hashPoolSize \<and>
     (rv_isFull v \<longleftrightarrow> hashPoolSize \<le> length hs) \<and>
     (\<forall>j < length hs. length hs \<le> j + hashPoolSize \<longrightarrow> rv_hashPool v ! (j mod hashPoolSize) = hs ! j)"

definition recent :: "hash list \<Rightarrow> hash list" where
  "recent hs = drop (length hs - hashPoolSize) hs"

lemma hashPoolSize_pos: "0 < hashPoolSize"
  by (simp add: hashPoolSize_def)

lemma in_recent: "h \<in> set (recent hs) \<longleftrightarrow> (\<exists>j < length hs. length hs \<le> j + hashPoolSize \<and> h = hs ! j)"
proof
  assume "h \<in> set (recent hs)"
  then obtain i where "i < length hs - (length hs - hashPoolSize)" "h = hs ! (length hs - hashPoolSize + i)"
    by (auto simp: recent_def in_set_conv_nth)
  then show "\<exists>j < length hs. length hs \<le> j + hashPoolSize \<and> h = hs ! j"
    by (intro exI [of _ "length hs - hashPoolSize + i"]) auto
next
  assume "\<exists>j < length hs. length hs \<le> j + hashPoolSize \<and> h = hs ! j"
  then obtain j where j: "j < length hs" "length hs \<le> j + hashPoolSize" "h = hs ! j" by blast
  then have "recent hs ! (j - (length hs - hashPoolSize)) = h" by (simp add: recent_def)
  moreover from j have "j - (length hs - hashPoolSize) < length (recent hs)" by (simp add: recent_def)
  ultimately show "h \<in> set (recent hs)" by (metis nth_mem)
qed

lemma pool_holds_init: "pool_holds receipt_init []"
  by (simp add: pool_holds_def receipt_init_def hashPoolSize_def)

lemma mod_neq_near: "j < n \<Longrightarrow> n < j + (N::nat) \<Longrightarrow> j mod N \<noteq> n mod N"
  by (metis add_diff_cancel_left' le_add_diff_inverse less_diff_conv2 less_imp_le_nat less_not_refl2
      mod_eq_dvd_iff_nat nat_dvd_not_less zero_less_diff add.commute)

lemma addHash_holds:
  assumes "pool_holds v hs"
  shows "\<exists>v'. addHash h v = (Ret (), v') \<and> pool_holds v' (hs @ [h])"
proof -
  let ?N = hashPoolSize
  let ?v = "snd (addHash h v)"
  have pos: "0 < ?N" by (rule hashPoolSize_pos)
  have f: "rv_tail v = length hs mod ?N" "rv_isFull v \<longleftrightarrow> ?N \<le> length hs" "length (rv_hashPool v) = ?N"
    using assms by (simp_all add: pool_holds_def)
  from assms pos have lt: "rv_tail v < length (rv_hashPool v)" by (simp add: pool_holds_def)
  then have ret: "addHash h v = (Ret (), ?v)" by (simp add: addHash_def Let_def)
  from lt have sel: "rv_hashPool ?v = (rv_hashPool v)[rv_tail v := h]" "rv_tail ?v = (rv_tail v + 1) mod ?N"
    "rv_isFull ?v = ((rv_tail v + 1) mod ?N = 0 \<or> rv_isFull v)"
    by (simp_all add: addHash_def Let_def)
  have tail: "rv_tail ?v = (length hs + 1) mod ?N"
    using assms sel(2) by (simp add: pool_holds_def mod_simps)
  have full: "rv_isFull ?v \<longleftrightarrow> ?N \<le> length hs + 1"
  proof -
    have "(length hs + 1) mod ?N = 0 \<longleftrightarrow> ?N \<le> length hs + 1" if "length hs < ?N"
      using that pos by (cases "length hs + 1 = ?N") auto
    moreover have "rv_isFull ?v \<longleftrightarrow> (length hs + 1) mod ?N = 0 \<or> ?N \<le> length hs"
      using f sel(2,3) tail by metis
    ultimately show ?thesis by linarith
  qed
  have "rv_hashPool ?v ! (j mod ?N) = (hs @ [h]) ! j"
    if j: "j < length (hs @ [h])" "length (hs @ [h]) \<le> j + ?N" for j
  proof (cases "j = length hs")
    case True
    then show ?thesis using assms lt sel(1) by (simp add: pool_holds_def)
  next
    case False
    with j have "j mod ?N \<noteq> length hs mod ?N" by (intro mod_neq_near) auto
    then show ?thesis using assms j False sel(1) by (simp add: pool_holds_def nth_append)
  qed
  then have "pool_holds ?v (hs @ [h])"
    using assms sel(1) tail full by (simp add: pool_holds_def)
  with ret show ?thesis by blast
qed

text \<open>Adding a list of hashes, oldest first.\<close>

fun addHashes :: "hash list \<Rightarrow> receipt_vars \<Rightarrow> unit outcome \<times> receipt_vars" where
  "addHashes [] v = (Ret (), v)"
| "addHashes (h # hs) v = (case addHash h v of (Ret _, v') \<Rightarrow> addHashes hs v' | (r, v') \<Rightarrow> (r, v'))"

lemma addHashes_holds: "pool_holds v hs \<Longrightarrow> \<exists>v'. addHashes gs v = (Ret (), v') \<and> pool_holds v' (hs @ gs)"
proof (induction gs arbitrary: v hs)
  case (Cons g gs)
  from addHash_holds [OF Cons.prems, of g] obtain v1 where "addHash g v = (Ret (), v1)" "pool_holds v1 (hs @ [g])" by blast
  with Cons.IH [of v1 "hs @ [g]"] show ?case by simp
qed simp

lemma window_position: "i < N \<Longrightarrow> \<exists>j. L \<le> j \<and> j < L + N \<and> j mod N = (i::nat)"
proof -
  assume i: "i < N"
  obtain q m where L: "L = q * N + m" "m < N"
    using i div_mult_mod_eq [of L N] by (metis gr_zeroI less_zeroE mod_less_divisor)
  show ?thesis
  proof (cases "m \<le> i")
    case True
    then show ?thesis using i L by (intro exI [of _ "q * N + i"]) simp
  next
    case False
    then have "(Suc q * N + i) mod N = i" using i by (metis mod_less mod_mult_self3)
    with False show ?thesis using i L by (intro exI [of _ "Suc q * N + i"]) simp
  qed
qed

lemma getHash_holds:
  assumes "pool_holds v hs" and "hs \<noteq> []"
  shows "(\<exists>g. getHash r v = Ret g \<and> g \<in> set (recent hs)) \<and>
     (h \<in> set (recent hs) \<longrightarrow> (\<exists>q. getHash q v = Ret h))"
proof -
  let ?N = hashPoolSize and ?n = "length hs"
  have f: "rv_tail v = ?n mod ?N" "rv_isFull v \<longleftrightarrow> ?N \<le> ?n" "length (rv_hashPool v) = ?N"
    using assms by (simp_all add: pool_holds_def)
  define M where "M = (if ?N \<le> ?n then ?N else ?n)"
  have pos: "0 < ?N" by (rule hashPoolSize_pos)
  then have M: "0 < M" "M \<le> ?N" using assms(2) by (auto simp: M_def)
  have get: "getHash q v = Ret (rv_hashPool v ! (q mod M))" for q
  proof (cases "?N \<le> ?n")
    case True
    then show ?thesis using f pos by (simp add: getHash_def M_def Let_def not_le)
  next
    case False
    moreover have "q mod ?n < ?n" using assms(2) by simp
    ultimately have "q mod ?n < ?N" by linarith
    moreover have "rv_tail v = ?n" "\<not> rv_isFull v" "M = ?n" "?n \<noteq> 0"
      using f False assms(2) by (auto simp: M_def)
    ultimately show ?thesis using f(3) by (simp only: getHash_def Let_def if_False if_True not_le simp_thms) simp
  qed
  have pos_of: "\<exists>j < ?n. ?n \<le> j + ?N \<and> j mod ?N = i" if "i < M" for i
  proof (cases "?N \<le> ?n")
    case True
    then obtain j where "?n - ?N \<le> j" "j < ?n - ?N + ?N" "j mod ?N = i"
      using window_position [of i ?N "?n - ?N"] \<open>i < M\<close> by (auto simp: M_def)
    with True show ?thesis by (intro exI [of _ j]) auto
  next
    case False
    with \<open>i < M\<close> show ?thesis by (intro exI [of _ i]) (auto simp: M_def)
  qed
  have "\<exists>g. getHash r v = Ret g \<and> g \<in> set (recent hs)"
  proof -
    obtain j where j: "j < ?n" "?n \<le> j + ?N" "j mod ?N = r mod M" using pos_of [of "r mod M"] M by auto
    then have "rv_hashPool v ! (r mod M) = hs ! j" using assms(1) by (simp add: pool_holds_def flip: j(3))
    then show ?thesis using get [of r] j in_recent by metis
  qed
  moreover have "\<exists>q. getHash q v = Ret h" if "h \<in> set (recent hs)"
  proof -
    from that obtain j where j: "j < ?n" "?n \<le> j + ?N" "h = hs ! j" by (auto simp: in_recent)
    have "j mod ?N < M" using j(1) pos by (auto simp: M_def intro: le_less_trans [OF mod_less_eq_dividend])
    then show ?thesis using get [of "j mod ?N"] j assms(1) by (auto simp: pool_holds_def intro: exI [of _ "j mod ?N"])
  qed
  ultimately show ?thesis by blast
qed

section \<open>The ratio of reads to sends\<close>

fun choices :: "nat \<Rightarrow> receipt_vars \<Rightarrow> bool list" where
  "choices 0 v = []"
| "choices (Suc n) v = (case receipt_choice v of (b, v') \<Rightarrow> b # choices n v')"

lemma choices_closed:
  "rv_initFlag v \<Longrightarrow> unat (rv_cnt v) + n < 2 ^ 32 \<Longrightarrow>
   choices n v = map (\<lambda>i. (unat (rv_cnt v) + 1 + i) mod 10 = 9) [0..<n]"
proof (induction n arbitrary: v)
  case 0
  then show ?case by simp
next
  case (Suc n)
  have u: "unat (rv_cnt v + 1) = unat (rv_cnt v) + 1" using Suc.prems(2) by (simp add: unat_word_ariths)
  have "(rv_cnt v + 1) mod 10 = 9 \<longleftrightarrow> unat (rv_cnt v + 1) mod 10 = 9"
    by (simp add: word_unat_eq_iff unat_mod)
  then have step: "receipt_choice v =
      ((unat (rv_cnt v) + 1) mod 10 = 9, v\<lparr>rv_cnt := rv_cnt v + 1, rv_initFlag := True\<rparr>)"
    using Suc.prems(1) u by (simp add: receipt_choice_def ratioReadPerSend_def Let_def)
  have "choices n (v\<lparr>rv_cnt := rv_cnt v + 1, rv_initFlag := True\<rparr>) =
      map (\<lambda>i. (unat (rv_cnt v) + 1 + 1 + i) mod 10 = 9) [0..<n]"
    using Suc.IH [of "v\<lparr>rv_cnt := rv_cnt v + 1, rv_initFlag := True\<rparr>"] Suc.prems(2) u by simp
  then show ?case
    by (simp add: step upt_conv_Cons map_Suc_upt [symmetric] del: upt_Suc)
qed

lemma one_in_ten: "length (filter (\<lambda>i. (a + i) mod 10 = (9::nat)) [n..<n + 10]) = 1"
proof -
  have e: "[n..<n + 10] = map (\<lambda>i. i + n) [0..<10]" by (simp only: map_add_upt add.commute)
  have "length (filter (\<lambda>i. (a + i) mod 10 = 9) [n..<n + 10]) =
      length (filter (\<lambda>i. ((a + n) mod 10 + i) mod 10 = 9) [0..<10])"
    by (simp add: e filter_map o_def mod_simps ac_simps)
  moreover have "list_all (\<lambda>k. length (filter (\<lambda>i. (k + i) mod 10 = (9::nat)) [0..<10]) = 1) [0..<10]"
    by (simp add: upt_conv_Cons)
  then have "length (filter (\<lambda>i. ((a + n) mod 10 + i) mod 10 = 9) [0..<10]) = 1"
    unfolding list_all_iff by (rule bspec) simp
  ultimately show ?thesis by simp
qed

lemma ten_k: "length (filter (\<lambda>i. (a + i) mod 10 = (9::nat)) [0..<10 * k]) = k"
proof (induction k)
  case 0
  then show ?case by simp
next
  case (Suc k)
  have "[0..<10 * Suc k] = [0..<10 * k] @ [10 * k..<10 * k + 10]"
    using upt_add_eq_append [of 0 "10 * k" 10] by (simp add: algebra_simps)
  then show ?case using Suc one_in_ten [of a "10 * k"] by simp
qed

lemma choices_ratio:
  "rv_initFlag v \<Longrightarrow> unat (rv_cnt v) + 10 * k < 2 ^ 32 \<Longrightarrow>
   length (filter id (choices (10 * k) v)) = k"
  using ten_k [of "unat (rv_cnt v) + 1" k] by (simp add: choices_closed filter_map o_def id_def)


section \<open>What the checked transfer keeps\<close>

definition mutexes :: "'w tcs \<Rightarrow> acc_ref \<Rightarrow> bool" where
  "mutexes s = (\<lambda>r. acc_mutex (accs (tc_proc s) r))"

definition p_keeps :: "('w, 'r) prun \<Rightarrow> bool" where
  "p_keeps m \<longleftrightarrow> (\<forall>s r s'. m s = Some (r, s') \<longrightarrow> mutexes s' = mutexes s \<and> r \<noteq> Block)"

definition t_keeps :: "('w, 'r) trun \<Rightarrow> bool" where
  "t_keeps m \<longleftrightarrow> (\<forall>s r s'. m s = (r, s') \<longrightarrow> mutexes s' = mutexes s \<and> r \<noteq> Block)"

lemma p_keepsD: "p_keeps m \<Longrightarrow> m s = Some (r, s') \<Longrightarrow> mutexes s' = mutexes s \<and> r \<noteq> Block"
  unfolding p_keeps_def by blast

lemma t_keepsD: "t_keeps m \<Longrightarrow> m s = (r, s') \<Longrightarrow> mutexes s' = mutexes s \<and> r \<noteq> Block"
  unfolding t_keeps_def by blast

named_theorems keep_intros

lemma p_keeps_lift [keep_intros]: "t_keeps m \<Longrightarrow> p_keeps (p_lift m)"
  unfolding p_keeps_def p_lift_def by (auto dest: t_keepsD)

lemma p_keeps_bind [keep_intros]: "p_keeps m \<Longrightarrow> (\<And>x. p_keeps (k x)) \<Longrightarrow> p_keeps (p_bind m k)"
  unfolding p_keeps_def [of "p_bind m k"]
proof (intro allI impI)
  fix s r s' assume m: "p_keeps m" and k: "\<And>x. p_keeps (k x)" and run: "p_bind m k s = Some (r, s')"
  then obtain q s1 where q: "m s = Some (q, s1)" by (auto simp: p_bind_def split: option.splits)
  note q1 = p_keepsD [OF m q]
  show "mutexes s' = mutexes s \<and> r \<noteq> Block"
  proof (cases q)
    case (Ret x)
    with run q have "k x s1 = Some (r, s')" by (simp add: p_bind_def)
    from p_keepsD [OF k this] q1 show ?thesis by simp
  qed (use run q q1 in \<open>auto simp: p_bind_def\<close>)
qed

lemma p_keeps_world [keep_intros]: "p_keeps (p_world f)"
  by (auto simp: p_keeps_def p_world_def mutexes_def set_wld_def split: option.splits)

lemma t_keeps_basic [keep_intros]:
  "t_keeps (t_ret x)" "t_keeps (t_get f)" "t_keeps (t_world g)" "r \<noteq> Block \<Longrightarrow> t_keeps (t_out r)"
  by (auto simp: t_keeps_def t_ret_def t_get_def t_world_def t_out_def mutexes_def set_wld_def
      split: prod.splits)

lemma p_keeps_acc:
  assumes "op_body f"
  shows "t_keeps (t_acc r f)"
  by (auto simp: t_keeps_def t_acc_def Let_def mutexes_def fun_eq_iff
      dest: op_body.body_mutex [OF assms] op_body.body_no_wait [OF assms] split: prod.splits)

lemma map_outcome_Block [simp]: "map_outcome_ret f r \<noteq> Block \<longleftrightarrow> r \<noteq> Block"
  by (cases r) auto

lemma op_body_mapped:
  assumes "op_body f"
  shows "op_body (op_map h f)"
  by unfold_locales
    (auto simp: op_map_def split: prod.splits dest: op_body.body_identity [OF assms]
      op_body.body_mutex [OF assms] op_body.body_no_wait [OF assms])

lemma WithoutLock_body: "op_body (TransferSignedTxWithoutLock L C g to v i)"
  unfolding TransferSignedTxWithoutLock_def TransferSignedTxReturnTx_def
  by (simp add: op_body_mapped signed_body.op_body_axioms)

lemma CheckBalance_not_Block: "fst (CheckBalance C a e w) \<noteq> Block"
  by (auto simp: CheckBalance_def split: prod.splits option.splits)

lemma await_balance_not_Block: "await_balance E a ex st w = Some y \<Longrightarrow> fst y \<noteq> Block"
proof (erule await_balance.raw_induct [where P = "\<lambda>E a ex st w y. fst y \<noteq> Block", rotated], goal_cases)
  case (1 f E a ex st w y)
  from 1(2) CheckBalance_not_Block [of "e_cli E" a ex w] show ?case
    by (auto simp: Let_def split: prod.splits outcome.splits if_splits dest: 1(1))
qed

lemma p_keeps_balance [keep_intros]: "p_keeps (p_balance E r ex)"
proof -
  have "p_keeps (p_bind (p_world (await_balance E a ex st)) (\<lambda>res. p_lift (t_out res)))" for a st
    by (auto simp: p_keeps_def p_bind_def p_world_def p_lift_def t_out_def mutexes_def set_wld_def
        split: option.splits dest: await_balance_not_Block)
  note last = this
  show ?thesis
    unfolding p_balance_def t_now_def t_account_def
    by (rule p_keeps_bind, rule p_keeps_lift, rule t_keeps_basic, rule p_keeps_bind, rule p_keeps_lift,
      rule t_keeps_basic, rule last)
qed

lemma keeps_transfer_body: "p_keeps (transfer_body E to from v)"
  unfolding transfer_body_def settle_def check_balances_def t_now_def t_account_def case_prod_beta
  by (auto intro!: keep_intros p_keeps_acc WithoutLock_body split: option.split simp: Let_def)

text \<open>After \<open>doubleLock\<close> and the deferred \<open>doubleUnlock\<close> every mutex is as before.\<close>

lemma t_mutex_Lock:
  "\<not> mutexes s r \<Longrightarrow> \<exists>s1. t_mutex Lock r s = (Ret (), s1) \<and> mutexes s1 = (mutexes s)(r := True)"
  by (auto simp: t_mutex_def Lock_def mutexes_def Let_def)

lemma t_mutex_UnLock:
  "mutexes s r \<Longrightarrow> \<exists>s1. t_mutex UnLock r s = (Ret (), s1) \<and> mutexes s1 = (mutexes s)(r := False)"
  by (auto simp: t_mutex_def UnLock_def mutexes_def Let_def)

lemma lock_refs_free:
  "distinct rs \<Longrightarrow> \<forall>r \<in> set rs. \<not> mutexes s r \<Longrightarrow>
   \<exists>s'. lock_refs rs s = (Ret (), s') \<and> mutexes s' = (\<lambda>x. x \<in> set rs \<or> mutexes s x)"
proof (induction rs arbitrary: s)
  case (Cons r rs)
  from Cons.prems t_mutex_Lock obtain s1 where s1: "t_mutex Lock r s = (Ret (), s1)"
    "mutexes s1 = (mutexes s)(r := True)" by force
  with Cons.prems have "\<forall>q \<in> set rs. \<not> mutexes s1 q" by auto
  with Cons.IH Cons.prems(1) obtain s' where
    "lock_refs rs s1 = (Ret (), s')" "mutexes s' = (\<lambda>x. x \<in> set rs \<or> mutexes s1 x)" by auto
  with s1 show ?case by (auto simp: t_bind_def fun_eq_iff)
qed (simp add: t_ret_def)

lemma unlock_refs_held:
  "distinct rs \<Longrightarrow> \<forall>r \<in> set rs. mutexes s r \<Longrightarrow>
   \<exists>s'. unlock_refs rs s = (Ret (), s') \<and> mutexes s' = (\<lambda>x. x \<notin> set rs \<and> mutexes s x)"
proof (induction rs arbitrary: s)
  case (Cons r rs)
  from Cons.prems t_mutex_UnLock obtain s1 where s1: "t_mutex UnLock r s = (Ret (), s1)"
    "mutexes s1 = (mutexes s)(r := False)" by force
  with Cons.prems have "\<forall>q \<in> set rs. mutexes s1 q" by auto
  with Cons.IH Cons.prems(1) obtain s' where
    "unlock_refs rs s1 = (Ret (), s')" "mutexes s' = (\<lambda>x. x \<notin> set rs \<and> mutexes s1 x)" by auto
  with s1 show ?case by (auto simp: t_bind_def fun_eq_iff)
qed (simp add: t_ret_def)

lemma lock_order_facts: "distinct (lock_order text to from) \<and> set (lock_order text to from) \<subseteq> {to, from}"
  by (auto simp: lock_order_def)

lemma transferAndCheck_mutexes:
  assumes run: "transferAndCheck E R to from v s = Some (r, s')"
    and free: "\<not> mutexes s to" "\<not> mutexes s from"
  shows "r \<noteq> Block \<and> (settles r \<longrightarrow> mutexes s' = mutexes s) \<and>
    (\<exists>s1 s2. transfer_body E to from v s1 = Some (r, s2))"
proof -
  define rs where "rs = lock_order (ref_text R s) to from"
  have rs: "distinct rs" "set rs \<subseteq> {to, from}" using lock_order_facts [of "ref_text R s" "to" "from"] by (auto simp: rs_def)
  with free obtain s1 where s1: "lock_refs rs s = (Ret (), s1)"
    "mutexes s1 = (\<lambda>x. x \<in> set rs \<or> mutexes s x)" using lock_refs_free [of rs s] by auto
  from run s1(1) obtain q s2 where s2: "transfer_body E to from v s1 = Some (q, s2)"
    and fin: "(r, s') = t_deferred (unlock_refs rs) (q, s2)"
    by (auto simp: transferAndCheck_def with_both_def Let_def p_bind_def p_lift_def rs_def [symmetric])
  note k = p_keepsD [OF keeps_transfer_body s2]
  with s1(2) have "\<forall>x \<in> set rs. mutexes s2 x" by simp
  with rs(1) unlock_refs_held obtain s3 where s3: "unlock_refs rs s2 = (Ret (), s3)"
    "mutexes s3 = (\<lambda>x. x \<notin> set rs \<and> mutexes s2 x)" by blast
  from s3(2) k s1(2) free rs(2) have "mutexes s3 = mutexes s" by (auto simp: fun_eq_iff)
  with fin s3(1) k s2 show ?thesis by (cases q) (auto simp: t_deferred_def)
qed

section \<open>The checked transfer returns\<close>

text \<open>
  \<open>clock_runs\<close>: \<open>clk\<close> is a clock in milliseconds that the Unix time is read from, a sleep advances it by
  at least its duration, and no query turns it back. Then the polling loops end.
\<close>

definition clock_runs :: "('tx, 'w) env \<Rightarrow> ('w \<Rightarrow> int) \<Rightarrow> bool" where
  "clock_runs E clk \<longleftrightarrow>
     (\<forall>w. unixNow E w = clk w div 1000) \<and>
     (\<forall>ms w. clk w + int ms \<le> clk (Elapse (e_cli E) ms w)) \<and>
     (\<forall>h w. clk w \<le> clk (snd (TransactionReceipt (e_cli E) h w))) \<and>
     (\<forall>a w. clk w \<le> clk (snd (BalanceAt (e_cli E) a w)))"

lemma sec_bound: "\<not> k < t div 1000 - st \<Longrightarrow> t < (st + (k + 1)) * (1000::int)"
proof -
  assume "\<not> k < t div 1000 - st"
  moreover have "t div 1000 * 1000 + t mod 1000 = t" "t mod 1000 < 1000" by simp_all
  ultimately show ?thesis by (simp only: distrib_right)
qed

lemma await_receipt_returns:
  assumes "clock_runs E clk"
  shows "\<exists>x. await_receipt E h st w = Some x"
proof (induction "nat ((st + 101) * 1000 - clk w)" arbitrary: w rule: less_induct)
  case less
  obtain r w1 where r: "TransactionReceipt (e_cli E) h w = (r, w1)" by (cases "TransactionReceipt (e_cli E) h w")
  define w2 where "w2 = Elapse (e_cli E) 100 w1"
  have up: "clk w + 100 \<le> clk w2"
    using assms r unfolding clock_runs_def w2_def by (metis add_mono order_trans snd_conv of_nat_numeral add_le_cancel_right)
  have now: "unixNow E w2 = clk w2 div 1000" using assms by (simp add: clock_runs_def)
  show ?case
  proof (cases "unixNow E w2 - st > 100")
    case True
    then show ?thesis using r by (subst await_receipt.simps) (auto simp: w2_def Let_def split: sum.split)
  next
    case False
    then have "clk w2 < (st + 101) * 1000" using sec_bound [of 100 "clk w2" st] now by simp
    with up have "nat ((st + 101) * 1000 - clk w2) < nat ((st + 101) * 1000 - clk w)" by linarith
    from less [OF this] show ?thesis using r False
      by (subst await_receipt.simps) (auto simp: w2_def [symmetric] Let_def split: sum.split)
  qed
qed

lemma await_balance_returns:
  assumes "clock_runs E clk"
  shows "\<exists>x. await_balance E a ex st w = Some x"
proof (induction "nat ((st + 11) * 1000 - clk w)" arbitrary: w rule: less_induct)
  case less
  obtain r w1 where r: "CheckBalance (e_cli E) a ex w = (r, w1)" by (cases "CheckBalance (e_cli E) a ex w")
  define w2 where "w2 = Elapse (e_cli E) 100 w1"
  have "w1 = snd (BalanceAt (e_cli E) (acc_address a) w)"
    using r by (auto simp: CheckBalance_def GetBalance_def split: prod.splits option.splits sum.splits)
  then have "clk w \<le> clk w1" using assms by (simp add: clock_runs_def)
  moreover have "clk w1 + 100 \<le> clk w2" using assms unfolding clock_runs_def w2_def by (metis of_nat_numeral)
  ultimately have up: "clk w + 100 \<le> clk w2" by linarith
  have now: "unixNow E w2 = clk w2 div 1000" using assms by (simp add: clock_runs_def)
  show ?case
  proof (cases "unixNow E w2 - st > 10")
    case True
    then show ?thesis using r
      by (subst await_balance.simps) (auto simp: w2_def Let_def split: outcome.split)
  next
    case False
    then have "clk w2 < (st + 11) * 1000" using sec_bound [of 10 "clk w2" st] now by simp
    with up have "nat ((st + 11) * 1000 - clk w2) < nat ((st + 11) * 1000 - clk w)" by linarith
    from less [OF this] show ?thesis using r False
      by (subst await_balance.simps) (auto simp: w2_def [symmetric] Let_def split: outcome.split)
  qed
qed

definition p_total :: "('w, 'r) prun \<Rightarrow> bool" where
  "p_total m \<longleftrightarrow> (\<forall>s. m s \<noteq> None)"

lemma total_lift: "p_total (p_lift m)"
  by (simp add: p_total_def p_lift_def)

lemma total_bind: "p_total m \<Longrightarrow> (\<And>x. p_total (k x)) \<Longrightarrow> p_total (p_bind m k)"
  unfolding p_total_def p_bind_def by (auto split: option.split outcome.split)

lemma total_world: "(\<And>w. \<exists>x. f w = Some x) \<Longrightarrow> p_total (p_world f)"
  unfolding p_total_def p_world_def by (auto split: option.split)

lemma transferAndCheck_returns:
  assumes "clock_runs E clk"
  shows "\<exists>x. transferAndCheck E R to from v s = Some x"
proof -
  have bal: "p_total (p_balance E r ex)" for r ex
    unfolding p_balance_def
    by (intro total_bind total_lift total_world await_balance_returns [OF assms])
  have "p_total (transfer_body E to from v)"
    unfolding transfer_body_def settle_def check_balances_def case_prod_beta
    by (auto intro!: total_bind total_lift total_world await_receipt_returns [OF assms] bal
        simp: Let_def split: option.split)
  then have "transfer_body E to from v s1 \<noteq> None" for s1 by (simp add: p_total_def)
  then show ?thesis
    by (auto simp: transferAndCheck_def with_both_def Let_def p_bind_def p_lift_def
        split: prod.split outcome.split option.split) (metis surj_pair)
qed

section \<open>What a passed check saw\<close>

lemma await_receipt_saw:
  "await_receipt E h st w = Some y \<Longrightarrow>
   fst y = Some rc \<longrightarrow> (\<exists>w1. fst (TransactionReceipt (e_cli E) h w1) = Inr rc)"
proof (erule await_receipt.raw_induct [where P = "\<lambda>E h st w y. fst y = Some rc \<longrightarrow>
    (\<exists>w1. fst (TransactionReceipt (e_cli E) h w1) = Inr rc)", rotated], goal_cases)
  case (1 f E h st w y)
  obtain r w1 where r: "TransactionReceipt (e_cli E) h w = (r, w1)" by (cases "TransactionReceipt (e_cli E) h w")
  then have "\<exists>w1. fst (TransactionReceipt (e_cli E) h w1) = r" by (metis fst_conv)
  with 1(2) r show ?case
    by (auto simp: Let_def split: sum.splits if_splits dest: 1(1))
qed

lemma await_balance_saw:
  "await_balance E a ex st w = Some y \<Longrightarrow>
   fst y = Ret True \<longrightarrow> (\<exists>w1. fst (BalanceAt (e_cli E) (acc_address a) w1) = Inr ex)"
proof (erule await_balance.raw_induct [where P = "\<lambda>E a ex st w y. fst y = Ret True \<longrightarrow>
    (\<exists>w1. fst (BalanceAt (e_cli E) (acc_address a) w1) = Inr ex)", rotated], goal_cases)
  case (1 f E a ex st w y)
  have "fst (BalanceAt (e_cli E) (acc_address a) w) = Inr ex"
    if "CheckBalance (e_cli E) a ex w = (Ret None, w1)" for w1
    using that by (auto simp: CheckBalance_def GetBalance_def split: prod.splits option.splits sum.splits if_splits)
  with 1(2) show ?case
    by (auto simp: Let_def split: prod.splits outcome.splits if_splits dest: 1(1))
qed

lemma p_bind_Ret:
  "p_bind m k s = Some (Ret y, s') \<longleftrightarrow> (\<exists>x s1. m s = Some (Ret x, s1) \<and> k x s1 = Some (Ret y, s'))"
  by (auto simp: p_bind_def split: option.splits outcome.splits)

lemma p_balance_saw:
  assumes "p_balance E r ex s = Some (Ret True, s')"
  shows "accs (tc_proc s') = accs (tc_proc s) \<and>
     (\<exists>w1. fst (BalanceAt (e_cli E) (acc_address (accs (tc_proc s) r)) w1) = Inr ex)"
  using assms
  by (auto simp: p_balance_def p_bind_Ret p_lift_def t_now_def t_account_def t_get_def t_out_def
      p_world_def set_wld_def split: option.splits dest!: await_balance_saw)

lemma check_balances_saw:
  assumes "check_balances E to from same b s = Some (Ret None, s')"
  shows "(\<exists>w1. fst (BalanceAt (e_cli E) (acc_address (accs (tc_proc s) from)) w1) = Inr (fst b)) \<and>
     (same \<or> (\<exists>w1. fst (BalanceAt (e_cli E) (acc_address (accs (tc_proc s) to)) w1) = Inr (snd b)))"
proof -
  from assms obtain okF s1 where f: "p_balance E from (fst b) s = Some (Ret okF, s1)"
    and rest: "(if \<not> okF then p_lift (t_ret (Some
       ''Time out (from) : It took more than 10 seconds to retrieve the correct receipt ''))
     else if same then p_lift (t_ret None)
     else p_bind (p_balance E to (snd b)) (\<lambda>okTo.
       p_lift (t_ret (if okTo then None else Some
         ''Time out (to) : It took more than 10 seconds to retrieve the correct receipt '')))) s1 = Some (Ret None, s')"
    unfolding check_balances_def p_bind_Ret by blast
  from rest have okF: "okF" by (auto simp: p_lift_def t_ret_def split: if_splits)
  with f have "p_balance E from (fst b) s = Some (Ret True, s1)" by simp
  from p_balance_saw [OF this] have F: "accs (tc_proc s1) = accs (tc_proc s)"
    "\<exists>w1. fst (BalanceAt (e_cli E) (acc_address (accs (tc_proc s) from)) w1) = Inr (fst b)"
    by blast+
  have "\<exists>w1. fst (BalanceAt (e_cli E) (acc_address (accs (tc_proc s) to)) w1) = Inr (snd b)" if "\<not> same"
  proof -
    from rest okF that obtain s2 where "p_balance E to (snd b) s1 = Some (Ret True, s2)"
      by (auto simp: p_bind_Ret p_lift_def t_ret_def split: if_splits)
    from p_balance_saw [OF this] F(1) show ?thesis by simp
  qed
  with F(2) show ?thesis by blast
qed

text \<open>
  The node accepted the transfer (with hash \<open>h\<close> and gas price \<open>gp\<close>), reported both balances before,
  the receipt, and afterwards the balances the transfer must lead to.
\<close>

definition sent_with :: "('tx, 'w) env \<Rightarrow> addr \<Rightarrow> addr \<Rightarrow> int \<Rightarrow> hash \<Rightarrow> int \<Rightarrow> bool" where
  "sent_with E fa ta v h gp \<longleftrightarrow>
     (\<exists>a to w a' w'. acc_address a = fa \<and> acc_address to = ta \<and>
        TransferSignedTxWithoutLock (e_lib E) (e_cli E) (e_glob E) to (Some v) None a w
          = (Ret (h, gp, None), a', w'))"

definition saw_balance :: "('tx, 'w) env \<Rightarrow> addr \<Rightarrow> int \<Rightarrow> bool" where
  "saw_balance E a b \<longleftrightarrow> (\<exists>w. fst (BalanceAt (e_cli E) a w) = Inr b)"

lemma transfer_body_saw:
  assumes run: "transfer_body E to from v s = Some (Ret None, s')"
    and addr: "fa = acc_address (accs (tc_proc s) from)" "ta = acc_address (accs (tc_proc s) to)"
  shows "\<exists>fb tb h gp rc w. saw_balance E fa fb \<and> saw_balance E ta tb \<and> sent_with E fa ta v h gp \<and>
     fst (TransactionReceipt (e_cli E) h w) = Inr rc \<and>
     saw_balance E fa (fb - (if ta = fa then 0 else v) - sint (rc_gasUsed rc) * gp) \<and>
     (ta \<noteq> fa \<longrightarrow> saw_balance E ta (tb + v))"
proof -
  let ?fa = "accs (tc_proc s) from" and ?ta = "accs (tc_proc s) to"
  from run obtain of1 e1 s1 of2 e2 s2 h gp s3 orc s5 where
    b1: "t_world (GetBalance (e_cli E) ?fa) s = (Ret (of1, e1), s1)" and
    b2: "t_world (GetBalance (e_cli E) ?ta) s1 = (Ret (of2, e2), s2)" and
    send: "t_acc from (TransferSignedTxWithoutLock (e_lib E) (e_cli E) (e_glob E) ?ta (Some v) None) s2
      = (Ret (h, gp, None), s3)" and
    rc0: "p_world (await_receipt E h (unixNow E (t_wld s3))) s3 = Some (Ret orc, s5)" and
    fin0: "settle E to from v (GetAddress ?ta = GetAddress ?fa) of1 of2 gp orc s5 = Some (Ret None, s')"
    unfolding transfer_body_def p_bind_Ret case_prod_beta
    by (auto simp: p_bind_Ret p_lift_def t_account_def t_get_def t_now_def t_ret_def split: option.splits)
  from fin0 obtain rc fb tb where ft: "orc = Some rc" "of1 = Some fb" "of2 = Some tb"
    and fin: "check_balances E to from (ta = fa) (expected_balances (ta = fa) fb tb v rc gp) s5 = Some (Ret None, s')"
    using addr by (auto simp: settle_def p_lift_def t_ret_def t_out_def GetAddress_def split: option.splits)
  from rc0 ft have rc: "p_world (await_receipt E h (unixNow E (t_wld s3))) s3 = Some (Ret (Some rc), s5)" by simp
  have w1: "accs (tc_proc s2) = accs (tc_proc s)"
    using b1 b2 by (auto simp: t_world_def set_wld_def split: prod.splits)
  have w2: "identity (accs (tc_proc s3) x) = identity (accs (tc_proc s) x)" for x
    using send w1 op_body.body_identity [OF WithoutLock_body]
    by (fastforce simp: t_acc_def Let_def split: prod.splits)
  have w3: "accs (tc_proc s5) = accs (tc_proc s3)"
    using rc by (auto simp: p_world_def set_wld_def split: option.splits)
  have ad: "acc_address (accs (tc_proc s5) x) = acc_address (accs (tc_proc s) x)" for x
    using w2 [of x] w3 by (simp add: identity_def)
  have before: "saw_balance E fa fb" "saw_balance E ta tb"
    using b1 b2 ft addr unfolding saw_balance_def
    by (auto simp: t_world_def GetBalance_def split: prod.splits sum.splits) (metis fst_conv)+
  have sent: "sent_with E fa ta v h gp"
    using send w1 addr unfolding sent_with_def
    by (auto simp: t_acc_def Let_def split: prod.splits) metis
  obtain w where got: "fst (TransactionReceipt (e_cli E) h w) = Inr rc"
    using rc by (auto simp: p_world_def split: option.splits dest!: await_receipt_saw [where rc = rc])
  have "saw_balance E fa (fb - (if ta = fa then 0 else v) - sint (rc_gasUsed rc) * gp)"
    "ta \<noteq> fa \<longrightarrow> saw_balance E ta (tb + v)"
    using addr check_balances_saw [OF fin, unfolded ad]
    by (auto simp: saw_balance_def expected_balances_def Let_def)
  with before sent got show ?thesis by blast
qed

lemma lock_refs_identity:
  "lock_refs rs s = (r, s') \<Longrightarrow> acc_address (accs (tc_proc s') x) = acc_address (accs (tc_proc s) x)"
  by (induction rs arbitrary: s)
    (auto simp: t_ret_def t_bind_def t_mutex_def Lock_def Let_def split: prod.splits outcome.splits if_splits)

lemma transferAndCheck_saw:
  assumes run: "transferAndCheck E R to from v s = Some (Ret None, s')"
    and addr: "fa = acc_address (accs (tc_proc s) from)" "ta = acc_address (accs (tc_proc s) to)"
  shows "\<exists>fb tb h gp rc w. saw_balance E fa fb \<and> saw_balance E ta tb \<and> sent_with E fa ta v h gp \<and>
     fst (TransactionReceipt (e_cli E) h w) = Inr rc \<and>
     saw_balance E fa (fb - (if ta = fa then 0 else v) - sint (rc_gasUsed rc) * gp) \<and>
     (ta \<noteq> fa \<longrightarrow> saw_balance E ta (tb + v))"
proof -
  from run obtain s1 s2 where "lock_refs (lock_order (ref_text R s) to from) s = (Ret (), s1)"
    and body: "transfer_body E to from v s1 = Some (Ret None, s2)"
    by (auto simp: transferAndCheck_def with_both_def Let_def p_bind_Ret p_lift_def dest: t_deferred_Ret)
  from lock_refs_identity [OF this(1)] addr transfer_body_saw [OF body, of fa ta]
  show ?thesis by simp
qed

end
