(* ===== verification/Tc_List.thy ===== *)
theory Tc_List
  imports Run_Read Run_Receipt
begin

text \<open>
  \<open>testcase/tclist.go\<close>: the names of the test cases and the table \<open>TcList\<close>. The table is a Go map
  from names to tasks; here it is the list of its entries, and \<open>TcList_lookup\<close> is the access by
  name. Every entry has the same \<open>Init\<close>, which is \<open>tc_Init\<close> of \<open>Test_Case\<close>; \<open>Run\<close> gives the closure
  for a configuration. \<open>A\<close> is the auction library, \<open>arrive\<close> the order in which concurrent bids arrive.
\<close>

section \<open>Names\<close>

abbreviation NewValueTransferTCName :: string where "NewValueTransferTCName \<equiv> ''newValueTransferTC''"

abbreviation NewValueTransferMemoTCName :: string where "NewValueTransferMemoTCName \<equiv> ''newValueTransferMemoTC''"

abbreviation NewSmartContractExecutionTCName :: string where "NewSmartContractExecutionTCName \<equiv> ''newSmartContractExecutionTC''"

abbreviation Erc20TransferTCName :: string where "Erc20TransferTCName \<equiv> ''erc20TransferTC''"

abbreviation Erc20TransferWithBlockedListTCName :: string where "Erc20TransferWithBlockedListTCName \<equiv> ''erc20TransferWithBlockedListTC''"

abbreviation CpuHeavyTCName :: string where "CpuHeavyTCName \<equiv> ''cpuHeavyTC''"

abbreviation NewFeeDelegatedValueTransferTCName :: string where "NewFeeDelegatedValueTransferTCName \<equiv> ''newFeeDelegatedValueTransferTC''"

abbreviation NewFeeDelegatedValueTransferWithRatioTCName :: string where "NewFeeDelegatedValueTransferWithRatioTCName \<equiv> ''newFeeDelegatedValueTransferWithRatioTC''"

abbreviation NewFeeDelegatedValueTransferMemoTCName :: string where "NewFeeDelegatedValueTransferMemoTCName \<equiv> ''newFeeDelegatedValueTransferMemoTC''"

abbreviation NewFeeDelegatedValueTransferMemoWithRatioTCName :: string where "NewFeeDelegatedValueTransferMemoWithRatioTCName \<equiv> ''newFeeDelegatedValueTransferMemoWithRatioTC''"

abbreviation NewFeeDelegatedSmartContractDeployTCName :: string where "NewFeeDelegatedSmartContractDeployTCName \<equiv> ''newFeeDelegatedSmartContractDeployTC''"

abbreviation NewFeeDelegatedSmartContractDeployWithRatioTCName :: string where "NewFeeDelegatedSmartContractDeployWithRatioTCName \<equiv> ''newFeeDelegatedSmartContractDeployWithRatioTC''"

abbreviation NewFeeDelegatedSmartContractExecutionTCName :: string where "NewFeeDelegatedSmartContractExecutionTCName \<equiv> ''newFeeDelegatedSmartContractExecutionTC''"

abbreviation NewFeeDelegatedSmartContractExecutionWithRatioTCName :: string where "NewFeeDelegatedSmartContractExecutionWithRatioTCName \<equiv> ''newFeeDelegatedSmartContractExecutionWithRatioTC''"

abbreviation NewValueTransferWithCancelTCName :: string where "NewValueTransferWithCancelTCName \<equiv> ''newValueTransferWithCancelTC''"

abbreviation NewValueTransferLargeMemoTCName :: string where "NewValueTransferLargeMemoTCName \<equiv> ''newValueTransferLargeMemoTC''"

abbreviation NewValueTransferSmallMemoTCName :: string where "NewValueTransferSmallMemoTCName \<equiv> ''newValueTransferSmallMemoTC''"

abbreviation NewCancelTCName :: string where "NewCancelTCName \<equiv> ''newCancelTC''"

abbreviation NewFeeDelegatedCancelTCName :: string where "NewFeeDelegatedCancelTCName \<equiv> ''newFeeDelegatedCancelTC''"

abbreviation NewFeeDelegatedCancelWithRatioTCName :: string where "NewFeeDelegatedCancelWithRatioTCName \<equiv> ''newFeeDelegatedCancelWithRatioTC''"

abbreviation NewSmartContractDeployTCName :: string where "NewSmartContractDeployTCName \<equiv> ''newSmartContractDeployTC''"

abbreviation LargeMemoTCName :: string where "LargeMemoTCName \<equiv> ''largeMemoTC''"

abbreviation Erc721TransferTCName :: string where "Erc721TransferTCName \<equiv> ''erc721TransferTC''"

abbreviation AuctionBidTCName :: string where "AuctionBidTCName \<equiv> ''auctionBidTC''"

abbreviation AuctionRevertedBidTCName :: string where "AuctionRevertedBidTCName \<equiv> ''auctionRevertedBidTC''"

abbreviation GaslessTransactionTCName :: string where "GaslessTransactionTCName \<equiv> ''gaslessTransactionTC''"

abbreviation GaslessRevertTransactionTCName :: string where "GaslessRevertTransactionTCName \<equiv> ''gaslessRevertTransactionTC''"

abbreviation GaslessOnlyApproveTCName :: string where "GaslessOnlyApproveTCName \<equiv> ''gaslessOnlyApproveTC''"

abbreviation ReadGasPriceTCName :: string where "ReadGasPriceTCName \<equiv> ''readGasPrice''"

abbreviation ReadBlockNumberTCName :: string where "ReadBlockNumberTCName \<equiv> ''readBlockNumber''"

abbreviation ReadGetBlockByNumberTCName :: string where "ReadGetBlockByNumberTCName \<equiv> ''readGetBlockByNumber''"

abbreviation ReadGetAccountTCName :: string where "ReadGetAccountTCName \<equiv> ''readGetAccount''"

abbreviation ReadGetBlockWithConsensusInfoByNumberTCName :: string where "ReadGetBlockWithConsensusInfoByNumberTCName \<equiv> ''readGetBlockWithConsensusInfoByNumber''"

abbreviation ReadGetStorageAtTCName :: string where "ReadGetStorageAtTCName \<equiv> ''readGetStorageAt''"

abbreviation ReadCallTCName :: string where "ReadCallTCName \<equiv> ''readCall''"

abbreviation ReadEstimateGasTCName :: string where "ReadEstimateGasTCName \<equiv> ''readEstimateGas''"

abbreviation InternalTxTCName :: string where "InternalTxTCName \<equiv> ''internalTxTC''"

abbreviation MintNFTTCName :: string where "MintNFTTCName \<equiv> ''mintNFTTC''"

abbreviation StorageTrieWriteTCName :: string where "StorageTrieWriteTCName \<equiv> ''storageTrieWriteTC''"

abbreviation UserStorageSetTCName :: string where "UserStorageSetTCName \<equiv> ''userStorageSetTC''"

abbreviation UserStorageSetGetTCName :: string where "UserStorageSetGetTCName \<equiv> ''userStorageSetGetTC''"

abbreviation NewAccountUpdateTCName :: string where "NewAccountUpdateTCName \<equiv> ''newAccountUpdateTC''"

abbreviation NewFeeDelegatedAccountUpdateTCName :: string where "NewFeeDelegatedAccountUpdateTCName \<equiv> ''newFeeDelegatedAccountUpdateTC''"

abbreviation NewFeeDelegatedAccountUpdateWithRatioTCName :: string where "NewFeeDelegatedAccountUpdateWithRatioTCName \<equiv> ''newFeeDelegatedAccountUpdateWithRatioTC''"

abbreviation TransferSignedTCName :: string where "TransferSignedTCName \<equiv> ''transferSignedTx''"

abbreviation TransferUnsignedTCName :: string where "TransferUnsignedTCName \<equiv> ''transferUnsignedTx''"

abbreviation ReceiptCheckTCName :: string where "ReceiptCheckTCName \<equiv> ''receiptCheckTx''"

abbreviation TransferSignedWithCheckTCName :: string where "TransferSignedWithCheckTCName \<equiv> ''transferSignedWithCheckTx''"

abbreviation EthereumTxLegacyTCName :: string where "EthereumTxLegacyTCName \<equiv> ''ethereumTxLegacyTC''"

abbreviation EthereumTxAccessListTCName :: string where "EthereumTxAccessListTCName \<equiv> ''ethereumTxAccessListTC''"

abbreviation EthereumTxDynamicFeeTCName :: string where "EthereumTxDynamicFeeTCName \<equiv> ''ethereumTxDynamicFeeTC''"

abbreviation NewEthereumAccessListTCName :: string where "NewEthereumAccessListTCName \<equiv> ''newEthereumAccessListTC''"

abbreviation NewEthereumDynamicFeeTCName :: string where "NewEthereumDynamicFeeTCName \<equiv> ''newEthereumDynamicFeeTC''"

text \<open>The keys of the table, which is what the configuration looks at.\<close>

definition TcNames :: "string list" where
  "TcNames = [
     NewValueTransferTCName, NewValueTransferMemoTCName, NewSmartContractExecutionTCName,
     Erc20TransferTCName, Erc20TransferWithBlockedListTCName, CpuHeavyTCName,
     NewFeeDelegatedValueTransferTCName, NewFeeDelegatedValueTransferWithRatioTCName, NewFeeDelegatedValueTransferMemoTCName,
     NewFeeDelegatedValueTransferMemoWithRatioTCName, NewFeeDelegatedSmartContractDeployTCName, NewFeeDelegatedSmartContractDeployWithRatioTCName,
     NewFeeDelegatedSmartContractExecutionTCName, NewFeeDelegatedSmartContractExecutionWithRatioTCName, NewValueTransferWithCancelTCName,
     NewValueTransferLargeMemoTCName, NewValueTransferSmallMemoTCName, NewCancelTCName,
     NewFeeDelegatedCancelTCName, NewFeeDelegatedCancelWithRatioTCName, NewSmartContractDeployTCName,
     LargeMemoTCName, Erc721TransferTCName, AuctionBidTCName,
     AuctionRevertedBidTCName, GaslessTransactionTCName, GaslessRevertTransactionTCName,
     GaslessOnlyApproveTCName, ReadGasPriceTCName, ReadBlockNumberTCName,
     ReadGetBlockByNumberTCName, ReadGetAccountTCName, ReadGetBlockWithConsensusInfoByNumberTCName,
     ReadGetStorageAtTCName, ReadCallTCName, ReadEstimateGasTCName,
     InternalTxTCName, MintNFTTCName, StorageTrieWriteTCName,
     UserStorageSetTCName, UserStorageSetGetTCName, NewAccountUpdateTCName,
     NewFeeDelegatedAccountUpdateTCName, NewFeeDelegatedAccountUpdateWithRatioTCName, TransferSignedTCName,
     TransferUnsignedTCName, ReceiptCheckTCName, TransferSignedWithCheckTCName,
     EthereumTxLegacyTCName, EthereumTxAccessListTCName, EthereumTxDynamicFeeTCName,
     NewEthereumAccessListTCName, NewEthereumDynamicFeeTCName]"

section \<open>The table\<close>

record 'w ExtendedTask =
  et_Name :: string
  et_Weight :: int
  et_Run :: "TCConfig \<Rightarrow> ('w, unit) prun"
  et_TestContracts :: "TestContract list"

definition task :: "string \<Rightarrow> (TCConfig \<Rightarrow> ('w, unit) trun) \<Rightarrow> TestContract list \<Rightarrow> 'w ExtendedTask" where
  "task name run cs = \<lparr>et_Name = name, et_Weight = 10, et_Run = (\<lambda>cfg. p_lift (run cfg)),
     et_TestContracts = cs\<rparr>"

definition task_p :: "string \<Rightarrow> (TCConfig \<Rightarrow> ('w, unit) prun) \<Rightarrow> TestContract list \<Rightarrow> 'w ExtendedTask" where
  "task_p name run cs = \<lparr>et_Name = name, et_Weight = 10, et_Run = run, et_TestContracts = cs\<rparr>"

definition TcList_1 :: "('tx, 'w) env \<Rightarrow> 'w ExtendedTask list" where
  "TcList_1 E = [
     task NewValueTransferTCName (RunNewValueTransferTC E) [],
     task NewValueTransferMemoTCName (RunNewValueTransferMemoTC E) [],
     task NewSmartContractExecutionTCName (RunNewSmartContractExecutionTC E) [ContractGeneral],
     task Erc20TransferTCName (RunErc20TransferTC E) [ContractErc20],
     task Erc20TransferWithBlockedListTCName (RunErc20TransferWithBlockedListTC E) [ContractTetherProxy, ContractTetherLogic],
     task CpuHeavyTCName (RunCpuHeavyTC E) [ContractCPUHeavy],
     task NewFeeDelegatedValueTransferTCName (RunNewFeeDelegatedValueTransferTC E) [],
     task NewFeeDelegatedValueTransferWithRatioTCName (RunNewFeeDelegatedValueTransferWithRatioTC E) [],
     task NewFeeDelegatedValueTransferMemoTCName (RunNewFeeDelegatedValueTransferMemoTC E) [],
     task NewFeeDelegatedValueTransferMemoWithRatioTCName (RunNewFeeDelegatedValueTransferMemoWithRatioTC E) [],
     task NewFeeDelegatedSmartContractDeployTCName (RunNewFeeDelegatedSmartContractDeployTC E) [],
     task NewFeeDelegatedSmartContractDeployWithRatioTCName (RunNewFeeDelegatedSmartContractDeployWithRatioTC E) [],
     task NewFeeDelegatedSmartContractExecutionTCName (RunNewFeeDelegatedSmartContractExecutionTC E) [ContractGeneral],
     task NewFeeDelegatedSmartContractExecutionWithRatioTCName (RunNewFeeDelegatedSmartContractExecutionWithRatioTC E) [ContractGeneral],
     task NewValueTransferWithCancelTCName (RunNewValueTransferWithCancelTC E) [],
     task NewValueTransferLargeMemoTCName (RunNewValueTransferLargeMemoTC E) [],
     task NewValueTransferSmallMemoTCName (RunNewValueTransferSmallMemoTC E) [],
     task NewCancelTCName (RunNewCancelTC E) [],
     task NewFeeDelegatedCancelTCName (RunNewFeeDelegatedCancelTC E) [],
     task NewFeeDelegatedCancelWithRatioTCName (RunNewFeeDelegatedCancelWithRatioTC E) [],
     task NewSmartContractDeployTCName (RunNewSmartContractDeployTC E) []]"

definition TcList_2 :: "('tx, 'w) env \<Rightarrow> ('tx, 'w) auction_lib \<Rightarrow> nat list \<Rightarrow> 'w reader \<Rightarrow> 'w ExtendedTask list" where
  "TcList_2 E A arrive R = [
     task LargeMemoTCName (RunLargeMemoTC E) [ContractLargeMemo],
     task Erc721TransferTCName (RunErc721TransferTC E) [ContractErc721],
     task AuctionBidTCName (RunAuctionBidTC E A arrive) [ContractAuctionEntryPoint, ContractCounterForTestAuction],
     task AuctionRevertedBidTCName (RunAuctionRevertedBidTC E A) [ContractAuctionEntryPoint, ContractCounterForTestAuction],
     task GaslessTransactionTCName (RunGaslessTransactionTC E) [ContractGaslessToken, ContractGaslessSwapRouter],
     task GaslessRevertTransactionTCName (RunGaslessRevertTransactionTC E) [ContractGaslessToken, ContractGaslessSwapRouter],
     task GaslessOnlyApproveTCName (RunGaslessOnlyApproveTC E) [ContractGaslessToken, ContractGaslessSwapRouter],
     task ReadGasPriceTCName (RunGasPrice E) [],
     task ReadBlockNumberTCName (RunBlockNumber E) [],
     task ReadGetBlockByNumberTCName (RunGetBlockByNumber E R) [],
     task ReadGetAccountTCName (RunGetAccount E R) [],
     task ReadGetBlockWithConsensusInfoByNumberTCName (RunGetBlockWithConsensusInfoByNumber E R) [],
     task ReadGetStorageAtTCName (RunGetStorageAt E R) [ContractReadApiCallContract],
     task ReadCallTCName (RunCall E R) [ContractReadApiCallContract],
     task ReadEstimateGasTCName (RunEstimateGas E R) [ContractReadApiCallContract],
     task InternalTxTCName (RunInternalTxTC E) [ContractInternalTxMain],
     task MintNFTTCName (RunMintNFTTC E) [ContractInternalTxKIP17],
     task StorageTrieWriteTCName (RunStorageTrieWriteTC E) [ContractStorageTrie],
     task UserStorageSetTCName (RunUserStorageSetTC E) [ContractUserStorage],
     task UserStorageSetGetTCName (RunUserStorageSetGetTC E) [ContractUserStorage],
     task NewAccountUpdateTCName (RunNewAccountUpdateTC E) []]"

definition TcList_3 :: "('tx, 'w) env \<Rightarrow> 'w reader \<Rightarrow> 'w ExtendedTask list" where
  "TcList_3 E R = [
     task NewFeeDelegatedAccountUpdateTCName (RunNewFeeDelegatedAccountUpdateTC E) [],
     task NewFeeDelegatedAccountUpdateWithRatioTCName (RunNewFeeDelegatedAccountUpdateWithRatioTC E) [],
     task TransferSignedTCName (RunTransferSignedTC E) [],
     task TransferUnsignedTCName (RunTransferUnsignedTC E) [],
     task ReceiptCheckTCName (RunReceiptCheckTC E) [],
     task_p TransferSignedWithCheckTCName (RunTransferSignedWithCheckTC E R) [],
     task EthereumTxLegacyTCName (RunEthereumTxLegacyTC E) [ContractGeneral],
     task EthereumTxAccessListTCName (RunEthereumTxAccessListTC E) [ContractGeneral],
     task EthereumTxDynamicFeeTCName (RunEthereumTxDynamicFeeTC E) [ContractGeneral],
     task NewEthereumAccessListTCName (RunNewEthereumAccessListTC E) [ContractGeneral],
     task NewEthereumDynamicFeeTCName (RunNewEthereumDynamicFeeTC E) [ContractGeneral]]"

definition TcList :: "('tx, 'w) env \<Rightarrow> ('tx, 'w) auction_lib \<Rightarrow> nat list \<Rightarrow> 'w reader
    \<Rightarrow> 'w ExtendedTask list" where
  "TcList E A arrive R = TcList_1 E @ TcList_2 E A arrive R @ TcList_3 E R"

definition TcList_lookup :: "('tx, 'w) env \<Rightarrow> ('tx, 'w) auction_lib \<Rightarrow> nat list \<Rightarrow> 'w reader \<Rightarrow> string
    \<Rightarrow> 'w ExtendedTask option" where
  "TcList_lookup E A arrive R name = find (\<lambda>t. et_Name t = name) (TcList E A arrive R)"

section \<open>Lemmas\<close>

lemmas TcList_defs = TcList_def TcList_1_def TcList_2_def TcList_3_def task_def task_p_def

lemma TcList_names_distinct: "distinct (map et_Name (TcList E A arrive R))"
  by (simp add: TcList_defs)

lemma TcList_names: "map et_Name (TcList E A arrive R) = TcNames"
  by (simp add: TcList_defs TcNames_def)

lemma TcList_length: "length (TcList E A arrive R) = 53"
  by (simp add: TcList_defs)

text \<open>Looking a task up by its name finds it, as in a map whose keys are the names.\<close>

lemma find_distinct: "distinct (map k xs) \<Longrightarrow> x \<in> set xs \<Longrightarrow> find (\<lambda>t. k t = k x) xs = Some x"
  by (induction xs) (auto simp: image_iff)

lemma TcList_lookup_mem: "t \<in> set (TcList E A arrive R) \<Longrightarrow> TcList_lookup E A arrive R (et_Name t) = Some t"
  unfolding TcList_lookup_def by (rule find_distinct [OF TcList_names_distinct])

lemma TcList_lookup_None: "TcList_lookup E A arrive R name = None \<longleftrightarrow> name \<notin> set TcNames"
  unfolding TcList_lookup_def by (simp add: find_None_iff flip: TcList_names [of E A arrive R]) blast

lemma TcList_lookup_Some: "TcList_lookup E A arrive R name = Some t \<Longrightarrow> t \<in> set (TcList E A arrive R) \<and> et_Name t = name"
  unfolding TcList_lookup_def by (auto simp: find_Some_iff)

end
