(* ===== verification/Configuration.thy ===== *)
theory Configuration
  imports Tc_List
begin

text \<open>
  \<open>klayslave/config/config.go\<close> and \<open>klayslave/config/version.go\<close>: the command line flags, the
  configuration read from them and from the node, and the tasks it selects.

  The command line library is external: \<open>flag_ctx\<close> is what \<open>ctx.Int\<close>, \<open>ctx.String\<close> and \<open>ctx.Bool\<close>
  answer for a flag's name. The RPC clients \<open>gCli\<close> and \<open>ethCli\<close> of the struct are the client of the
  environment and are no fields here. An \<open>int\<close> of Go is an \<open>int\<close>; \<open>Atoi\<close> keeps it to 64 bits.
\<close>

section \<open>Flags\<close>

datatype cli_flag = StringFlag string string | IntFlag string int | BoolFlag string

fun flag_name :: "cli_flag \<Rightarrow> string" where
  "flag_name (StringFlag n v) = n"
| "flag_name (IntFlag n v) = n"
| "flag_name (BoolFlag n) = n"

definition Flags :: "cli_flag list" where
  "Flags = [
     StringFlag ''endpoint'' ''http://localhost:8551'',
     IntFlag ''vusigned'' 5,
     IntFlag ''vuunsigned'' 5,
     IntFlag ''activeUserPercent'' 100,
     IntFlag ''charge'' 1000000000,
     IntFlag ''chargeParallel'' 0,
     IntFlag ''maxidleconns'' 100,
     IntFlag ''nUserForTC'' 0,
     StringFlag ''key'' '''',
     StringFlag ''tc'' '''',
     StringFlag ''weights'' '''',
     StringFlag ''auctionTargetTxTypeList'' '''',
     StringFlag ''testTokenAddr'' '''',
     StringFlag ''gsrAddr'' '''',
     BoolFlag ''leader'']"

definition BoomerFlags :: "cli_flag list" where
  "BoomerFlags = [IntFlag ''max-rps'' 0, StringFlag ''master-host'' '''', StringFlag ''master-port'' '''']"

record flag_ctx =
  ctx_Int :: "string \<Rightarrow> int"
  ctx_String :: "string \<Rightarrow> string"
  ctx_Bool :: "string \<Rightarrow> bool"

section \<open>The configuration\<close>

record Config =
  nUserForUnsigned :: int
  nUserForSigned :: int
  nUserForNewAccounts :: int
  nUserForTC :: int
  activeUserPercent :: int
  richWalletPrivateKey :: string
  tcNameList :: "string list"
  tcWeights :: "int list"
  auctionTargetTxTypeList :: "string list"
  chargeKLAYAmount :: int
  chargeParallelNum :: int
  gEndpoint :: string
  isLeaderSlave :: bool
  cfg_gasPrice :: int
  cfg_chainID :: int
  cfg_baseFee :: int

definition empty_config :: Config where
  "empty_config = \<lparr>nUserForUnsigned = 0, nUserForSigned = 0, nUserForNewAccounts = 0, nUserForTC = 0,
     activeUserPercent = 0, richWalletPrivateKey = [], tcNameList = [], tcWeights = [],
     auctionTargetTxTypeList = [], chargeKLAYAmount = 0, chargeParallelNum = 0, gEndpoint = [],
     isLeaderSlave = False, cfg_gasPrice = 0, cfg_chainID = 0, cfg_baseFee = 0\<rparr>"

definition direct_flags :: "flag_ctx \<Rightarrow> Config \<Rightarrow> Config" where
  "direct_flags ctx cfg = cfg\<lparr>gEndpoint := ctx_String ctx ''endpoint'',
     nUserForSigned := ctx_Int ctx ''vusigned'', nUserForUnsigned := ctx_Int ctx ''vuunsigned'',
     nUserForNewAccounts := 5, nUserForTC := ctx_Int ctx ''nUserForTC'',
     activeUserPercent := ctx_Int ctx ''activeUserPercent'', chargeKLAYAmount := ctx_Int ctx ''charge'',
     chargeParallelNum := ctx_Int ctx ''chargeParallel'', richWalletPrivateKey := ctx_String ctx ''key'',
     isLeaderSlave := ctx_Bool ctx ''leader''\<rparr>"

text \<open>A loop over the parts of a comma list that appends the known ones.\<close>

fun add_known :: "(string \<Rightarrow> bool) \<Rightarrow> string list \<Rightarrow> string list \<Rightarrow> string list" where
  "add_known known [] acc = acc"
| "add_known known (name # names) acc =
     (if \<not> known name then add_known known names acc else add_known known names (acc @ [name]))"

text \<open>The weights: the first part that is no number drops them all and ends the loop.\<close>

fun add_weights :: "string list \<Rightarrow> int list \<Rightarrow> int list" where
  "add_weights [] acc = acc"
| "add_weights (s # ss) acc = (case Atoi s of None \<Rightarrow> [] | Some i \<Rightarrow> add_weights ss (acc @ [i]))"

definition known_tc :: "string \<Rightarrow> bool" where
  "known_tc name \<longleftrightarrow> name \<in> set TcNames"

text \<open>The keys of \<open>TargetTxTypeList\<close>.\<close>

definition known_target :: "string \<Rightarrow> bool" where
  "known_target s \<longleftrightarrow> s \<in> {''VT'', ''SC'', ''rSC'', ''GAA'', ''GAS'', ''rGAA'', ''rGAS''}"

definition auction_names :: "string list" where
  "auction_names = [''auctionBidTC'', ''auctionRevertedBidTC'']"

definition setConfigsFromFlag :: "flag_ctx \<Rightarrow> Config \<Rightarrow> Config outcome" where
  "setConfigsFromFlag ctx cfg0 =
     (let cfg = direct_flags ctx cfg0 in
      if richWalletPrivateKey cfg = [] then Exit ''key argument is not defined''
      else if activeUserPercent cfg > 100 \<or> activeUserPercent cfg \<le> 0
      then Exit ''ActiveAccountPercent should be between 0 and 100''
      else
       (let names = add_known known_tc (split_at (CHR '','') (ctx_String ctx ''tc'')) (tcNameList cfg);
            weights = add_weights (split_at (CHR '','') (ctx_String ctx ''weights'')) (tcWeights cfg);
            auction = ContainsAnyInList names auction_names;
            targetText = ctx_String ctx ''auctionTargetTxTypeList''
        in
        if auction \<and> targetText = [] then Exit ''auctionTargetTxTypeList is not set''
        else
         (let targets = (if auction
                then add_known known_target (split_at (CHR '','') targetText) (auctionTargetTxTypeList cfg)
                else auctionTargetTxTypeList cfg);
              weights' = (if weights \<noteq> [] \<and> length weights \<noteq> length names then [] else weights)
          in
          if names = [] then Exit ''No valid Tc is set''
          else if auction \<and> nUserForSigned cfg < ctx_Int ctx ''max-rps''
          then Exit ''nUserForSigned must be larger than max-rps''
          else Ret (cfg\<lparr>tcNameList := names, tcWeights := weights',
                 auctionTargetTxTypeList := targets\<rparr>))))"

text \<open>
  \<open>setConfigsFromNode\<close>: dialling may end the process; the chain identity is asked for again every two
  seconds until the node answers.
\<close>

record 'w connector =
  clientDial :: "string \<Rightarrow> 'w \<Rightarrow> gerror option \<times> 'w"
  clientDialEth :: "string \<Rightarrow> 'w \<Rightarrow> gerror option \<times> 'w"
  ChainID :: "'w \<Rightarrow> (gerror + int) \<times> 'w"
  connSleep :: "nat \<Rightarrow> 'w \<Rightarrow> 'w"

partial_function (option) await_chainID :: "'w connector \<Rightarrow> 'w \<Rightarrow> (int \<times> 'w) option" where
  "await_chainID D w =
     (case ChainID D w of
        (r, w1) \<Rightarrow>
          (case r of
             Inr c \<Rightarrow> Some (c, w1)
           | Inl e \<Rightarrow> await_chainID D (connSleep D 2000 w1)))"

definition setConfigsFromNode :: "'w connector \<Rightarrow> Config \<Rightarrow> 'w \<Rightarrow> (Config outcome \<times> 'w) option" where
  "setConfigsFromNode D cfg w =
     (case clientDial D (gEndpoint cfg) w of
        (Some e, w1) \<Rightarrow> Some (Exit ''Failed to connect RPC'', w1)
      | (None, w1) \<Rightarrow>
          (case clientDialEth D (gEndpoint cfg) w1 of
             (Some e, w2) \<Rightarrow> Some (Exit ''Failed to connect RPC'', w2)
           | (None, w2) \<Rightarrow>
               (let cfg1 = cfg\<lparr>cfg_gasPrice := 750000000000, cfg_chainID := 2018, cfg_baseFee := 0\<rparr> in
                map_option (\<lambda>(c, w3). (Ret (cfg1\<lparr>cfg_chainID := c\<rparr>), w3)) (await_chainID D w2))))"

text \<open>
  \<open>NewConfig\<close> also sets the idle connections of the HTTP transport, if that is the standard one, and
  the arguments that the boomer library reads: \<open>prog\<close> is \<open>os.Args[0]\<close>.
\<close>

record http_settings =
  MaxIdleConns :: int
  MaxIdleConnsPerHost :: int

definition transport_settings :: "flag_ctx \<Rightarrow> http_settings" where
  "transport_settings ctx =
     (let maxIdleConns = ctx_Int ctx ''tc.maxidleconns'' in
      \<lparr>MaxIdleConns = maxIdleConns, MaxIdleConnsPerHost = maxIdleConns\<rparr>)"

definition setBoomerFlags :: "flag_ctx \<Rightarrow> string \<Rightarrow> string list" where
  "setBoomerFlags ctx prog =
     [prog, ''--max-rps'', int_text 10 (ctx_Int ctx ''max-rps''),
      ''--master-host'', ctx_String ctx ''master-host'',
      ''--master-port'', int_text 10 (ctx_Int ctx ''master-port'')]"

definition NewConfig :: "'w connector \<Rightarrow> flag_ctx \<Rightarrow> bool \<Rightarrow> string \<Rightarrow> 'w
    \<Rightarrow> ((Config \<times> http_settings option \<times> string list) outcome \<times> 'w) option" where
  "NewConfig D ctx standardTransport prog w =
     (case setConfigsFromFlag ctx empty_config of
        Ret cfg \<Rightarrow>
          map_option (\<lambda>(r, w1).
            (map_outcome_ret (\<lambda>cfg'. (cfg', if standardTransport then Some (transport_settings ctx) else None,
               setBoomerFlags ctx prog)) r, w1))
            (setConfigsFromNode D cfg w)
      | Exit m \<Rightarrow> Some (Exit m, w)
      | Panic m \<Rightarrow> Some (Panic m, w)
      | Block \<Rightarrow> Some (Block, w))"

section \<open>What the rest of the program reads\<close>

text \<open>The tasks; a weight given on the command line replaces the one of the table.\<close>

fun extended_tasks :: "(string \<Rightarrow> 'w ExtendedTask option) \<Rightarrow> int list \<Rightarrow> nat \<Rightarrow> string list
    \<Rightarrow> 'w ExtendedTask list" where
  "extended_tasks find_task ws i [] = []"
| "extended_tasks find_task ws i (name # names) =
     (case find_task name of
        None \<Rightarrow> extended_tasks find_task ws (i + 1) names
      | Some t \<Rightarrow> t\<lparr>et_Weight := (if length ws > i then ws ! i else et_Weight t)\<rparr>
          # extended_tasks find_task ws (i + 1) names)"

definition GetExtendedTasks :: "('tx, 'w) env \<Rightarrow> ('tx, 'w) auction_lib \<Rightarrow> nat list \<Rightarrow> 'w reader \<Rightarrow> Config
    \<Rightarrow> 'w ExtendedTask list" where
  "GetExtendedTasks E A arrive R cfg =
     extended_tasks (TcList_lookup E A arrive R) (tcWeights cfg) 0 (tcNameList cfg)"

definition GetChainID :: "Config \<Rightarrow> int" where
  "GetChainID cfg = cfg_chainID cfg"

definition GetGasPrice :: "Config \<Rightarrow> int" where
  "GetGasPrice cfg = cfg_gasPrice cfg"

definition GetBaseFee :: "Config \<Rightarrow> int" where
  "GetBaseFee cfg = cfg_baseFee cfg"

definition GetNUserForUnsigned :: "Config \<Rightarrow> int" where
  "GetNUserForUnsigned cfg = nUserForUnsigned cfg"

definition GetNUserForSigned :: "Config \<Rightarrow> int" where
  "GetNUserForSigned cfg = nUserForSigned cfg"

definition GetNUserForNewAccounts :: "Config \<Rightarrow> int" where
  "GetNUserForNewAccounts cfg = nUserForNewAccounts cfg"

definition GetNUserForTC :: "Config \<Rightarrow> int" where
  "GetNUserForTC cfg = nUserForTC cfg"

definition GetGEndpoint :: "Config \<Rightarrow> string" where
  "GetGEndpoint cfg = gEndpoint cfg"

definition GetActiveUserPercent :: "Config \<Rightarrow> int" where
  "GetActiveUserPercent cfg = activeUserPercent cfg"

definition GetTcStrList :: "Config \<Rightarrow> string list" where
  "GetTcStrList cfg = tcNameList cfg"

definition GetAuctionTargetTxTypeList :: "Config \<Rightarrow> string list" where
  "GetAuctionTargetTxTypeList cfg = auctionTargetTxTypeList cfg"

definition GetRichWalletPrivateKey :: "Config \<Rightarrow> string" where
  "GetRichWalletPrivateKey cfg = richWalletPrivateKey cfg"

definition GetChargeParallelNum :: "Config \<Rightarrow> int" where
  "GetChargeParallelNum cfg = chargeParallelNum cfg"

definition IsLeaderSlave :: "Config \<Rightarrow> bool" where
  "IsLeaderSlave cfg = isLeaderSlave cfg"

definition GetChargeValue :: "('tx, 'w) env \<Rightarrow> Config \<Rightarrow> int" where
  "GetChargeValue E cfg = chargeKLAYAmount cfg * KAIA E"

definition GetTotalChargeValue :: "('tx, 'w) env \<Rightarrow> Config \<Rightarrow> int" where
  "GetTotalChargeValue E cfg = GetChargeValue E cfg *
     (nUserForUnsigned cfg + nUserForSigned cfg + nUserForNewAccounts cfg + int ContractEnd)"

section \<open>Limits of the process\<close>

text \<open>
  \<open>SetRLimit\<close> raises the soft limit of open files to 400 * 1024 and keeps the hard limit that it read. The two
  system calls are external.
\<close>

record rlimit =
  rl_Cur :: u64
  rl_Max :: u64

record 'w rlimit_calls =
  Getrlimit :: "'w \<Rightarrow> (gerror + rlimit) \<times> 'w"
  Setrlimit :: "rlimit \<Rightarrow> 'w \<Rightarrow> gerror option \<times> 'w"

definition SetRLimit :: "'w rlimit_calls \<Rightarrow> 'w \<Rightarrow> gerror option \<times> 'w" where
  "SetRLimit K w =
     (case Getrlimit K w of
        (Inl e, w1) \<Rightarrow> (Some e, w1)
      | (Inr l, w1) \<Rightarrow> Setrlimit K (l\<lparr>rl_Cur := 1024 * 400\<rparr>) w1)"

text \<open>
  Documented behaviour of the system call: a soft limit above the hard limit is refused. Then a process whose hard
  limit is smaller than the wanted one never starts, as \<open>app.Before\<close> reports the error.
\<close>

lemma SetRLimit_refused:
  assumes "\<And>l w. rl_Max l < rl_Cur l \<Longrightarrow> fst (Setrlimit K l w) \<noteq> None"
    and "Getrlimit K w = (Inr l, w1)" and "rl_Max l < 409600"
  shows "fst (SetRLimit K w) \<noteq> None"
  using assms(1) [of "l\<lparr>rl_Cur := 409600\<rparr>"] assms(2,3) by (simp add: SetRLimit_def)

section \<open>Version\<close>

definition version_base :: string where
  "version_base = ''v2.0.0''"

definition GetVersionWithCommit :: "string \<Rightarrow> string" where
  "GetVersionWithCommit commit =
     (if 8 \<le> length commit then version_base @ ''-'' @ take 8 commit else version_base)"

definition version_String :: "string \<Rightarrow> string \<Rightarrow> string" where
  "version_String commit tag =
     (let version = (if 7 \<le> length commit then version_base @ ''-'' @ take 7 commit else version_base) in
      if tag \<noteq> [] \<and> tag \<noteq> ''undefined'' then tag else version)"

section \<open>Lemmas\<close>

lemma add_known_filter: "add_known known names acc = acc @ filter known names"
  by (induction known names acc rule: add_known.induct) auto

lemma add_weights_map:
  "add_weights ss acc = (if \<forall>s \<in> set ss. Atoi s \<noteq> None then acc @ map (the \<circ> Atoi) ss else [])"
  by (induction ss acc rule: add_weights.induct) (auto split: option.splits)

lemma known_target_dom: "dom (TargetTxTypeList sn E) = {s. known_target s}"
  by (auto simp: TargetTxTypeList_def known_target_def)

text \<open>What a configuration that was accepted satisfies.\<close>

definition config_ok :: "Config \<Rightarrow> bool" where
  "config_ok cfg \<longleftrightarrow>
     richWalletPrivateKey cfg \<noteq> [] \<and> 1 \<le> activeUserPercent cfg \<and> activeUserPercent cfg \<le> 100 \<and>
     tcNameList cfg \<noteq> [] \<and> set (tcNameList cfg) \<subseteq> set TcNames \<and>
     (tcWeights cfg = [] \<or> length (tcWeights cfg) = length (tcNameList cfg)) \<and>
     (\<forall>s \<in> set (auctionTargetTxTypeList cfg). known_target s) \<and> nUserForNewAccounts cfg = 5"

lemma exit_else: "((if c then Exit m else r) = Ret x) = (\<not> c \<and> r = Ret x)"
  by simp

lemma setConfigsFromFlag_Ret:
  assumes "setConfigsFromFlag ctx cfg0 = Ret cfg"
  obtains names weights targets auction where
    "names = add_known known_tc (split_at (CHR '','') (ctx_String ctx ''tc'')) (tcNameList (direct_flags ctx cfg0))"
    "auction = ContainsAnyInList names auction_names"
    "targets = (if auction then add_known known_target (split_at (CHR '','')
       (ctx_String ctx ''auctionTargetTxTypeList'')) (auctionTargetTxTypeList (direct_flags ctx cfg0))
       else auctionTargetTxTypeList (direct_flags ctx cfg0))"
    "weights = [] \<or> length weights = length names" "names \<noteq> []"
    "richWalletPrivateKey (direct_flags ctx cfg0) \<noteq> []"
    "\<not> (activeUserPercent (direct_flags ctx cfg0) > 100 \<or> activeUserPercent (direct_flags ctx cfg0) \<le> 0)"
    "\<not> (auction \<and> ctx_String ctx ''auctionTargetTxTypeList'' = [])"
    "\<not> (auction \<and> nUserForSigned (direct_flags ctx cfg0) < ctx_Int ctx ''max-rps'')"
    "cfg = (direct_flags ctx cfg0)\<lparr>tcNameList := names, tcWeights := weights,
       auctionTargetTxTypeList := targets\<rparr>"
proof -
  let ?names = "add_known known_tc (split_at (CHR '','') (ctx_String ctx ''tc'')) (tcNameList (direct_flags ctx cfg0))"
  let ?w = "add_weights (split_at (CHR '','') (ctx_String ctx ''weights'')) (tcWeights (direct_flags ctx cfg0))"
  note c = assms [unfolded setConfigsFromFlag_def Let_def exit_else outcome.inject]
  show ?thesis
    by (rule that [of ?names "ContainsAnyInList ?names auction_names" _
        "if ?w \<noteq> [] \<and> length ?w \<noteq> length ?names then [] else ?w"], rule refl, rule refl, rule refl)
      (use c in \<open>simp_all split: if_split\<close>)
qed

lemma setConfigsFromFlag_ok:
  assumes "setConfigsFromFlag ctx empty_config = Ret cfg"
  shows "config_ok cfg \<and>
    tcNameList cfg = filter known_tc (split_at (CHR '','') (ctx_String ctx ''tc'')) \<and>
    (set (tcNameList cfg) \<inter> set auction_names \<noteq> {} \<longrightarrow>
      ctx_Int ctx ''max-rps'' \<le> nUserForSigned cfg \<and> ctx_String ctx ''auctionTargetTxTypeList'' \<noteq> [])"
  using assms
proof (rule setConfigsFromFlag_Ret)
  fix names weights targets auction
  assume n: "names = add_known known_tc (split_at (CHR '','') (ctx_String ctx ''tc''))
       (tcNameList (direct_flags ctx empty_config))"
    and a: "auction = ContainsAnyInList names auction_names"
    and t: "targets = (if auction then add_known known_target (split_at (CHR '','')
       (ctx_String ctx ''auctionTargetTxTypeList'')) (auctionTargetTxTypeList (direct_flags ctx empty_config))
       else auctionTargetTxTypeList (direct_flags ctx empty_config))"
    and rest: "weights = [] \<or> length weights = length names" "names \<noteq> []"
      "richWalletPrivateKey (direct_flags ctx empty_config) \<noteq> []"
      "\<not> (activeUserPercent (direct_flags ctx empty_config) > 100 \<or> activeUserPercent (direct_flags ctx empty_config) \<le> 0)"
      "\<not> (auction \<and> ctx_String ctx ''auctionTargetTxTypeList'' = [])"
      "\<not> (auction \<and> nUserForSigned (direct_flags ctx empty_config) < ctx_Int ctx ''max-rps'')"
    and c: "cfg = (direct_flags ctx empty_config)\<lparr>tcNameList := names, tcWeights := weights,
       auctionTargetTxTypeList := targets\<rparr>"
  have empty: "tcNameList (direct_flags ctx empty_config) = []"
    "auctionTargetTxTypeList (direct_flags ctx empty_config) = []"
    by (simp_all add: direct_flags_def empty_config_def)
  have names: "names = filter known_tc (split_at (CHR '','') (ctx_String ctx ''tc''))"
    unfolding n empty by (simp add: add_known_filter)
  then have known: "set names \<subseteq> set TcNames" by (auto simp: known_tc_def)
  have targets: "\<forall>s \<in> set targets. known_target s"
    unfolding t empty by (simp add: add_known_filter)
  have five: "nUserForNewAccounts (direct_flags ctx empty_config) = 5" by (simp add: direct_flags_def)
  have "config_ok cfg"
    unfolding config_ok_def c using rest known targets five by (simp add: not_less not_le)
  moreover have "auction \<longleftrightarrow> set names \<inter> set auction_names \<noteq> {}"
    unfolding a by (rule ContainsAnyInList_iff)
  moreover have "tcNameList cfg = names" "nUserForSigned cfg = nUserForSigned (direct_flags ctx empty_config)"
    by (simp_all add: c)
  ultimately show ?thesis using rest(5,6) names not_less by metis
qed

lemma setConfigsFromNode_frame:
  assumes "setConfigsFromNode D cfg w = Some (Ret cfg', w')"
  obtains c where "cfg' = cfg\<lparr>cfg_gasPrice := 750000000000, cfg_baseFee := 0, cfg_chainID := c\<rparr>"
  using assms by (auto simp: setConfigsFromNode_def Let_def split: prod.splits option.splits)

lemma config_ok_node:
  "config_ok (cfg\<lparr>cfg_gasPrice := p, cfg_baseFee := b, cfg_chainID := c\<rparr>) = config_ok cfg"
  by (simp add: config_ok_def)

lemma NewConfig_ok:
  assumes "NewConfig D ctx b prog w = Some (Ret (cfg, h, args), w')"
  shows "config_ok cfg"
proof -
  from assms obtain cfg0 where f: "setConfigsFromFlag ctx empty_config = Ret cfg0"
    and n: "setConfigsFromNode D cfg0 w = Some (Ret cfg, w')"
    by (auto simp: NewConfig_def split: outcome.splits)
  from n obtain c where "cfg = cfg0\<lparr>cfg_gasPrice := 750000000000, cfg_baseFee := 0, cfg_chainID := c\<rparr>"
    by (rule setConfigsFromNode_frame)
  with setConfigsFromFlag_ok [OF f] show ?thesis by (simp add: config_ok_node)
qed

text \<open>
  The weights are optional: the empty text gives one part that is no number, so the defaults hold.
\<close>

lemma extended_tasks_aligned:
  assumes "\<forall>n \<in> set names. find_task n \<noteq> None"
  shows "extended_tasks find_task ws i names =
     map (\<lambda>j. (the (find_task (names ! j)))\<lparr>et_Weight :=
        (if length ws > i + j then ws ! (i + j) else et_Weight (the (find_task (names ! j))))\<rparr>)
       [0..<length names]"
  using assms
proof (induction find_task ws i names rule: extended_tasks.induct)
  case (1 find_task ws i)
  then show ?case by simp
next
  case (2 find_task ws i name names)
  then obtain t where t: "find_task name = Some t" by auto
  with 2 show ?case by (simp add: upt_conv_Cons map_Suc_upt [symmetric] del: upt_Suc)
qed

lemma GetExtendedTasks_ok:
  assumes "config_ok cfg"
  shows "map et_Name (GetExtendedTasks E A arrive R cfg) = tcNameList cfg"
    and "map et_Weight (GetExtendedTasks E A arrive R cfg) =
      (if tcWeights cfg = [] then replicate (length (tcNameList cfg)) 10 else tcWeights cfg)"
proof -
  let ?f = "TcList_lookup E A arrive R"
  have known: "\<forall>n \<in> set (tcNameList cfg). ?f n \<noteq> None"
    using assms by (auto simp: config_ok_def TcList_lookup_None)
  have name: "et_Name (the (?f n)) = n" if "n \<in> set (tcNameList cfg)" for n
    using known that by (metis TcList_lookup_Some option.collapse)
  have w10: "et_Weight t = 10" if "t \<in> set (TcList E A arrive R)" for t
    using that by (auto simp: TcList_defs)
  have weight: "et_Weight (the (?f n)) = 10" if "n \<in> set (tcNameList cfg)" for n
    using known that w10 by (metis TcList_lookup_Some option.collapse)
  show "map et_Name (GetExtendedTasks E A arrive R cfg) = tcNameList cfg"
    unfolding GetExtendedTasks_def extended_tasks_aligned [OF known]
    by (auto simp: o_def name intro: nth_equalityI)
  show "map et_Weight (GetExtendedTasks E A arrive R cfg) =
      (if tcWeights cfg = [] then replicate (length (tcNameList cfg)) 10 else tcWeights cfg)"
    unfolding GetExtendedTasks_def extended_tasks_aligned [OF known]
    using assms by (auto simp: o_def weight config_ok_def intro!: nth_equalityI)
qed

section \<open>Names, weights and commas\<close>

lemma names_no_comma: "name \<in> set TcNames \<Longrightarrow> CHR '','' \<notin> set name"
  by (auto simp: TcNames_def)

lemma digit_char_no_comma: "d < 10 \<Longrightarrow> digit_char d \<noteq> CHR '',''"
proof -
  have "list_all (\<lambda>d. digit_char d \<noteq> CHR '','') [0..<10]"
    by (simp add: upt_conv_Cons digit_char_def)
  then show "d < 10 \<Longrightarrow> digit_char d \<noteq> CHR '',''" unfolding list_all_iff by auto
qed

lemma int_text_no_comma: "CHR '','' \<notin> set (int_text 10 i)"
proof -
  have "CHR '','' \<notin> set (digits 10 n)" for n
  proof
    assume "CHR '','' \<in> set (digits 10 n)"
    with digits_chars [of 10 "CHR '',''" n] obtain d where "d < 10" "CHR '','' = digit_char d" by auto
    with digit_char_no_comma [of d] show False by metis
  qed
  then show ?thesis by (auto simp: int_text_def)
qed

lemma setConfigsFromFlag_value:
  "setConfigsFromFlag ctx empty_config =
     (let names = filter known_tc (split_at (CHR '','') (ctx_String ctx ''tc''));
          parts = split_at (CHR '','') (ctx_String ctx ''weights'');
          ws = (if \<forall>s \<in> set parts. Atoi s \<noteq> None then map (the \<circ> Atoi) parts else []);
          auction = (set names \<inter> set auction_names \<noteq> {})
      in if ctx_String ctx ''key'' = [] then Exit ''key argument is not defined''
         else if ctx_Int ctx ''activeUserPercent'' > 100 \<or> ctx_Int ctx ''activeUserPercent'' \<le> 0
         then Exit ''ActiveAccountPercent should be between 0 and 100''
         else if auction \<and> ctx_String ctx ''auctionTargetTxTypeList'' = []
         then Exit ''auctionTargetTxTypeList is not set''
         else if names = [] then Exit ''No valid Tc is set''
         else if auction \<and> ctx_Int ctx ''vusigned'' < ctx_Int ctx ''max-rps''
         then Exit ''nUserForSigned must be larger than max-rps''
         else Ret ((direct_flags ctx empty_config)\<lparr>tcNameList := names,
           tcWeights := (if length ws = length names then ws else []),
           auctionTargetTxTypeList := (if auction then filter known_target
              (split_at (CHR '','') (ctx_String ctx ''auctionTargetTxTypeList'')) else [])\<rparr>))"
  unfolding setConfigsFromFlag_def Let_def add_known_filter add_weights_map ContainsAnyInList_iff
  by (auto simp: direct_flags_def empty_config_def)

end
