(* ===== verification/Main_Run.thy ===== *)
theory Main_Run
  imports Configuration
begin

text \<open>
  \<open>klayslave/main.go\<close>: from the command line to the tasks that are handed to the boomer library.
  \<open>app.Run\<close>, the system calls for the resource limits and \<open>boomer.Run\<close> are external; \<open>RunAction\<close> gives the tasks that
  \<open>boomer.Run\<close> gets and the state of the process at that point.
\<close>

section \<open>The outside of the start-up\<close>

text \<open>
  Beyond the environment: the wallet of the node (unsigned accounts are imported into it), waiting
  for a transaction without a time limit, and the factories of the client pools.
\<close>

record ('tx, 'w) startup =
  su_wallet :: "'w wallet"
  su_waitMined :: "'tx \<Rightarrow> 'w \<Rightarrow> (gerror + receipt) \<times> 'w"
  su_kaiaDial :: "'w \<Rightarrow> nat \<times> 'w"
  su_rpcDial :: "'w \<Rightarrow> nat \<times> 'w"
  su_ethDial :: "'w \<Rightarrow> nat \<times> 'w"

section \<open>Accounts\<close>

text \<open>
  \<open>NewAccount(i)\<close> of \<open>CreateAccountsPerAccGrp\<close>: the new account is stored under the next reference;
  the number of accounts created so far is threaded along.
\<close>

definition new_test_account :: "('tx, 'w) env \<Rightarrow> int \<Rightarrow> 'w proc \<times> nat \<Rightarrow> acc_ref outcome \<times> ('w proc \<times> nat)" where
  "new_test_account E i sk =
     (case sk of (s, k) \<Rightarrow>
        (case NewAccount (e_crypto E) i (wld s) of
           (r, w) \<Rightarrow>
             (case r of
                Ret a \<Rightarrow> (Ret (TestAcc k), (s\<lparr>accs := (accs s)(TestAcc k := a), wld := w\<rparr>, k + 1))
              | Exit m \<Rightarrow> (Exit m, (s\<lparr>wld := w\<rparr>, k))
              | Panic m \<Rightarrow> (Panic m, (s\<lparr>wld := w\<rparr>, k))
              | Block \<Rightarrow> (Block, (s\<lparr>wld := w\<rparr>, k)))))"

definition unlock_test_account :: "('tx, 'w) env \<Rightarrow> 'w wallet \<Rightarrow> string \<Rightarrow> acc_ref \<Rightarrow> 'w proc \<times> nat
    \<Rightarrow> unit outcome \<times> ('w proc \<times> nat)" where
  "unlock_test_account E W endpoint ref sk =
     (case sk of (s, k) \<Rightarrow>
        (case ImportUnLockAccount (e_crypto E) W (accs s ref) endpoint (wld s) of
           (r, w) \<Rightarrow> (r, (s\<lparr>wld := w\<rparr>, k))))"

text \<open>The counts \<open>RunAction\<close> passes to \<open>CreateAccountsPerAccGrp\<close>.\<close>

definition gasless_users :: "Config \<Rightarrow> string \<Rightarrow> int" where
  "gasless_users cfg name =
     (if ContainsAnyInList (GetTcStrList cfg) [name] then GetNUserForSigned cfg else 0)"

definition create_accounts :: "('tx, 'w) env \<Rightarrow> 'w wallet \<Rightarrow> Config \<Rightarrow> ('w, unit) run" where
  "create_accounts E W cfg s =
     (case CreateAccountsPerAccGrp (new_test_account E) (unlock_test_account E W (GetGEndpoint cfg))
             (GetNUserForSigned cfg) (GetNUserForUnsigned cfg) (GetNUserForNewAccounts cfg)
             (gasless_users cfg ''gaslessRevertTransactionTC'') (gasless_users cfg ''gaslessOnlyApproveTC'')
             (GetNUserForTC cfg) (GetTcStrList cfg) (grp s) (s, 0) of
        (r, (s1, k)) \<Rightarrow>
          (case r of
             Ret g \<Rightarrow> Some (Ret (), s1\<lparr>grp := g\<rparr>)
           | Exit m \<Rightarrow> Some (Exit m, s1)
           | Panic m \<Rightarrow> Some (Panic m, s1)
           | Block \<Rightarrow> Some (Block, s1)))"

section \<open>Charging and contracts\<close>

definition put_acc :: "acc_ref \<Rightarrow> account \<Rightarrow> ('w, unit) run" where
  "put_acc ref a s = Some (Ret (), s\<lparr>accs := (accs s)(ref := a)\<rparr>)"

definition nonce_op :: "('tx, 'w) env \<Rightarrow> ('w, unit) op" where
  "nonce_op E a w = (case GetNonce (e_cli E) a w of (n, a', w') \<Rightarrow> (Ret (), a', w'))"

text \<open>What the local reservoir is charged with.\<close>

definition reservoir_charge :: "('tx, 'w) env \<Rightarrow> Config \<Rightarrow> acc_ref AccGroup \<Rightarrow> bool \<Rightarrow> int" where
  "reservoir_charge E cfg g gsrExists =
     (let c = GetChargeValue E cfg;
          revertGroup = c * int (length (GetAccListByName g AccListForGaslessRevertTx));
          approveGroup = c * int (length (GetAccListByName g AccListForGaslessApproveTx));
          forAuctionDeposit = c * int (length (GetAccListByName g AccListForSignedTx));
          initialLiquidity = (if \<not> gsrExists then GetInitialLiquidity E else 0)
      in GetTotalChargeValue E cfg + (initialLiquidity + (forAuctionDeposit + (revertGroup + approveGroup))))"

definition wait_reservoir :: "('tx, 'w) startup \<Rightarrow> 'tx option \<Rightarrow> ('w, unit) run" where
  "wait_reservoir S otx =
     (case otx of
        None \<Rightarrow> out_run (Panic ''nil pointer dereference'')
      | Some tx \<Rightarrow>
          bind_run (world_run (su_waitMined S tx)) (\<lambda>r.
          case r of
            Inl e \<Rightarrow> out_run (Exit ''receipt failed'')
          | Inr rc \<Rightarrow> (if rc_status rc \<noteq> 1
              then out_run (Exit ''transfer for reservoir failed, localReservoir'') else ret_run ())))"

definition charged_accounts :: "acc_ref AccGroup \<Rightarrow> acc_ref list" where
  "charged_accounts g = GetValidAccGrp g @ GetAccListByName g AccListForGaslessRevertTx
     @ GetAccListByName g AccListForGaslessApproveTx"

definition activate :: "int \<Rightarrow> ('w, unit) run" where
  "activate percent s =
     (case SetAccGrpByActivePercent percent (grp s) of
        Ret g \<Rightarrow> Some (Ret (), s\<lparr>grp := g\<rparr>)
      | Exit m \<Rightarrow> Some (Exit m, s)
      | Panic m \<Rightarrow> Some (Panic m, s)
      | Block \<Rightarrow> Some (Block, s))"

definition work_context :: "('tx, 'w) env \<Rightarrow> Config \<Rightarrow> AdditionalWorkContext" where
  "work_context E cfg = \<lparr>ChargeValue = GetChargeValue E cfg, IsLeader = IsLeaderSlave cfg,
     ctxTcList = GetTcStrList cfg, ctxTargetTxTypes = GetAuctionTargetTxTypeList cfg\<rparr>"

text \<open>Step 2 of the function: from the reservoirs to the confirmed charge of the local one.\<close>

definition charge_reservoir :: "('tx, 'w) env \<Rightarrow> ('tx, 'w) startup \<Rightarrow> Config \<Rightarrow> ('w, unit) run" where
  "charge_reservoir E S cfg =
     bind_run (out_run (GetAccountFromKey (e_crypto E) 0 (GetRichWalletPrivateKey cfg))) (\<lambda>global.
     bind_run (world_run (NewAccount (e_crypto E) 0)) (\<lambda>r.
     bind_run (out_run r) (\<lambda>local.
     then_run (put_acc GlobalReservoir global)
    (then_run (put_acc LocalReservoir local)
    (then_run (on_acc GlobalReservoir (nonce_op E))
    (bind_run (world_run (IsGSRExistInRegistry E)) (\<lambda>gsrExists.
     bind_run (get_run (\<lambda>s. reservoir_charge E cfg (grp s) gsrExists)) (\<lambda>total_value.
     bind_run (on_acc_opt GlobalReservoir (TransferSignedTxWithGuaranteeRetry (e_lib E) (e_cli E) (e_glob E)
        local (Some total_value) None)) (\<lambda>otx.
     wait_reservoir S otx)))))))))"

definition createTestAccGroupsAndPrepareContracts :: "('tx, 'w) env \<Rightarrow> ('tx, 'w) startup \<Rightarrow> Config
    \<Rightarrow> ('w, acc_ref option) run" where
  "createTestAccGroupsAndPrepareContracts E S cfg =
     (if GetChargeValue E cfg = 0 then ret_run None
      else
        then_run (charge_reservoir E S cfg)
       (bind_run (get_run (\<lambda>s. charged_accounts (grp s))) (\<lambda>refs.
        then_run (concurrent_run E refs (\<lambda>idx ref.
            bind_run (get_run (\<lambda>s. accs s ref)) (\<lambda>acc.
            transfer_retry E LocalReservoir acc (Some (GetChargeValue E cfg)) None)))
       (then_run (activate (GetActiveUserPercent cfg))
       (then_run (DeployTestContracts E (work_context E cfg))
          (ret_run (Some LocalReservoir)))))))"

section \<open>Tasks\<close>

text \<open>A boomer task with what its closure captured: the configuration, the pools and the accounts.\<close>

record 'w boomer_task =
  bt_Name :: string
  bt_Weight :: int
  bt_Fn :: "('w, unit) prun"
  bt_config :: TCConfig
  bt_pools :: "(nat, 'w) ClientPool \<times> (nat, 'w) ClientPool \<times> (nat, 'w) ClientPool"
  bt_accounts :: "acc_ref AccountSet"

fun initializeTasks :: "('tx, 'w) startup \<Rightarrow> Config \<Rightarrow> acc_ref AccGroup \<Rightarrow> 'w ExtendedTask list \<Rightarrow> 'w
    \<Rightarrow> 'w boomer_task list \<times> 'w" where
  "initializeTasks S cfg g [] w = ([], w)"
| "initializeTasks S cfg g (t # ts) w =
     (case tc_Init (su_kaiaDial S) (su_rpcDial S) (su_ethDial S) g (GetGEndpoint cfg) (et_TestContracts t)
             (et_Name t) (GetAuctionTargetTxTypeList cfg) w of
        ((c, pools, accounts0), w1) \<Rightarrow>
          (case initializeTasks S cfg g ts w1 of
             (bts, w2) \<Rightarrow>
               (\<lparr>bt_Name = et_Name t, bt_Weight = et_Weight t, bt_Fn = et_Run t c, bt_config = c,
                  bt_pools = pools, bt_accounts = accounts0\<rparr> # bts, w2)))"

definition init_tasks_run :: "('tx, 'w) startup \<Rightarrow> Config \<Rightarrow> 'w ExtendedTask list
    \<Rightarrow> ('w, 'w boomer_task list) run" where
  "init_tasks_run S cfg tasks s =
     (case initializeTasks S cfg (grp s) tasks (wld s) of (bts, w) \<Rightarrow> Some (Ret bts, s\<lparr>wld := w\<rparr>))"

section \<open>RunAction\<close>

text \<open>The process when it starts: the package variables, an empty ledger, no test account.\<close>

definition start_proc :: "('tx, 'w) env \<Rightarrow> acc_ref AccGroup \<Rightarrow> 'w \<Rightarrow> 'w proc" where
  "start_proc E g w = \<lparr>accs = (\<lambda>ref. case ref of Fixed d \<Rightarrow> pkg E d | _ \<Rightarrow> fresh_account [] [] 0),
     erc721 = NewERC721TokenLedger, grp = g, wld = w\<rparr>"

definition action_body :: "('tx, 'w) env \<Rightarrow> ('tx, 'w) startup \<Rightarrow> ('tx, 'w) auction_lib \<Rightarrow> nat list
    \<Rightarrow> 'w reader \<Rightarrow> Config \<Rightarrow> ('w, 'w boomer_task list) run" where
  "action_body E S A arrive R cfg =
     then_run (create_accounts E (su_wallet S) cfg)
    (then_run (createTestAccGroupsAndPrepareContracts E S cfg)
       (init_tasks_run S cfg (GetExtendedTasks E A arrive R cfg)))"

definition RunAction :: "('tx, 'w) env \<Rightarrow> ('tx, 'w) startup \<Rightarrow> 'w connector \<Rightarrow> ('tx, 'w) auction_lib
    \<Rightarrow> nat list \<Rightarrow> 'w reader \<Rightarrow> flag_ctx \<Rightarrow> bool \<Rightarrow> string \<Rightarrow> 'w
    \<Rightarrow> ((Config \<times> 'w boomer_task list \<times> 'w proc) outcome) option" where
  "RunAction E S D A arrive R ctx standardTransport prog w =
     (case NewConfig D ctx standardTransport prog w of
        None \<Rightarrow> None
      | Some (Ret (cfg, h, args), w1) \<Rightarrow>
          (case NewAccGroup (GetChainID cfg) (GetGasPrice cfg) (GetBaseFee cfg)
                  (ContainsAnyInList (GetTcStrList cfg) [''transferUnsignedTx'']) (e_glob E) of
             (g, glob) \<Rightarrow>
               (let E1 = E\<lparr>e_glob := glob\<rparr> in
                map_option (\<lambda>(r, s). map_outcome_ret (\<lambda>bts. (cfg, bts, s)) r)
                  (action_body E1 S A arrive R cfg (start_proc E1 g w1))))
      | Some (Exit m, w1) \<Rightarrow> Some (Exit m)
      | Some (Panic m, w1) \<Rightarrow> Some (Panic m)
      | Some (Block, w1) \<Rightarrow> Some Block)"

section \<open>The command line application\<close>

text \<open>
  What \<open>init\<close> installs before the action, and \<open>main\<close>: \<open>appRun\<close> is \<open>app.Run\<close> of the command line library,
  which parses the arguments, calls \<open>Before\<close> and then \<open>RunAction\<close>, and answers with the error of either.
\<close>

definition app_Before :: "string \<Rightarrow> 'w rlimit_calls \<Rightarrow> 'w \<Rightarrow> gerror option \<times> 'w" where
  "app_Before goos K w = (if goos = ''darwin'' then (None, w) else SetRLimit K w)"

definition app_Flags :: "cli_flag list" where
  "app_Flags = Flags @ BoomerFlags"

text \<open>No flag is declared twice, which the library answers with a panic.\<close>

lemma app_Flags_distinct: "distinct (map flag_name app_Flags)"
  by (simp add: app_Flags_def Flags_def BoomerFlags_def)

definition klayslave_main :: "(string list \<Rightarrow> 'w \<Rightarrow> gerror option \<times> 'w) \<Rightarrow> string list \<Rightarrow> 'w \<Rightarrow> unit outcome \<times> 'w" where
  "klayslave_main appRun args w =
     (case appRun args w of
        (Some e, w1) \<Rightarrow> (Exit e, w1)
      | (None, w1) \<Rightarrow> (Ret (), w1))"

end
