(* ===== verification/Sim_Env.thy ===== *)
theory Sim_Env
  imports Sim_Node Main_Run
begin

text \<open>
  The environment of the concrete node of \<open>Sim_Node\<close>: keys, an empty registry, bindings that accept every
  call, an auction endpoint that accepts every bid, a random source that always draws 4 and the
  schedule that runs goroutines in the order they are started. The witnesses run on it.
\<close>

definition sim_crypto :: "sim crypto" where
  "sim_crypto = \<lparr>hexToECDSA = (\<lambda>s. Inr (PrivKey 3)),
     pubkeyToAddress = (\<lambda>k. 500), keyText = (\<lambda>k. ''03''), keccak256 = (\<lambda>b. replicate 32 0),
     bytesToAddress = (\<lambda>b. 0), generateKey = (\<lambda>w. (Inr (PrivKey 4), w))\<rparr>"

definition sim_pkg :: "fixed_acc \<Rightarrow> account" where
  "sim_pkg d = fresh_account [PrivKey 3] [fixed_key d] 500"

definition sim_bindings :: "(sim_tx, sim) bindings" where
  "sim_bindings = \<lparr>newRegistry = None, getActiveAddr = (\<lambda>n w. (Inr 0, w)),
     boundCall = (\<lambda>c m args w. (Inr [ArgUint 0], w)),
     newSwapRouter = (\<lambda>a. None), getSupportedTokens = (\<lambda>a w. (Inr [], w)),
     newTestToken = (\<lambda>a. None), newWKAIA = (\<lambda>a. None), newFactory = (\<lambda>a. None),
     newRouter = (\<lambda>a. None),
     transact = (\<lambda>k opts a c w. ((Some (SimTx 0 None), None), w)),
     RegistryAddr = 0x401, GaslessSwapRouterName = ''GaslessSwapRouter'',
     AuctionEntryPointName = ''AuctionEntryPoint''\<rparr>"

definition sim_env :: "(sim_tx, sim) env" where
  "sim_env = \<lparr>e_lib = sim_lib, e_cli = sim_client, e_abi = sim_abi, e_crypto = sim_crypto,
     e_glob = init_globals, e_bnd = sim_bindings, unixNow = (\<lambda>w. sim_time w div 1000),
     rand63 = (\<lambda>w. (4, w)), randStream = (\<lambda>w. (\<lambda>i. i, w)), KAIA = 1000000000000000000,
     pkg = sim_pkg, sched = (\<lambda>n. [0..<n])\<rparr>"

definition sim_auction :: "(sim_tx, sim) auction_lib" where
  "sim_auction = \<lparr>bidHash = (\<lambda>b. ucast (bid_BlockNumber b)), bidTypedHash = (\<lambda>c a b. [1]),
     cryptoSign = (\<lambda>h k. Inr (replicate 65 0)), encodeRlp = (\<lambda>tx. [2]),
     SendAuctionTx = (\<lambda>b w. ((None, None), w)), sendNil = (\<lambda>w. ((0, Some ''nil transaction''), w))\<rparr>"

definition sim_reader :: "sim reader" where
  "sim_reader = \<lparr>addrText = (\<lambda>a. ''0xAb''), typeCode = (\<lambda>t. 30721),
     ReceiptRpcOutput = (\<lambda>h w. ((Some [''status'' \<mapsto> JText ''0x1''], None), w)),
     BlockByNumber = (\<lambda>n w. (Inr n, w)), CallContext = (\<lambda>m args w. (Inr [1], w)),
     gjsonGet = (\<lambda>b f. ''0x1''), StorageAt = (\<lambda>a h w. (Inr [4], w)),
     CallContract = (\<lambda>m w. (Inr [4], w)), EstimateGas = (\<lambda>m w. (Inr 21000, w)),
     bigRand = (\<lambda>n w. (if 0 < n then n - 1 else 0, w)), unpackGet = (\<lambda>b. Inr 4)\<rparr>"

definition sim_startup :: "(sim_tx, sim) startup" where
  "sim_startup = \<lparr>su_wallet = \<lparr>dial = (\<lambda>e w. (None, w)), importRawKey = (\<lambda>k w. (Inr 500, w)),
        unlockAccount = (\<lambda>a w. (None, w))\<rparr>,
     su_waitMined = (\<lambda>tx w. (Inr \<lparr>rc_status = 1, rc_gasUsed = 21000\<rparr>, w)),
     su_kaiaDial = (\<lambda>w. (1, w)), su_rpcDial = (\<lambda>w. (2, w)), su_ethDial = (\<lambda>w. (3, w))\<rparr>"

definition sim_connector :: "sim connector" where
  "sim_connector = \<lparr>clientDial = (\<lambda>e w. (None, w)), clientDialEth = (\<lambda>e w. (None, w)),
     ChainID = (\<lambda>w. (Inr 1001, w)), connSleep = (\<lambda>ms w. w)\<rparr>"

text \<open>A command line: the test cases and weights given, two signing users, the leader.\<close>

definition sim_flags :: "string \<Rightarrow> string \<Rightarrow> flag_ctx" where
  "sim_flags tcs ws = \<lparr>
     ctx_Int = (\<lambda>n. if n = ''vusigned'' then 2 else if n = ''vuunsigned'' then 0
                 else if n = ''activeUserPercent'' then 50 else if n = ''charge'' then 1 else 0),
     ctx_String = (\<lambda>n. if n = ''tc'' then tcs else if n = ''weights'' then ws else if n = ''key'' then ''01''
                    else if n = ''auctionTargetTxTypeList'' then ''VT'' else []),
     ctx_Bool = (\<lambda>n. n = ''leader'')\<rparr>"

text \<open>The loops, for evaluation on closed inputs.\<close>

declare RunWithRetry.simps [code] send_until.simps [code] await_chainID.simps [code]
  wait_block.simps [code] getReceipt_loop.simps [code] await_receipt.simps [code] await_balance.simps [code]

text \<open>A closed run that may not return, with what is to be read off its result.\<close>

fun ran_with :: "('r \<Rightarrow> 's \<Rightarrow> bool) \<Rightarrow> ('r outcome \<times> 's) option \<Rightarrow> bool" where
  "ran_with P (Some (Ret r, s)) = P r s"
| "ran_with P _ = False"

lemma ran_withE:
  assumes "ran_with P x" obtains r s where "x = Some (Ret r, s)" "P r s"
  using assms by (cases "(P, x)" rule: ran_with.cases) auto

lemmas sim_env_defs = sim_env_def sim_crypto_def sim_pkg_def sim_bindings_def sim_auction_def
  sim_reader_def sim_startup_def sim_connector_def

end
