(* ===== verification/Bid_Guard.thy ===== *)
theory Bid_Guard
  imports Auction
begin

text \<open>
  The block guard of the auction bids: an account remembers the block of its last successful bid
  (\<open>lastBlocknumSentTx\<close>), and a bid for the same block is refused. No step before the guard
  changes that field (\<open>keeps_block\<close>), a refused bid returns an error (\<open>fails_at\<close>), and a
  successful one ends in \<open>PostSendBid\<close>, which sets the field (\<open>success_at\<close>).
\<close>

section \<open>Steps that keep the block number\<close>

definition keeps_block :: "('w, 'r) op \<Rightarrow> bool" where
  "keeps_block f \<longleftrightarrow> (\<forall>a w r a' w'. f a w = (r, a', w') \<longrightarrow> acc_lastBlocknumSentTx a' = acc_lastBlocknumSentTx a)"

lemma keeps_blockD:
  "keeps_block f \<Longrightarrow> f a w = (r, a', w') \<Longrightarrow> acc_lastBlocknumSentTx a' = acc_lastBlocknumSentTx a"
  unfolding keeps_block_def by blast

named_theorems keeps_block_rules

lemma keeps_block_bind [keeps_block_rules]:
  "keeps_block f \<Longrightarrow> (\<And>x. keeps_block (g x)) \<Longrightarrow> keeps_block (op_bind f g)"
  by (fastforce simp: keeps_block_def op_bind_def split: prod.splits outcome.splits)

lemma keeps_block_basic [keeps_block_rules]:
  "keeps_block (op_ret x)" "keeps_block (op_out r)" "keeps_block (op_get v)" "keeps_block (op_eval u)"
  "keeps_block (op_world h)" "keeps_block (op_gen d)" "keeps_block (op_add_nonce k)" "keeps_block (op_nonce C)"
  "keeps_block (op_send C tx)" "keeps_block (op_skip_used E e)" "keeps_block op_first_key" "keeps_block (op_key_of b)"
  "keeps_block (sign_with_keys E ty m)" "keeps_block (info_addr E t dd)" "keeps_block (no_pre_send tmp n gp)"
  by (auto simp: keeps_block_def op_ret_def op_out_def op_get_def op_eval_def op_world_def op_gen_def
      op_add_nonce_def op_nonce_def op_send_def op_skip_used_def op_first_key_def op_key_of_def
      sign_with_keys_def info_addr_def no_pre_send_def split: prod.splits if_splits
      dest: GetNonce_frame)

lemma keeps_block_target:
  assumes "TargetTxTypeList sn E key = Some T"
  shows "keeps_block (GenerateTx T tmp n gp)" "keeps_block (PreSendBid T tmp n gp)"
proof -
  have "T \<in> {target_VT E, target_SC E, target_rSC E, target_GAA sn E, target_GAS E, target_rGAA sn E, target_rGAS E}"
    using assms by (auto simp: TargetTxTypeList_def split: if_splits)
  then show "keeps_block (GenerateTx T tmp n gp)" "keeps_block (PreSendBid T tmp n gp)"
    by (auto simp: target_VT_def target_SC_def target_rSC_def target_GAA_def target_GAS_def target_rGAA_def
        target_rGAS_def counter_call_def make_approve_def make_swap_def
        intro!: keeps_block_rules split: sum.split option.split)
qed

lemma op_bind_same:
  assumes "keeps_block m" and "\<And>x a1 w1. acc_lastBlocknumSentTx a1 = acc_lastBlocknumSentTx a \<Longrightarrow> f x a1 w1 = g x a1 w1"
  shows "op_bind m f a w = op_bind m g a w"
  using assms(2) keeps_blockD [OF assms(1)] by (auto simp: op_bind_def split: prod.split outcome.split)

lemma prepare_bid_same:
  assumes "\<And>T tmp n gp tx a1 w1. acc_lastBlocknumSentTx a1 = acc_lastBlocknumSentTx a \<Longrightarrow>
     rest T tmp n gp tx a1 w1 = rest' T tmp n gp tx a1 w1"
  shows "prepare_bid E A key rest a w = prepare_bid E A key rest' a w"
  unfolding prepare_bid_def op_new_account_def
  by (intro op_bind_same keeps_block_rules)
    (auto split: sum.split option.split intro!: op_bind_same keeps_block_target simp: assms)


lemma with_block_blocked:
  assumes "\<And>w. fst (BlockNumber (e_cli E) w) = Inr bn" and "acc_lastBlocknumSentTx a = word_of_int bn"
  shows "with_block E gp rest a w = with_block E gp rest' a w"
    and "with_block E gp rest a w = (Ret (h1, h2, gp', err), a', w') \<Longrightarrow> err \<noteq> None"
  using assms(2) assms(1) [of w]
  by (auto simp: with_block_def op_bind_def op_world_def op_get_def isLastBlocknumSentTx_def bid_failed_def
      op_ret_def split: prod.splits)

text \<open>What the bid becomes once the account has sent for the block.\<close>

definition blocked_bid :: "('tx, 'w) env \<Rightarrow> ('tx, 'w) auction_lib \<Rightarrow> string \<Rightarrow> ('w, bid_op_result) op" where
  "blocked_bid E A key =
     prepare_bid E A key (\<lambda>T tmp nonce gp targetTx.
     op_bind (op_get GetAddress) (\<lambda>self_addr.
     op_bind (op_gen (getEntrypointNonce E self_addr)) (\<lambda>appNonce.
     op_bind (op_gen (gen_data E ContractCounterForTestAuction 0 (Some 0))) (\<lambda>d.
     with_block E gp (\<lambda>bn. bid_failed gp [])))))"

lemma Bid_body_blocked:
  assumes "\<And>w. fst (BlockNumber (e_cli E) w) = Inr bn" and "acc_lastBlocknumSentTx a = word_of_int bn"
  shows "Bid_body E A arrive entryPoint target key a w = blocked_bid E A key a w"
  unfolding Bid_body_def blocked_bid_def
  by (intro prepare_bid_same op_bind_same keeps_block_rules, rule with_block_blocked [OF assms(1)])
    (simp add: assms(2))

definition fails_at :: "u64 \<Rightarrow> ('w, bid_op_result) op \<Rightarrow> bool" where
  "fails_at b f \<longleftrightarrow> (\<forall>a w r a' w'. acc_lastBlocknumSentTx a = b \<longrightarrow> f a w = (Ret r, a', w') \<longrightarrow>
     snd (snd (snd r)) \<noteq> None)"

lemma fails_at_bind: "keeps_block m \<Longrightarrow> (\<And>x. fails_at b (g x)) \<Longrightarrow> fails_at b (op_bind m g)"
  unfolding fails_at_def by (blast elim: op_bindE dest: keeps_blockD)

lemma fails_at_basic: "fails_at b (bid_failed gp e)" "fails_at b (op_out (Panic m))"
  by (auto simp: fails_at_def bid_failed_def op_ret_def op_out_def)

lemma fails_at_with_block:
  assumes "\<And>w. fst (BlockNumber (e_cli E) w) = Inr bn"
  shows "fails_at (word_of_int bn) (with_block E gp rest)"
  unfolding fails_at_def
proof (intro allI impI)
  fix a w r a' w'
  assume "acc_lastBlocknumSentTx a = word_of_int bn" "with_block E gp rest a w = (Ret r, a', w')"
  with with_block_blocked(2) [OF assms] show "snd (snd (snd r)) \<noteq> None" by (cases r) simp
qed

lemma blocked_bid_fails:
  "(\<And>w. fst (BlockNumber (e_cli E) w) = Inr bn) \<Longrightarrow> fails_at (word_of_int bn) (blocked_bid E A key)"
  unfolding blocked_bid_def prepare_bid_def op_new_account_def
  by (auto intro!: fails_at_bind fails_at_basic fails_at_with_block keeps_block_rules split: sum.split option.split)
    (erule keeps_block_target)+

lemma post_bid_block:
  assumes "TargetTxTypeList sn E key = Some T" and "key \<in> {''VT'', ''SC'', ''rSC'', ''GAS''}"
    and "PostSendBid T tmp n gp bn a w = (Ret u, a', w')"
  shows "acc_lastBlocknumSentTx a' = word_of_int bn"
  using assms
  by (auto simp: TargetTxTypeList_def target_VT_def target_SC_def target_rSC_def target_GAS_def post_one_def
      op_last_block_def updateLastBlocknumSentTx_def elim!: op_bindE split: if_splits)

definition success_at :: "u64 \<Rightarrow> ('w, bid_op_result) op \<Rightarrow> bool" where
  "success_at b f \<longleftrightarrow> (\<forall>a w h1 h2 gp a' w'. f a w = (Ret (h1, h2, gp, None), a', w') \<longrightarrow>
     acc_lastBlocknumSentTx a' = b)"

lemma success_at_bind: "(\<And>x. success_at b (g x)) \<Longrightarrow> success_at b (op_bind m g)"
  unfolding success_at_def by (blast elim: op_bindE)

lemma success_at_basic:
  "success_at b (bid_failed gp e)" "success_at b (op_out (Panic m))" "success_at b (op_ret (h1, h2, gp, Some e))"
  by (auto simp: success_at_def bid_failed_def op_ret_def op_out_def)

lemma success_at_post:
  assumes "TargetTxTypeList sn E key = Some T" and "key \<in> {''VT'', ''SC'', ''rSC'', ''GAS''}"
  shows "success_at (word_of_int bn) (op_bind (PostSendBid T tmp n gp bn) (\<lambda>_. op_ret r))"
  by (auto simp: success_at_def op_ret_Ret elim!: op_bindE dest: post_bid_block [OF assms])

lemma success_at_with_block:
  assumes "\<And>w. fst (BlockNumber (e_cli E) w) = Inr bn" and "success_at b (rest bn)"
  shows "success_at b (with_block E gp rest)"
  unfolding success_at_def
proof (intro allI impI)
  fix a w h1 h2 gp' a' w'
  assume "with_block E gp rest a w = (Ret (h1, h2, gp', None), a', w')"
  then have "rest bn a (snd (BlockNumber (e_cli E) w)) = (Ret (h1, h2, gp', None), a', w')"
    using assms(1) [of w]
    by (auto simp: with_block_def op_bind_def op_world_def op_get_def bid_failed_def op_ret_def
        split: prod.splits if_splits)
  with assms(2) show "acc_lastBlocknumSentTx a' = b" unfolding success_at_def by blast
qed

lemma successful_bid_block:
  assumes bn: "\<And>w. fst (BlockNumber (e_cli E) w) = Inr bn" and key: "key \<in> {''VT'', ''SC'', ''rSC'', ''GAS''}"
  shows "success_at (word_of_int bn) (Bid_body E A arrive entryPoint target key)"
  unfolding Bid_body_def prepare_bid_def
  by (auto intro!: success_at_bind success_at_basic success_at_with_block [OF bn] success_at_post [OF _ key]
      split: sum.split option.split prod.split)

lemma sendNil_other: "sendNil (A\<lparr>SendAuctionTx := f\<rparr>) = sendNil A"
  by simp

end
