(* ===== verification/Concurrent_Send.thy ===== *)
theory Concurrent_Send
  imports Go_Prelude
begin

text \<open>
  \<open>ConcurrentTransactionSend\<close> of \<open>klayslave/account/account.go\<close>: one goroutine per account,
  at most \<open>maxConcurrency\<close> of them between the semaphore's \<open>ch <- 1\<close> and \<open><-ch\<close>, and a
  \<open>WaitGroup\<close> that the caller waits for. The goroutines and the caller are interleaved
  arbitrarily: a step relation on the caller's loop position, the phase of every goroutine,
  the channel occupancy, the WaitGroup counter and the atomic counter \<open>completed\<close>.
\<close>

section \<open>State\<close>

text \<open>Where the goroutine of one account stands; the program order of its statements.\<close>

datatype phase =
    NotStarted    \<comment> \<open>the caller's loop has not reached it\<close>
  | Sending       \<comment> \<open>started, before or inside \<open>transactionSend(idx, acc)\<close>\<close>
  | Sent          \<comment> \<open>\<open>transactionSend\<close> returned, before \<open><-ch\<close>\<close>
  | Released      \<comment> \<open>after \<open><-ch\<close>, before the atomic increment\<close>
  | Counted       \<comment> \<open>after the increment and the progress report, before \<open>wg.Done()\<close>\<close>
  | Finished

record cts =
  phases :: "phase list"
  next_idx :: nat
  ch_len :: nat
  wg_count :: nat
  completed :: nat
  sends :: "nat list"
  returned :: bool

definition capacity :: "nat \<Rightarrow> int \<Rightarrow> nat" where
  "capacity numCPU maxConcurrency =
     (if maxConcurrency \<le> 0 then numCPU * 10 else nat maxConcurrency)"

definition report_interval :: "nat \<Rightarrow> nat" where
  "report_interval tot = (let r = tot div 10 in if r = 0 then 1 else r)"

definition reports :: "nat \<Rightarrow> nat \<Rightarrow> bool" where
  "reports tot current \<longleftrightarrow> current mod report_interval tot = 0 \<or> current = tot"

definition cts_init :: "nat \<Rightarrow> cts" where
  "cts_init tot = \<lparr>phases = replicate tot NotStarted, next_idx = 0, ch_len = 0, wg_count = 0,
     completed = 0, sends = [], returned = (tot = 0)\<rparr>"

section \<open>Steps\<close>

text \<open>
  \<open>launch\<close> is \<open>ch <- 1; wg.Add(1); go func...\<close> of the loop, which waits while the channel is
  full; \<open>await\<close> is \<open>wg.Wait()\<close> after the loop.
\<close>

inductive cts_step :: "nat \<Rightarrow> cts \<Rightarrow> cts \<Rightarrow> bool" for cap where
  launch: "\<not> returned s \<Longrightarrow> next_idx s < length (phases s) \<Longrightarrow> ch_len s < cap \<Longrightarrow>
     cts_step cap s (s\<lparr>phases := (phases s)[next_idx s := Sending], next_idx := Suc (next_idx s),
        ch_len := Suc (ch_len s), wg_count := Suc (wg_count s)\<rparr>)"
| send: "i < length (phases s) \<Longrightarrow> phases s ! i = Sending \<Longrightarrow>
     cts_step cap s (s\<lparr>phases := (phases s)[i := Sent], sends := sends s @ [i]\<rparr>)"
| release: "i < length (phases s) \<Longrightarrow> phases s ! i = Sent \<Longrightarrow> 0 < ch_len s \<Longrightarrow>
     cts_step cap s (s\<lparr>phases := (phases s)[i := Released], ch_len := ch_len s - 1\<rparr>)"
| count: "i < length (phases s) \<Longrightarrow> phases s ! i = Released \<Longrightarrow>
     cts_step cap s (s\<lparr>phases := (phases s)[i := Counted], completed := Suc (completed s)\<rparr>)"
| wg_done: "i < length (phases s) \<Longrightarrow> phases s ! i = Counted \<Longrightarrow>
     cts_step cap s (s\<lparr>phases := (phases s)[i := Finished], wg_count := wg_count s - 1\<rparr>)"
| await: "\<not> returned s \<Longrightarrow> next_idx s = length (phases s) \<Longrightarrow> wg_count s = 0 \<Longrightarrow>
     cts_step cap s (s\<lparr>returned := True\<rparr>)"

inductive cts_reach :: "nat \<Rightarrow> nat \<Rightarrow> cts \<Rightarrow> bool" for cap tot where
  cts_start: "cts_reach cap tot (cts_init tot)"
| cts_next: "cts_reach cap tot s \<Longrightarrow> cts_step cap s t \<Longrightarrow> cts_reach cap tot t"

section \<open>Invariant\<close>

definition num :: "(phase \<Rightarrow> bool) \<Rightarrow> cts \<Rightarrow> nat" where
  "num p s = length (filter p (phases s))"

definition in_flight :: "phase \<Rightarrow> bool" where
  "in_flight p \<longleftrightarrow> p = Sending \<or> p = Sent"

definition active :: "phase \<Rightarrow> bool" where
  "active p \<longleftrightarrow> p \<noteq> NotStarted \<and> p \<noteq> Finished"

definition counted :: "phase \<Rightarrow> bool" where
  "counted p \<longleftrightarrow> p = Counted \<or> p = Finished"

definition was_sent :: "phase \<Rightarrow> bool" where
  "was_sent p \<longleftrightarrow> p \<noteq> NotStarted \<and> p \<noteq> Sending"

definition cts_inv :: "nat \<Rightarrow> nat \<Rightarrow> cts \<Rightarrow> bool" where
  "cts_inv cap tot s \<longleftrightarrow>
     length (phases s) = tot \<and> next_idx s \<le> tot \<and>
     ch_len s = num in_flight s \<and> ch_len s \<le> cap \<and>
     wg_count s = num active s \<and> completed s = num counted s \<and>
     distinct (sends s) \<and> set (sends s) = {i. i < tot \<and> was_sent (phases s ! i)} \<and>
     (\<forall>i < tot. phases s ! i = NotStarted \<longleftrightarrow> next_idx s \<le> i) \<and>
     (returned s \<longrightarrow> next_idx s = tot \<and> wg_count s = 0)"

lemma filter_update: "i < length xs \<Longrightarrow>
   length (filter p (xs[i := y])) + (if p (xs ! i) then 1 else 0) =
   length (filter p xs) + (if p y then 1 else 0)"
proof (induction xs arbitrary: i)
  case Nil
  then show ?case by simp
next
  case (Cons x xs)
  then show ?case by (cases i) auto
qed

lemma num_update: "i < length (phases s) \<Longrightarrow>
   length (filter p ((phases s)[i := y])) + (if p (phases s ! i) then 1 else 0) =
   num p s + (if p y then 1 else 0)"
  unfolding num_def by (rule filter_update)

lemmas phase_tests = in_flight_def active_def counted_def was_sent_def

lemma cts_inv_init: "cts_inv cap tot (cts_init tot)"
  by (auto simp: cts_inv_def cts_init_def num_def phase_tests filter_replicate)

lemma cts_step_inv: "cts_step cap s t \<Longrightarrow> cts_inv cap tot s \<Longrightarrow> cts_inv cap tot t"
proof (induction rule: cts_step.induct)
  case (launch s)
  note upd = num_update [OF launch(2), where y = Sending]
  from launch have "phases s ! next_idx s = NotStarted" by (auto simp: cts_inv_def)
  with launch upd [of in_flight] upd [of active] upd [of counted] show ?case
    by (auto simp: cts_inv_def num_def phase_tests nth_list_update)
next
  case (send i s)
  note upd = num_update [OF send(1), where y = Sent]
  from send have "i \<notin> set (sends s)" by (auto simp: cts_inv_def phase_tests)
  with send upd [of in_flight] upd [of active] upd [of counted] show ?case
    by (auto simp: cts_inv_def num_def phase_tests nth_list_update)
next
  case (release i s)
  note upd = num_update [OF release(1), where y = Released]
  from release upd [of in_flight] upd [of active] upd [of counted] show ?case
    by (auto simp: cts_inv_def num_def phase_tests nth_list_update)
next
  case (count i s)
  note upd = num_update [OF count(1), where y = Counted]
  from count upd [of in_flight] upd [of active] upd [of counted] show ?case
    by (auto simp: cts_inv_def num_def phase_tests nth_list_update)
next
  case (wg_done i s)
  note upd = num_update [OF wg_done(1), where y = Finished]
  from wg_done upd [of in_flight] upd [of active] upd [of counted] show ?case
    by (auto simp: cts_inv_def num_def phase_tests nth_list_update)
next
  case (await s)
  then show ?case by (auto simp: cts_inv_def num_def)
qed

lemma cts_reach_inv: "cts_reach cap tot s \<Longrightarrow> cts_inv cap tot s"
  by (induction rule: cts_reach.induct) (auto intro: cts_inv_init cts_step_inv)

section \<open>Consequences of the invariant\<close>

lemma num_zero: "num p s = 0 \<longleftrightarrow> (\<forall>i < length (phases s). \<not> p (phases s ! i))"
  by (auto simp: num_def filter_empty_conv in_set_conv_nth) (metis nth_mem)

lemma cts_done_phases:
  "cts_inv cap tot s \<Longrightarrow> returned s \<Longrightarrow> i < tot \<Longrightarrow> phases s ! i = Finished"
  by (auto simp: cts_inv_def num_zero active_def)

lemma cts_done_sends:
  assumes "cts_inv cap tot s" "returned s"
  shows "mset (sends s) = mset [0..<tot]"
proof -
  have "set (sends s) = set [0..<tot]"
    using assms cts_done_phases [OF assms] by (auto simp: cts_inv_def was_sent_def)
  moreover have "distinct (sends s)" using assms by (simp add: cts_inv_def)
  ultimately show ?thesis by (metis distinct_upt set_eq_iff_mset_eq_distinct)
qed

lemma cts_done_completed:
  assumes "cts_inv cap tot s" "returned s"
  shows "completed s = tot"
proof -
  have "filter counted (phases s) = phases s"
    using assms cts_done_phases [OF assms]
    by (auto simp: cts_inv_def counted_def filter_id_conv in_set_conv_nth)
  with assms show ?thesis by (simp add: cts_inv_def num_def)
qed

section \<open>Progress and termination\<close>

lemma cts_progress:
  assumes inv: "cts_inv cap tot s" and nr: "\<not> returned s" and cap: "0 < cap"
  shows "\<exists>t. cts_step cap s t"
proof (cases "\<exists>i < tot. active (phases s ! i)")
  case True
  then obtain i where i: "i < length (phases s)" "active (phases s ! i)"
    using inv by (auto simp: cts_inv_def)
  show ?thesis
  proof (cases "phases s ! i")
    case Sent
    with i have "num in_flight s \<noteq> 0" by (auto simp: num_zero in_flight_def)
    with inv have "0 < ch_len s" by (simp add: cts_inv_def)
    with Sent i show ?thesis by (auto intro: release)
  qed (use i in \<open>auto simp: active_def intro: send count wg_done\<close>)
next
  case False
  with inv have "num active s = 0" by (auto simp: num_zero cts_inv_def)
  moreover from False inv have "\<not> in_flight (phases s ! i)" if "i < tot" for i
    using that by (force simp: active_def in_flight_def)
  with inv have "num in_flight s = 0" by (auto simp: num_zero cts_inv_def)
  ultimately have idle: "wg_count s = 0" "ch_len s = 0" using inv by (auto simp: cts_inv_def)
  show ?thesis
  proof (cases "next_idx s = length (phases s)")
    case True
    from await [OF nr True idle(1)] show ?thesis by blast
  next
    case False
    with inv have "next_idx s < length (phases s)" by (auto simp: cts_inv_def)
    from launch [OF nr this] idle cap show ?thesis by auto
  qed
qed

text \<open>Every step moves one goroutine forward, so a run has at most \<open>5 * tot + 1\<close> steps.\<close>

fun left :: "phase \<Rightarrow> nat" where
  "left NotStarted = 5" | "left Sending = 4" | "left Sent = 3" | "left Released = 2"
| "left Counted = 1" | "left Finished = 0"

definition cts_measure :: "cts \<Rightarrow> nat" where
  "cts_measure s = sum_list (map left (phases s)) + (if returned s then 0 else 1)"

lemma sum_list_left_update: "i < length xs \<Longrightarrow>
   sum_list (map left (xs[i := y])) + left (xs ! i) = sum_list (map left xs) + left y"
proof (induction xs arbitrary: i)
  case Nil
  then show ?case by simp
next
  case (Cons x xs)
  then show ?case by (cases i) auto
qed

lemma cts_step_measure: "cts_step cap s t \<Longrightarrow> cts_inv cap tot s \<Longrightarrow> cts_measure t < cts_measure s"
proof (induction rule: cts_step.induct)
  case (launch s)
  then have "phases s ! next_idx s = NotStarted" by (auto simp: cts_inv_def)
  with launch sum_list_left_update [OF launch(2), of Sending] show ?case
    by (simp add: cts_measure_def)
next
  case (send i s)
  with sum_list_left_update [OF send(1), of Sent] show ?case by (simp add: cts_measure_def)
next
  case (release i s)
  with sum_list_left_update [OF release(1), of Released] show ?case by (simp add: cts_measure_def)
next
  case (count i s)
  with sum_list_left_update [OF count(1), of Counted] show ?case by (simp add: cts_measure_def)
next
  case (wg_done i s)
  with sum_list_left_update [OF wg_done(1), of Finished] show ?case by (simp add: cts_measure_def)
next
  case (await s)
  then show ?case by (simp add: cts_measure_def)
qed

lemma cts_reaches_return:
  assumes "cts_inv cap tot s" "0 < cap"
  shows "\<exists>t. (cts_step cap)\<^sup>*\<^sup>* s t \<and> returned t"
  using assms
proof (induction "cts_measure s" arbitrary: s rule: less_induct)
  case less
  show ?case
  proof (cases "returned s")
    case True
    then show ?thesis by blast
  next
    case False
    from cts_progress [OF less.prems(1) False less.prems(2)] obtain u where u: "cts_step cap s u" ..
    from less.hyps [OF cts_step_measure [OF u less.prems(1)] cts_step_inv [OF u less.prems(1)] less.prems(2)]
    obtain t where "(cts_step cap)\<^sup>*\<^sup>* u t" "returned t" by blast
    with u show ?thesis by (meson converse_rtranclp_into_rtranclp)
  qed
qed

lemma report_interval_pos: "0 < report_interval tot"
  by (simp add: report_interval_def Let_def)

lemma reach_steps: "(cts_step cap)\<^sup>*\<^sup>* s t \<Longrightarrow> cts_reach cap tot s \<Longrightarrow> cts_reach cap tot t"
  by (induction rule: rtranclp_induct) (auto intro: cts_next)

lemma steps_measure: "((cts_step cap) ^^ n) s t \<Longrightarrow> cts_inv cap tot s \<Longrightarrow> cts_inv cap tot t \<and> n + cts_measure t \<le> cts_measure s"
proof (induction n arbitrary: t)
  case 0
  then show ?case by simp
next
  case (Suc n)
  then obtain u where u: "((cts_step cap) ^^ n) s u" "cts_step cap u t" by auto
  from Suc.IH [OF u(1) Suc.prems(2)] have ok: "cts_inv cap tot u" and le: "n + cts_measure u \<le> cts_measure s" by auto
  from cts_step_measure [OF u(2) ok] le cts_step_inv [OF u(2) ok] show ?case by simp
qed

end
