(* ===== verification/Account_Properties.thy ===== *)
theory Account_Properties
  imports Sim_Env Bid_Guard Concurrent_Send Lock_Order
begin

text \<open>
  The properties of the account operations, of the retry and concurrency layers below the
  set-up, and of the shared containers: locks, client pool, token ledger, account sets and
  account groups. Each is stated over the model of the code; the lemmas are in the theories of the
  components. The witnesses run on the concrete node of \<open>Sim_Node\<close> and \<open>Sim_Env\<close>.
\<close>

text \<open>
  C17: \<open>TransferNewValueTransferWithCancelTx\<close> signs a value transfer and a cancel with the same
  nonce, the one \<open>GetNonce\<close> gives. When the node accepts both, in this order, the cached nonce
  moves by one; when it refuses one, the nonce moves by one exactly if the refusal says that the nonce
  is used. After a success the returned hash is the zero hash, not that of a sent transaction.
\<close>

theorem cancel_pair_shares_nonce:
  assumes lib: "lib_nonce L nonce_of" and free: "\<not> acc_mutex a"
    and run: "TransferNewValueTransferWithCancelTx L C g to v a w = (Ret (h, gp, err), a', w')"
    and n: "n = fst (GetNonce C a w)"
  shows "acc_nonce a' = n + (if err = None \<or> (\<exists>e. err = Some e \<and> nonce_conflict L e) then 1 else 0) \<and>
    (err = None \<longrightarrow> h = 0 \<and> (\<exists>tx cancelTx w0 w1 h1 h2. nonce_of tx = n \<and> nonce_of cancelTx = n \<and>
       SendRawTransaction C tx w0 = ((h1, None), w1) \<and>
       SendRawTransaction C cancelTx w1 = ((h2, None), w')))"
proof -
  let ?a = "a\<lparr>acc_mutex := True\<rparr>"
  obtain b v1 where gn: "GetNonce C ?a w = (n, b, v1)" using GetNonce_mutex [where C = C and a = a and b = True and w = w] n
    by (cases "GetNonce C ?a w") auto
  from GetNonce_frame [OF gn] have nb: "acc_nonce b = n" by simp
  from run free gn obtain tx cancelTx res b2 where
    tx: "nonce_of tx = n" "nonce_of cancelTx = n"
    and loop: "cancel_send_loop L C [tx, cancelTx] b v1 = (res, b2, w')"
    and out: "(case res of None \<Rightarrow> h = 0 \<and> err = None \<and> acc_nonce a' = acc_nonce b2 + 1
                | Some he \<Rightarrow> err = Some (snd he) \<and> acc_nonce a' = acc_nonce b2)"
    by (auto simp: TransferNewValueTransferWithCancelTx_def with_lock_def WithCancel_body_def
        simp del: cancel_send_loop.simps
        split: outcome.splits prod.splits option.splits dest!: make_signed_nonce [OF lib])
  show ?thesis
  proof (cases res)
    case None
    with loop have "\<exists>h1 w1 h2. SendRawTransaction C tx v1 = ((h1, None), w1) \<and>
        SendRawTransaction C cancelTx w1 = ((h2, None), w') \<and> b2 = b" by (simp only: cancel_loop_None)
    then show ?thesis using None out nb tx by simp blast
  next
    case (Some he)
    with loop have "b2 = (if nonce_conflict L (snd he) then bump_nonce b else b)"
      by (cases he) (simp only: snd_conv, erule cancel_loop_Some)
    with Some out nb show ?thesis by simp
  qed
qed

lemma cancel_pair_shares_nonce_witness:
  "\<exists>h gp a' w'. TransferNewValueTransferWithCancelTx sim_lib sim_client init_globals sim_account (Some 1)
       sim_account sim0 = (Ret (h, gp, None), a', w') \<and> h = 0 \<and> acc_nonce a' = 8"
proof -
  have "ret_with (\<lambda>x a' w'. snd (snd x) = None)
      (TransferNewValueTransferWithCancelTx sim_lib sim_client init_globals sim_account (Some 1) sim_account sim0)"
    by code_simp
  then obtain x a' w' where run: "TransferNewValueTransferWithCancelTx sim_lib sim_client init_globals
      sim_account (Some 1) sim_account sim0 = (Ret x, a', w')" and "snd (snd x) = None" by (rule ret_withE)
  then obtain h gp where x: "x = (h, gp, None)" by (cases x) auto
  have free: "\<not> acc_mutex sim_account" and n: "7 = fst (GetNonce sim_client sim_account sim0)" by code_simp+
  from cancel_pair_shares_nonce [OF sim_lib_nonce free run [unfolded x] n] run x show ?thesis by auto
qed

text \<open>
  C19: every operation of an account that takes its mutex waits, without any effect, while
  the mutex is held; otherwise it ends with the mutex free again, whatever branch it takes (errors and
  panics included), and leaves the account's keys and address alone.
\<close>

theorem account_operations_lock_safe:
  "lock_safe (sendTransaction L C g ty m None) \<and>
   lock_safe (TransferSignedTx L C g to v input) \<and>
   lock_safe (TransferNewValueTransferWithCancelTx L C g to v) \<and>
   lock_safe (TransferNewSmartContractDeployTx L C g to v d fix0) \<and>
   lock_safe (transferNewEthereumTxWithAccessList L C g to' v input ty') \<and>
   lock_safe (transferNewEthStyleTx L C g to' v input ty') \<and>
   lock_safe (TransferNewGaslessTx E token gsr) \<and>
   lock_safe (TransferNewGaslessApproveTx E token gsr) \<and>
   lock_safe (AuctionBid E A arrive entryPoint target key) \<and>
   lock_safe (AuctionRevertedBid E A entryPoint target key)"
proof (intro conjI lock_safeI)
  show "locking_op (sendTransaction L C g ty m None)" by (rule sendTransaction_locking) simp
  show "locking_op (TransferSignedTx L C g to v input)"
    unfolding TransferSignedTx_def TransferSignedTxReturnTx_def
    by (simp add: locking_op.mapped_locking signed_body.locked)
qed (unfold TransferNewValueTransferWithCancelTx_def TransferNewSmartContractDeployTx_def
    transferNewEthereumTxWithAccessList_def transferNewEthStyleTx_def TransferNewGaslessTx_def
    TransferNewGaslessApproveTx_def AuctionBid_def AuctionRevertedBid_def,
    (rule cancel_body.locked deploy_body.locked eth_access_body.locked eth_style_body.locked
      gasless_body.locked gasless_approve_body.locked bid_body.locked reverted_bid_body.locked)+)

text \<open>
  C18: a deployment that the node accepted reports the contract address computed from the
  account's address and the nonce \<open>GetNonce\<close> gave, and moves the cached nonce by one. The
  transaction carries that nonce, except with \<open>shouldFixNonceZero\<close>, where it carries nonce 0: then
  the reported address belongs to the transaction only if the cached nonce was 0 too.
\<close>

theorem deployment_address:
  assumes lib: "lib_nonce L nonce_of" and free: "\<not> acc_mutex a"
    and run: "TransferNewSmartContractDeployTx L C g to v d fix0 a w = (Ret (addr, tx, gp, None), a', w')"
    and n: "n = fst (GetNonce C a w)"
  shows "nonce_of tx = (if fix0 then 0 else n) \<and> addr = createAddress L (acc_address a) n \<and>
    acc_nonce a' = n + 1"
proof -
  let ?a = "a\<lparr>acc_mutex := True\<rparr>"
  obtain b v1 where gn: "GetNonce C ?a w = (n, b, v1)"
    using GetNonce_mutex [where C = C and a = a and b = True and w = w] n by (cases "GetNonce C ?a w") auto
  from GetNonce_frame [OF gn] have b: "acc_nonce b = n" "acc_address b = acc_address a" by auto
  from run free gn b show ?thesis
    by (auto simp: TransferNewSmartContractDeployTx_def with_lock_def SmartContractDeploy_body_def Let_def
        split: outcome.splits prod.splits option.splits if_splits dest!: make_signed_nonce [OF lib])
qed

lemma deployment_address_witness:
  "\<exists>addr tx gp a' w'. TransferNewSmartContractDeployTx sim_lib sim_client init_globals sim_account (Some 0) [1]
       False sim_account sim0 = (Ret (addr, tx, gp, None), a', w') \<and> st_nonce tx = 7 \<and> addr = 85"
proof -
  let ?f = "TransferNewSmartContractDeployTx sim_lib sim_client init_globals sim_account (Some 0) [1] False"
  have "ret_with (\<lambda>x a' w'. snd (snd (snd x)) = None) (?f sim_account sim0)" by code_simp
  then obtain x a' w' where run: "?f sim_account sim0 = (Ret x, a', w')" and "snd (snd (snd x)) = None"
    by (rule ret_withE)
  then obtain addr tx gp where x: "x = (addr, tx, gp, None)" by (cases x) auto
  have free: "\<not> acc_mutex sim_account" and n: "7 = fst (GetNonce sim_client sim_account sim0)"
    and c: "createAddress sim_lib (acc_address sim_account) 7 = 85" by code_simp+
  from deployment_address [OF sim_lib_nonce free run [unfolded x] n] run x c show ?thesis by auto
qed

text \<open>
  C15: a gasless operation that succeeds has sent an approve transaction with nonce \<open>n\<close>
  and then a swap transaction with nonce \<open>n + 1\<close>, where \<open>n\<close> is what \<open>GetNonce\<close> gave, and has moved
  the cached nonce to \<open>n + 2\<close>; after an error it is \<open>n\<close>, or \<open>n + 1\<close> if the error says that a nonce is used.
  So it stays at \<open>n\<close> when the approve was accepted and the swap refused for another reason.
\<close>

theorem gasless_pair_nonces:
  assumes lib: "lib_nonce (e_lib E) nonce_of" and free: "\<not> acc_mutex a"
    and run: "TransferNewGaslessTx E token gsr a w = (Ret (h1, h2, gp, err), a', w')"
    and n: "n = fst (GetNonce (e_cli E) a w)"
  shows "(err = None \<longrightarrow> acc_nonce a' = n + 2 \<and> (\<exists>tx1 tx2 w1 r1 w2 r2 w3.
       nonce_of tx1 = n \<and> SendRawTransaction (e_cli E) tx1 w1 = ((r1, None), w2) \<and>
       nonce_of tx2 = n + 1 \<and> SendRawTransaction (e_cli E) tx2 w2 = ((r2, None), w3))) \<and>
    (\<forall>e. err = Some e \<longrightarrow> acc_nonce a' = n \<or> nonce_conflict (e_lib E) e \<and> acc_nonce a' = n + 1)"
proof -
  let ?a = "a\<lparr>acc_mutex := True\<rparr>"
  obtain b v1 where gn: "GetNonce (e_cli E) ?a w = (n, b, v1)"
    using GetNonce_mutex [where C = "e_cli E" and a = a and b = True and w = w] n
    by (cases "GetNonce (e_cli E) ?a w") auto
  from GetNonce_frame [OF gn] have b: "acc_nonce b = n" by simp
  have ap: "nonce_of stx = n" if "sign_155 E k (approve_tx E n t p dd) = Inr stx" for k t p dd stx
    using that lib_nonceD [OF lib] by (metis approve_tx_def sign_155_def)
  have sw: "nonce_of stx = n + 1" if "sign_155 E k (swap_tx E (n + 1) t p dd) = Inr stx" for k t p dd stx
    using that lib_nonceD [OF lib] by (metis swap_tx_def sign_155_def)
  from run free obtain a2 where body: "Gasless_body E token gsr ?a w = (Ret (h1, h2, gp, err), a2, w')"
    and a2: "acc_nonce a' = acc_nonce a2" unfolding TransferNewGaslessTx_def by (auto elim: with_lock_RetE)
  from body [unfolded Gasless_body_def Let_def] gn b show ?thesis
    unfolding a2
    by (auto elim!: op_bindE simp: op_Ret op_skip_used_def op_first_key_def
        split: sum.splits option.splits if_splits )
      (metis ap [folded b] sw [folded b])
qed

lemma gasless_pair_nonces_witness:
  "\<exists>h1 h2 gp a' w'. TransferNewGaslessTx sim_env sim_account sim_account sim_account sim0
       = (Ret (h1, h2, gp, None), a', w') \<and> acc_nonce a' = 9"
proof -
  have "ret_with (\<lambda>x a' w'. snd (snd (snd x)) = None)
      (TransferNewGaslessTx sim_env sim_account sim_account sim_account sim0)" by code_simp
  then obtain x a' w' where run: "TransferNewGaslessTx sim_env sim_account sim_account sim_account sim0
      = (Ret x, a', w')" and "snd (snd (snd x)) = None" by (rule ret_withE)
  then obtain h1 h2 gp where x: "x = (h1, h2, gp, None)" by (cases x) auto
  have free: "\<not> acc_mutex sim_account" and n: "7 = fst (GetNonce (e_cli sim_env) sim_account sim0)"
    by code_simp+
  have lib: "lib_nonce (e_lib sim_env) st_nonce" using sim_lib_nonce by (simp add: sim_env_def)
  from gasless_pair_nonces [OF lib free run [unfolded x] n] run x show ?thesis by auto
qed



text \<open>
  C9: when \<open>TransferSignedTxWithGuaranteeRetry\<close> returns, it returns a transaction, and the
  last thing it saw is a receipt of that transaction with status 1.
\<close>

theorem guaranteed_transfer_mined:
  assumes "TransferSignedTxWithGuaranteeRetry L C g to v input a w = Some (Ret otx, a', w')"
  shows "\<exists>tx rc w1. otx = Some tx \<and> WaitMined C 30 tx w1 = ((Some rc, None), w') \<and> rc_status rc = 1"
proof -
  from retry_run_mined [OF assms [unfolded TransferSignedTxWithGuaranteeRetry_def RunWithRetry_iff] no_skip_transfer]
  obtain tx w1 m where "otx = Some tx" "WaitMined C 30 tx w1 = (m, w')" "mined_ok m" by auto
  with mined_okE show ?thesis by blast
qed

lemma guaranteed_transfer_mined_witness:
  "\<exists>tx a' w'. TransferSignedTxWithGuaranteeRetry sim_lib sim_client init_globals sim_account (Some 5) None
       sim_account sim0 = Some (Ret (Some tx), a', w') \<and> (\<exists>rc w1. WaitMined sim_client 30 tx w1 =
       ((Some rc, None), w') \<and> rc_status rc = 1)"
proof -
  let ?send = "op_map drop_price (TransferSignedTxReturnTx sim_lib sim_client init_globals True sim_account (Some 5) None)"
  have "ret_with (\<lambda>x a w. snd x = None \<and> sim_mined w = []) (?send sim_account sim0)" by code_simp
  then obtain x a1 w1 where s: "?send sim_account sim0 = (Ret x, a1, w1)" and x: "snd x = None" "sim_mined w1 = []"
    by (rule ret_withE) auto
  then obtain tx where "x = (Some tx, None)"
    by (auto simp: op_map_def drop_price_def split: outcome.splits prod.splits)
  from RunWithRetry_first [of ?send, OF s [unfolded this], of sim_client "DefaultRetryConfig\<lparr>WaitMinedTimeout := 30\<rparr>"] x(2)
  have r: "TransferSignedTxWithGuaranteeRetry sim_lib sim_client init_globals sim_account (Some 5) None
       sim_account sim0 = Some (Ret (Some tx), a1, w1)"
    by (simp add: TransferSignedTxWithGuaranteeRetry_def mined_ok_def sim_client_def sim_wait_def)
  from guaranteed_transfer_mined [OF this] r show ?thesis by blast
qed



text \<open>
  C38: the retry loop has no bound of its own: a send function that is always rejected, with
  errors that are not to be skipped, makes \<open>RunWithRetry\<close> run for ever.
\<close>

theorem rejected_forever_never_returns:
  assumes "\<And>a w. \<exists>tx e a1 w1. sendTx a w = (Ret (tx, Some e), a1, w1) \<and> \<not> skips cfg e"
  shows "RunWithRetry C cfg sendTx a w = None"
  using assms by (rule retry_rejected_forever)

lemma rejected_forever_never_returns_witness:
  "RunWithRetry sim_client DefaultRetryConfig (\<lambda>a w. (Ret (None, Some ''insufficient funds''), a, w)) sim_account sim0 = None"
  by (rule rejected_forever_never_returns) (simp add: skips_def DefaultRetryConfig_def)

text \<open>
  C12: \<open>ConcurrentTransactionSend\<close>, however its goroutines are interleaved, has at most
  \<open>maxConcurrency\<close> (or ten per CPU) accounts between the semaphore's send and receive, calls
  \<open>transactionSend\<close> at most once per account, and when it returns has called it exactly once for each
  account and counted all of them.
\<close>

theorem concurrent_sends_bounded:
  assumes "cts_reach (capacity cpus maxConcurrency) tot s"
  shows "length (filter in_flight (phases s)) \<le> capacity cpus maxConcurrency \<and> distinct (sends s) \<and>
    (returned s \<longrightarrow> mset (sends s) = mset [0..<tot] \<and> completed s = tot)"
  using cts_reach_inv [OF assms] cts_done_sends [OF cts_reach_inv [OF assms]]
    cts_done_completed [OF cts_reach_inv [OF assms]]
  by (auto simp: cts_inv_def num_def)

lemma concurrent_sends_bounded_witness:
  "\<exists>s. cts_reach (capacity 4 1) 2 s \<and> returned s \<and> mset (sends s) = mset [0, 1]"
proof -
  have "0 < capacity 4 1" by (simp add: capacity_def)
  with cts_reaches_return [OF cts_inv_init] obtain s
    where "(cts_step (capacity 4 1))\<^sup>*\<^sup>* (cts_init 2) s" "returned s" by blast
  with reach_steps cts_start have "cts_reach (capacity 4 1) 2 s" by blast
  with concurrent_sends_bounded [OF this] \<open>returned s\<close> show ?thesis by (auto simp: numeral_2_eq_2)
qed



text \<open>
  C23: goroutines that each take the locks of two accounts in the order of \<open>doubleLock\<close> never
  deadlock: as long as one of them has not ended, some goroutine can take a step.
\<close>

theorem double_lock_no_deadlock:
  assumes "lock_reach (lockers text jobs) gs" and "\<exists>g \<in> set gs. \<not> ended g"
  shows "\<exists>hs. lock_step gs hs"
  using lock_progress [OF lockers_ok [OF assms(1)] assms(2)] .

lemma double_lock_no_deadlock_witness:
  "\<exists>hs. lock_step (lockers id [(''a'', ''b''), (''b'', ''a'')]) hs"
  by (rule double_lock_no_deadlock [OF lr_start]) (simp add: lockers_def start_def)



text \<open>
  A client pool starts with \<open>init\<close> idle clients, and after any sequence of \<open>Alloc\<close> and \<open>Free\<close>
  the counter equals the idle clients plus those handed out: no client is lost or counted twice.
\<close>

lemma pool_counts_clients:
  assumes "0 \<le> n" and "Client_Pool.Init n m f (empty_pool f) w = (p0, w0)"
    and "pool_step\<^sup>*\<^sup>* (p0, {#}, w0) (p, out, w1)"
  shows "cp_cnt p = int (length (cp_freeList p)) + int (size out) \<and> length (cp_freeList p0) = nat n"
proof -
  from assms(2) have i: "length (cp_freeList p0) = nat n" "cp_cnt p0 = n"
    using Init_loop_free [of "nat n" _ w p0 w0] assms(1) by (auto simp: Client_Pool.Init_def empty_pool_def)
  have "pool_inv s \<Longrightarrow> pool_step\<^sup>*\<^sup>* s t \<Longrightarrow> pool_inv t" for s t :: "('a, 'b) ClientPool \<times> 'a multiset \<times> 'b"
    by (rotate_tac, induction rule: rtranclp_induct) (auto dest: pool_step_inv)
  from this [OF _ assms(3)] i assms(1) show ?thesis by (simp add: pool_inv_def)
qed

lemma pool_counts_clients_witness:
  "\<exists>p w1. pool_step\<^sup>*\<^sup>* (fst (Client_Pool.Init 2 9 (\<lambda>w. (w, w + 1)) (empty_pool (\<lambda>w. (w, w + 1))) (0::nat)), {#}, 2)
      (p, {#0#}, w1) \<and> cp_cnt p = 2 \<and> cp_freeList p = [1]"
proof -
  let ?f = "\<lambda>w. (w, w + 1 :: nat)"
  have i: "Client_Pool.Init 2 9 ?f (empty_pool ?f) 0
      = (\<lparr>cp_max = 9, cp_init = 2, cp_cnt = 2, cp_freeList = [0, 1], cp_allocFunc = ?f\<rparr>, 2)" (is "_ = (?p, _)")
    by (simp add: Client_Pool.Init_def empty_pool_def eval_nat_numeral)
  have "pool_step (?p, {#}, 2) (?p\<lparr>cp_freeList := [1]\<rparr>, {#0#}, 2)"
    using step_alloc [OF Alloc_nonempty [of ?p 0 "[1]" 2], of "{#}"] by simp
  then have "pool_step\<^sup>*\<^sup>* (?p, {#}, 2) (?p\<lparr>cp_freeList := [1]\<rparr>, {#0#}, 2)" by (rule r_into_rtranclp)
  with pool_counts_clients [OF _ i this] i show ?thesis by auto
qed

text \<open>
  Removing a token gives the oldest token of the account's queue, and putting it into the queue
  of another (or the same) account leaves the multiset of all tokens unchanged.
\<close>

lemma ledger_transfer_conserves:
  assumes "distinct owners" "a \<in> set owners" "b \<in> set owners" and "RemoveToken a l = (Some t, l')"
  shows "tokens_of l a = t # tokens_of l' a \<and>
    ledger_store.held owners (PutToken b t l') = ledger_store.held owners l"
  using ledger_store.take_Some [OF assms(4)] ledger_store.held_take_Some [OF assms(1,2,4)]
    ledger_store.held_put [OF assms(1,3)] by simp

lemma ledger_transfer_conserves_witness:
  "ledger_store.held [1, 2] (PutToken 2 8 (snd (RemoveToken 1 (PutToken 1 9 (PutToken 1 8 NewERC721TokenLedger)))))
     = {#8, 9#}"
proof -
  let ?l = "PutToken 1 9 (PutToken 1 8 NewERC721TokenLedger)"
  have "RemoveToken 1 ?l = (Some 8, snd (RemoveToken 1 ?l))"
    by (simp add: RemoveToken_Cons [of _ _ 8 "[9]"] tokens_of_Put)
  from ledger_transfer_conserves [of "[1, 2]", OF _ _ _ this, of 2] show ?thesis
    by (simp add: tokens_of_Put)
qed

text \<open>
  C39: \<open>k\<close> full rounds of \<open>GetAccountRoundRobin\<close> hand out every account of the set exactly \<open>k\<close>
  times, from whatever position they start.
\<close>

theorem round_robin_fair:
  assumes "as_wf s" and "accounts s \<noteq> []" and "picks pick_round_robin (k * length (accounts s)) s = (rs, s')"
  shows "mset rs = repeat_mset k (mset (map Some (accounts s)))"
proof -
  let ?xs = "accounts s" and ?r = "roundRobinIndex s" let ?n = "length ?xs"
  have one: "mset (map (\<lambda>i. ?xs ! ((?r + (m + i)) mod ?n)) [0..<?n]) = mset ?xs" for m
  proof -
    have "map (\<lambda>i. ?xs ! ((?r + (m + i)) mod ?n)) [0..<?n] = rotate (?r + m) ?xs"
      using assms(2) by (intro nth_equalityI) (simp_all add: nth_rotate add.assoc)
    then show ?thesis by (simp add: mset_rotate_eq)
  qed
  have "mset (map (\<lambda>i. ?xs ! ((?r + i) mod ?n)) [0..<j * ?n]) = repeat_mset j (mset ?xs)" for j
  proof (induction j)
    case (Suc j)
    have "[0..<Suc j * ?n] = [0..<j * ?n] @ map (\<lambda>i. j * ?n + i) [0..<?n]"
      using upt_add_eq_append [of 0 "j * ?n" ?n] by (simp add: map_add_upt add.commute)
    then show ?case using Suc one [of "j * ?n"] by (simp add: o_def)
  qed simp
  moreover have "rs = map Some (map (\<lambda>i. ?xs ! ((?r + i) mod ?n)) [0..<k * ?n])"
    using round_robin_nth [OF assms] by (simp add: o_def)
  ultimately show ?thesis by (simp only: mset_map image_repeat_mset)
qed

lemma round_robin_fair_witness:
  "\<exists>rs s'. picks pick_round_robin (2 * 2) (NewAccountSet [5, 6 :: nat]) = (rs, s') \<and>
     mset rs = {#Some 5, Some 5, Some 6, Some 6#}"
proof -
  let ?s = "NewAccountSet [5, 6 :: nat]"
  have a: "as_wf ?s" "accounts ?s \<noteq> []" "length (accounts ?s) = 2"
    by (simp_all add: as_wf_def NewAccountSet_def AS_Len_def)
  obtain rs s' where r: "picks pick_round_robin (2 * length (accounts ?s)) ?s = (rs, s')" by fastforce
  from round_robin_fair [OF a(1,2) r] r a(3) show ?thesis
    by (auto simp: NewAccountSet_def numeral_2_eq_2)
qed

text \<open>
  \<open>CreateAccountsPerAccGrp\<close> on a new group creates the requested number of accounts in each of
  the six lists (none for a negative count) and sets no contract.
\<close>

lemma created_account_counts:
  assumes "CreateAccountsPerAccGrp new unlock nSigned nUnsigned nNew nRevert nApprove nTC tcs
      (fst (NewAccGroup chain price fee wantUnsigned globals0)) w = (Ret g, w')"
      (is "CreateAccountsPerAccGrp _ _ _ _ _ _ _ _ _ ?g0 _ = _")
  shows "length (GetAccListByName g AccListForSignedTx) = nat nSigned \<and>
    length (GetAccListByName g AccListForUnsignedTx) = nat nUnsigned \<and>
    length (GetAccListByName g AccListForNewAccounts) = nat nNew \<and>
    length (GetAccListByName g AccListForGaslessRevertTx) = nat nRevert \<and>
    length (GetAccListByName g AccListForGaslessApproveTx) = nat nApprove \<and>
    length (GetAccListByName g AccListForTC) = nat nTC \<and> GetTestContractByName g t = None"
proof -
  have wf: "ag_wf ?g0" by (metis NewAccGroup_wf prod.collapse)
  have empty: "GetAccListByName ?g0 u = []" "GetTestContractByName ?g0 t = None" for u
    by (simp_all add: NewAccGroup_def GetAccListByName_def GetTestContractByName_def)
  from assms obtain w1 where "create_lists new [(AccListForSignedTx, nSigned), (AccListForUnsignedTx, nUnsigned),
      (AccListForNewAccounts, nNew), (AccListForGaslessRevertTx, nRevert),
      (AccListForGaslessApproveTx, nApprove), (AccListForTC, nTC)] ?g0 w = (Ret g, w1)"
    by (auto simp: CreateAccountsPerAccGrp_def split: prod.splits outcome.splits if_splits)
  from create_lists_counts [OF this wf] empty show ?thesis
    by (simp add: GetTestContractByName_def)
qed

lemma created_account_counts_witness:
  "\<exists>g w'. CreateAccountsPerAccGrp (\<lambda>i w. (Ret w, w + 1)) (\<lambda>a w. (Ret (), w)) 3 2 5 0 0 (- 1) [''transferUnsignedTx'']
     (fst (NewAccGroup 1 2 3 True init_globals)) (0 :: nat) = (Ret g, w') \<and>
     length (GetAccListByName g AccListForSignedTx) = 3 \<and> length (GetAccListByName g AccListForTC) = 0"
proof -
  let ?r = "CreateAccountsPerAccGrp (\<lambda>i w. (Ret w, w + 1)) (\<lambda>a w. (Ret (), w)) 3 2 5 0 0 (- 1) [''transferUnsignedTx'']
     (fst (NewAccGroup 1 2 3 True init_globals)) (0 :: nat)"
  have "returns (fst ?r)" by code_simp
  then have "\<exists>g w'. ?r = (Ret g, w')" by (cases ?r; cases "fst ?r") auto
  then obtain g w' where r: "?r = (Ret g, w')" by blast
  from created_account_counts [OF this] r show ?thesis by auto
qed

end
