(* ===== verification/Startup.thy ===== *)
theory Startup
  imports Main_Run
begin

text \<open>
  Facts on the start-up, from the contract table to the tasks: which contract addresses a constructor
  reads, what the steps before the deployment leave alone, the accounts they create, and what
  \<open>initializeTasks\<close> gives to each task.
\<close>

section \<open>The contract table\<close>


lemma contract_addr_Some:
  "TestContract_idx t < length cs \<Longrightarrow> cs ! TestContract_idx t = Some a \<Longrightarrow> contract_addr cs t f = f (acc_address a)"
  by (simp add: contract_addr_def)

text \<open>The contracts whose addresses an entry's constructor takes.\<close>

fun constructor_uses :: "TestContract \<Rightarrow> TestContract list" where
  "constructor_uses ContractUniswapV2Router = [ContractUniswapV2Factory, ContractWKaia]"
| "constructor_uses ContractGaslessSwapRouter = [ContractWKaia]"
| "constructor_uses ContractAuctionDepositVault = [ContractAuctionFeeVault]"
| "constructor_uses ContractAuctionEntryPoint = [ContractAuctionDepositVault]"
| "constructor_uses ContractTetherProxy = [ContractTetherLogic]"
| "constructor_uses _ = []"

lemma constructor_uses_earlier: "u \<in> set (constructor_uses t) \<Longrightarrow> TestContract_idx u < TestContract_idx t"
  by (cases t) auto

lemma constructor_uses_needed:
  "u \<in> set (constructor_uses t) \<Longrightarrow> not_needed E tcs types u \<Longrightarrow> not_needed E tcs types t"
  by (cases t) (auto simp: not_needed_def contract_info_defs simp del: ContainsAnyInList.simps)

lemma constructor_no_panic:
  assumes "length cs = ContractEnd" and "\<And>u. u \<in> set (constructor_uses t) \<Longrightarrow> cs ! TestContract_idx u \<noteq> None"
  shows "GetBytecodeWithConstructorParam (info_of E t) bin cs d \<noteq> Panic m"
proof -
  have "\<forall>u \<in> set (constructor_uses t). \<exists>a. cs ! TestContract_idx u = Some a"
    using assms(2) by auto
  then show ?thesis using assms(1)
    by (cases t) (auto simp: contract_info_defs returnBinAsIs_def append_packed_def PackContractCall_def
        pack_fatal_def contract_addr_def ContractEnd_def split: option.split sum.split)
qed

lemma fixed_key_inj: "fixed_key x = fixed_key y \<Longrightarrow> x = y"
  by (cases x; cases y) simp_all

text \<open>Which entries are looked up by their deployer's nonce 0.\<close>

definition registry_located :: "TestContract list" where
  "registry_located = [ContractGaslessToken, ContractGaslessSwapRouter, ContractAuctionEntryPoint]"

lemma InfoGetAddress_nonce0: "c \<notin> set registry_located \<Longrightarrow> InfoGetAddress (info_of E c) = nonce0 E"
  by (cases c) (simp_all add: registry_located_def contract_info_defs)

lemma testNames_glob: "testNames (info_of (E\<lparr>e_glob := g\<rparr>) c) = testNames (info_of E c)"
  "auctionTargetTxTypes (info_of (E\<lparr>e_glob := g\<rparr>) c) = auctionTargetTxTypes (info_of E c)"
  "deployer (info_of (E\<lparr>e_glob := g\<rparr>) c) = deployer (info_of E c)"
  by (cases c; simp add: contract_info_defs)+

lemma not_needed_glob: "not_needed (E\<lparr>e_glob := g\<rparr>) tcs types c = not_needed E tcs types c"
  by (simp add: not_needed_def testNames_glob)

lemma task_contract_needed:
  assumes "t \<in> set (TcList E A arrive R)" and "et_Name t \<in> set tcs" and "c \<in> set (et_TestContracts t)"
  shows "\<not> not_needed E tcs types c"
proof -
  have "c = ContractGeneral \<or> et_Name t \<in> set (testNames (info_of E c))"
    using assms(1,3) by (auto simp: TcList_defs contract_info_defs)
  then show ?thesis using assms(2) by (auto simp: not_needed_def ContainsAnyInList_iff)
qed

section \<open>What the start-up keeps\<close>

text \<open>Before the deployment, only accounts other than the fixed ones are created or replaced.\<close>

definition keeps_fixed :: "('w, 'r) run \<Rightarrow> bool" where
  "keeps_fixed m \<longleftrightarrow> (\<forall>s r s'. m s = Some (r, s') \<longrightarrow>
     grp s' = grp s \<and> (\<forall>d. identity (accs s' (Fixed d)) = identity (accs s (Fixed d))))"

lemma keeps_fixedD: "keeps_fixed m \<Longrightarrow> m s = Some (r, s') \<Longrightarrow>
   grp s' = grp s \<and> (\<forall>d. identity (accs s' (Fixed d)) = identity (accs s (Fixed d)))"
  unfolding keeps_fixed_def by blast

lemma keeps_imp_fixed: "keeps m \<Longrightarrow> keeps_fixed m"
  unfolding keeps_def keeps_fixed_def by blast

lemma keeps_fixed_bind:
  assumes m: "keeps_fixed m" and f: "\<And>x. keeps_fixed (f x)"
  shows "keeps_fixed (bind_run m f)"
  unfolding keeps_fixed_def
proof (intro allI impI)
  fix s r s' assume run: "bind_run m f s = Some (r, s')"
  then obtain q s1 where q: "m s = Some (q, s1)" by (auto simp: bind_run_def split: option.splits)
  show "grp s' = grp s \<and> (\<forall>d. identity (accs s' (Fixed d)) = identity (accs s (Fixed d)))"
    using run q keeps_fixedD [OF m q] by (cases q) (auto simp: bind_run_def dest: keeps_fixedD [OF f])
qed

lemma keeps_fixed_then: "keeps_fixed m \<Longrightarrow> keeps_fixed k \<Longrightarrow> keeps_fixed (then_run m k)"
  by (simp add: then_run_def keeps_fixed_bind)

lemma keeps_fixed_put: "(\<And>d. ref \<noteq> Fixed d) \<Longrightarrow> keeps_fixed (put_acc ref a)"
  by (auto simp: keeps_fixed_def put_acc_def)

lemma keeps_nonce_op: "keeps (on_acc ref (nonce_op E))"
  by (auto simp: keeps_def on_acc_def nonce_op_def split: prod.splits dest: GetNonce_frame)

lemma keeps_wait_reservoir: "keeps (wait_reservoir S otx)"
  unfolding wait_reservoir_def by (auto intro!: keeps_rules split: option.split sum.split)

lemma keeps_reservoir_transfer:
  "keeps (on_acc_opt ref (TransferSignedTxWithGuaranteeRetry L C g to v i))"
  unfolding TransferSignedTxWithGuaranteeRetry_def
  by (intro keeps_on_acc_opt, erule RunWithRetry_identity [rotated])
    (rule account_op.mapped [OF signed_op.account_op_axioms])

lemma keeps_fixed_charge: "keeps_fixed (charge_reservoir E S cfg)"
  unfolding charge_reservoir_def
  by (intro keeps_fixed_bind keeps_fixed_then keeps_fixed_put keeps_imp_fixed keeps_rules keeps_nonce_op
      keeps_wait_reservoir keeps_reservoir_transfer) simp_all

lemma create_users_inv:
  assumes "\<And>i w r w'. new i w = (r, w') \<Longrightarrow> P w \<Longrightarrow> P w'"
  shows "create_users new n i t a w = (r, w') \<Longrightarrow> P w \<Longrightarrow> P w'"
proof (induction n arbitrary: i a w)
  case (Suc n)
  obtain q w1 where q: "new (int i) w = (q, w1)" by (cases "new (int i) w")
  with Suc.prems assms have "P w1" by blast
  with Suc q show ?case by (cases q) auto
qed simp

lemma create_lists_inv:
  assumes "\<And>i w r w'. new i w = (r, w') \<Longrightarrow> P w \<Longrightarrow> P w'"
  shows "create_lists new ps a w = (r, w') \<Longrightarrow> P w \<Longrightarrow> P w'"
proof (induction ps arbitrary: a w)
  case (Cons p ps)
  obtain t n where p: "p = (t, n)" by (cases p)
  obtain q w1 where q: "create_users new (nat n) 0 t a w = (q, w1)" by (cases "create_users new (nat n) 0 t a w")
  have "P w1" using create_users_inv [where new = new and P = P] assms q Cons.prems by blast
  with Cons p q show ?case by (cases q) auto
qed simp

lemma unlock_all_inv:
  assumes "\<And>a w r w'. unlock a w = (r, w') \<Longrightarrow> P w \<Longrightarrow> P w'"
  shows "unlock_all unlock accounts0 w = (r, w') \<Longrightarrow> P w \<Longrightarrow> P w'"
proof (induction accounts0 arbitrary: w)
  case (Cons a as)
  obtain q w1 where q: "unlock a w = (q, w1)" by (cases "unlock a w")
  with Cons.prems assms have "P w1" by blast
  with Cons q show ?case by (cases q) auto
qed simp

lemma CreateAccountsPerAccGrp_inv:
  assumes new: "\<And>i w r w'. new i w = (r, w') \<Longrightarrow> P w \<Longrightarrow> P w'"
    and unlock: "\<And>a w r w'. unlock a w = (r, w') \<Longrightarrow> P w \<Longrightarrow> P w'"
    and run: "CreateAccountsPerAccGrp new unlock n1 n2 n3 n4 n5 n6 tcs a w = (r, w')" and "P w"
  shows "P w'"
proof -
  obtain q w1 where q: "create_lists new
             [(AccListForSignedTx, n1), (AccListForUnsignedTx, n2),
              (AccListForNewAccounts, n3), (AccListForGaslessRevertTx, n4),
              (AccListForGaslessApproveTx, n5), (AccListForTC, n6)] a w = (q, w1)" by (metis prod.exhaust)
  have w1: "P w1" using create_lists_inv [where new = new and P = P] new q \<open>P w\<close> by blast
  have "P w2" if "unlock_all unlock xs w1 = (q2, w2)" for xs q2 w2
    using unlock_all_inv [where unlock = unlock and P = P] unlock that w1 by blast
  with run q w1 show ?thesis
    by (cases q) (auto simp: CreateAccountsPerAccGrp_def split: if_splits prod.splits outcome.splits)
qed

text \<open>Fixed accounts are untouched while the test accounts are created.\<close>

lemma create_accounts_fixed:
  fixes s :: "'w proc"
  assumes "create_accounts E W cfg s = Some (r, s')"
  shows "accs s' (Fixed d) = accs s (Fixed d)"
proof -
  let ?P = "\<lambda>sk :: 'w proc \<times> nat. accs (fst sk) (Fixed d) = accs s (Fixed d)"
  obtain q sk where q: "CreateAccountsPerAccGrp (new_test_account E) (unlock_test_account E W (GetGEndpoint cfg))
             (GetNUserForSigned cfg) (GetNUserForUnsigned cfg) (GetNUserForNewAccounts cfg)
             (gasless_users cfg ''gaslessRevertTransactionTC'') (gasless_users cfg ''gaslessOnlyApproveTC'')
             (GetNUserForTC cfg) (GetTcStrList cfg) (grp s) (s, 0) = (q, sk)" by (metis prod.exhaust)
  have "?P sk"
    by (rule CreateAccountsPerAccGrp_inv [of "new_test_account E" ?P, OF _ _ q])
      (auto simp: new_test_account_def unlock_test_account_def split: prod.splits outcome.splits)
  with assms q show ?thesis
    by (auto simp: create_accounts_def split: prod.splits outcome.splits)
qed

text \<open>The sizes of the lists it leaves.\<close>

definition requested :: "Config \<Rightarrow> AccList \<Rightarrow> nat" where
  "requested cfg t = nat (case t of
     AccListForSignedTx \<Rightarrow> GetNUserForSigned cfg | AccListForUnsignedTx \<Rightarrow> GetNUserForUnsigned cfg
   | AccListForNewAccounts \<Rightarrow> GetNUserForNewAccounts cfg
   | AccListForGaslessRevertTx \<Rightarrow> gasless_users cfg ''gaslessRevertTransactionTC''
   | AccListForGaslessApproveTx \<Rightarrow> gasless_users cfg ''gaslessOnlyApproveTC''
   | AccListForTC \<Rightarrow> GetNUserForTC cfg)"

lemma create_accounts_lists:
  assumes run: "create_accounts E W cfg s = Some (Ret (), s')" and wf: "ag_wf (grp s)"
    and empty: "\<And>t. GetAccListByName (grp s) t = []"
  shows "ag_wf (grp s')" "length (GetAccListByName (grp s') t) = requested cfg t"
    "containsUnsignedAccGrp (grp s') = containsUnsignedAccGrp (grp s)"
proof -
  from run obtain g sk where c: "CreateAccountsPerAccGrp (new_test_account E) (unlock_test_account E W (GetGEndpoint cfg))
             (GetNUserForSigned cfg) (GetNUserForUnsigned cfg) (GetNUserForNewAccounts cfg)
             (gasless_users cfg ''gaslessRevertTransactionTC'') (gasless_users cfg ''gaslessOnlyApproveTC'')
             (GetNUserForTC cfg) (GetTcStrList cfg) (grp s) (s, 0) = (Ret g, sk)" and g: "grp s' = g"
    by (auto simp: create_accounts_def split: prod.splits outcome.splits)
  then obtain sk1 where l: "create_lists (new_test_account E) [(AccListForSignedTx, GetNUserForSigned cfg),
      (AccListForUnsignedTx, GetNUserForUnsigned cfg), (AccListForNewAccounts, GetNUserForNewAccounts cfg),
      (AccListForGaslessRevertTx, gasless_users cfg ''gaslessRevertTransactionTC''),
      (AccListForGaslessApproveTx, gasless_users cfg ''gaslessOnlyApproveTC''),
      (AccListForTC, GetNUserForTC cfg)] (grp s) (s, 0) = (Ret g, sk1)"
    by (auto simp: CreateAccountsPerAccGrp_def split: if_splits prod.splits outcome.splits)
  note counts = create_lists_counts [OF l wf]
  from counts g show "ag_wf (grp s')" "containsUnsignedAccGrp (grp s') = containsUnsignedAccGrp (grp s)" by auto
  from counts g empty show "length (GetAccListByName (grp s') t) = requested cfg t"
    by (cases t) (auto simp: requested_def)
qed

section \<open>The tasks\<close>

lemma tc_Init_fields:
  assumes "tc_Init d1 d2 d3 g ep cs name types w = ((c, pools, accounts0), w')"
  shows "tc_TestContracts c = cs \<and> accounts accounts0 = init_accounts name g \<and>
    tc_SmartContractAccounts c = (\<lambda>t. if t \<in> set cs then Some (GetTestContractByName g t) else None)"
  using assms
  by (auto simp: tc_Init_def Let_def NewAccountSet_def GetTestContractList_def GetTestContractByName_def
      split: prod.splits if_splits)

text \<open>A pool as \<open>Init\<close> leaves it: every client that was made is in the free list.\<close>

definition pool_idle :: "('c, 'w) ClientPool \<Rightarrow> bool" where
  "pool_idle p \<longleftrightarrow> cp_cnt p = int (length (cp_freeList p))"

definition pools_idle :: "('c, 'w) ClientPool \<times> ('c, 'w) ClientPool \<times> ('c, 'w) ClientPool \<Rightarrow> bool" where
  "pools_idle ps \<longleftrightarrow> (case ps of (a, b, c) \<Rightarrow> pool_idle a \<and> pool_idle b \<and> pool_idle c)"

lemma Init_idle: "Client_Pool.Init i m f (empty_pool g) w = (p, w') \<Longrightarrow> pool_idle p"
  by (auto simp: Client_Pool.Init_def pool_idle_def empty_pool_def dest!: Init_loop_free)

lemma tc_Init_idle:
  assumes "tc_Init d1 d2 d3 g ep cs name types w = ((c, pools, accounts0), w')"
  shows "pools_idle pools"
  using assms
  by (auto simp: tc_Init_def Let_def pools_idle_def split: prod.splits if_splits dest!: Init_idle)
    (simp_all add: pool_idle_def empty_pool_def)

definition task_of :: "acc_ref AccGroup \<Rightarrow> 'w ExtendedTask \<Rightarrow> 'w boomer_task \<Rightarrow> bool" where
  "task_of g t bt \<longleftrightarrow> bt_Name bt = et_Name t \<and> bt_Weight bt = et_Weight t \<and>
     tc_TestContracts (bt_config bt) = et_TestContracts t \<and>
     accounts (bt_accounts bt) = init_accounts (et_Name t) g \<and>
     bt_Fn bt = et_Run t (bt_config bt) \<and> pools_idle (bt_pools bt) \<and>
     tc_SmartContractAccounts (bt_config bt) =
       (\<lambda>c. if c \<in> set (et_TestContracts t) then Some (GetTestContractByName g c) else None)"

lemma initializeTasks_tasks:
  "initializeTasks S cfg g ts w = (bts, w') \<Longrightarrow> list_all2 (task_of g) ts bts"
proof (induction ts arbitrary: bts w w')
  case (Cons t ts)
  obtain c pools a w1 where i: "tc_Init (su_kaiaDial S) (su_rpcDial S) (su_ethDial S) g (GetGEndpoint cfg) (et_TestContracts t)
             (et_Name t) (GetAuctionTargetTxTypeList cfg) w = ((c, pools, a), w1)"
    by (metis prod.exhaust)
  obtain bts' w2 where r: "initializeTasks S cfg g ts w1 = (bts', w2)" by (metis prod.exhaust)
  from Cons.prems i r Cons.IH [OF r] tc_Init_fields [OF i] tc_Init_idle [OF i] show ?case by (auto simp: task_of_def)
qed simp

section \<open>From the command line to the tasks\<close>

lemma extended_task_mem:
  "u \<in> set (extended_tasks f ws i names) \<Longrightarrow>
   \<exists>n \<in> set names. \<exists>t v. f n = Some t \<and> u = t\<lparr>et_Weight := v\<rparr>"
  by (induction f ws i names rule: extended_tasks.induct) (auto split: option.splits)

lemma GetExtendedTasks_needs:
  assumes "u \<in> set (GetExtendedTasks E A arrive R cfg)" and "c \<in> set (et_TestContracts u)"
  shows "\<not> not_needed E (tcNameList cfg) types c"
proof -
  from extended_task_mem assms(1) obtain n t v where n: "n \<in> set (tcNameList cfg)"
    and t: "TcList_lookup E A arrive R n = Some t" and u: "u = t\<lparr>et_Weight := v\<rparr>"
    by (metis GetExtendedTasks_def)
  from TcList_lookup_Some [OF t] task_contract_needed [of t E A arrive R "tcNameList cfg" c types] n u assms(2)
  show ?thesis by auto
qed

lemma activate_lists:
  assumes "activate p s = Some (Ret (), s')" and "0 \<le> p" "p \<le> 100"
  shows "accs s' = accs s" "contracts (grp s') = contracts (grp s)"
    "length (accLists (grp s)) = AccListEnd \<Longrightarrow> length (GetAccListByName (grp s') t) =
       nat (int (length (GetAccListByName (grp s) t)) * p div 100)"
proof -
  let ?f = "\<lambda>xs. take (nat (int (length xs) * p div 100)) xs"
  from assms have s': "s' = s\<lparr>grp := (grp s)\<lparr>accLists := map ?f (accLists (grp s))\<rparr>\<rparr>"
    by (simp add: activate_def SetAccGrpByActivePercent_def active_lists_take)
  then show "accs s' = accs s" "contracts (grp s') = contracts (grp s)" by simp_all
  show "length (GetAccListByName (grp s') t) = nat (int (length (GetAccListByName (grp s) t)) * p div 100)"
    if len: "length (accLists (grp s)) = AccListEnd"
  proof -
    let ?xs = "accLists (grp s) ! AccList_idx t"
    have "int (length ?xs) * p div 100 \<le> int (length ?xs)"
      using mult_left_mono [OF assms(3), of "int (length ?xs)"] by linarith
    with len s' show ?thesis by (simp add: GetAccListByName_def)
  qed
qed

lemma keeps_charge_all: "keeps (concurrent_run E refs (\<lambda>idx ref.
    bind_run (get_run (\<lambda>s. accs s ref)) (\<lambda>acc. transfer_retry E from acc v i)))"
  by (intro keeps_rules)

text \<open>What the set-up with a charge leaves, with the accounts \<open>p\<close> percent active.\<close>

definition prepared :: "('tx, 'w) env \<Rightarrow> Config \<Rightarrow> 'w proc \<Rightarrow> 'w proc \<Rightarrow> bool" where
  "prepared E cfg s s' \<longleftrightarrow>
     (\<forall>t. length (GetAccListByName (grp s') t) =
        nat (int (length (GetAccListByName (grp s) t)) * activeUserPercent cfg div 100)) \<and>
     (\<forall>c. \<not> not_needed E (tcNameList cfg) (auctionTargetTxTypeList cfg) c \<longrightarrow>
        GetTestContractByName (grp s') c = Some (contract_ref c) \<and>
        (c \<notin> set registry_located \<longrightarrow> acc_address (accs s' (contract_ref c)) =
          createAddress (e_lib E) (acc_address (accs s (Fixed (deployer (info_of E c))))) 0))"

lemma prepare_contracts:
  assumes run: "createTestAccGroupsAndPrepareContracts E S cfg s = Some (Ret l, s')"
    and charge: "GetChargeValue E cfg \<noteq> 0" and wf: "ag_wf (grp s)"
    and p: "0 \<le> activeUserPercent cfg" "activeUserPercent cfg \<le> 100"
  shows "prepared E cfg s s'"
proof -
  from run charge obtain s1 s2 s3 where
    c: "charge_reservoir E S cfg s = Some (Ret (), s1)" and
    f: "concurrent_run E (charged_accounts (grp s1)) (\<lambda>idx ref.
            bind_run (get_run (\<lambda>s. accs s ref)) (\<lambda>acc.
            transfer_retry E LocalReservoir acc (Some (GetChargeValue E cfg)) None)) s1 = Some (Ret (), s2)" and
    a: "activate (activeUserPercent cfg) s2 = Some (Ret (), s3)" and
    d: "DeployTestContracts E (work_context E cfg) s3 = Some (Ret (), s')"
    by (auto simp: createTestAccGroupsAndPrepareContracts_def bind_run_Ret then_run_Ret ret_run_def
        get_run_def GetActiveUserPercent_def)
  note k1 = keeps_fixedD [OF keeps_fixed_charge c] and k2 = keepsD [OF keeps_charge_all f]
    and k3 = activate_lists [OF a p]
  have g: "grp s2 = grp s" using k1 k2 by simp
  have addr: "acc_address (accs s3 (Fixed x)) = acc_address (accs s (Fixed x))" for x
    using k1 k2 k3(1) by (metis identity_address)
  have "length (contracts (grp s3)) = ContractEnd" using g wf k3(2) by (simp add: ag_wf_def)
  note D = DeployTestContracts_deployed [OF d this, unfolded deployed_def]
  have lists: "length (GetAccListByName (grp s') t) =
      nat (int (length (GetAccListByName (grp s) t)) * activeUserPercent cfg div 100)" for t
    using D k3(3) [of t] g wf by (simp add: GetAccListByName_def ag_wf_def)
  have ctx: "ctxTcList (work_context E cfg) = tcNameList cfg"
    "ctxTargetTxTypes (work_context E cfg) = auctionTargetTxTypeList cfg"
    by (simp_all add: work_context_def GetTcStrList_def GetAuctionTargetTxTypeList_def)
  have "located E c s'" if "\<not> not_needed E (tcNameList cfg) (auctionTargetTxTypeList cfg) c" for c
    using D that ctx by auto
  moreover have "expected_addr E c s' = createAddress (e_lib E) (acc_address (accs s (Fixed (deployer (info_of E c))))) 0" for c
    using D addr by (simp add: expected_addr_def)
  ultimately show ?thesis using lists InfoGetAddress_nonce0 [where E = E]
    by (simp add: prepared_def located_def)
qed

lemma NewAccGroup_empty: "NewAccGroup c p b u g = (a, g') \<Longrightarrow> GetAccListByName a t = []"
  by (cases t) (auto simp: NewAccGroup_def GetAccListByName_def AccListEnd_def)

lemma RunAction_run:
  assumes "RunAction E S D A arrive R ctx st prog w = Some (Ret (cfg, bts, s))"
  obtains h args w1 g glob s1 s2 l where "NewConfig D ctx st prog w = Some (Ret (cfg, h, args), w1)"
    "ag_wf g" "\<And>t. GetAccListByName g t = []"
    "create_accounts (E\<lparr>e_glob := glob\<rparr>) (su_wallet S) cfg (start_proc (E\<lparr>e_glob := glob\<rparr>) g w1) = Some (Ret (), s1)"
    "createTestAccGroupsAndPrepareContracts (E\<lparr>e_glob := glob\<rparr>) S cfg s1 = Some (Ret l, s2)"
    "accs s = accs s2" "grp s = grp s2"
    "list_all2 (task_of (grp s)) (GetExtendedTasks (E\<lparr>e_glob := glob\<rparr>) A arrive R cfg) bts"
proof -
  from assms obtain h args w1 where n: "NewConfig D ctx st prog w = Some (Ret (cfg, h, args), w1)"
    by (auto simp: RunAction_def Let_def split: option.splits prod.splits outcome.splits
        elim!: map_outcome_ret.elims)
  obtain g :: "acc_ref AccGroup" and glob where gg: "NewAccGroup (GetChainID cfg) (GetGasPrice cfg) (GetBaseFee cfg)
      (ContainsAnyInList (GetTcStrList cfg) [''transferUnsignedTx'']) (e_glob E) = (g, glob)"
    by (metis prod.exhaust)
  from assms n gg have "action_body (E\<lparr>e_glob := glob\<rparr>) S A arrive R cfg (start_proc (E\<lparr>e_glob := glob\<rparr>) g w1)
      = Some (Ret bts, s)"
    by (auto simp: RunAction_def Let_def elim!: map_outcome_ret.elims)
  then obtain s1 s2 l where c: "create_accounts (E\<lparr>e_glob := glob\<rparr>) (su_wallet S) cfg
      (start_proc (E\<lparr>e_glob := glob\<rparr>) g w1) = Some (Ret (), s1)"
    and p: "createTestAccGroupsAndPrepareContracts (E\<lparr>e_glob := glob\<rparr>) S cfg s1 = Some (Ret l, s2)"
    and i: "init_tasks_run S cfg (GetExtendedTasks (E\<lparr>e_glob := glob\<rparr>) A arrive R cfg) s2 = Some (Ret bts, s)"
    by (auto simp: action_body_def then_run_Ret)
  from i obtain w2 where t: "initializeTasks S cfg (grp s2) (GetExtendedTasks (E\<lparr>e_glob := glob\<rparr>) A arrive R cfg)
      (wld s2) = (bts, w2)" and s: "s = s2\<lparr>wld := w2\<rparr>"
    by (auto simp: init_tasks_run_def split: prod.splits)
  show ?thesis
    by (rule that [OF n NewAccGroup_wf [OF gg] NewAccGroup_empty [OF gg] c p])
      (use s initializeTasks_tasks [OF t] in simp_all)
qed

lemma task_list_nth: "list_all2 (task_of g) ts bts \<Longrightarrow> bt \<in> set bts \<Longrightarrow> \<exists>t \<in> set ts. task_of g t bt"
  by (metis in_set_conv_nth list_all2_conv_all_nth)

lemma task_list_source:
  assumes "name \<in> set (tcNameList cfg)"
  obtains u where "init_accounts name g = GetAccListByName g u"
    "requested cfg u = nat (if name = ''transferUnsignedTx'' then nUserForUnsigned cfg else nUserForSigned cfg)"
proof -
  let ?u = "if name = ''transferUnsignedTx'' then AccListForUnsignedTx
      else if name = ''gaslessRevertTransactionTC'' then AccListForGaslessRevertTx
      else if name = ''gaslessOnlyApproveTC'' then AccListForGaslessApproveTx else AccListForSignedTx"
  show ?thesis
    by (rule that [of ?u])
      (use assms in \<open>auto simp: init_accounts_def requested_def gasless_users_def ContainsAnyInList_iff
        GetTcStrList_def GetNUserForSigned_def GetNUserForUnsigned_def\<close>)
qed

text \<open>Each task of the result comes from an entry of the table.\<close>

lemma RunAction_task_entry:
  assumes "RunAction E S D A arrive R ctx st prog w = Some (Ret (cfg, bts, s))"
  shows "config_ok cfg" "map bt_Name bts = tcNameList cfg"
    "map bt_Weight bts = (if tcWeights cfg = [] then replicate (length (tcNameList cfg)) 10 else tcWeights cfg)"
    "bt \<in> set bts \<Longrightarrow> \<exists>glob. \<exists>t \<in> set (TcList (E\<lparr>e_glob := glob\<rparr>) A arrive R). bt_Name bt = et_Name t \<and>
       tc_TestContracts (bt_config bt) = et_TestContracts t \<and> bt_Fn bt = et_Run t (bt_config bt) \<and>
       pools_idle (bt_pools bt)"
proof -
  from assms obtain h args w1 glob where n: "NewConfig D ctx st prog w = Some (Ret (cfg, h, args), w1)"
    and tasks: "list_all2 (task_of (grp s)) (GetExtendedTasks (E\<lparr>e_glob := glob\<rparr>) A arrive R cfg) bts"
    by (rule RunAction_run)
  from n show ok: "config_ok cfg" by (rule NewConfig_ok)
  from tasks have "map bt_Name bts = map et_Name (GetExtendedTasks (E\<lparr>e_glob := glob\<rparr>) A arrive R cfg)"
    "map bt_Weight bts = map et_Weight (GetExtendedTasks (E\<lparr>e_glob := glob\<rparr>) A arrive R cfg)"
    by (auto simp: task_of_def list_all2_conv_all_nth intro!: nth_equalityI)
  then show "map bt_Name bts = tcNameList cfg"
    "map bt_Weight bts = (if tcWeights cfg = [] then replicate (length (tcNameList cfg)) 10 else tcWeights cfg)"
    by (simp_all add: GetExtendedTasks_ok [OF ok])
  show "\<exists>glob. \<exists>t \<in> set (TcList (E\<lparr>e_glob := glob\<rparr>) A arrive R). bt_Name bt = et_Name t \<and>
       tc_TestContracts (bt_config bt) = et_TestContracts t \<and> bt_Fn bt = et_Run t (bt_config bt) \<and>
       pools_idle (bt_pools bt)" if bt: "bt \<in> set bts"
  proof -
    from task_list_nth [OF tasks bt] obtain u where u: "u \<in> set (GetExtendedTasks (E\<lparr>e_glob := glob\<rparr>) A arrive R cfg)"
      "task_of (grp s) u bt" by blast
    from extended_task_mem u(1) obtain k t v where t: "TcList_lookup (E\<lparr>e_glob := glob\<rparr>) A arrive R k = Some t"
      "u = t\<lparr>et_Weight := v\<rparr>"
      by (metis GetExtendedTasks_def)
    with TcList_lookup_Some [OF t(1)] u(2) show ?thesis
      by (intro exI [of _ glob] bexI [of _ t]) (auto simp: task_of_def)
  qed
qed

end
