(* ===== verification/Sim_Run.thy ===== *)
theory Sim_Run
  imports Sim_Env Startup
begin

text \<open>
  One complete start-up on the concrete node: the leader, two signing users of whom half is active, and
  the test cases \<open>cpuHeavyTC\<close> and \<open>readBlockNumber\<close>. \<open>sim_RunAction\<close> evaluates it; the tasks themselves are not evaluated.
\<close>

definition sim_cfg :: Config where
  "sim_cfg = \<lparr>nUserForUnsigned = 0, nUserForSigned = 2, nUserForNewAccounts = 5, nUserForTC = 0,
     activeUserPercent = 50, richWalletPrivateKey = ''01'', tcNameList = [''cpuHeavyTC'', ''readBlockNumber''], tcWeights = [],
     auctionTargetTxTypeList = [], chargeKLAYAmount = 1, chargeParallelNum = 0, gEndpoint = [],
     isLeaderSlave = True, cfg_gasPrice = 750000000000, cfg_chainID = 1001, cfg_baseFee = 0\<rparr>"

lemma RunAction_exists:
  assumes g: "NewAccGroup (GetChainID cfg) (GetGasPrice cfg) (GetBaseFee cfg)
      (ContainsAnyInList (GetTcStrList cfg) [''transferUnsignedTx'']) (e_glob E) = (g, glob)"
    and run: "ran_with (\<lambda>r w1. fst r = cfg \<and> ran_with (\<lambda>l s. True)
      (then_run (create_accounts (E\<lparr>e_glob := glob\<rparr>) (su_wallet S) cfg)
        (createTestAccGroupsAndPrepareContracts (E\<lparr>e_glob := glob\<rparr>) S cfg)
        (start_proc (E\<lparr>e_glob := glob\<rparr>) g w1))) (NewConfig D ctx st prog w)"
  shows "\<exists>bts s. RunAction E S D A arrive R ctx st prog w = Some (Ret (cfg, bts, s))"
proof -
  let ?E = "E\<lparr>e_glob := glob\<rparr>"
  from run obtain h args w1 where n: "NewConfig D ctx st prog w = Some (Ret (cfg, h, args), w1)" and
    r: "ran_with (\<lambda>l s. True) (then_run (create_accounts ?E (su_wallet S) cfg)
        (createTestAccGroupsAndPrepareContracts ?E S cfg) (start_proc ?E g w1))"
    by (auto elim!: ran_withE)
  from r obtain l s2 where p: "then_run (create_accounts ?E (su_wallet S) cfg)
        (createTestAccGroupsAndPrepareContracts ?E S cfg) (start_proc ?E g w1) = Some (Ret l, s2)"
    by (rule ran_withE)
  obtain bts w3 where i: "initializeTasks S cfg (grp s2) (GetExtendedTasks ?E A arrive R cfg) (wld s2) = (bts, w3)"
    by (metis prod.exhaust)
  with p have "action_body ?E S A arrive R cfg (start_proc ?E g w1) = Some (Ret bts, s2\<lparr>wld := w3\<rparr>)"
    by (auto simp: action_body_def then_run_Ret init_tasks_run_def)
  with n g show ?thesis by (auto simp: RunAction_def Let_def)
qed

lemma sim_RunAction:
  "\<exists>bts s. RunAction sim_env sim_startup sim_connector sim_auction [] sim_reader
     (sim_flags ''cpuHeavyTC,readBlockNumber'' []) True ''klayslave'' sim0 = Some (Ret (sim_cfg, bts, s))"
proof (rule RunAction_exists)
  show "(NewAccGroup (GetChainID sim_cfg) (GetGasPrice sim_cfg) (GetBaseFee sim_cfg)
      (ContainsAnyInList (GetTcStrList sim_cfg) [''transferUnsignedTx'']) (e_glob sim_env) :: acc_ref AccGroup \<times> globals)
    = (fst (NewAccGroup 1001 750000000000 0 False init_globals),
       snd (NewAccGroup 1001 750000000000 0 False init_globals))"
    by (simp add: sim_cfg_def sim_env_def NewAccGroup_def GetChainID_def GetGasPrice_def GetBaseFee_def GetTcStrList_def)
  show "ran_with (\<lambda>r w1. fst r = sim_cfg \<and> ran_with (\<lambda>l s. True)
      (then_run (create_accounts (sim_env\<lparr>e_glob := snd (NewAccGroup 1001 750000000000 0 False init_globals)\<rparr>) (su_wallet sim_startup) sim_cfg)
        (createTestAccGroupsAndPrepareContracts (sim_env\<lparr>e_glob := snd (NewAccGroup 1001 750000000000 0 False init_globals)\<rparr>) sim_startup sim_cfg)
        (start_proc (sim_env\<lparr>e_glob := snd (NewAccGroup 1001 750000000000 0 False init_globals)\<rparr>) (fst (NewAccGroup 1001 750000000000 0 False init_globals)) w1)))
      (NewConfig sim_connector (sim_flags ''cpuHeavyTC,readBlockNumber'' []) True ''klayslave'' sim0)"
    by code_simp
qed

lemma sim_RunAction_task:
  "\<exists>bt bts s. RunAction sim_env sim_startup sim_connector sim_auction [] sim_reader
     (sim_flags ''cpuHeavyTC,readBlockNumber'' []) True ''klayslave'' sim0 = Some (Ret (sim_cfg, bt # bts, s)) \<and>
     bt_Name bt = ''cpuHeavyTC'' \<and> ContractCPUHeavy \<in> set (tc_TestContracts (bt_config bt))"
proof -
  from sim_RunAction obtain bts s where run: "RunAction sim_env sim_startup sim_connector sim_auction [] sim_reader
     (sim_flags ''cpuHeavyTC,readBlockNumber'' []) True ''klayslave'' sim0 = Some (Ret (sim_cfg, bts, s))" by blast
  note R = RunAction_task_entry [OF run]
  from R(2) obtain bt bts1 where bts: "bts = bt # bts1" and n: "bt_Name bt = ''cpuHeavyTC''"
    by (auto simp: sim_cfg_def)
  from R(4) [of bt] bts n have "ContractCPUHeavy \<in> set (tc_TestContracts (bt_config bt))"
    by (auto simp: TcList_defs)
  with run bts n show ?thesis by blast
qed

text \<open>The same node for \<open>DeployTestContracts\<close> alone, by a leader or a follower.\<close>

definition sim_start :: "sim proc" where
  "sim_start = start_proc sim_env (fst (NewAccGroup 1001 750000000000 0 False init_globals)) sim0"

definition sim_ctx :: "bool \<Rightarrow> AdditionalWorkContext" where
  "sim_ctx leader = \<lparr>ChargeValue = 1, IsLeader = leader, ctxTcList = [''cpuHeavyTC''], ctxTargetTxTypes = []\<rparr>"

text \<open>
  The state of a test: two accounts with addresses 1 and 2, the first with the ERC-721 token 9, every
  contract at the same address, pools that make the client 1.
\<close>

definition sim_texts :: "sim reader" where
  "sim_texts = sim_reader\<lparr>addrText := (\<lambda>a. if a = 1 then ''0x1'' else ''0x2'')\<rparr>"

definition sim_tcs :: "sim tcs" where
  "sim_tcs = \<lparr>tc_proc = \<lparr>accs = (\<lambda>r. case r of TestAcc k \<Rightarrow> sim_account\<lparr>acc_address := (if k = 0 then 1 else 2)\<rparr>
        | _ \<Rightarrow> sim_account\<lparr>acc_address := 900\<rparr>),
       erc721 = PutToken 1 9 NewERC721TokenLedger,
       grp = \<lparr>containsUnsignedAccGrp = False, accLists = [], contracts = []\<rparr>, wld = sim0\<rparr>,
     tc_CliPool = empty_pool (\<lambda>w. (1, w)), tc_RpcCliPool = empty_pool (\<lambda>w. (1, w)), tc_EthCliPool = empty_pool (\<lambda>w. (1, w)),
     tc_AccGrp = NewAccountSet [TestAcc 0, TestAcc 1],
     tc_receipt = \<lparr>rv_tail = 0, rv_isFull = False, rv_hashPool = [], rv_cnt = 0, rv_initFlag = False\<rparr>,
     tc_read = read_init, tc_events = [], tc_spawned = []\<rparr>"

definition sim_test_cfg :: "TestContract list \<Rightarrow> TCConfig" where
  "sim_test_cfg cs = \<lparr>tc_Name = ''test'', tc_EndPoint = ''node'', tc_SmartContractAccounts = (\<lambda>t. Some (Some (ContractAcc 0))),
     tc_TestContracts = cs, tc_AuctionTargetTxTypeList = [''VT'']\<rparr>"

end
