(* ===== verification/Setup_Properties.thy ===== *)
theory Setup_Properties
  imports Sim_Run
begin

text \<open>
  The properties of the start-up: the command line, the accounts and tasks of a run, and the
  deployment of the test contracts.
\<close>

text \<open>
  C31: the exact condition under which the command line is accepted: a key, a percentage from 1 to 100,
  at least one known test case, and for an auction test case a target list and at least as many
  signing users as requests per second. In every other case the process exits, it never panics.
\<close>

theorem flags_accepted:
  "(\<exists>cfg. setConfigsFromFlag ctx empty_config = Ret cfg) =
     (ctx_String ctx ''key'' \<noteq> [] \<and> 0 < ctx_Int ctx ''activeUserPercent'' \<and>
      ctx_Int ctx ''activeUserPercent'' \<le> 100 \<and>
      (let names = filter known_tc (split_at (CHR '','') (ctx_String ctx ''tc'')) in
       names \<noteq> [] \<and>
       (if set names \<inter> set auction_names = {} then True
        else ctx_String ctx ''auctionTargetTxTypeList'' \<noteq> [] \<and>
          ctx_Int ctx ''max-rps'' \<le> ctx_Int ctx ''vusigned''))) \<and>
   (if \<exists>cfg. setConfigsFromFlag ctx empty_config = Ret cfg then True
    else \<exists>m. setConfigsFromFlag ctx empty_config = Exit m)"
  unfolding setConfigsFromFlag_value Let_def by (auto split: if_splits)

text \<open>
  C32: names and weights survive the command line: if \<open>--tc\<close> is a comma list of known test cases and
  \<open>--weights\<close> a comma list of decimal 64-bit numbers of the same length, the configuration holds
  exactly these names and numbers.
\<close>

theorem flags_round_trip:
  assumes "ctx_String ctx ''tc'' = join_with (CHR '','') names"
    and "ctx_String ctx ''weights'' = join_with (CHR '','') (map (int_text 10) ws)"
    and "names \<noteq> []" and "length ws = length names"
    and "set names \<subseteq> set TcNames - set auction_names" and "\<forall>i \<in> set ws. in_int64 i"
    and "ctx_String ctx ''key'' \<noteq> []" and "ctx_Int ctx ''activeUserPercent'' \<in> {1..100}"
  shows "\<exists>cfg. setConfigsFromFlag ctx empty_config = Ret cfg \<and> tcNameList cfg = names \<and> tcWeights cfg = ws"
proof -
  have names: "split_at (CHR '','') (ctx_String ctx ''tc'') = names"
    unfolding assms(1) by (rule split_join) (use assms(3,5) names_no_comma in auto)
  have parts: "split_at (CHR '','') (ctx_String ctx ''weights'') = map (int_text 10) ws"
    unfolding assms(2) by (rule split_join) (use assms(3,4) int_text_no_comma in auto)
  have known: "filter known_tc names = names" using assms(5) by (auto simp: known_tc_def filter_id_conv)
  have "map (the \<circ> Atoi) (map (int_text 10) ws) = ws"
    using assms(6) by (simp add: Atoi_int_text map_idI)
  moreover have "\<forall>s \<in> set (map (int_text 10) ws). Atoi s \<noteq> None"
    using assms(6) by (simp add: Atoi_int_text)
  moreover have "set names \<inter> set auction_names = {}" using assms(5) by blast
  ultimately show ?thesis
    unfolding setConfigsFromFlag_value Let_def names parts known using assms(3,4,7,8) by auto
qed

lemma flags_round_trip_witness:
  "\<exists>cfg. setConfigsFromFlag (sim_flags ''newValueTransferTC,cpuHeavyTC'' []\<lparr>ctx_String :=
       (ctx_String (sim_flags ''newValueTransferTC,cpuHeavyTC'' []))(''weights'' := ''3,-7'')\<rparr>)
     empty_config = Ret cfg \<and> tcNameList cfg = [''newValueTransferTC'', ''cpuHeavyTC''] \<and> tcWeights cfg = [3, -7]"
  by (rule flags_round_trip)
    (simp_all add: sim_flags_def join_with_def int_text_def digits.simps digit_char_def TcNames_def
      auction_names_def in_int64_def)

text \<open>
  \<open>NewConfig\<close> reads the connection limit under a name that no flag has. As the command line library
  answers zero for a name that is not a flag, both limits of the transport are zero whatever
  \<open>--maxidleconns\<close> says.
\<close>

lemma idle_connections_flag_ignored:
  assumes "\<And>n. n \<notin> set (map flag_name (Flags @ BoomerFlags)) \<Longrightarrow> ctx_Int ctx n = 0"
  shows "transport_settings ctx = \<lparr>MaxIdleConns = 0, MaxIdleConnsPerHost = 0\<rparr>"
  using assms [of "''tc.maxidleconns''"] by (simp add: transport_settings_def Flags_def BoomerFlags_def Let_def)

lemma idle_connections_flag_ignored_witness:
  "transport_settings (sim_flags [] []\<lparr>ctx_Int := (\<lambda>n. if n = ''maxidleconns'' then 100 else 0)\<rparr>)
    = \<lparr>MaxIdleConns = 0, MaxIdleConnsPerHost = 0\<rparr>"
  by (rule idle_connections_flag_ignored) (auto simp: Flags_def)

text \<open>
  C29: when \<open>RunAction\<close> hands tasks to the boomer library, there is one per accepted test case, in the
  order of the command line, and its weight is the one given there, or 10 if no usable weights were
  given. The configuration satisfies \<open>config_ok\<close>: names of the table only, percentage in range, weights
  for every name or none.
\<close>

theorem RunAction_tasks:
  assumes "RunAction E S D A arrive R ctx st prog w = Some (Ret (cfg, bts, s))"
  shows "config_ok cfg \<and> map bt_Name bts = tcNameList cfg \<and>
    map bt_Weight bts = (if tcWeights cfg = [] then replicate (length (tcNameList cfg)) 10 else tcWeights cfg)"
  using RunAction_task_entry(1-3) [OF assms] by simp

lemma RunAction_tasks_witness:
  "\<exists>bts s. RunAction sim_env sim_startup sim_connector sim_auction [] sim_reader
     (sim_flags ''cpuHeavyTC,readBlockNumber'' []) True ''klayslave'' sim0 = Some (Ret (sim_cfg, bts, s)) \<and>
     map bt_Name bts = [''cpuHeavyTC'', ''readBlockNumber''] \<and> map bt_Weight bts = [10, 10]"
proof -
  from sim_RunAction obtain bts s where run: "RunAction sim_env sim_startup sim_connector sim_auction [] sim_reader
     (sim_flags ''cpuHeavyTC,readBlockNumber'' []) True ''klayslave'' sim0 = Some (Ret (sim_cfg, bts, s))" by blast
  with RunAction_tasks [OF run] show ?thesis by (auto simp: sim_cfg_def)
qed

text \<open>
  C30: the number of accounts a task draws its senders from: the users of the list its name selects
  (unsigned for \<open>transferUnsignedTx\<close>, signed otherwise, also for the two gasless lists), cut down to
  the active percentage, rounded down. With a charge of zero the percentage is not applied.
\<close>

theorem RunAction_accounts:
  assumes "RunAction E S D A arrive R ctx st prog w = Some (Ret (cfg, bts, s))" and "bt \<in> set bts"
  shows "AS_Len (bt_accounts bt) =
    (let n = (if bt_Name bt = ''transferUnsignedTx'' then nUserForUnsigned cfg else nUserForSigned cfg) in
     if GetChargeValue E cfg = 0 then nat n else nat (int (nat n) * activeUserPercent cfg div 100))"
  using assms(1)
proof (rule RunAction_run)
  fix h args w1 glob s1 s2 l and g :: "acc_ref AccGroup"
  let ?E = "E\<lparr>e_glob := glob\<rparr>"
  assume "NewConfig D ctx st prog w = Some (Ret (cfg, h, args), w1)"
  then have ok: "config_ok cfg" by (rule NewConfig_ok)
  assume g: "ag_wf g" "\<And>t. GetAccListByName g t = []"
  assume "create_accounts ?E (su_wallet S) cfg (start_proc ?E g w1) = Some (Ret (), s1)"
  from create_accounts_lists [OF this] g
  have c: "ag_wf (grp s1)" "\<And>t. length (GetAccListByName (grp s1) t) = requested cfg t"
    by (auto simp: start_proc_def)
  assume p: "createTestAccGroupsAndPrepareContracts ?E S cfg s1 = Some (Ret l, s2)" and gr: "grp s = grp s2"
  have charge: "GetChargeValue ?E cfg = GetChargeValue E cfg" by (simp add: GetChargeValue_def)
  have len: "length (GetAccListByName (grp s) t) = (if GetChargeValue E cfg = 0 then requested cfg t
      else nat (int (requested cfg t) * activeUserPercent cfg div 100))" for t
  proof (cases "GetChargeValue E cfg = 0")
    case True
    with p charge have "s2 = s1" by (simp add: createTestAccGroupsAndPrepareContracts_def ret_run_def)
    with True c gr show ?thesis by simp
  next
    case False
    with charge have ch: "GetChargeValue ?E cfg \<noteq> 0" by simp
    have pc: "0 \<le> activeUserPercent cfg" "activeUserPercent cfg \<le> 100" using ok by (auto simp: config_ok_def)
    from prepare_contracts [OF p ch c(1) pc] False c gr show ?thesis by (auto simp: prepared_def)
  qed
  assume tasks: "list_all2 (task_of (grp s)) (GetExtendedTasks ?E A arrive R cfg) bts"
  from task_list_nth [OF this assms(2)] obtain t where t: "t \<in> set (GetExtendedTasks ?E A arrive R cfg)"
    "task_of (grp s) t bt" by blast
  have "bt_Name bt \<in> set (tcNameList cfg)"
    using t GetExtendedTasks_ok(1) [OF ok, of ?E A arrive R] by (metis image_eqI list.set_map task_of_def)
  then obtain u where "init_accounts (bt_Name bt) (grp s) = GetAccListByName (grp s) u"
    "requested cfg u = nat (if bt_Name bt = ''transferUnsignedTx'' then nUserForUnsigned cfg else nUserForSigned cfg)"
    by (rule task_list_source)
  with t len [of u] show ?thesis by (simp add: AS_Len_def task_of_def Let_def)
qed

lemma RunAction_accounts_witness:
  "\<exists>bt bts s. RunAction sim_env sim_startup sim_connector sim_auction [] sim_reader
     (sim_flags ''cpuHeavyTC,readBlockNumber'' []) True ''klayslave'' sim0 = Some (Ret (sim_cfg, bt # bts, s)) \<and>
     bt_Name bt = ''cpuHeavyTC'' \<and> AS_Len (bt_accounts bt) = 1"
proof -
  from sim_RunAction_task obtain bt bts s c where run: "RunAction sim_env sim_startup sim_connector sim_auction [] sim_reader
     (sim_flags ''cpuHeavyTC,readBlockNumber'' []) True ''klayslave'' sim0 = Some (Ret (sim_cfg, bt # bts, s))"
    and "bt_Name bt = ''cpuHeavyTC''" by blast
  with RunAction_accounts [OF run, of bt] show ?thesis
    by (auto simp: sim_cfg_def GetChargeValue_def sim_env_def)
qed

text \<open>
  With a charge, every contract a task lists is there when the task starts: its entry in the
  configuration is the account of the contract, never \<open>nil\<close>, and (but for the three entries that are
  looked up in the registry) its address is the one of the first transaction of the entry's deployer.
  It spans the configuration, the account creation, the charging, both phases of the deployment and
  the initialisation of the tasks, and needs the table of tasks and that of contracts to fit together.
\<close>

lemma RunAction_contracts:
  assumes "RunAction E S D A arrive R ctx st prog w = Some (Ret (cfg, bts, s))"
    and "GetChargeValue E cfg \<noteq> 0" and "bt \<in> set bts" and "c \<in> set (tc_TestContracts (bt_config bt))"
  shows "tc_SmartContractAccounts (bt_config bt) c = Some (Some (contract_ref c)) \<and>
    (c \<notin> set registry_located \<longrightarrow> acc_address (accs s (contract_ref c)) =
       createAddress (e_lib E) (acc_address (pkg E (deployer (info_of E c)))) 0)"
  using assms(1)
proof (rule RunAction_run)
  fix h args w1 glob s1 s2 l and g :: "acc_ref AccGroup"
  let ?E = "E\<lparr>e_glob := glob\<rparr>"
  assume "NewConfig D ctx st prog w = Some (Ret (cfg, h, args), w1)"
  then have ok: "config_ok cfg" by (rule NewConfig_ok)
  then have pc: "0 \<le> activeUserPercent cfg" "activeUserPercent cfg \<le> 100" by (auto simp: config_ok_def)
  assume g: "ag_wf g" "\<And>t. GetAccListByName g t = []"
  assume cr: "create_accounts ?E (su_wallet S) cfg (start_proc ?E g w1) = Some (Ret (), s1)"
  from create_accounts_lists(1) [OF cr] g have wf: "ag_wf (grp s1)" by (simp add: start_proc_def)
  have fixed: "accs s1 (Fixed d) = pkg E d" for d
    using create_accounts_fixed [OF cr] by (simp add: start_proc_def)
  assume p: "createTestAccGroupsAndPrepareContracts ?E S cfg s1 = Some (Ret l, s2)"
    and gr: "accs s = accs s2" "grp s = grp s2"
  have ch: "GetChargeValue ?E cfg \<noteq> 0" using assms(2) by (simp add: GetChargeValue_def)
  note P = prepare_contracts [OF p ch wf pc, unfolded prepared_def not_needed_glob testNames_glob fixed]
  assume tasks: "list_all2 (task_of (grp s)) (GetExtendedTasks ?E A arrive R cfg) bts"
  from task_list_nth [OF this assms(3)] obtain t where t: "t \<in> set (GetExtendedTasks ?E A arrive R cfg)"
    "task_of (grp s) t bt" by blast
  from t assms(4) have c: "c \<in> set (et_TestContracts t)" by (simp add: task_of_def)
  from GetExtendedTasks_needs [OF t(1) c]
  have "\<not> not_needed E (tcNameList cfg) (auctionTargetTxTypeList cfg) c" by (simp add: not_needed_glob)
  with P have "GetTestContractByName (grp s) c = Some (contract_ref c) \<and>
      (c \<notin> set registry_located \<longrightarrow> acc_address (accs s (contract_ref c)) =
        createAddress (e_lib E) (acc_address (pkg E (deployer (info_of E c)))) 0)"
    using gr by simp
  with t c show ?thesis by (simp add: task_of_def)
qed



text \<open>
  C34: when \<open>DeployTestContracts\<close> reaches a contract, the constructor code never reads the address of a
  \<open>nil\<close> contract: if the needed contracts with smaller indices are set, building the creation code
  does not panic. It rests on the order of the enumeration and on the test names of the entries.
\<close>

theorem constructor_params_available:
  assumes "\<not> not_needed E tcs types t" and "length cs = ContractEnd"
    and "\<And>u. TestContract_idx u < TestContract_idx t \<Longrightarrow> \<not> not_needed E tcs types u \<Longrightarrow>
       cs ! TestContract_idx u \<noteq> None"
  shows "GetBytecodeWithConstructorParam (info_of E t) bin cs d \<noteq> Panic m"
  using assms(2)
proof (rule constructor_no_panic)
  fix u assume "u \<in> set (constructor_uses t)"
  with assms(1,3) constructor_uses_earlier constructor_uses_needed show "cs ! TestContract_idx u \<noteq> None" by blast
qed

lemma constructor_params_available_witness:
  "GetBytecodeWithConstructorParam (info_of sim_env ContractTetherProxy) [1]
     (replicate 20 (Some sim_account) @ [None]) sim_account \<noteq> Panic ''nil pointer dereference''"
proof (rule constructor_params_available [where tcs = "[''erc20TransferWithBlockedListTC'']" and types = "[]"])
  show "\<not> not_needed sim_env [''erc20TransferWithBlockedListTC''] [] ContractTetherProxy" by code_simp
qed (simp_all add: ContractEnd_def nth_append)

text \<open>
  No two entries of the contract table share a deployer, no deployer is the set-up manager or the
  auctioneer, and the keys in the source are pairwise different, so the nonces of the deployments do
  not interfere. The loop's list of contracts gives exactly the table.
\<close>

lemma deployers_distinct:
  "distinct (map (\<lambda>t. deployer (info_of E t)) all_contracts) \<and> inj fixed_key \<and>
   set (map (\<lambda>t. deployer (info_of E t)) all_contracts) \<inter> {GSRSetupManager, Auctioneer} = {} \<and>
   map (info_of E) all_contracts = TestContractInfos E"
  by (auto simp: all_contracts_def contract_info_defs TestContractInfos_def intro: injI fixed_key_inj)

text \<open>
  The wait for a block of a registration ends, if each poll takes at least a second of the clock:
  it returns, or it ends the process with a timeout, and then the deadline has passed.
\<close>

lemma wait_block_returns:
  assumes clock: "\<And>w. unixNow E w + 1 \<le> unixNow E (snd (BlockNumber (e_cli E) (Elapse (e_cli E) 1000 w)))"
  shows "\<exists>r w'. wait_block E deadline target w = Some (r, w') \<and>
    (r = Ret () \<or> r = Exit ''Timeout waiting for target block'' \<and> deadline \<le> unixNow E w')"
proof (induction "nat (deadline - unixNow E w)" arbitrary: w rule: less_induct)
  case less
  show ?case
  proof (cases "deadline \<le> unixNow E w")
    case True
    then show ?thesis by (subst wait_block.simps) auto
  next
    case False
    obtain q w1 where q: "BlockNumber (e_cli E) (Elapse (e_cli E) 1000 w) = (q, w1)" by fastforce
    with clock [of w] False have "nat (deadline - unixNow E w1) < nat (deadline - unixNow E w)" by simp
    from less [OF this] q False show ?thesis
      by (subst wait_block.simps) (auto split: sum.split)
  qed
qed

lemma wait_block_returns_witness:
  "\<exists>r w'. wait_block sim_env 40 25 sim0 = Some (r, w') \<and>
    (r = Ret () \<or> r = Exit ''Timeout waiting for target block'' \<and> 40 \<le> unixNow sim_env w')"
  by (rule wait_block_returns) (simp add: sim_env_def sim_client_def)

text \<open>
  C37: on a chain that answers and makes at least one block per second from the height of the
  registration on, the wait for the ten blocks after it succeeds and does not run into its timeout.
\<close>

theorem registration_wait_succeeds:
  assumes poll: "\<And>w r w'. BlockNumber (e_cli E) (Elapse (e_cli E) 1000 w) = (r, w') \<Longrightarrow>
      unixNow E w + 1 \<le> unixNow E w' \<and> (\<exists>bn. r = Inr bn \<and> h + (unixNow E w' - unixNow E (wld s)) \<le> bn)"
  shows "\<exists>s'. wait_target E h (h + 10) s = Some (Ret (), s')"
proof -
  let ?t = "unixNow E (wld s)"
  have "\<exists>w'. wait_block E (?t + 20) (h + 10) w = Some (Ret (), w')" if "unixNow E w < ?t + 20" for w
    using that
  proof (induction "nat (?t + 20 - unixNow E w)" arbitrary: w rule: less_induct)
    case less
    obtain q w1 where q: "BlockNumber (e_cli E) (Elapse (e_cli E) 1000 w) = (q, w1)" by fastforce
    from poll [OF q] obtain bn where bn: "q = Inr bn" "h + (unixNow E w1 - ?t) \<le> bn"
      and t: "unixNow E w + 1 \<le> unixNow E w1" by blast
    show ?case
    proof (cases "h + 10 \<le> bn")
      case True
      with q bn less.prems show ?thesis by (subst wait_block.simps) simp
    next
      case False
      with bn have l: "unixNow E w1 < ?t + 20" by simp
      with t less.prems have "nat (?t + 20 - unixNow E w1) < nat (?t + 20 - unixNow E w)" by simp
      from less.hyps [OF this l] q bn False less.prems show ?thesis by (subst wait_block.simps) simp
    qed
  qed
  from this [of "wld s"] show ?thesis
    by (auto simp: wait_target_def bind_run_Ret get_run_def world_opt_run_def)
qed

lemma registration_wait_succeeds_witness:
  "\<exists>s'. wait_target (sim_env\<lparr>e_cli := sim_client\<lparr>BlockNumber := (\<lambda>w. (Inr (20 + sim_time w div 1000), w))\<rparr>\<rparr>)
     20 (20 + 10) (start_proc sim_env
     \<lparr>containsUnsignedAccGrp = False, accLists = [], contracts = []\<rparr> sim0) = Some (Ret (), s')"
  by (rule registration_wait_succeeds) (auto simp: sim_env_def sim_client_def start_proc_def sim0_def)

end
