(* ===== verification/Closures.thy ===== *)
theory Closures
  imports Tc_List
begin

text \<open>
  What the closures of the test cases keep. \<open>quiet\<close> steps leave the pools, the records of events and
  goroutines, the token ledger, the account set and the accounts' addresses alone, and never wait if
  every mutex is free, which they leave so. A closure with \<open>one_report\<close> keeps the same and ends with exactly
  one event published or one goroutine started, and with the clients it took given back, also
  when it panics.
\<close>

section \<open>The operations are account operations\<close>

named_theorems identities

lemmas [identities] = account_op.mapped

lemma account_op_locking: "locking_op f \<Longrightarrow> account_op f"
  by (rule locking_op.axioms(1))

lemma account_op_self: "(\<And>a w. f a w = F a a w) \<Longrightarrow> (\<And>b. account_op (F b)) \<Longrightarrow> account_op f"
  unfolding account_op_def by metis

lemma account_op_send [identities]: "account_op (sendTransaction L C g ty m opt)" "account_op (send_and_hash L C g ty m opt)"
  unfolding send_and_hash_def by (intro identities send_op.account_op_axioms)+

lemma account_op_first [identities]: "(\<And>k. account_op (f k)) \<Longrightarrow> account_op (with_first_key p f)"
  by (auto simp: account_op_def with_first_key_def split: list.splits)

lemma account_op_own [identities]: "(\<And>k. account_op (f k)) \<Longrightarrow> account_op (with_own_key f)"
  by (auto simp: account_op_def with_own_key_def with_first_key_def split: list.splits)

lemma account_op_data [identities]: "(\<And>d. account_op (f d)) \<Longrightarrow> r \<noteq> Block \<Longrightarrow> account_op (with_data r f)"
  by (auto simp: account_op_def with_data_def split: outcome.splits)

lemmas [identities] = PackContractCall_not_Block

lemma value_identities [identities]:
  "account_op (TransferNewValueTransferTx L C g to v)"
  "account_op (TransferNewFeeDelegatedValueTransferTx L C g to v)"
  "account_op (TransferNewFeeDelegatedValueTransferWithRatioTx L C g to v)"
  "account_op (TransferNewValueTransferMemoTx L C g to v)"
  "account_op (TransferNewValueTransferSmallMemoTx L C g draw to v)"
  "account_op (TransferNewValueTransferLargeMemoTx L C g draw to v)"
  "account_op (TransferNewFeeDelegatedValueTransferMemoTx L C g to v)"
  "account_op (TransferNewFeeDelegatedValueTransferMemoWithRatioTx L C g to v)"
  "account_op (TransferNewAccountUpdateTx L C g to v)"
  "account_op (TransferNewFeeDelegatedAccountUpdateTx L C g to v)"
  "account_op (TransferNewFeeDelegatedAccountUpdateWithRatioTx L C g to v)"
  "account_op (TransferNewCancelTx L C g to v)"
  "account_op (TransferNewFeeDelegatedCancelTx L C g to v)"
  "account_op (TransferNewFeeDelegatedCancelWithRatioTx L C g to v)"
  unfolding TransferNewValueTransferTx_def TransferNewFeeDelegatedValueTransferTx_def
    TransferNewFeeDelegatedValueTransferWithRatioTx_def TransferNewValueTransferMemoTx_def
    TransferNewValueTransferSmallMemoTx_def TransferNewValueTransferLargeMemoTx_def createMemoTransferTx_def
    TransferNewFeeDelegatedValueTransferMemoTx_def TransferNewFeeDelegatedValueTransferMemoWithRatioTx_def
    TransferNewAccountUpdateTx_def TransferNewFeeDelegatedAccountUpdateTx_def
    TransferNewFeeDelegatedAccountUpdateWithRatioTx_def TransferNewCancelTx_def
    TransferNewFeeDelegatedCancelTx_def TransferNewFeeDelegatedCancelWithRatioTx_def
  by (intro identities)+

lemma contract_identities [identities]:
  "account_op (TransferNewSmartContractExecutionTx L C g to v d)"
  "account_op (ExecuteStorageTrieStore B L C g draw to v)"
  "account_op (TransferNewFeeDelegatedSmartContractExecutionTx B L C g to v)"
  "account_op (TransferNewFeeDelegatedSmartContractExecutionWithRatioTx B L C g to v)"
  "account_op (TransferNewFeeDelegatedSmartContractDeployTx B L C g to v)"
  "account_op (TransferNewFeeDelegatedSmartContractDeployWithRatioTx B L C g to v)"
proof -
  show "account_op (TransferNewSmartContractExecutionTx L C g to v d)"
    "account_op (ExecuteStorageTrieStore B L C g draw to v)"
    unfolding TransferNewSmartContractExecutionTx_def ExecuteStorageTrieStore_def by (intro identities)+
qed (rule account_op_self, rule TransferNewFeeDelegatedSmartContractExecutionTx_def
    TransferNewFeeDelegatedSmartContractExecutionWithRatioTx_def TransferNewFeeDelegatedSmartContractDeployTx_def
    TransferNewFeeDelegatedSmartContractDeployWithRatioTx_def, intro identities)+

lemma unsigned_identity [identities]: "account_op (TransferUnsignedTx C g to v)"
  by (auto simp: account_op_def TransferUnsignedTx_def split: prod.splits sum.splits)

lemma locking_identities [identities]:
  "account_op (TransferSignedTx L C g to v i)"
  "account_op (TransferNewValueTransferWithCancelTx L C g to v)"
  "account_op (TransferNewSmartContractDeployTx L C g to v d z)"
  "account_op (TransferNewEthereumAccessListTx L C g oto v j)"
  "account_op (TransferNewEthereumDynamicFeeTx L C g oto v j)"
  "account_op (TransferNewLegacyTxWithEth L C g oto v j)"
  "account_op (TransferNewEthAccessListTxWithEth L C g oto v j)"
  "account_op (TransferNewEthDynamicFeeTxWithEth L C g oto v j)"
  "account_op (TransferNewGaslessTx E token gsr)"
  "account_op (TransferNewGaslessApproveTx E token gsr)"
  "account_op (AuctionBid E A arrive entryPoint target key)"
  "account_op (AuctionRevertedBid E A entryPoint target key)"
  unfolding TransferSignedTx_def TransferSignedTxReturnTx_def TransferNewValueTransferWithCancelTx_def
    TransferNewSmartContractDeployTx_def TransferNewEthereumAccessListTx_def TransferNewEthereumDynamicFeeTx_def
    TransferNewLegacyTxWithEth_def TransferNewEthAccessListTxWithEth_def TransferNewEthDynamicFeeTxWithEth_def
    transferNewEthereumTxWithAccessList_def transferNewEthStyleTx_def TransferNewGaslessTx_def
    TransferNewGaslessApproveTx_def AuctionBid_def AuctionRevertedBid_def if_True
  by (intro identities account_op_locking signed_body.locked cancel_body.locked deploy_body.locked
      eth_access_body.locked eth_style_body.locked gasless_body.locked gasless_approve_body.locked
      bid_body.locked reverted_bid_body.locked)+

section \<open>Quiet steps\<close>

lemma t_bind_Ret:
  "t_bind m f s = (Ret y, s') \<longleftrightarrow> (\<exists>x s1. m s = (Ret x, s1) \<and> f x s1 = (Ret y, s'))"
  by (auto simp: t_bind_def split: prod.splits outcome.splits)

text \<open>The pools and the records of a state, in one value.\<close>

definition pools_of :: "'w tcs \<Rightarrow> (nat, 'w) ClientPool \<times> (nat, 'w) ClientPool \<times> (nat, 'w) ClientPool" where
  "pools_of s = (tc_CliPool s, tc_RpcCliPool s, tc_EthCliPool s)"

definition reports_of :: "'w tcs \<Rightarrow> event list \<times> goroutine list" where
  "reports_of s = (tc_events s, tc_spawned s)"

definition tokens_view :: "'w tcs \<Rightarrow> ledger \<times> acc_ref list \<times> (acc_ref \<Rightarrow> addr)" where
  "tokens_view s = (erc721 (tc_proc s), accounts (tc_AccGrp s), \<lambda>r. acc_address (accs (tc_proc s) r))"

text \<open>What the tests keep of the process; the ledger only where \<open>L\<close> says so.\<close>

definition view :: "bool \<Rightarrow> 'w tcs \<Rightarrow> acc_ref list \<times> (acc_ref \<Rightarrow> addr) \<times> ledger option" where
  "view L s = (accounts (tc_AccGrp s), \<lambda>r. acc_address (accs (tc_proc s) r),
     if L then Some (erc721 (tc_proc s)) else None)"

definition free :: "'w tcs \<Rightarrow> bool" where
  "free s \<longleftrightarrow> (\<forall>r. \<not> mutexes s r)"

definition unblocked :: "'w tcs \<Rightarrow> 'r outcome \<Rightarrow> 'w tcs \<Rightarrow> bool" where
  "unblocked s r s' \<longleftrightarrow> (free s \<longrightarrow> r \<noteq> Block \<and> (settles r \<longrightarrow> free s'))"

definition silent :: "bool \<Rightarrow> ('w, 'r) trun \<Rightarrow> bool" where
  "silent L m \<longleftrightarrow> (\<forall>s r s'. m s = (r, s') \<longrightarrow> pools_of s' = pools_of s \<and> reports_of s' = reports_of s \<and>
     view L s' = view L s)"

definition steady :: "bool \<Rightarrow> ('w, 'r) trun \<Rightarrow> bool" where
  "steady L m \<longleftrightarrow> silent L m \<and> (\<forall>s r s'. m s = (r, s') \<longrightarrow> unblocked s r s')"

definition quiet :: "('w, 'r) trun \<Rightarrow> bool" where
  "quiet m \<longleftrightarrow> steady True m"

named_theorems quiets

lemma silentD: "silent L m \<Longrightarrow> m s = (r, s') \<Longrightarrow>
    pools_of s' = pools_of s \<and> reports_of s' = reports_of s \<and> view L s' = view L s"
  unfolding silent_def by blast

lemma steadyD: "steady L m \<Longrightarrow> m s = (r, s') \<Longrightarrow>
    pools_of s' = pools_of s \<and> reports_of s' = reports_of s \<and> view L s' = view L s \<and> unblocked s r s'"
  unfolding steady_def silent_def by blast

lemma view_True: "view True s' = view True s \<longleftrightarrow> tokens_view s' = tokens_view s"
  by (auto simp: view_def tokens_view_def)

lemma view_mono: "view True s' = view True s \<Longrightarrow> view L s' = view L s"
  by (auto simp: view_def)

lemma quietD: "quiet m \<Longrightarrow> m s = (r, s') \<Longrightarrow>
    pools_of s' = pools_of s \<and> reports_of s' = reports_of s \<and> tokens_view s' = tokens_view s \<and> unblocked s r s'"
  unfolding quiet_def by (auto dest: steadyD simp: view_True)

lemma steady_silent: "steady L m \<Longrightarrow> silent L m"
  by (simp add: steady_def)

lemma quiet_steady [quiets]: "quiet m \<Longrightarrow> steady L m"
  unfolding quiet_def steady_def silent_def using view_mono by blast

lemma unblocked_refl: "r \<noteq> Block \<Longrightarrow> free s' = free s \<Longrightarrow> unblocked s r s'"
  by (simp add: unblocked_def)

lemmas quiet_defs = quiet_def steady_def silent_def pools_of_def reports_of_def view_def unblocked_def free_def mutexes_def

lemma quiet_basic [quiets]: "quiet (t_ret x)" "quiet (t_get f)" "quiet (t_world g)"
  "r \<noteq> Block \<Longrightarrow> quiet (t_out r)" "(\<And>w. fst (h w) \<noteq> Block) \<Longrightarrow> quiet (t_gen h)"
  by (auto simp: quiet_defs t_ret_def t_get_def t_out_def t_world_def t_gen_def set_wld_def split: prod.splits)
    (metis fst_conv)

lemma t_bind_cases:
  assumes "t_bind m f s = (r, s')"
  obtains (cont) x s1 where "m s = (Ret x, s1)" "f x s1 = (r, s')"
  | (stop) q where "m s = (q, s')" "\<not> returns q" "settles r = settles q" "\<not> returns r" "r = Block \<longleftrightarrow> q = Block"
  using assms by (auto simp: t_bind_def split: prod.splits outcome.splits)

lemma silent_bind: "silent L m \<Longrightarrow> (\<And>x. silent L (f x)) \<Longrightarrow> silent L (t_bind m f)"
  unfolding silent_def [of L "t_bind m f"]
proof (intro allI impI)
  fix s r s' assume m: "silent L m" and f: "\<And>x. silent L (f x)" and "t_bind m f s = (r, s')"
  from this(3) show "pools_of s' = pools_of s \<and> reports_of s' = reports_of s \<and> view L s' = view L s"
  proof (cases rule: t_bind_cases)
    case (cont x s1)
    from silentD [OF m cont(1)] silentD [OF f cont(2)] show ?thesis by simp
  next
    case (stop q)
    from silentD [OF m stop(1)] show ?thesis .
  qed
qed

lemma unblocked_trans: "unblocked s (Ret x) s1 \<Longrightarrow> unblocked s1 r s' \<Longrightarrow> unblocked s r s'"
  by (simp add: unblocked_def)

lemma unblocked_stop: "unblocked s q s' \<Longrightarrow> settles r = settles q \<Longrightarrow> r = Block \<longleftrightarrow> q = Block \<Longrightarrow> unblocked s r s'"
  by (simp add: unblocked_def)

lemma steady_bind: "steady L m \<Longrightarrow> (\<And>x. steady L (f x)) \<Longrightarrow> steady L (t_bind m f)"
  unfolding steady_def [of L "t_bind m f"]
proof (intro conjI allI impI)
  assume m: "steady L m" and f: "\<And>x. steady L (f x)"
  then show "silent L (t_bind m f)" by (intro silent_bind steady_silent)
  fix s r s' assume "t_bind m f s = (r, s')"
  then show "unblocked s r s'"
  proof (cases rule: t_bind_cases)
    case (cont x s1)
    from unblocked_trans [of s x s1 r s'] steadyD [OF m cont(1)] steadyD [OF f cont(2)] show ?thesis by simp
  next
    case (stop q)
    with steadyD [OF m stop(1)] show ?thesis by (intro unblocked_stop [of s q s' r]) auto
  qed
qed

lemma quiet_bind [quiets]: "quiet m \<Longrightarrow> (\<And>x. quiet (f x)) \<Longrightarrow> quiet (t_bind m f)"
  unfolding quiet_def by (rule steady_bind)

lemma quiet_deref [quiets]: "quiet (t_deref r)" "quiet (t_account a)"
  by (auto simp: t_deref_def t_account_def intro: quiets split: option.split)

lemma quiet_acc [quiets]: "account_op f \<Longrightarrow> quiet (t_acc r f)"
  by (auto simp: quiet_defs t_acc_def Let_def fun_eq_iff split: prod.splits
      dest: account_op.releases account_op.never_waits)
    (auto simp: identity_def dest!: account_op.keeps_identity)

lemma NewKaiaAccount_not_Block: "fst (NewKaiaAccount X i w) \<noteq> Block"
  by (auto simp: NewKaiaAccount_def split: prod.splits sum.splits)

lemma makeFunctionCall_not_Block: "makeFunctionCall E a \<noteq> Block"
  by (simp add: makeFunctionCall_def)

lemmas [quiets] = PackContractCall_not_Block gen_data_not_Block NewKaiaAccount_not_Block makeFunctionCall_not_Block

lemma quiet_random [quiets]: "quiet (t_random_acc E)" "quiet (t_rand E)" "quiet (t_contract cfg t)" "quiet (t_data E t a i)"
  by (auto simp: t_random_acc_def t_rand_def t_contract_def t_data_def intro!: quiets)

lemma quiet_send [quiets]: "account_op f \<Longrightarrow> quiet (t_send r f)"
  unfolding t_send_def by (intro quiets identities)

lemma quiet_exec [quiets]: "quiet (t_exec E r to v d)"
  unfolding t_exec_def by (intro quiets identities)

lemma quiet_round_robin [quiets]: "quiet t_round_robin"
  by (auto simp: quiet_defs t_round_robin_def GetAccountRoundRobin_def Let_def split: prod.splits if_splits)

lemma t_random_acc_mem:
  "t_random_acc E s = (Ret (Some r), s') \<Longrightarrow> r \<in> set (accounts (tc_AccGrp s))"
  by (auto simp: t_random_acc_def t_bind_Ret t_get_def t_ret_def t_rand_def t_world_def set_wld_def
      GetAccountRandomly_def AS_Len_def split: prod.splits if_splits intro!: nth_mem)

section \<open>One report per run\<close>

text \<open>The clients of a pool that are not idle.\<close>

definition clients_out :: "('c, 'w) ClientPool \<Rightarrow> int" where
  "clients_out p = cp_cnt p - int (length (cp_freeList p))"

lemma Alloc_out: "Alloc p w = (c, p', w') \<Longrightarrow> clients_out p' = clients_out p + 1"
  using Alloc_inv [of p w c p' w'] by (simp add: clients_out_def)

lemma Free_out: "clients_out (Free c p) = clients_out p - 1"
  by (simp add: clients_out_def Free_def)

definition outs :: "'w tcs \<Rightarrow> int \<times> int \<times> int" where
  "outs s = (clients_out (tc_CliPool s), clients_out (tc_RpcCliPool s), clients_out (tc_EthCliPool s))"

definition report_count :: "'w tcs \<Rightarrow> nat" where
  "report_count s = length (tc_events s) + length (tc_spawned s)"

definition reported :: "bool \<Rightarrow> 'w tcs \<Rightarrow> 'r outcome \<Rightarrow> 'w tcs \<Rightarrow> bool" where
  "reported L s r s' \<longleftrightarrow> view L s' = view L s \<and> unblocked s r s' \<and>
     (settles r \<longrightarrow> outs s' = outs s \<and> report_count s' \<in> {report_count s, Suc (report_count s)}) \<and>
     (returns r \<longrightarrow> report_count s' = Suc (report_count s))"

definition one_report :: "bool \<Rightarrow> ('w, 'r) trun \<Rightarrow> bool" where
  "one_report L m \<longleftrightarrow> (\<forall>s r s'. m s = (r, s') \<longrightarrow> reported L s r s')"

definition reports_p :: "bool \<Rightarrow> ('w, 'r) prun \<Rightarrow> bool" where
  "reports_p L m \<longleftrightarrow> (\<forall>s r s'. m s = Some (r, s') \<longrightarrow> reported L s r s')"

named_theorems reporting

lemma reportsD: "one_report L m \<Longrightarrow> m s = (r, s') \<Longrightarrow> reported L s r s'"
  unfolding one_report_def by blast

lemma same_outs: "pools_of s' = pools_of s \<Longrightarrow> reports_of s' = reports_of s \<Longrightarrow>
    outs s' = outs s \<and> report_count s' = report_count s"
  by (simp add: pools_of_def reports_of_def outs_def report_count_def)

lemma reported_after:
  assumes "pools_of s1 = pools_of s" "reports_of s1 = reports_of s" "view L s1 = view L s" "unblocked s (Ret x) s1"
    and "reported L s1 r s'"
  shows "reported L s r s'"
  using assms(3-5) same_outs [OF assms(1,2)] by (auto simp: reported_def intro: unblocked_trans)

lemma reported_stop:
  assumes "pools_of s' = pools_of s" "reports_of s' = reports_of s" "view L s' = view L s" "unblocked s q s'"
    and "settles r = settles q" "\<not> returns r" "r = Block \<longleftrightarrow> q = Block"
  shows "reported L s r s'"
  using assms(3,6) same_outs [OF assms(1,2)] unblocked_stop [OF assms(4,5,7)] by (auto simp: reported_def)

lemma reports_event [reporting]: "one_report L (t_publish e)" "one_report L (publish_result ty n cfg err)"
  "one_report L (sendBoomerEvent n err cfg)"
  by (auto simp: one_report_def reported_def publish_result_def sendBoomerEvent_def t_publish_def t_upd_def outs_def
    report_count_def view_def unblocked_def free_def mutexes_def)

lemma reports_spawn [reporting]: "one_report L (t_upd (\<lambda>s. s\<lparr>tc_spawned := tc_spawned s @ [g]\<rparr>))"
  by (simp add: one_report_def reported_def t_upd_def outs_def report_count_def view_def unblocked_def free_def mutexes_def)

lemma reports_stop [reporting]: "one_report L (t_out (Panic e))" "one_report L (t_out (Exit e))"
  by (simp_all add: one_report_def reported_def t_out_def unblocked_def)

lemma reports_bind [reporting]: "steady L m \<Longrightarrow> (\<And>x. one_report L (f x)) \<Longrightarrow> one_report L (t_bind m f)"
  unfolding one_report_def [of L "t_bind m f"]
proof (intro allI impI)
  fix s r s' assume m: "steady L m" and f: "\<And>x. one_report L (f x)" and "t_bind m f s = (r, s')"
  from this(3) show "reported L s r s'"
  proof (cases rule: t_bind_cases)
    case (cont x s1)
    from steadyD [OF m cont(1)] reportsD [OF f cont(2)] reported_after [of s1 s L x r s'] show ?thesis by simp
  next
    case (stop q)
    with steadyD [OF m stop(1)] show ?thesis by (intro reported_stop [of s' s L q r]) auto
  qed
qed

lemma reports_if [reporting]: "one_report L a \<Longrightarrow> one_report L b \<Longrightarrow> one_report L (if c then a else b)"
  by simp

lemma reports_option [reporting]: "one_report L a \<Longrightarrow> (\<And>x. one_report L (f x)) \<Longrightarrow> one_report L (case y of None \<Rightarrow> a | Some x \<Rightarrow> f x)"
  by (cases y) simp_all

lemma reports_list [reporting]: "one_report L a \<Longrightarrow> (\<And>x xs. one_report L (f x xs)) \<Longrightarrow> one_report L (case y of [] \<Rightarrow> a | x # xs \<Rightarrow> f x xs)"
  by (cases y) simp_all

lemma reports_bind2:
  assumes "one_report L m" and "\<And>x. steady L (f x)"
  shows "one_report L (t_bind m f)"
  unfolding one_report_def
proof (intro allI impI)
  fix s r s' assume "t_bind m f s = (r, s')"
  then show "reported L s r s'"
  proof (cases rule: t_bind_cases)
    case (cont x s1)
    from reportsD [OF assms(1) cont(1)] steadyD [OF assms(2) cont(2)] same_outs [of s' s1]
    show ?thesis by (auto simp: reported_def intro: unblocked_trans)
  next
    case (stop q)
    from reportsD [OF assms(1) stop(1)] stop(2-) show ?thesis
      by (auto simp: reported_def intro: unblocked_stop)
  qed
qed

text \<open>Taking a client and giving it back.\<close>

lemma with_poolE:
  assumes "with_pool get upd m s = (Ret x, s')"
  obtains c p w s1 where "Alloc (get s) (t_wld s) = (c, p, w)"
    "m (set_wld w (upd (\<lambda>_. p) s)) = (Ret x, s1)" "s' = upd (Free c) s1"
  using assms by (auto simp: with_pool_def split: prod.splits outcome.splits)

lemma with_pool_cases:
  assumes "with_pool get upd m s = (r, s')"
  obtains c p w s1 where "Alloc (get s) (t_wld s) = (c, p, w)"
    "m (set_wld w (upd (\<lambda>_. p) s)) = (r, s1)" "s' = (if settles r then upd (Free c) s1 else s1)"
  using assms by (auto simp: with_pool_def split: prod.splits outcome.splits)

lemma pool_views [simp]:
  "view L (set_wld w s) = view L s" "view L (s\<lparr>tc_CliPool := p\<rparr>) = view L s"
  "view L (s\<lparr>tc_RpcCliPool := p\<rparr>) = view L s" "view L (s\<lparr>tc_EthCliPool := p\<rparr>) = view L s"
  "free (set_wld w s) = free s" "free (s\<lparr>tc_CliPool := p\<rparr>) = free s"
  "free (s\<lparr>tc_RpcCliPool := p\<rparr>) = free s" "free (s\<lparr>tc_EthCliPool := p\<rparr>) = free s"
  by (simp_all add: view_def free_def mutexes_def set_wld_def)

lemma count_simps [simp]:
  "outs (set_wld w s) = outs s" "report_count (set_wld w s) = report_count s"
  "tc_CliPool (set_wld w s) = tc_CliPool s" "tc_RpcCliPool (set_wld w s) = tc_RpcCliPool s"
  "tc_EthCliPool (set_wld w s) = tc_EthCliPool s"
  "report_count (s\<lparr>tc_CliPool := p\<rparr>) = report_count s" "report_count (s\<lparr>tc_RpcCliPool := p\<rparr>) = report_count s"
  "report_count (s\<lparr>tc_EthCliPool := p\<rparr>) = report_count s"
  by (simp_all add: outs_def report_count_def set_wld_def)

lemma with_pool_reported:
  assumes "one_report L m" and "\<And>f s. view L (upd f s) = view L s" "\<And>f s. free (upd f s) = free s"
    and "\<And>f s. report_count (upd f s) = report_count s"
    and out: "\<And>s s1 c p w u. Alloc (get s) u = (c, p, w) \<Longrightarrow> outs s1 = outs (upd (\<lambda>_. p) s) \<Longrightarrow>
      outs (upd (Free c) s1) = outs s"
  shows "one_report L (with_pool get upd m)"
  unfolding one_report_def
proof (intro allI impI)
  fix s r s' assume "with_pool get upd m s = (r, s')"
  then show "reported L s r s'"
  proof (rule with_pool_cases)
    fix c p w s1 assume a: "Alloc (get s) (t_wld s) = (c, p, w)" and m: "m (set_wld w (upd (\<lambda>_. p) s)) = (r, s1)"
      and s': "s' = (if settles r then upd (Free c) s1 else s1)"
    from reportsD [OF assms(1) m] s' out [OF a, of s1] assms(2-4) returns_settles [of r] show ?thesis
      by (auto simp: reported_def unblocked_def)
  qed
qed

lemma with_pool_reports [reporting]:
  assumes "one_report L m"
  shows "one_report L (with_cli m)" "one_report L (with_rpc m)" "one_report L (with_eth m)"
  unfolding with_cli_def with_rpc_def with_eth_def
  by (rule with_pool_reported [OF assms]; auto simp: outs_def Free_out dest: Alloc_out)+

lemma reports_value [reporting]:
  assumes q: "\<And>from to v. quiet (f from to v)"
  shows "one_report L (RunBaseValueTransfer E cfg f)"
  unfolding RunBaseValueTransfer_def by (intro reporting quiets q)

lemma reports_contract [reporting]:
  assumes q: "\<And>from to. quiet to \<Longrightarrow> quiet (f from to)"
  shows "one_report L (RunBaseWithContract E cfg f)"
  unfolding RunBaseWithContract_def by (intro reporting quiets q)

lemma reports_auction [reporting]:
  assumes q: "\<And>e t k. account_op (f e t k)"
  shows "one_report L (RunBaseWithAuction E cfg f)"
  unfolding RunBaseWithAuction_def Let_def by (intro reporting quiets identities q)

lemma value_tests_report [reporting]:
  "one_report L (RunNewValueTransferTC E cfg)" "one_report L (RunNewFeeDelegatedValueTransferTC E cfg)"
  "one_report L (RunNewFeeDelegatedValueTransferWithRatioTC E cfg)" "one_report L (RunNewCancelTC E cfg)"
  "one_report L (RunNewValueTransferWithCancelTC E cfg)" "one_report L (RunNewFeeDelegatedCancelTC E cfg)"
  "one_report L (RunNewFeeDelegatedCancelWithRatioTC E cfg)" "one_report L (RunNewSmartContractDeployTC E cfg)"
  "one_report L (RunNewFeeDelegatedSmartContractDeployTC E cfg)"
  "one_report L (RunNewFeeDelegatedSmartContractDeployWithRatioTC E cfg)" "one_report L (RunNewValueTransferMemoTC E cfg)"
  "one_report L (RunNewFeeDelegatedValueTransferMemoTC E cfg)"
  "one_report L (RunNewFeeDelegatedValueTransferMemoWithRatioTC E cfg)" "one_report L (RunNewValueTransferLargeMemoTC E cfg)"
  "one_report L (RunNewValueTransferSmallMemoTC E cfg)" "one_report L (RunNewAccountUpdateTC E cfg)"
  "one_report L (RunNewFeeDelegatedAccountUpdateTC E cfg)" "one_report L (RunNewFeeDelegatedAccountUpdateWithRatioTC E cfg)"
  "one_report L (RunTransferSignedTC E cfg)" "one_report L (RunTransferUnsignedTC E cfg)"
  unfolding RunNewValueTransferTC_def RunNewFeeDelegatedValueTransferTC_def
    RunNewFeeDelegatedValueTransferWithRatioTC_def RunNewCancelTC_def RunNewValueTransferWithCancelTC_def
    RunNewFeeDelegatedCancelTC_def RunNewFeeDelegatedCancelWithRatioTC_def RunNewSmartContractDeployTC_def
    RunNewFeeDelegatedSmartContractDeployTC_def RunNewFeeDelegatedSmartContractDeployWithRatioTC_def
    RunNewValueTransferMemoTC_def RunNewFeeDelegatedValueTransferMemoTC_def
    RunNewFeeDelegatedValueTransferMemoWithRatioTC_def RunNewValueTransferLargeMemoTC_def
    RunNewValueTransferSmallMemoTC_def RunNewAccountUpdateTC_def RunNewFeeDelegatedAccountUpdateTC_def
    RunNewFeeDelegatedAccountUpdateWithRatioTC_def RunTransferSignedTC_def RunTransferUnsignedTC_def
  by (intro reporting quiets identities)+

lemma contract_tests_report [reporting]:
  "one_report L (RunNewSmartContractExecutionTC E cfg)" "one_report L (RunNewFeeDelegatedSmartContractExecutionTC E cfg)"
  "one_report L (RunNewFeeDelegatedSmartContractExecutionWithRatioTC E cfg)" "one_report L (RunCpuHeavyTC E cfg)"
  "one_report L (RunLargeMemoTC E cfg)" "one_report L (RunErc20TransferTC E cfg)" "one_report L (RunErc20TransferWithBlockedListTC E cfg)"
  "one_report L (RunGaslessTransactionTC E cfg)" "one_report L (RunGaslessRevertTransactionTC E cfg)"
  "one_report L (RunGaslessOnlyApproveTC E cfg)" "one_report L (RunInternalTxTC E cfg)" "one_report L (RunMintNFTTC E cfg)"
  "one_report L (RunStorageTrieWriteTC E cfg)" "one_report L (RunUserStorageSetTC E cfg)"
  "one_report L (RunAuctionBidTC E A arrive cfg)" "one_report L (RunAuctionRevertedBidTC E A cfg)"
  unfolding RunNewSmartContractExecutionTC_def RunNewFeeDelegatedSmartContractExecutionTC_def
    RunNewFeeDelegatedSmartContractExecutionWithRatioTC_def RunCpuHeavyTC_def RunLargeMemoTC_def
    RunErc20TransferTC_def RunErc20TransferWithBlockedListTC_def RunGaslessTransactionTC_def
    RunGaslessRevertTransactionTC_def RunGaslessOnlyApproveTC_def RunInternalTxTC_def RunMintNFTTC_def
    RunStorageTrieWriteTC_def RunUserStorageSetTC_def RunAuctionBidTC_def RunAuctionRevertedBidTC_def
  by (intro reporting quiets identities | assumption)+

lemma quiet_tuple [quiets]: "(\<And>a b. quiet (f a b)) \<Longrightarrow> quiet (case p of (a, b) \<Rightarrow> f a b)"
  by (cases p) simp

lemma reports_tuple [reporting]: "(\<And>a b. one_report L (f a b)) \<Longrightarrow> one_report L (case p of (a, b) \<Rightarrow> f a b)"
  by (cases p) simp

lemma reports_sum [reporting]: "(\<And>x. one_report L (f x)) \<Longrightarrow> (\<And>y. one_report L (g y)) \<Longrightarrow>
    one_report L (case z of Inl x \<Rightarrow> f x | Inr y \<Rightarrow> g y)"
  by (cases z) simp_all

lemma reports_let [reporting]: "one_report L (f x) \<Longrightarrow> one_report L (Let x f)"
  by simp

lemma quiet_reads [quiets]: "quiet (getRandomBlockNumber E R)"
  by (auto simp: quiet_defs getRandomBlockNumber_def set_wld_def split: prod.splits if_splits)

lemma getHash_not_Block [quiets]: "getHash r v \<noteq> Block"
  by (simp add: getHash_def Let_def)

lemma quiet_receipt [quiets]: "quiet (t_addHash h)" "quiet (t_getHash E)"
  "quiet (\<lambda>s. case receipt_choice (tc_receipt s) of (b, v) \<Rightarrow> (Ret b, s\<lparr>tc_receipt := v\<rparr>))"
proof -
  show "quiet (t_getHash E)" unfolding t_getHash_def by (intro quiets)
qed (auto simp: quiet_defs t_addHash_def addHash_def Let_def split: prod.splits if_splits)

lemma read_tests_report [reporting]:
  "one_report L (RunGasPrice E cfg)" "one_report L (RunBlockNumber E cfg)" "one_report L (RunGetBlockByNumber E R cfg)"
  "one_report L (RunGetAccount E R cfg)" "one_report L (RunGetBlockWithConsensusInfoByNumber E R cfg)"
  "one_report L (RunGetStorageAt E R cfg)" "one_report L (RunCall E R cfg)" "one_report L (RunEstimateGas E R cfg)"
  unfolding RunGasPrice_def RunBlockNumber_def RunGetBlockByNumber_def RunGetAccount_def
    RunGetBlockWithConsensusInfoByNumber_def RunGetStorageAt_def RunCall_def RunEstimateGas_def Let_def
  by (intro reporting quiets identities)+

lemma storage_test_reports [reporting]: "one_report L (RunUserStorageSetGetTC E cfg)"
  unfolding RunUserStorageSetGetTC_def by (intro reporting quiets identities)

lemma receipt_test_reports [reporting]: "one_report L (RunReceiptCheckTC E cfg)"
  unfolding RunReceiptCheckTC_def runReceiptCheckSendTx_def runReceiptCheckReadTx_def by (intro reporting quiets identities)

lemma steady_tokens: "steady False (t_find_token i)" "steady False (t_put_token a t)"
  by (auto simp: quiet_defs t_find_token_def t_put_token_def t_upd_def Let_def split: prod.splits)

lemma erc721_test_reports: "one_report False (RunErc721TransferTC E cfg)"
proof -
  have put: "one_report False (t_bind (publish_result a b c e) (\<lambda>_. t_put_token x t))" for a b c e x t
    by (intro reports_bind2 reporting steady_tokens)
  show ?thesis
    unfolding RunErc721TransferTC_def erc721_transfer_def by (intro reporting steady_tokens put quiets)
qed

lemma quiet_nilable [quiets]: "quiet (nilable_account r)"
  unfolding nilable_account_def by (cases r; simp only: option.case) (intro quiets)+

lemma quiet_if [quiets]: "quiet a \<Longrightarrow> quiet b \<Longrightarrow> quiet (if c then a else b)"
  by simp

lemma quiet_arguments [quiets]: "quiet (createRandomArguments E cfg a)"
  unfolding createRandomArguments_def Let_def by (intro quiets)

lemma eth_closure_reports [reporting]:
  assumes "\<And>to v i. account_op (send to v i)"
  shows "one_report L (eth_closure E cfg name send expect)"
  unfolding eth_closure_def by (intro reporting quiets assms)

lemma eth_tests_report [reporting]:
  "one_report L (RunEthereumTxLegacyTC E cfg)" "one_report L (RunEthereumTxAccessListTC E cfg)"
  "one_report L (RunEthereumTxDynamicFeeTC E cfg)" "one_report L (RunNewEthereumAccessListTC E cfg)"
  "one_report L (RunNewEthereumDynamicFeeTC E cfg)"
  unfolding RunEthereumTxLegacyTC_def RunEthereumTxAccessListTC_def RunEthereumTxDynamicFeeTC_def
    RunNewEthereumAccessListTC_def RunNewEthereumDynamicFeeTC_def
  by (intro reporting quiets identities)+

section \<open>Closures that poll\<close>

definition silent_p :: "bool \<Rightarrow> ('w, 'r) prun \<Rightarrow> bool" where
  "silent_p L m \<longleftrightarrow> (\<forall>s r s'. m s = Some (r, s') \<longrightarrow> pools_of s' = pools_of s \<and> reports_of s' = reports_of s \<and>
     view L s' = view L s)"

definition steady_p :: "bool \<Rightarrow> ('w, 'r) prun \<Rightarrow> bool" where
  "steady_p L m \<longleftrightarrow> silent_p L m \<and> (\<forall>s r s'. m s = Some (r, s') \<longrightarrow> unblocked s r s')"

named_theorems polling

lemma p_bind_cases:
  assumes "p_bind m f s = Some (r, s')"
  obtains (cont) x s1 where "m s = Some (Ret x, s1)" "f x s1 = Some (r, s')"
  | (stop) q where "m s = Some (q, s')" "\<not> returns q" "settles r = settles q" "\<not> returns r" "r = Block \<longleftrightarrow> q = Block"
  using assms by (auto simp: p_bind_def split: option.splits prod.splits outcome.splits)

lemma silent_pD: "silent_p L m \<Longrightarrow> m s = Some (r, s') \<Longrightarrow>
    pools_of s' = pools_of s \<and> reports_of s' = reports_of s \<and> view L s' = view L s"
  unfolding silent_p_def by blast

lemma steady_pD: "steady_p L m \<Longrightarrow> m s = Some (r, s') \<Longrightarrow>
    pools_of s' = pools_of s \<and> reports_of s' = reports_of s \<and> view L s' = view L s \<and> unblocked s r s'"
  unfolding steady_p_def silent_p_def by blast

lemma silent_p_lift [polling]: "steady L m \<Longrightarrow> silent_p L (p_lift m)"
  by (simp add: silent_p_def steady_def silent_def p_lift_def)

lemma silent_p_bind [polling]: "silent_p L m \<Longrightarrow> (\<And>x. silent_p L (f x)) \<Longrightarrow> silent_p L (p_bind m f)"
  unfolding silent_p_def [of L "p_bind m f"]
proof (intro allI impI)
  fix s r s' assume m: "silent_p L m" and f: "\<And>x. silent_p L (f x)" and "p_bind m f s = Some (r, s')"
  from this(3) show "pools_of s' = pools_of s \<and> reports_of s' = reports_of s \<and> view L s' = view L s"
  proof (cases rule: p_bind_cases)
    case (cont x s1)
    from silent_pD [OF m cont(1)] silent_pD [OF f cont(2)] show ?thesis by simp
  next
    case (stop q)
    from silent_pD [OF m stop(1)] show ?thesis .
  qed
qed

lemma silent_p_world [polling]: "silent_p L (p_world f)"
  by (auto simp: silent_p_def p_world_def set_wld_def pools_of_def reports_of_def view_def split: option.splits)

lemma silent_p_if [polling]: "silent_p L a \<Longrightarrow> silent_p L b \<Longrightarrow> silent_p L (if c then a else b)"
  by simp

lemma silent_p_option [polling]: "silent_p L a \<Longrightarrow> (\<And>x. silent_p L (f x)) \<Longrightarrow> silent_p L (case y of None \<Rightarrow> a | Some x \<Rightarrow> f x)"
  by (cases y) simp_all

lemma silent_p_tuple [polling]: "(\<And>a b. silent_p L (f a b)) \<Longrightarrow> silent_p L (case p of (a, b) \<Rightarrow> f a b)"
  by (cases p) simp

lemma quiet_now [quiets]: "quiet (t_now E)"
  unfolding t_now_def by (intro quiets)

lemma account_op_without_lock [identities]: "account_op (TransferSignedTxWithoutLock L C g to v i)"
  by (rule op_body.as_op [OF WithoutLock_body])

text \<open>A balance check hands on the outcome of its loop.\<close>

lemma silent_p_await [polling]: "silent_p L (p_bind (p_world f) (\<lambda>res. p_lift (t_out res)))"
  by (auto simp: silent_p_def p_bind_def p_world_def p_lift_def t_out_def set_wld_def pools_of_def reports_of_def view_def
      split: option.splits)

lemma silent_mutex: "(\<And>a. acc_address (snd (f a)) = acc_address a) \<Longrightarrow> silent L (t_mutex f r)"
  by (auto simp: silent_def t_mutex_def Let_def pools_of_def reports_of_def view_def fun_eq_iff split: prod.splits)
    (metis snd_conv)

lemma silent_lock: "silent L (lock_refs rs)" "silent L (unlock_refs rs)"
proof -
  have unit: "silent L (t_ret ())" by (simp add: silent_def t_ret_def)
  show "silent L (lock_refs rs)"
    by (induction rs) (auto intro!: silent_bind [OF silent_mutex] unit simp: Lock_def)
  show "silent L (unlock_refs rs)"
    by (induction rs) (auto intro!: silent_bind [OF silent_mutex] unit simp: UnLock_def)
qed

lemma t_deferred_cases:
  assumes "t_deferred m (r, s) = (q, s')"
  obtains "q = r" "s' = s" | u where "m s = (u, s')"
  using assms by (auto simp: t_deferred_def split: outcome.splits prod.splits)

lemma silent_p_both [polling]:
  assumes "silent_p L body"
  shows "silent_p L (with_both R to from body)"
  unfolding silent_p_def
proof (intro allI impI)
  fix s r s' assume "with_both R to from body s = Some (r, s')"
  then have "p_bind (p_lift (lock_refs (lock_order (ref_text R s) to from))) (\<lambda>_ s1.
      map_option (t_deferred (unlock_refs (lock_order (ref_text R s) to from))) (body s1)) s = Some (r, s')"
    by (simp add: with_both_def Let_def)
  then show "pools_of s' = pools_of s \<and> reports_of s' = reports_of s \<and> view L s' = view L s"
  proof (cases rule: p_bind_cases)
    case (cont x s1)
    then obtain q s2 where b: "body s1 = Some (q, s2)"
      and d: "t_deferred (unlock_refs (lock_order (ref_text R s) to from)) (q, s2) = (r, s')" by auto
    from cont(1) have l: "lock_refs (lock_order (ref_text R s) to from) s = (Ret x, s1)" by (simp add: p_lift_def)
    from d silentD [OF silent_lock(1) l, of L] silent_pD [OF assms b] show ?thesis
      by (cases rule: t_deferred_cases) (auto dest!: silentD [OF silent_lock(2), of _ _ _ _ L])
  next
    case (stop q)
    with silentD [OF silent_lock(1)] show ?thesis by (metis option.inject p_lift_def)
  qed
qed

lemma silent_transferAndCheck [polling]: "silent_p L (transferAndCheck E R to from v)"
  unfolding transferAndCheck_def transfer_body_def settle_def check_balances_def p_balance_def
  by (intro polling quiets identities | simp)+

lemma steady_transferAndCheck: "steady_p L (transferAndCheck E R to from v)"
  unfolding steady_p_def
  by (auto intro: silent_transferAndCheck simp: unblocked_def free_def dest: transferAndCheck_mutexes)

lemma reports_p_lift: "one_report L m \<Longrightarrow> reports_p L (p_lift m)"
  by (simp add: reports_p_def one_report_def p_lift_def)

lemma steady_p_lift: "steady L m \<Longrightarrow> steady_p L (p_lift m)"
  by (auto simp: steady_p_def p_lift_def steady_def silent_def silent_p_def)

lemma reports_p_bind:
  assumes "steady_p L m" and "\<And>x. reports_p L (f x)"
  shows "reports_p L (p_bind m f)"
  unfolding reports_p_def
proof (intro allI impI)
  fix s r s' assume "p_bind m f s = Some (r, s')"
  then show "reported L s r s'"
  proof (cases rule: p_bind_cases)
    case (cont x s1)
    with assms(2) [of x] have "reported L s1 r s'" by (simp add: reports_p_def)
    with steady_pD [OF assms(1) cont(1)] reported_after show ?thesis by metis
  next
    case (stop q)
    with steady_pD [OF assms(1) stop(1)] reported_stop show ?thesis by metis
  qed
qed

lemma reports_p_with_cli:
  assumes "reports_p L m"
  shows "reports_p L (with_cli_p m)"
  unfolding reports_p_def
proof (intro allI impI)
  fix s r s' assume "with_cli_p m s = Some (r, s')"
  then obtain c p w s1 where a: "Alloc (tc_CliPool s) (t_wld s) = (c, p, w)"
    and b: "m (set_wld w (s\<lparr>tc_CliPool := p\<rparr>)) = Some (r, s1)"
    and s': "s' = (if settles r then s1\<lparr>tc_CliPool := Free c (tc_CliPool s1)\<rparr> else s1)"
    by (auto simp: with_cli_p_def split: prod.splits option.splits outcome.splits)
  from assms b have "reported L (set_wld w (s\<lparr>tc_CliPool := p\<rparr>)) r s1" unfolding reports_p_def by blast
  with Alloc_out [OF a] s' show "reported L s r s'"
    by (auto simp: reported_def unblocked_def outs_def Free_out)
qed

lemma check_test_reports: "reports_p L (RunTransferSignedWithCheckTC E R cfg)"
  unfolding RunTransferSignedWithCheckTC_def
  by (intro reports_p_with_cli reports_p_bind reports_p_lift steady_p_lift steady_transferAndCheck quiets reporting)

text \<open>Every test of the table.\<close>

lemma task_reports: "one_report L (f cfg) \<Longrightarrow> reports_p L (et_Run (task n f cs) cfg)"
  by (simp add: task_def reports_p_lift)

lemma reports_p_mono: "reports_p True m \<Longrightarrow> reports_p L m"
  unfolding reports_p_def reported_def using view_mono by blast

lemma table_reports: "t \<in> set (TcList E A arrive R) \<Longrightarrow> reports_p (et_Name t \<noteq> Erc721TransferTCName) (et_Run t cfg)"
proof -
  have 1: "\<forall>t \<in> set (TcList_1 E). reports_p (et_Name t \<noteq> Erc721TransferTCName) (et_Run t cfg)"
    unfolding TcList_1_def list.set ball_simps
    by (intro conjI task_reports reporting TrueI)
  have 2: "\<forall>t \<in> set (TcList_2 E A arrive R). reports_p (et_Name t \<noteq> Erc721TransferTCName) (et_Run t cfg)"
    unfolding TcList_2_def list.set ball_simps
    by (intro conjI task_reports reporting TrueI) (simp add: task_def erc721_test_reports)
  have 3: "\<forall>t \<in> set (TcList_3 E R). reports_p (et_Name t \<noteq> Erc721TransferTCName) (et_Run t cfg)"
    unfolding TcList_3_def list.set ball_simps
    by (intro conjI task_reports reporting TrueI) (simp add: task_p_def check_test_reports)
  show "t \<in> set (TcList E A arrive R) \<Longrightarrow> reports_p (et_Name t \<noteq> Erc721TransferTCName) (et_Run t cfg)"
    using 1 2 3 by (auto simp: TcList_def)
qed

section \<open>The ERC-721 test and the ledger\<close>

lemma find_token_conserves:
  assumes "distinct owners" and "\<forall>r \<in> set refs. addr_of r \<in> set owners"
  shows "find_token refs addr_of n i l = (r, l') \<Longrightarrow> i < length refs \<Longrightarrow>
    (case r of None \<Rightarrow> ledger_store.held owners l' = ledger_store.held owners l
     | Some (ref, t) \<Rightarrow> ref \<in> set refs \<and>
         ledger_store.held owners l = add_mset t (ledger_store.held owners l'))"
proof (induction n arbitrary: i l)
  case (Suc n)
  from Suc.prems(2) assms(2) have own: "addr_of (refs ! i) \<in> set owners" by simp
  obtain q l1 where q: "RemoveToken (addr_of (refs ! i)) l = (q, l1)" by (metis prod.exhaust)
  show ?case
  proof (cases q)
    case None
    with q Suc.prems have "find_token refs addr_of n ((i + 1) mod length refs) l1 = (r, l')" by simp
    moreover have "(i + 1) mod length refs < length refs" using Suc.prems(2) by (intro mod_less_divisor) linarith
    moreover have "ledger_store.held owners l1 = ledger_store.held owners l"
      using q None by (intro ledger_store.held_take_None) auto
    ultimately show ?thesis using Suc.IH by metis
  next
    case (Some t)
    with q Suc.prems ledger_store.held_take_Some [OF assms(1) own, of l t l1] show ?thesis by auto
  qed
qed simp

lemma t_find_token_Ret:
  assumes "t_find_token i s = (Ret r, s')"
  shows "\<exists>l. find_token (accounts (tc_AccGrp s)) (\<lambda>r. GetAddress (accs (tc_proc s) r))
      (length (accounts (tc_AccGrp s))) i (erc721 (tc_proc s)) = (r, l) \<and>
      s' = s\<lparr>tc_proc := (tc_proc s)\<lparr>erc721 := l\<rparr>\<rparr>"
  using assms by (auto simp: t_find_token_def Let_def split: prod.splits)

lemma tokens_viewD: "tokens_view s = tokens_view s' \<Longrightarrow> erc721 (tc_proc s) = erc721 (tc_proc s') \<and>
    accounts (tc_AccGrp s) = accounts (tc_AccGrp s') \<and>
    acc_address (accs (tc_proc s) r) = acc_address (accs (tc_proc s') r)"
  by (auto simp: tokens_view_def fun_eq_iff)

lemma erc721_transfer_put:
  assumes "erc721_transfer E cfg from to t s = (Ret (), s')"
  shows "\<exists>b \<in> {acc_address (accs (tc_proc s) from), acc_address (accs (tc_proc s) to)}.
    erc721 (tc_proc s') = PutToken b t (erc721 (tc_proc s))"
proof -
  from assms obtain d s1 c s2 err s3 where
    1: "t_out (PackContractCall (e_abi E) erc721PerformanceABI ''transferFrom''
        [ArgAddress (GetAddress (accs (tc_proc s) from)), ArgAddress (GetAddress (accs (tc_proc s) to)), ArgUint t]) s
      = (Ret d, s1)" and
    2: "t_contract cfg ContractErc721 s1 = (Ret c, s2)" and 3: "t_exec E from c None d s2 = (Ret err, s3)" and
    4: "erc721 (tc_proc s') = PutToken (case err of None \<Rightarrow> GetAddress (accs (tc_proc s) to)
          | Some _ \<Rightarrow> GetAddress (accs (tc_proc s) from)) t (erc721 (tc_proc s3))"
    by (fastforce simp: erc721_transfer_def t_bind_Ret t_account_def t_get_def t_put_token_def t_upd_def
      publish_result_def t_publish_def)
  have "tokens_view s3 = tokens_view s"
    using quietD [OF quiet_basic(4) [OF PackContractCall_not_Block] 1] quietD [OF quiet_random(3) 2] quietD [OF quiet_exec 3] by simp
  from tokens_viewD [OF this] 4 show ?thesis by (cases err) (auto simp: GetAddress_def)
qed

lemma t_find_token_held:
  assumes "t_find_token i s = (Ret found, s')" and "distinct owners" and "i < length (accounts (tc_AccGrp s))"
    and "\<forall>r \<in> set (accounts (tc_AccGrp s)). acc_address (accs (tc_proc s) r) \<in> set owners"
  shows "accs (tc_proc s') = accs (tc_proc s) \<and> (case found of
      None \<Rightarrow> ledger_store.held owners (erc721 (tc_proc s')) = ledger_store.held owners (erc721 (tc_proc s))
    | Some (r, t) \<Rightarrow> r \<in> set (accounts (tc_AccGrp s)) \<and> ledger_store.held owners (erc721 (tc_proc s)) =
        add_mset t (ledger_store.held owners (erc721 (tc_proc s'))))"
proof -
  from t_find_token_Ret [OF assms(1)] obtain l where
    f: "find_token (accounts (tc_AccGrp s)) (\<lambda>r. GetAddress (accs (tc_proc s) r))
      (length (accounts (tc_AccGrp s))) i (erc721 (tc_proc s)) = (found, l)"
    and "s' = s\<lparr>tc_proc := (tc_proc s)\<lparr>erc721 := l\<rparr>\<rparr>" by blast
  with find_token_conserves [OF assms(2) _ f assms(3)] assms(4) show ?thesis
    by (auto simp: GetAddress_def split: option.splits)
qed

lemma erc721_transfer_held:
  assumes "erc721_transfer E cfg from to t s = (Ret (), s')" and "distinct owners"
    and "acc_address (accs (tc_proc s) from) \<in> set owners" and "acc_address (accs (tc_proc s) to) \<in> set owners"
  shows "ledger_store.held owners (erc721 (tc_proc s')) =
    add_mset t (ledger_store.held owners (erc721 (tc_proc s)))"
  using erc721_transfer_put [OF assms(1)] ledger_store.held_put [OF assms(2)] assms(3,4) by auto

lemma erc721_rest_held:
  assumes run: "(case found of
         None \<Rightarrow> t_publish e
       | Some (from, tokenId) \<Rightarrow>
           t_bind (t_deref oto) (\<lambda>to. erc721_transfer E cfg from to tokenId)) s = (Ret (), s')" and "distinct owners"
    and found: "case found of
         None \<Rightarrow> ledger_store.held owners (erc721 (tc_proc s)) = H
       | Some (r, t) \<Rightarrow> acc_address (accs (tc_proc s) r) \<in> set owners \<and>
           H = add_mset t (ledger_store.held owners (erc721 (tc_proc s)))"
    and to: "\<And>to. oto = Some to \<Longrightarrow> acc_address (accs (tc_proc s) to) \<in> set owners"
  shows "ledger_store.held owners (erc721 (tc_proc s')) = H"
proof (cases found)
  case None
  with run found show ?thesis by (auto simp: t_publish_def t_upd_def)
next
  case (Some x)
  then obtain ref t where x: "found = Some (ref, t)" by (cases x) auto
  with run obtain to where to': "oto = Some to" and tr: "erc721_transfer E cfg ref to t s = (Ret (), s')"
    by (auto simp: t_bind_Ret t_deref_def t_out_def t_ret_def split: option.splits)
  from erc721_transfer_held [OF tr assms(2) _ to [OF to']] found x show ?thesis by auto
qed

text \<open>A run of the ERC-721 test that returns keeps the tokens of a set of owners with the task's accounts in it.\<close>

lemma erc721_run_held:
  assumes "RunErc721TransferTC E cfg s = (Ret (), s')" and "distinct owners"
    and own: "\<forall>r \<in> set (accounts (tc_AccGrp s)). acc_address (accs (tc_proc s) r) \<in> set owners"
  shows "ledger_store.held owners (erc721 (tc_proc s')) = ledger_store.held owners (erc721 (tc_proc s))"
  using assms(1) [unfolded RunErc721TransferTC_def with_cli_def]
proof (rule with_poolE)
  fix c p w s9
  let ?s0 = "set_wld w (s\<lparr>tc_CliPool := p\<rparr>)" and ?e = "Failure ''http'' (event_name (tc_Name cfg) cfg) ''No tokens available''"
  have v0: "tokens_view ?s0 = tokens_view s" by (simp add: set_wld_def tokens_view_def)
  assume s': "s' = s9\<lparr>tc_CliPool := Free c (tc_CliPool s9)\<rparr>"
  assume "t_bind (t_random_acc E) (\<lambda>oto.
     t_bind (t_get (\<lambda>s. AS_Len (tc_AccGrp s))) (\<lambda>n.
     if n = 0 then t_out (Panic ''invalid argument to Intn'')
     else
       t_bind (t_rand E) (\<lambda>r.
       t_bind (t_find_token (r mod n)) (\<lambda>found.
       case found of None \<Rightarrow> t_publish ?e
       | Some (from, tokenId) \<Rightarrow> t_bind (t_deref oto) (\<lambda>to. erc721_transfer E cfg from to tokenId)))))
     (set_wld w (s\<lparr>tc_CliPool := (\<lambda>_. p) (tc_CliPool s)\<rparr>)) = (Ret (), s9)"
  then obtain oto s1 r s2 found s3 where
    1: "t_random_acc E ?s0 = (Ret oto, s1)" and n: "AS_Len (tc_AccGrp s1) \<noteq> 0" and 2: "t_rand E s1 = (Ret r, s2)" and
    3: "t_find_token (r mod AS_Len (tc_AccGrp s1)) s2 = (Ret found, s3)" and
    4: "(case found of None \<Rightarrow> t_publish ?e
       | Some (from, tokenId) \<Rightarrow> t_bind (t_deref oto) (\<lambda>to. erc721_transfer E cfg from to tokenId)) s3 = (Ret (), s9)"
    by (auto simp: t_bind_Ret t_get_def t_out_def split: if_splits)
  have v1: "tokens_view s1 = tokens_view s" and v2: "tokens_view s2 = tokens_view s"
    using quietD [OF quiet_random(1) 1] quietD [OF quiet_random(2) 2] v0 by simp_all
  note V1 = tokens_viewD [OF v1] and V2 = tokens_viewD [OF v2]
  have own2: "\<forall>r \<in> set (accounts (tc_AccGrp s2)). acc_address (accs (tc_proc s2) r) \<in> set owners"
    and lt: "r mod AS_Len (tc_AccGrp s1) < length (accounts (tc_AccGrp s2))"
    using own n V1 V2 by (simp_all add: AS_Len_def)
  note F = t_find_token_held [OF 3 assms(2) lt own2]
  have to: "acc_address (accs (tc_proc s3) to) \<in> set owners" if "oto = Some to" for to
    using t_random_acc_mem [of E ?s0 to s1] 1 that own F V2 by (simp add: set_wld_def)
  have "ledger_store.held owners (erc721 (tc_proc s9)) = ledger_store.held owners (erc721 (tc_proc s2))"
    by (rule erc721_rest_held [OF 4 assms(2) _ to]) (use F own2 in \<open>auto split: option.splits\<close>)
  with s' V2 show ?thesis by simp
qed

end
