(* ===== verification/Test_Properties.thy ===== *)
theory Test_Properties
  imports Sim_Run Closures
begin

text \<open>
  The properties of the test cases.
\<close>

text \<open>
  C6: a run of any of the 53 test cases of the table that returns has published exactly one event, or
  started exactly one goroutine that will, and one that panics at most one; in both cases it has given back
  every client it took from the three pools. Success, errors of the node and the polling tests are all covered.
\<close>

theorem every_test_reports_once:
  assumes "t \<in> set (TcList E A arrive R)" and "et_Run t cfg s = Some (r, s')" and "settles r"
  shows "length (tc_events s') + length (tc_spawned s') \<in>
      (let n = length (tc_events s) + length (tc_spawned s) in if returns r then {n + 1} else {n, n + 1}) \<and>
    (\<forall>pool \<in> {tc_CliPool, tc_RpcCliPool, tc_EthCliPool}. clients_out (pool s') = clients_out (pool s))"
  using table_reports [OF assms(1), of cfg] assms(2,3)
  by (auto simp: reports_p_def reported_def outs_def report_count_def Let_def)

lemma every_test_reports_once_witness:
  "\<exists>s'. RunBlockNumber sim_env (sim_test_cfg []) sim_tcs = (Ret (), s') \<and>
     length (tc_events s') + length (tc_spawned s') = 1 \<and> clients_out (tc_CliPool s') = 0"
proof -
  let ?t = "task ReadBlockNumberTCName (RunBlockNumber sim_env) []"
  have "ran_with (\<lambda>_ _. True) (Some (RunBlockNumber sim_env (sim_test_cfg []) sim_tcs))" by code_simp
  then obtain s' where run: "RunBlockNumber sim_env (sim_test_cfg []) sim_tcs = (Ret (), s')"
    by (auto elim: ran_withE)
  have "?t \<in> set (TcList sim_env sim_auction [] sim_reader)" by (simp add: TcList_def TcList_2_def)
  from every_test_reports_once [OF this, of "sim_test_cfg []" sim_tcs "Ret ()" s'] run show ?thesis
    by (auto simp: sim_tcs_def clients_out_def empty_pool_def task_def p_lift_def)
qed

text \<open>
  C11: a transfer-and-check that reports success has seen, from the node: both balances before, the
  receipt of the transaction it sent, the sender's balance less the value and the fee
  (\<open>gasUsed\<close> times the gas price), and the recipient's balance plus the value. For a transfer to the
  own address only the fee is subtracted.
\<close>

theorem passed_check_saw_balances:
  assumes "transferAndCheck E R to from v s = Some (Ret None, s')"
    and "fa = acc_address (accs (tc_proc s) from)" and "ta = acc_address (accs (tc_proc s) to)"
  shows "\<exists>fb tb h gp rc w. saw_balance E fa fb \<and> saw_balance E ta tb \<and> sent_with E fa ta v h gp \<and>
     fst (TransactionReceipt (e_cli E) h w) = Inr rc \<and>
     saw_balance E fa (fb - (if ta = fa then 0 else v) - sint (rc_gasUsed rc) * gp) \<and>
     (ta = fa \<or> saw_balance E ta (tb + v))"
  using transferAndCheck_saw [OF assms] by blast

lemma passed_check_saw_balances_witness:
  "\<exists>s'. transferAndCheck sim_env sim_texts (TestAcc 0) (TestAcc 1) 0 sim_tcs = Some (Ret None, s') \<and>
     (\<exists>fb gp h rc w. fst (TransactionReceipt sim_client h w) = Inr rc \<and>
       saw_balance sim_env 2 (fb - sint (rc_gasUsed rc) * gp))"
proof -
  have "ran_with (\<lambda>x _. x = None) (transferAndCheck sim_env sim_texts (TestAcc 0) (TestAcc 1) 0 sim_tcs)"
    by code_simp
  then obtain s' where run: "transferAndCheck sim_env sim_texts (TestAcc 0) (TestAcc 1) 0 sim_tcs = Some (Ret None, s')"
    by (auto elim: ran_withE)
  have a: "2 = acc_address (accs (tc_proc sim_tcs) (TestAcc 1))" "1 = acc_address (accs (tc_proc sim_tcs) (TestAcc 0))"
    by (simp_all add: sim_tcs_def)
  from passed_check_saw_balances [OF run a] run show ?thesis by (force simp: sim_env_def)
qed



text \<open>
  C26: started with both mutexes free, the transfer-and-check never waits for itself, also when sender and
  recipient are the same account or have the same address, and when it returns, with an error or not, or
  panics, every mutex is as it was. Its outcome is that of the transfer itself, so the deferred unlock never meets a free
  mutex, which would end the process.
\<close>

theorem checked_transfer_unlocks:
  assumes "transferAndCheck E R to from v s = Some (r, s')"
    and "\<not> mutexes s to" and "\<not> mutexes s from"
  shows "r \<noteq> Block \<and> (if settles r then mutexes s' = mutexes s else True) \<and>
    (\<exists>s1 s2. transfer_body E to from v s1 = Some (r, s2))"
  using transferAndCheck_mutexes [OF assms] by simp

lemma checked_transfer_unlocks_witness:
  "\<exists>x s'. transferAndCheck sim_env sim_texts (TestAcc 0) (TestAcc 1) 0 sim_tcs = Some (Ret x, s') \<and>
     mutexes s' = mutexes sim_tcs"
proof -
  have "ran_with (\<lambda>_ _. True) (transferAndCheck sim_env sim_texts (TestAcc 0) (TestAcc 1) 0 sim_tcs)"
    by code_simp
  then obtain x s' where run: "transferAndCheck sim_env sim_texts (TestAcc 0) (TestAcc 1) 0 sim_tcs = Some (Ret x, s')"
    by (rule ran_withE)
  have "\<not> mutexes sim_tcs (TestAcc 0)" "\<not> mutexes sim_tcs (TestAcc 1)" unfolding mutexes_def by code_simp+
  from checked_transfer_unlocks [OF run this] run show ?thesis by (auto simp: returns_iff)
qed

text \<open>
  C33: after any number of added hashes, the hashes that \<open>getHash\<close> can give are exactly the last
  \<open>hashPoolSize\<close> of them, and no draw panics. Nothing older is kept, nothing newer is unreachable, also
  around the end of the ring.
\<close>

theorem hash_pool_keeps_recent:
  assumes "hs \<noteq> []"
  shows "\<exists>v. addHashes hs receipt_init = (Ret (), v) \<and> (\<forall>r. returns (getHash r v)) \<and>
    {h. \<exists>r. getHash r v = Ret h} = set (drop (length hs - hashPoolSize) hs)"
proof -
  obtain v where v: "addHashes hs receipt_init = (Ret (), v)" "pool_holds v hs"
    using addHashes_holds [OF pool_holds_init, of hs] by auto
  note G = getHash_holds [OF v(2) assms]
  have "returns (getHash r v)" for r using G [of r] by (auto simp: returns_iff)
  moreover have "{h. \<exists>r. getHash r v = Ret h} = set (recent hs)"
    using G by (auto, metis outcome.inject(1))
  ultimately show ?thesis using v(1) by (auto simp: recent_def)
qed

lemma hash_pool_keeps_recent_witness:
  "\<exists>v. addHashes [5, 6] receipt_init = (Ret (), v) \<and> {h. \<exists>r. getHash r v = Ret h} = {5, 6}"
  using hash_pool_keeps_recent [of "[5, 6]"] by (auto simp: hashPoolSize_def)

text \<open>
  After the initial phase, ten calls of the receipt test make one send and nine reads, as long as the
  32-bit counter does not wrap.
\<close>

lemma one_send_in_ten:
  assumes "rv_initFlag v" and "unat (rv_cnt v) + 10 * k < 2 ^ 32"
  shows "length (filter (\<lambda>sends. sends) (choices (10 * k) v)) = k \<and>
    length (filter (\<lambda>sends. \<not> sends) (choices (10 * k) v)) = ratioReadPerSend * k"
proof -
  have l: "length (choices n v) = n" for n v
    by (induction n arbitrary: v) (auto split: prod.splits)
  have "length (filter (\<lambda>b. b) (choices (10 * k) v)) = k"
    using choices_ratio [OF assms] by (simp add: id_def)
  with sum_length_filter_compl [of "\<lambda>b. b" "choices (10 * k) v"] l show ?thesis
    by (simp add: ratioReadPerSend_def)
qed

lemma one_send_in_ten_witness:
  "length (filter (\<lambda>sends. \<not> sends) (choices (10 * 2) (receipt_init\<lparr>rv_initFlag := True\<rparr>))) = 18"
  using one_send_in_ten [of "receipt_init\<lparr>rv_initFlag := True\<rparr>" 2]
  by (simp add: receipt_init_def ratioReadPerSend_def)

text \<open>
  C36: the check of a receipt passes exactly if there is one with status \<open>0x1\<close>, with a contract
  address for a deployment, with the address of the configured contract (in any case of letters) for
  an execution, and with the expected type if that is not the legacy one.
\<close>

theorem receipt_check_exact:
  "(check_receipt R general receipt reqType expected = Ret None) =
    (\<exists>m. receipt = Some m \<and> m ''status'' = Some (JText ''0x1'') \<and>
      (if reqType = 1 then \<exists>t. m ''contractAddress'' = Some (JText t) else True) \<and>
      (if reqType = 2 then \<exists>t a. m ''to'' = Some (JText t) \<and> general = Some a \<and> to_lower t = to_lower (addrText R a)
       else True) \<and>
      (if expected = ExpLegacy then True
       else \<exists>t. m ''type'' = Some (JText t) \<and> ParseInt0 t = Some (typeCode R expected mod 256)))"
  unfolding check_receipt_iff receipt_ok_def by auto

text \<open>
  The block number that the reading tests ask for is never negative and below the newest block known,
  and zero as long as none is known.
\<close>

lemma random_block_in_range:
  assumes "\<And>n w. 0 < n \<Longrightarrow> fst (bigRand R n w) \<in> {0..<n}"
    and "getRandomBlockNumber E R s = (r, s')"
  shows "\<exists>n. r = Ret n \<and> 0 \<le> n \<and> n \<le> max 0 (latestBlockNumber (tc_read s') - 1)"
  using getRandomBlockNumber_range [of R E s r s'] assms by force

lemma random_block_in_range_witness:
  "\<exists>n s'. getRandomBlockNumber sim_env sim_reader sim_tcs = (Ret n, s') \<and>
     n \<in> {0..max 0 (latestBlockNumber (tc_read s') - 1)}"
proof -
  obtain r s' where run: "getRandomBlockNumber sim_env sim_reader sim_tcs = (r, s')" by (metis prod.exhaust)
  have "\<And>n w. 0 < n \<Longrightarrow> fst (bigRand sim_reader n w) \<in> {0..<n}" by (simp add: sim_reader_def)
  from random_block_in_range [OF this run] run show ?thesis by auto
qed

text \<open>
  C40: \<open>RunCall\<close> reports success whenever the call itself returned, whatever it returned: the error that
  the check of the result assigns is a variable of the inner block and is lost.
\<close>

theorem read_call_result_ignored:
  assumes "RunCall E R cfg s = (Ret (), s')"
  shows "\<exists>msg w. tc_events s' = tc_events s @
    [case fst (CallContract R msg w) of Inl e \<Rightarrow> Failure ''http'' (event_name ''readCall'' cfg) e
     | Inr result \<Rightarrow> Success ''http'' (event_name ''readCall'' cfg)]"
  using assms [unfolded RunCall_def with_cli_def Let_def]
proof (rule with_poolE, goal_cases)
  case (1 c p w s9)
  from 1(2) obtain ofrom s1 "from" s2 ct s3 data s4 r s5 msg where
    q: "t_random_acc E (set_wld w (s\<lparr>tc_CliPool := p\<rparr>)) = (Ret ofrom, s1)"
      "t_bind (t_deref ofrom) t_account s1 = (Ret from, s2)" "t_contract cfg ContractReadApiCallContract s2 = (Ret ct, s3)"
      "t_data E ContractReadApiCallContract (GetAddress from) (Some 0) s3 = (Ret data, s4)" and
    call: "t_world (CallContract R msg) s4 = (Ret r, s5)" and
    ev: "sendBoomerEvent ''readCall'' (case r of Inl e \<Rightarrow> Some e | Inr _ \<Rightarrow> None) cfg s5 = (Ret (), s9)"
    unfolding t_bind_Ret [of "t_random_acc E"] t_bind_Ret [of "t_bind (t_deref x) t_account" for x]
      t_bind_Ret [of "t_contract cfg ContractReadApiCallContract"] t_bind_Ret [of "t_data E x y z" for x y z]
      t_bind_Ret [of "t_world f" for f] by blast
  have quiet: "quiet (t_bind (t_deref ofrom) t_account)" by (intro quiets)
  have "tc_events s5 = tc_events s"
    using quietD [OF quiet_random(1) q(1)] quietD [OF quiet q(2)] quietD [OF quiet_random(3) q(3)]
      quietD [OF quiet_random(4) q(4)] quietD [OF quiet_basic(3) call] by (simp add: reports_of_def set_wld_def)
  moreover have "r = fst (CallContract R msg (t_wld s4))" using call by (auto simp: t_world_def split: prod.splits)
  ultimately show ?case using ev 1(3)
    by (intro exI [of _ msg] exI [of _ "t_wld s4"])
      (auto simp: sendBoomerEvent_def publish_result_def t_publish_def t_upd_def split: sum.splits)
qed

lemma read_call_result_ignored_witness:
  "\<exists>s'. RunCall sim_env (sim_reader\<lparr>unpackGet := (\<lambda>b. Inr 5)\<rparr>) (sim_test_cfg []) sim_tcs = (Ret (), s') \<and>
     tc_events s' = [Success ''http'' (event_name ''readCall'' (sim_test_cfg []))]"
proof -
  let ?R = "sim_reader\<lparr>unpackGet := (\<lambda>b. Inr 5)\<rparr>"
  have "ran_with (\<lambda>_ _. True) (Some (RunCall sim_env ?R (sim_test_cfg []) sim_tcs))" by code_simp
  then obtain s' where run: "RunCall sim_env ?R (sim_test_cfg []) sim_tcs = (Ret (), s')"
    by (auto elim: ran_withE)
  from read_call_result_ignored [OF run] run show ?thesis
    by (auto simp: sim_tcs_def sim_reader_def)
qed

end
