(* ===== verification/Start_Locks.thy ===== *)
theory Start_Locks
  imports Startup
begin

text \<open>
  The mutexes during the start-up: a run that begins with every mutex free never waits for one and leaves
  them all free. \<open>lock_free\<close> is closed under the combinators, and every step of \<open>RunAction\<close> has it.
\<close>

definition unlocked :: "'w proc \<Rightarrow> bool" where
  "unlocked p \<longleftrightarrow> (\<forall>ref. \<not> acc_mutex (accs p ref))"

definition lock_free :: "('w, 'r) run \<Rightarrow> bool" where
  "lock_free m \<longleftrightarrow> (\<forall>s r s'. m s = Some (r, s') \<longrightarrow> unlocked s \<longrightarrow> r \<noteq> Block \<and> unlocked s')"

lemma lock_freeD: "lock_free m \<Longrightarrow> m s = Some (r, s') \<Longrightarrow> unlocked s \<Longrightarrow> r \<noteq> Block \<and> unlocked s'"
  unfolding lock_free_def by blast

named_theorems lock_frees

section \<open>Combinators\<close>

lemma lock_free_basic [lock_frees]: "lock_free (ret_run x)" "lock_free (get_run h)" "lock_free (acc_run ref)"
    "lock_free (world_run g)" "lock_free (ledger_run l)" "lock_free (contract_run t)"
  by (auto simp: lock_free_def ret_run_def get_run_def acc_run_def world_run_def ledger_run_def contract_run_def
      unlocked_def split: prod.splits option.splits)

lemma lock_free_out: "r \<noteq> Block \<Longrightarrow> lock_free (out_run r)"
  by (simp add: lock_free_def out_run_def)

lemma lock_free_exit_if [lock_frees]: "lock_free (exit_if e m)"
  by (simp add: exit_if_def lock_frees lock_free_out split: option.split)

lemma lock_free_bind [lock_frees]:
  assumes m: "lock_free m" and f: "\<And>x. lock_free (f x)"
  shows "lock_free (bind_run m f)"
  unfolding lock_free_def
proof (intro allI impI)
  fix s r s' assume run: "bind_run m f s = Some (r, s')" and s: "unlocked s"
  then obtain q s1 where q: "m s = Some (q, s1)" by (auto simp: bind_run_def split: option.splits)
  show "r \<noteq> Block \<and> unlocked s'"
    using run q lock_freeD [OF m q s] by (cases q) (auto simp: bind_run_def dest: lock_freeD [OF f])
qed

lemma lock_free_then [lock_frees]: "lock_free m \<Longrightarrow> lock_free k \<Longrightarrow> lock_free (then_run m k)"
  by (simp add: then_run_def lock_free_bind)

lemma lock_free_for [lock_frees]: "(\<And>x. lock_free (f x)) \<Longrightarrow> lock_free (for_run xs f)"
  by (induction xs) (auto intro: lock_frees)

lemma lock_free_concurrent [lock_frees]: "(\<And>i ref. lock_free (f i ref)) \<Longrightarrow> lock_free (concurrent_run E refs f)"
  by (simp add: concurrent_run_def lock_frees)

section \<open>Operations on accounts\<close>

lemma lock_free_on_acc: "account_op f \<Longrightarrow> lock_free (on_acc ref f)"
  by (auto simp: lock_free_def unlocked_def on_acc_def split: prod.splits
      dest: account_op.releases account_op.never_waits)

lemma lock_free_on_acc_opt:
  assumes "\<And>a w r a' w'. f a w = Some (r, a', w') \<Longrightarrow> \<not> acc_mutex a \<Longrightarrow> r \<noteq> Block \<and> \<not> acc_mutex a'"
  shows "lock_free (on_acc_opt ref f)"
  unfolding lock_free_def
proof (intro allI impI)
  fix s r s' assume "on_acc_opt ref f s = Some (r, s')" and s: "unlocked s"
  then obtain a' w' where "f (accs s ref) (wld s) = Some (r, a', w')" "s' = s\<lparr>accs := (accs s)(ref := a'), wld := w'\<rparr>"
    by (auto simp: on_acc_opt_def)
  with assms [OF this(1)] s show "r \<noteq> Block \<and> unlocked s'" by (simp add: unlocked_def)
qed

lemma RunWithRetry_free:
  "account_op f \<Longrightarrow> RunWithRetry C cfg f a w = Some (r, a', w') \<Longrightarrow> \<not> acc_mutex a \<Longrightarrow> r \<noteq> Block \<and> \<not> acc_mutex a'"
  by (auto simp: RunWithRetry_iff dest: retry_run_frame)

lemma lock_free_retried: "lock_free (on_acc_opt ref (TransferSignedTxWithGuaranteeRetry L C g to v i))"
  unfolding TransferSignedTxWithGuaranteeRetry_def
  by (rule lock_free_on_acc_opt)
    (rule RunWithRetry_free [OF account_op.mapped [OF signed_op.account_op_axioms]])

lemma lock_free_transfer_retry [lock_frees]: "lock_free (transfer_retry E ref to v i)"
  unfolding transfer_retry_def by (intro lock_frees lock_free_retried)

lemma lock_free_transfer_once [lock_frees]: "lock_free (transfer_once E ref to v i)"
  unfolding transfer_once_def TransferSignedTx_def
  by (intro lock_frees lock_free_on_acc account_op.mapped signed_op.account_op_axioms)

lemma lock_free_try_run: "account_op f \<Longrightarrow> lock_free (try_run E ref allowed f)"
  unfolding try_run_def TryRunTxSendFunctionWithGuaranteeRetry_def
  by (rule lock_free_on_acc_opt) (auto dest!: RunWithRetry_free elim!: map_outcome_ret.elims)

lemma lock_free_try_sends [lock_frees]:
  "lock_free (try_run E ref al (transact_send E opts c call))" "lock_free (try_run E ref al (liquidity_send E st))"
  by (rule lock_free_try_run, rule transact_op.account_op_axioms liquidity_op.account_op_axioms)+

lemma deploy_retry_free:
  assumes "SmartContractDeployWithGuaranteeRetry X L C g code fixN a w = Some (r, a', w')" and "\<not> acc_mutex a"
  shows "r \<noteq> Block \<and> \<not> acc_mutex a' \<and> (\<forall>acc. r = Ret acc \<longrightarrow> \<not> acc_mutex acc)"
proof -
  obtain n b v where gn: "GetNonce C a w = (n, b, v)" by (rule prod_cases3)
  have b: "\<not> acc_mutex b" using GetNonce_frame [OF gn] assms(2) by simp
  have op: "account_op (op_map drop_price (TransferNewLegacyTxWithEth L C g None (Some 0) (Some code)))"
    unfolding TransferNewLegacyTxWithEth_def by (rule account_op.mapped [OF eth_style_op.account_op_axioms])
  obtain q b1 v1 where run: "RunWithRetry C \<lparr>SendRetryInterval = 5000, WaitMinedTimeout = 60,
      ShouldSkip = Some (deploy_skip L fixN)\<rparr> (op_map drop_price (TransferNewLegacyTxWithEth L C g None
      (Some 0) (Some code))) b v = Some (q, b1, v1)"
    and rest: "(case q of Ret _ \<Rightarrow>
           (case NewKaiaAccountWithAddr X 1 (createAddress L (GetAddress b1) (if fixN then 0 else n)) v1 of
             (acc, w3) \<Rightarrow> Some (acc, b1, w3))
       | Exit m \<Rightarrow> Some (Exit m, b1, v1) | Panic m \<Rightarrow> Some (Panic m, b1, v1)
       | Block \<Rightarrow> Some (Block, b1, v1)) = Some (r, a', w')"
    using assms(1) gn by (auto simp: SmartContractDeployWithGuaranteeRetry_def Let_def bind_eq_Some_conv)
  have "q \<noteq> Block \<and> \<not> acc_mutex b1" by (rule RunWithRetry_free [OF op run b])
  with rest show ?thesis
    by (cases q) (auto simp: NewKaiaAccountWithAddr_def fresh_account_def split: prod.splits sum.splits)
qed

section \<open>Set-up and charging work\<close>

lemma lock_free_pack [lock_frees]: "lock_free (pack_run E abi m args)"
  by (auto simp: pack_run_def PackContractCall_def intro!: lock_free_out split: option.splits sum.splits)

lemma lock_free_pack_fatal [lock_frees]: "lock_free (out_run (pack_fatal B abi m1 m2 meth args))"
  by (auto simp: pack_fatal_def intro!: lock_free_out split: option.splits sum.splits)

lemma wait_block_not_Block: "wait_block E d t w = Some res \<Longrightarrow> fst res \<noteq> Block"
  by (erule wait_block.raw_induct [where P = "\<lambda>E d t w res. fst res \<noteq> Block", rotated])
    (auto split: if_splits prod.splits sum.splits)

lemma lock_free_register: "lock_free (register_run E name t)"
proof -
  have "lock_free (world_opt_run (wait_block E d n))" for d n
    by (auto simp: lock_free_def unlocked_def world_opt_run_def dest!: wait_block_not_Block)
  then show ?thesis
    unfolding register_run_def wait_target_def Let_def
    by (auto intro!: lock_frees split: option.split sum.split)
qed

lemma lock_free_setup [lock_frees]: "lock_free (DoSetupWork E ctx t)"
  unfolding DoSetupWork_def gsr_setup_def entry_point_setup_def SetupLiquidity_def RegisterGSR_def
    RegisterAuctionEntryPoint_def
  by (auto intro!: lock_frees lock_free_register split: TestContract.split)

lemma lock_free_charging [lock_frees]: "lock_free (DoChargingWork E ctx t)"
  unfolding DoChargingWork_def erc20_charging_def erc721_charging_def erc721_mint_one_def
    gasless_charging_def deposit_charging_def tether_charging_def Let_def
  by (auto intro!: lock_frees split: TestContract.split)

section \<open>Deployment\<close>

lemma lock_free_set_contract: "\<not> acc_mutex acc \<Longrightarrow> lock_free (set_contract t acc)"
  by (auto simp: lock_free_def set_contract_def Let_def unlocked_def)

text \<open>A new account comes with its mutex free.\<close>

lemma lock_free_new:
  assumes m: "\<And>s r s'. m s = Some (r, s') \<Longrightarrow> unlocked s \<Longrightarrow>
      r \<noteq> Block \<and> unlocked s' \<and> (\<forall>acc. r = Ret acc \<longrightarrow> \<not> acc_mutex acc)"
    and f: "\<And>acc. \<not> acc_mutex acc \<Longrightarrow> lock_free (f acc)"
  shows "lock_free (bind_run m f)"
  unfolding lock_free_def
proof (intro allI impI)
  fix s r s' assume run: "bind_run m f s = Some (r, s')" and s: "unlocked s"
  then obtain q s1 where q: "m s = Some (q, s1)" by (auto simp: bind_run_def split: option.splits)
  show "r \<noteq> Block \<and> unlocked s'"
    using run q m [OF q s] by (cases q) (auto simp: bind_run_def dest: lock_freeD [OF f])
qed

lemma lock_free_new_out:
  "r \<noteq> Block \<Longrightarrow> (\<And>acc. r = Ret acc \<Longrightarrow> lock_free (k acc)) \<Longrightarrow> lock_free (bind_run (out_run r) k)"
  by (cases r) (auto simp: lock_free_def bind_run_def out_run_def)

lemma lock_free_new_world:
  assumes "\<And>w r w'. g w = (r, w') \<Longrightarrow> r \<noteq> Block \<and> (\<forall>acc. r = Ret acc \<longrightarrow> lock_free (k acc))"
  shows "lock_free (bind_run (world_run g) (\<lambda>r. bind_run (out_run r) k))"
  unfolding lock_free_def
proof (intro allI impI)
  fix s r s' assume run: "bind_run (world_run g) (\<lambda>r. bind_run (out_run r) k) s = Some (r, s')" and s: "unlocked s"
  obtain q w' where q: "g (wld s) = (q, w')" by fastforce
  with run have "bind_run (out_run q) k (s\<lparr>wld := w'\<rparr>) = Some (r, s')" by (simp add: bind_run_def world_run_def)
  moreover have "lock_free (bind_run (out_run q) k)" using assms [OF q] by (blast intro: lock_free_new_out)
  ultimately show "r \<noteq> Block \<and> unlocked s'" using s by (auto simp: unlocked_def dest!: lock_freeD)
qed

lemma new_accounts_free:
  "NewAccount X i w = (r, w') \<Longrightarrow> r \<noteq> Block \<and> (\<forall>acc. r = Ret acc \<longrightarrow> \<not> acc_mutex acc)"
  "NewKaiaAccountWithAddr X i ad w = (r, w') \<Longrightarrow> r \<noteq> Block \<and> (\<forall>acc. r = Ret acc \<longrightarrow> \<not> acc_mutex acc)"
  "GetAccountFromKey X i key \<noteq> Block" "GetAccountFromKey X i key = Ret acc \<Longrightarrow> \<not> acc_mutex acc"
  by (auto simp: NewAccount_def NewKaiaAccountWithAddr_def GetAccountFromKey_def fresh_account_def
      split: prod.splits sum.splits)

lemma lock_free_locate [lock_frees]: "lock_free (locate_contract E t)"
  unfolding locate_contract_def Let_def
  by (rule lock_free_bind [OF lock_free_basic(3)], rule lock_free_bind [OF lock_free_basic(4)],
      rule lock_free_new_world, drule new_accounts_free(2), simp add: lock_free_set_contract)

lemma packed_not_Block: "pack_fatal B abi m1 m2 meth args \<noteq> Block" "d \<noteq> Block \<Longrightarrow> append_packed bin d \<noteq> Block"
    "(\<And>a. f a \<noteq> Block) \<Longrightarrow> contract_addr cs c f \<noteq> Block"
  by (simp add: pack_fatal_def split: option.split sum.split, cases d,
      simp_all add: append_packed_def contract_addr_def nil_panic_def split: option.split)

lemma bytecode_not_Block: "GetBytecodeWithConstructorParam (info_of E t) bin cs d \<noteq> Block"
  by (cases t) (simp_all add: contract_info_defs returnBinAsIs_def packed_not_Block
      split: option.split outcome.split)

lemma lock_free_deploy [lock_frees]: "lock_free (deploy_contract E ctx t)"
proof -
  have dep: "lock_free (bind_run (on_acc_opt ref (SmartContractDeployWithGuaranteeRetry X L C g code True)) (set_contract t))"
    for ref X L C g code
  proof (rule lock_free_new)
    fix s r s' assume "on_acc_opt ref (SmartContractDeployWithGuaranteeRetry X L C g code True) s = Some (r, s')"
      and "unlocked s"
    then obtain a' w' where "SmartContractDeployWithGuaranteeRetry X L C g code True (accs s ref) (wld s) = Some (r, a', w')"
      "s' = s\<lparr>accs := (accs s)(ref := a'), wld := w'\<rparr>" "\<not> acc_mutex (accs s ref)"
      by (auto simp: on_acc_opt_def unlocked_def)
    from deploy_retry_free [OF this(1,3)] this(2) \<open>unlocked s\<close>
    show "r \<noteq> Block \<and> unlocked s' \<and> (\<forall>acc. r = Ret acc \<longrightarrow> \<not> acc_mutex acc)"
      by (simp add: unlocked_def)
  qed (rule lock_free_set_contract)
  show ?thesis
    unfolding deploy_contract_def Let_def
    by (rule lock_free_bind [OF lock_free_basic(3)], rule lock_free_then [OF lock_free_transfer_retry],
        rule lock_free_bind [OF lock_free_basic(2)], rule lock_free_bind [OF lock_free_out [OF bytecode_not_Block] dep])
qed

lemma poll_free: "lock_free m \<Longrightarrow> poll m s = (b, s') \<Longrightarrow> unlocked s \<Longrightarrow> unlocked s'"
  by (auto simp: poll_def dest: lock_freeD split: option.splits prod.splits outcome.splits)

lemma lock_free_await [lock_frees]: "lock_free (await_setup E t)"
proof -
  have p: "lock_free (setup_poll E t)"
    by (auto simp: setup_poll_def intro: lock_frees lock_free_on_acc IsDeployed_op split: option.split)
  show ?thesis
    unfolding lock_free_def
  proof (intro allI impI)
    fix s r s' assume run: "await_setup E t s = Some (r, s')" and s: "unlocked s"
    from run obtain b where "wait_loop 60 (poll (setup_poll E t)) (\<lambda>ms s. s\<lparr>wld := Elapse (e_cli E) ms (wld s)\<rparr>) s = (b, s')"
      and r: "r = Ret ()"
      by (auto simp: await_setup_def WaitForSetupCompletion_def split: prod.splits)
    from this(1) have "unlocked s'"
      by (rule wait_loop_keeps [where P = unlocked, rotated 2])
        (use s in \<open>auto simp: unlocked_def dest: poll_free [OF p, unfolded unlocked_def]\<close>)
    with r show "r \<noteq> Block \<and> unlocked s'" by simp
  qed
qed

lemma lock_free_phases [lock_frees]: "lock_free (phase1 E ctx t)" "lock_free (phase2 E ctx t)"
  by (auto simp: phase1_def phase2_def intro!: lock_frees lock_free_on_acc IsDeployed_op)

lemma lock_free_DeployTestContracts [lock_frees]: "lock_free (DeployTestContracts E ctx)"
  unfolding DeployTestContracts_def by (intro lock_frees)

section \<open>From the command line to the tasks\<close>

lemma lock_free_put: "\<not> acc_mutex a \<Longrightarrow> lock_free (put_acc ref a)"
  by (simp add: lock_free_def put_acc_def unlocked_def)

lemma GetNonce_op: "account_op (nonce_op E)"
  by (rule op_body.as_op, unfold_locales) (auto simp: nonce_op_def split: prod.splits dest!: GetNonce_frame)

lemma lock_free_wait_reservoir [lock_frees]: "lock_free (wait_reservoir S otx)"
  by (auto simp: wait_reservoir_def intro!: lock_frees lock_free_out split: option.split sum.split)

lemma lock_free_charge [lock_frees]: "lock_free (charge_reservoir E S cfg)"
proof -
  have rest: "lock_free (then_run (put_acc GlobalReservoir glob) (then_run (put_acc LocalReservoir loc) k))"
    if "\<not> acc_mutex glob" "\<not> acc_mutex loc" "lock_free k" for glob loc and k :: "('w, unit) run"
    using that by (intro lock_free_then lock_free_put)
  show ?thesis
    unfolding charge_reservoir_def
    apply (rule lock_free_new_out [OF new_accounts_free(3)])
    apply (rule lock_free_new_world)
    apply (frule new_accounts_free(1))
    apply (intro conjI allI impI)
     apply simp
    apply (rule rest)
    apply (drule new_accounts_free(4), assumption)
    apply blast
    apply (intro lock_free_then lock_free_bind lock_free_basic lock_free_on_acc GetNonce_op lock_free_retried lock_free_wait_reservoir)
    done
qed

lemma active_lists_not_Block: "active_lists p ls \<noteq> Block"
proof (induction p ls rule: active_lists.induct)
  case (2 p accGrp rest)
  then show ?case by (cases "active_lists p rest") (auto simp: Let_def)
qed simp

lemma lock_free_activate [lock_frees]: "lock_free (activate percent)"
  by (auto simp: lock_free_def activate_def SetAccGrpByActivePercent_def unlocked_def active_lists_not_Block
      split: outcome.splits elim!: map_outcome_ret.elims)

lemma lock_free_prepare [lock_frees]: "lock_free (createTestAccGroupsAndPrepareContracts E S cfg)"
  unfolding createTestAccGroupsAndPrepareContracts_def by (auto intro!: lock_frees)

lemma create_users_outcome:
  assumes "\<And>i w r w'. new i w = (r, w') \<Longrightarrow> r \<noteq> Block"
  shows "create_users new n i t a w = (r, w') \<Longrightarrow> r \<noteq> Block"
  by (induction n arbitrary: i a w) (auto split: prod.splits outcome.splits dest: assms)

lemma create_lists_outcome:
  assumes "\<And>i w r w'. new i w = (r, w') \<Longrightarrow> r \<noteq> Block"
  shows "create_lists new ps a w = (r, w') \<Longrightarrow> r \<noteq> Block"
proof (induction ps arbitrary: a w)
  case (Cons p ps)
  obtain t n where p: "p = (t, n)" by (cases p)
  obtain q w1 where q: "create_users new (nat n) 0 t a w = (q, w1)" by (cases "create_users new (nat n) 0 t a w")
  with create_users_outcome [OF assms q] Cons p show ?case by (cases q) auto
qed auto

lemma unlock_all_outcome:
  assumes "\<And>a w r w'. unlock a w = (r, w') \<Longrightarrow> r \<noteq> Block"
  shows "unlock_all unlock xs w = (r, w') \<Longrightarrow> r \<noteq> Block"
  by (induction xs arbitrary: w) (auto split: prod.splits outcome.splits dest: assms)

lemma CreateAccountsPerAccGrp_outcome:
  assumes new: "\<And>i w r w'. new i w = (r, w') \<Longrightarrow> r \<noteq> Block"
    and unlock: "\<And>a w r w'. unlock a w = (r, w') \<Longrightarrow> r \<noteq> Block"
    and run: "CreateAccountsPerAccGrp new unlock n1 n2 n3 n4 n5 n6 tcs a w = (r, w')"
  shows "r \<noteq> Block"
proof -
  obtain q w1 where q: "create_lists new
             [(AccListForSignedTx, n1), (AccListForUnsignedTx, n2),
              (AccListForNewAccounts, n3), (AccListForGaslessRevertTx, n4),
              (AccListForGaslessApproveTx, n5), (AccListForTC, n6)] a w = (q, w1)" by (metis prod.exhaust)
  have "r2 \<noteq> Block" if "unlock_all unlock xs w1 = (r2, w2)" for xs r2 w2
    by (rule unlock_all_outcome [OF unlock that])
  with run q create_lists_outcome [OF new q] show ?thesis
    by (cases q) (auto simp: CreateAccountsPerAccGrp_def split: if_splits prod.splits outcome.splits)
qed

text \<open>The loops over the accounts thread the process and a counter.\<close>

lemma lock_free_create_accounts [lock_frees]: "lock_free (create_accounts E W cfg)"
  unfolding lock_free_def
proof (intro allI impI)
  fix s r s' assume run: "create_accounts E W cfg s = Some (r, s')" and s: "unlocked s"
  let ?new = "new_test_account E" and ?unlock = "unlock_test_account E W (GetGEndpoint cfg)"
  let ?P = "\<lambda>sk :: 'a proc \<times> nat. unlocked (fst sk)"
  obtain q sk where q: "CreateAccountsPerAccGrp ?new ?unlock
             (GetNUserForSigned cfg) (GetNUserForUnsigned cfg) (GetNUserForNewAccounts cfg)
             (gasless_users cfg ''gaslessRevertTransactionTC'') (gasless_users cfg ''gaslessOnlyApproveTC'')
             (GetNUserForTC cfg) (GetTcStrList cfg) (grp s) (s, 0) = (q, sk)" by (metis prod.exhaust)
  have new: "p \<noteq> Block" "?P w \<Longrightarrow> ?P w'" if "?new i w = (p, w')" for i w p w'
    using that by (auto simp: new_test_account_def unlocked_def NewAccount_def fresh_account_def
        split: prod.splits outcome.splits sum.splits if_splits)
  have unlock: "p \<noteq> Block" "?P w \<Longrightarrow> ?P w'" if "?unlock ref w = (p, w')" for ref w p w'
    using that by (auto simp: unlock_test_account_def unlocked_def ImportUnLockAccount_def GetPrivateKey_def
        split: prod.splits outcome.splits sum.splits option.splits if_splits list.splits)
  have "?P sk" by (rule CreateAccountsPerAccGrp_inv [of ?new ?P, OF new(2) unlock(2) q]) (simp_all add: s)
  moreover have "q \<noteq> Block"
    by (rule CreateAccountsPerAccGrp_outcome [of ?new ?unlock, OF new(1) unlock(1) q])
  ultimately show "r \<noteq> Block \<and> unlocked s'"
    using run q by (cases q) (auto simp: create_accounts_def unlocked_def split: prod.splits)
qed

lemma lock_free_action: "lock_free (action_body E S A arrive R cfg)"
proof -
  have "lock_free (init_tasks_run S cfg ts)" for ts
    by (auto simp: lock_free_def init_tasks_run_def unlocked_def split: prod.splits)
  then show ?thesis unfolding action_body_def by (intro lock_frees)
qed

lemma NewConfig_not_Block: "NewConfig D ctx b prog w = Some (r, w') \<Longrightarrow> r \<noteq> Block"
  by (auto simp: NewConfig_def setConfigsFromFlag_def setConfigsFromNode_def Let_def
      split: prod.splits option.splits if_splits)

lemma start_proc_unlocked: "pkg_init E \<Longrightarrow> unlocked (start_proc (E\<lparr>e_glob := glob\<rparr>) g w)"
proof -
  assume "pkg_init E"
  then have "\<not> acc_mutex (pkg E d)" for d by (auto simp: pkg_init_def dest: new_accounts_free(4))
  then show ?thesis by (simp add: unlocked_def start_proc_def fresh_account_def split: acc_ref.split)
qed

text \<open>The start-up never waits for a mutex, and hands over a process in which all are free.\<close>

lemma RunAction_unlocked:
  assumes run: "RunAction E S D A arrive R ctx st prog w = Some r" and "pkg_init E"
  shows "r \<noteq> Block" and "r = Ret (cfg, bts, p) \<Longrightarrow> unlocked p"
proof -
  have "r \<noteq> Block \<and> (\<forall>cfg bts p. r = Ret (cfg, bts, p) \<longrightarrow> unlocked p)"
  proof -
    from run obtain q w1 where q: "NewConfig D ctx st prog w = Some (q, w1)"
      by (auto simp: RunAction_def split: option.splits)
    note nb = NewConfig_not_Block [OF q]
    show ?thesis
    proof (cases "\<exists>cfg h args. q = Ret (cfg, h, args)")
      case True
      then obtain cfg h args where c: "q = Ret (cfg, h, args)" by blast
      obtain g :: "acc_ref AccGroup" and glob where gg: "NewAccGroup (GetChainID cfg) (GetGasPrice cfg) (GetBaseFee cfg)
          (ContainsAnyInList (GetTcStrList cfg) [''transferUnsignedTx'']) (e_glob E) = (g, glob)"
        by (metis prod.exhaust)
      with run q c obtain x s where x: "action_body (E\<lparr>e_glob := glob\<rparr>) S A arrive R cfg
          (start_proc (E\<lparr>e_glob := glob\<rparr>) g w1) = Some (x, s)"
        and r: "r = map_outcome_ret (\<lambda>bts. (cfg, bts, s)) x"
        by (auto simp: RunAction_def Let_def)
      from lock_freeD [OF lock_free_action x start_proc_unlocked [OF assms(2)]] r show ?thesis
        by (cases x) auto
    next
      case False
      with run q nb show ?thesis by (cases q) (auto simp: RunAction_def)
    qed
  qed
  then show "r \<noteq> Block" "r = Ret (cfg, bts, p) \<Longrightarrow> unlocked p" by blast+
qed

end
