(* ===== verification/Load_Phase.thy ===== *)
theory Load_Phase
  imports Start_Locks Closures
begin

text \<open>
  What happens after \<open>RunAction\<close>: \<open>boomer.Run\<close> calls the closures of the tasks, in any order and any number of
  times, each on the state of the process and of its own configuration. The library is external; a step is
  one complete call, or the rest of a goroutine that a call has started. As the library does, a
  call that panics is recovered and the run goes on. Calls that run at the same time are taken one after the
  other here; what two of them do to one account is the subject of the mutex and of \<open>Lock_Order\<close>.
\<close>

section \<open>The state of the load phase\<close>

text \<open>
  The process and the package variables are shared, pools and account set belong to a task, which is
  given by its position. \<open>ls_runs\<close> lists the calls so far, with whether they panicked.
\<close>

record 'w load_state =
  ls_proc :: "'w proc"
  ls_pools :: "nat \<Rightarrow> (nat, 'w) ClientPool \<times> (nat, 'w) ClientPool \<times> (nat, 'w) ClientPool"
  ls_accounts :: "nat \<Rightarrow> acc_ref AccountSet"
  ls_receipt :: receipt_vars
  ls_read :: read_vars
  ls_events :: "event list"
  ls_spawned :: "(nat \<times> goroutine) list"
  ls_runs :: "(nat \<times> bool) list"

definition load_init :: "'w boomer_task list \<Rightarrow> 'w proc \<Rightarrow> 'w load_state" where
  "load_init bts p = \<lparr>ls_proc = p, ls_pools = (\<lambda>i. bt_pools (bts ! i)), ls_accounts = (\<lambda>i. bt_accounts (bts ! i)),
     ls_receipt = receipt_init, ls_read = read_init, ls_events = [], ls_spawned = [], ls_runs = []\<rparr>"

text \<open>What a call of task \<open>i\<close> works on, and what it leaves.\<close>

definition open_task :: "nat \<Rightarrow> 'w load_state \<Rightarrow> 'w tcs" where
  "open_task i s = (case ls_pools s i of (cp, rp, ep) \<Rightarrow>
     \<lparr>tc_proc = ls_proc s, tc_CliPool = cp, tc_RpcCliPool = rp, tc_EthCliPool = ep, tc_AccGrp = ls_accounts s i,
      tc_receipt = ls_receipt s, tc_read = ls_read s, tc_events = ls_events s, tc_spawned = []\<rparr>)"

definition close_task :: "nat \<Rightarrow> 'w tcs \<Rightarrow> 'w load_state \<Rightarrow> 'w load_state" where
  "close_task i t s = s\<lparr>ls_proc := tc_proc t, ls_pools := (ls_pools s)(i := pools_of t),
     ls_accounts := (ls_accounts s)(i := tc_AccGrp t), ls_receipt := tc_receipt t, ls_read := tc_read t,
     ls_events := tc_events t, ls_spawned := ls_spawned s @ map (Pair i) (tc_spawned t)\<rparr>"

inductive load_step :: "('tx, 'w) env \<Rightarrow> 'w reader \<Rightarrow> 'w boomer_task list \<Rightarrow> 'w load_state \<Rightarrow> 'w load_state \<Rightarrow> bool"
  for E R bts where
  call: "i < length bts \<Longrightarrow> bt_Fn (bts ! i) (open_task i s) = Some (r, t) \<Longrightarrow> settles r \<Longrightarrow>
     load_step E R bts s ((close_task i t s)\<lparr>ls_runs := ls_runs s @ [(i, \<not> returns r)]\<rparr>)"
| settle: "ls_spawned s = gs @ (i, g) # hs \<Longrightarrow>
     run_goroutine E R (bt_config (bts ! i)) g (open_task i s) = Some (Ret (), t) \<Longrightarrow>
     load_step E R bts s (close_task i t (s\<lparr>ls_spawned := gs @ hs\<rparr>))"

inductive load_reach :: "('tx, 'w) env \<Rightarrow> 'w reader \<Rightarrow> 'w boomer_task list \<Rightarrow> 'w proc \<Rightarrow> 'w load_state \<Rightarrow> bool"
  for E R bts p where
  load_start: "load_reach E R bts p (load_init bts p)"
| load_next: "load_reach E R bts p s \<Longrightarrow> load_step E R bts s s' \<Longrightarrow> load_reach E R bts p s'"

section \<open>Goroutines\<close>

lemma check_request_not_Block: "check_request R g m q \<noteq> Block"
  by (auto simp: check_request_def split: option.splits)

lemma check_receipt_not_Block [quiets]: "check_receipt R g rc q ex \<noteq> Block"
  using check_request_not_Block by (auto simp: check_receipt_def split: option.splits outcome.splits)

lemma steady_p_world: "steady_p L (p_world f)"
  by (auto simp: steady_p_def unblocked_def free_def mutexes_def p_world_def set_wld_def intro: silent_p_world
      split: option.splits)

lemma steady_p_bind:
  assumes "steady_p L m" and "\<And>x. steady_p L (f x)"
  shows "steady_p L (p_bind m f)"
  unfolding steady_p_def
proof (intro conjI allI impI)
  from assms show "silent_p L (p_bind m f)" by (intro silent_p_bind) (simp_all add: steady_p_def)
  fix s r s' assume "p_bind m f s = Some (r, s')"
  then show "unblocked s r s'"
  proof (cases rule: p_bind_cases)
    case (cont x s1)
    from unblocked_trans [of s x s1 r s'] steady_pD [OF assms(1) cont(1)] steady_pD [OF assms(2) cont(2)]
    show ?thesis by simp
  next
    case (stop q)
    with steady_pD [OF assms(1) stop(1)] show ?thesis by (intro unblocked_stop [of s q s' r]) auto
  qed
qed

lemma goroutine_reports: "reports_p L (run_goroutine E R cfg g)"
proof -
  have "steady_p L (checkResult E R cfg h q ex)" for h q ex
    unfolding checkResult_def by (intro steady_p_bind steady_p_world steady_p_lift quiets)
  then show ?thesis
    unfolding run_goroutine_def by (cases g) (auto intro!: reports_p_bind reports_p_lift reporting)
qed

section \<open>The tasks that RunAction makes\<close>

definition task_ok :: "'w boomer_task \<Rightarrow> bool" where
  "task_ok bt \<longleftrightarrow> reports_p (bt_Name bt \<noteq> Erc721TransferTCName) (bt_Fn bt) \<and> pools_idle (bt_pools bt)"

lemma RunAction_task_ok:
  assumes "RunAction E S D A arrive R ctx st prog w = Some (Ret (cfg, bts, p))" and "bt \<in> set bts"
  shows "task_ok bt"
proof -
  from RunAction_task_entry(4) [OF assms] obtain glob t where "t \<in> set (TcList (E\<lparr>e_glob := glob\<rparr>) A arrive R)"
    "bt_Name bt = et_Name t" "bt_Fn bt = et_Run t (bt_config bt)" "pools_idle (bt_pools bt)" by blast
  with table_reports [OF this(1), of "bt_config bt"] show ?thesis by (simp add: task_ok_def)
qed

section \<open>The invariant\<close>

definition addresses :: "'w proc \<Rightarrow> acc_ref \<Rightarrow> addr" where
  "addresses p = (\<lambda>r. acc_address (accs p r))"

definition panics :: "'w load_state \<Rightarrow> nat" where
  "panics s = length (filter snd (ls_runs s))"

definition pending :: "'w load_state \<Rightarrow> nat" where
  "pending s = length (ls_events s) + length (ls_spawned s)"

definition load_inv :: "'w boomer_task list \<Rightarrow> 'w proc \<Rightarrow> 'w load_state \<Rightarrow> bool" where
  "load_inv bts p s \<longleftrightarrow>
     (\<forall>i < length bts. pools_idle (ls_pools s i) \<and> accounts (ls_accounts s i) = accounts (bt_accounts (bts ! i))) \<and>
     addresses (ls_proc s) = addresses p \<and> (unlocked p \<longrightarrow> unlocked (ls_proc s)) \<and>
     fst ` set (ls_spawned s) \<subseteq> {..<length bts} \<and>
     pending s \<le> length (ls_runs s) \<and> length (ls_runs s) \<le> pending s + panics s"

lemma outs_idle: "outs t = (0, 0, 0) \<longleftrightarrow> pools_idle (pools_of t)"
  by (auto simp: outs_def pools_idle_def pools_of_def pool_idle_def clients_out_def)

lemma open_task_simps [simp]:
  "tc_proc (open_task i s) = ls_proc s" "tc_AccGrp (open_task i s) = ls_accounts s i"
  "pools_of (open_task i s) = ls_pools s i" "tc_events (open_task i s) = ls_events s" "tc_spawned (open_task i s) = []"
  by (auto simp: open_task_def pools_of_def split: prod.splits)

lemma open_task_free: "free (open_task i s) = unlocked (ls_proc s)"
  by (simp add: free_def mutexes_def unlocked_def)

text \<open>What a report on task \<open>i\<close> leaves of the invariant.\<close>

lemma reported_load:
  assumes "reported L (open_task i s) r t" and "settles r" and "load_inv bts p s" and "i < length bts"
  shows "pools_idle (pools_of t)" "accounts (tc_AccGrp t) = accounts (bt_accounts (bts ! i))"
    "addresses (tc_proc t) = addresses p" "unlocked p \<Longrightarrow> unlocked (tc_proc t)"
    "length (tc_events t) + length (tc_spawned t) \<in> {length (ls_events s), Suc (length (ls_events s))}"
    "returns r \<Longrightarrow> length (tc_events t) + length (tc_spawned t) = Suc (length (ls_events s))"
proof -
  from assms have v: "view L t = view L (open_task i s)" "outs t = outs (open_task i s)"
    and u: "unblocked (open_task i s) r t" by (auto simp: reported_def)
  from v(2) outs_idle [of t] outs_idle [of "open_task i s"] assms(3,4) show "pools_idle (pools_of t)"
    by (simp add: load_inv_def)
  from v(1) assms(3,4) show "accounts (tc_AccGrp t) = accounts (bt_accounts (bts ! i))"
    "addresses (tc_proc t) = addresses p" by (auto simp: view_def load_inv_def addresses_def)
  show "unlocked (tc_proc t)" if "unlocked p"
    using u that assms(2,3) open_task_free [of i s] by (auto simp: unblocked_def load_inv_def free_def mutexes_def unlocked_def)
  show "length (tc_events t) + length (tc_spawned t) \<in> {length (ls_events s), Suc (length (ls_events s))}"
    using assms(1,2) by (simp add: reported_def report_count_def)
  show "length (tc_events t) + length (tc_spawned t) = Suc (length (ls_events s))" if "returns r"
    using assms(1) that by (simp add: reported_def report_count_def)
qed

lemma load_inv_init:
  assumes "\<forall>bt \<in> set bts. task_ok bt"
  shows "load_inv bts p (load_init bts p)"
  using assms by (auto simp: load_inv_def load_init_def task_ok_def pending_def panics_def)

lemma load_step_inv:
  assumes "load_step E R bts s s'" and "\<forall>bt \<in> set bts. task_ok bt" and inv: "load_inv bts p s"
  shows "load_inv bts p s'"
  using assms(1)
proof cases
  case (call i r t)
  from assms(2) call(2,3) have "reported (bt_Name (bts ! i) \<noteq> Erc721TransferTCName) (open_task i s) r t"
    by (simp add: task_ok_def reports_p_def)
  note k = reported_load [OF this call(4) inv call(2)]
  from k inv call show ?thesis
    by (cases "returns r") (auto simp: load_inv_def close_task_def pending_def panics_def)
next
  case (settle gs i g hs t)
  let ?s = "s\<lparr>ls_spawned := gs @ hs\<rparr>"
  have i: "i < length bts" using inv settle(2) by (auto simp: load_inv_def)
  have "reported True (open_task i s) (Ret ()) t" using goroutine_reports settle(3) unfolding reports_p_def by blast
  note k = reported_load [OF this _ inv i]
  from k inv settle show ?thesis
    by (auto simp: load_inv_def close_task_def pending_def panics_def)
qed

lemma load_reach_inv:
  assumes "load_reach E R bts p s" and "\<forall>bt \<in> set bts. task_ok bt"
  shows "load_inv bts p s"
  using assms(1) by induction (auto intro: load_inv_init [OF assms(2)] load_step_inv [OF _ assms(2)])

text \<open>No call waits: neither one of a task nor the rest of a goroutine.\<close>

lemma load_call_no_wait:
  assumes "load_reach E R bts p s" and ok: "\<forall>bt \<in> set bts. task_ok bt" and "unlocked p" and i: "i < length bts"
  shows "bt_Fn (bts ! i) (open_task i s) = Some (r, t) \<Longrightarrow> r \<noteq> Block"
    and "run_goroutine E R (bt_config (bts ! i)) g (open_task i s) = Some (u, t) \<Longrightarrow> u \<noteq> Block"
proof -
  from load_reach_inv [OF assms(1,2)] assms(3) have free: "free (open_task i s)"
    by (simp add: load_inv_def open_task_free)
  from ok i have rep: "reports_p (bt_Name (bts ! i) \<noteq> Erc721TransferTCName) (bt_Fn (bts ! i))" by (simp add: task_ok_def)
  show "r \<noteq> Block" if "bt_Fn (bts ! i) (open_task i s) = Some (r, t)"
    using rep that free by (auto simp: reports_p_def reported_def unblocked_def)
  show "u \<noteq> Block" if "run_goroutine E R (bt_config (bts ! i)) g (open_task i s) = Some (u, t)"
    using goroutine_reports [of True E R "bt_config (bts ! i)" g] that free by (auto simp: reports_p_def reported_def unblocked_def)
qed

section \<open>The tokens\<close>

text \<open>A step other than a panic of the ERC-721 test leaves the tokens of a set of owners with the accounts in it alone.\<close>

definition owned :: "addr list \<Rightarrow> 'w boomer_task list \<Rightarrow> 'w proc \<Rightarrow> bool" where
  "owned owners bts p \<longleftrightarrow> distinct owners \<and>
     (\<forall>bt \<in> set bts. \<forall>r \<in> set (accounts (bt_accounts bt)). addresses p r \<in> set owners)"

definition token_task :: "'w boomer_task \<Rightarrow> bool" where
  "token_task bt \<longleftrightarrow> (\<forall>owners s s'. bt_Fn bt s = Some (Ret (), s') \<longrightarrow> distinct owners \<longrightarrow>
     (\<forall>r \<in> set (accounts (tc_AccGrp s)). acc_address (accs (tc_proc s) r) \<in> set owners) \<longrightarrow>
     ledger_store.held owners (erc721 (tc_proc s')) = ledger_store.held owners (erc721 (tc_proc s)))"

lemma RunAction_token_task:
  assumes "RunAction E S D A arrive R ctx st prog w = Some (Ret (cfg, bts, p))" and "bt \<in> set bts"
    and "bt_Name bt = Erc721TransferTCName"
  shows "token_task bt"
proof -
  from RunAction_task_entry(4) [OF assms(1,2)] obtain glob t where t: "t \<in> set (TcList (E\<lparr>e_glob := glob\<rparr>) A arrive R)"
    "bt_Name bt = et_Name t" "bt_Fn bt = et_Run t (bt_config bt)" by blast
  with assms(3) have "bt_Fn bt = p_lift (RunErc721TransferTC (E\<lparr>e_glob := glob\<rparr>) (bt_config bt))"
    by (auto simp: TcList_def TcList_1_def TcList_2_def TcList_3_def task_def task_p_def)
  then show ?thesis by (auto simp: token_task_def p_lift_def dest: erc721_run_held)
qed

text \<open>No call of the ERC-721 test has panicked.\<close>

definition tokens_safe :: "'w boomer_task list \<Rightarrow> 'w load_state \<Rightarrow> bool" where
  "tokens_safe bts s \<longleftrightarrow> (\<forall>(i, panicked) \<in> set (ls_runs s). panicked \<longrightarrow> bt_Name (bts ! i) \<noteq> Erc721TransferTCName)"

definition tokens_kept :: "addr list \<Rightarrow> 'w boomer_task list \<Rightarrow> 'w proc \<Rightarrow> 'w load_state \<Rightarrow> bool" where
  "tokens_kept owners bts p s \<longleftrightarrow>
     (tokens_safe bts s \<longrightarrow> ledger_store.held owners (erc721 (ls_proc s)) = ledger_store.held owners (erc721 p))"

lemma load_step_tokens:
  assumes "load_step E R bts s s'" and ok: "\<forall>bt \<in> set bts. task_ok bt"
    and tok: "\<forall>bt \<in> set bts. bt_Name bt = Erc721TransferTCName \<longrightarrow> token_task bt"
    and inv: "load_inv bts p s" and own: "owned owners bts p" and kept: "tokens_kept owners bts p s"
  shows "tokens_kept owners bts p s'"
  using assms(1)
proof cases
  case (call i r t)
  from ok call(2,3) have rep: "reported (bt_Name (bts ! i) \<noteq> Erc721TransferTCName) (open_task i s) r t"
    by (simp add: task_ok_def reports_p_def)
  have "ledger_store.held owners (erc721 (tc_proc t)) = ledger_store.held owners (erc721 (ls_proc s))" if "tokens_safe bts s'"
  proof (cases "bt_Name (bts ! i) = Erc721TransferTCName")
    case True
    with that call(1) have "returns r" by (auto simp: tokens_safe_def close_task_def)
    with call(3) have run: "bt_Fn (bts ! i) (open_task i s) = Some (Ret (), t)" by (auto simp: returns_iff)
    have "\<forall>a \<in> set (accounts (tc_AccGrp (open_task i s))). acc_address (accs (tc_proc (open_task i s)) a) \<in> set owners"
      using own inv call(2) nth_mem [OF call(2)] by (fastforce simp: owned_def load_inv_def addresses_def fun_eq_iff)
    with run tok True call(2) own show ?thesis by (fastforce simp: token_task_def owned_def)
  next
    case False
    with rep show ?thesis by (simp add: reported_def view_def)
  qed
  with kept call(1) show ?thesis by (auto simp: tokens_kept_def tokens_safe_def close_task_def)
next
  case (settle gs i g hs t)
  have "reported True (open_task i s) (Ret ()) t" using goroutine_reports settle(3) unfolding reports_p_def by blast
  with kept settle(1) show ?thesis
    by (auto simp: tokens_kept_def tokens_safe_def close_task_def reported_def view_def)
qed

lemma load_reach_tokens:
  assumes "load_reach E R bts p s" and "\<forall>bt \<in> set bts. task_ok bt"
    and "\<forall>bt \<in> set bts. bt_Name bt = Erc721TransferTCName \<longrightarrow> token_task bt" and "owned owners bts p"
  shows "tokens_kept owners bts p s"
  using assms(1)
proof induction
  case load_start
  show ?case by (simp add: tokens_kept_def load_init_def)
next
  case (load_next s s')
  from load_step_tokens [OF load_next(2) assms(2,3) load_reach_inv [OF load_next(1) assms(2)] assms(4) load_next(3)]
  show ?case .
qed

end
