(* ===== verification/Load_Properties.thy ===== *)
theory Load_Properties
  imports Load_Phase Setup_Properties
begin

text \<open>
  The properties of the load phase: what holds from the moment \<open>RunAction\<close> hands its tasks to the boomer
  library, after any number of calls of any of them, in any order.
\<close>

text \<open>A run of \<open>readBlockNumber\<close> returns in every state; the witnesses call it.\<close>

lemma RunBlockNumber_returns: "\<exists>s'. RunBlockNumber E cfg s = (Ret (), s')"
  by (auto simp: RunBlockNumber_def with_cli_def with_pool_def t_bind_def t_world_def sendBoomerEvent_def
      publish_result_def t_publish_def t_upd_def split: prod.splits)

lemma sim_load:
  "\<exists>bt1 bt2 p s. RunAction sim_env sim_startup sim_connector sim_auction [] sim_reader
      (sim_flags ''cpuHeavyTC,readBlockNumber'' []) True ''klayslave'' sim0 = Some (Ret (sim_cfg, [bt1, bt2], p)) \<and>
     bt_Name bt1 = ''cpuHeavyTC'' \<and> ContractCPUHeavy \<in> set (tc_TestContracts (bt_config bt1)) \<and>
     bt_Name bt2 = ''readBlockNumber'' \<and> load_reach sim_env sim_reader [bt1, bt2] p s \<and> ls_runs s = [(1, False)]"
proof -
  from sim_RunAction_task obtain bt1 bts p where run: "RunAction sim_env sim_startup sim_connector sim_auction [] sim_reader
      (sim_flags ''cpuHeavyTC,readBlockNumber'' []) True ''klayslave'' sim0 = Some (Ret (sim_cfg, bt1 # bts, p))"
    and n1: "bt_Name bt1 = ''cpuHeavyTC''" "ContractCPUHeavy \<in> set (tc_TestContracts (bt_config bt1))" by blast
  note R = RunAction_task_entry [OF run]
  from R(2) obtain bt2 where bts: "bts = [bt2]" and n2: "bt_Name bt2 = ''readBlockNumber''" by (auto simp: sim_cfg_def)
  from R(4) [of bt2] bts n2 obtain glob where
    fn: "bt_Fn bt2 = p_lift (RunBlockNumber (sim_env\<lparr>e_glob := glob\<rparr>) (bt_config bt2))"
    by (auto simp: TcList_def TcList_1_def TcList_2_def TcList_3_def task_def task_p_def)
  let ?i = "load_init [bt1, bt2] p"
  obtain t where "bt_Fn ([bt1, bt2] ! 1) (open_task 1 ?i) = Some (Ret (), t)"
    using RunBlockNumber_returns [of "sim_env\<lparr>e_glob := glob\<rparr>" "bt_config bt2" "open_task 1 ?i"] fn by (auto simp: p_lift_def)
  from load_next [OF load_start call [OF _ this]] have
    "load_reach sim_env sim_reader [bt1, bt2] p ((close_task 1 t ?i)\<lparr>ls_runs := ls_runs ?i @ [(1, False)]\<rparr>)" by simp
  with run bts n1 n2 show ?thesis
    by (intro exI [of _ bt1] exI [of _ bt2] exI [of _ p] exI) (auto simp: load_init_def)
qed



text \<open>
  C3: nothing is lost in the load phase: in every state, the results published and those still to come from a
  goroutine are as many as the calls made, up to the calls that panicked, of which each may or may
  not have published one; and every client of every pool of every task is back in its free list.
\<close>

theorem load_phase_accounting:
  assumes "RunAction E S D A arrive R ctx st prog w = Some (Ret (cfg, bts, p))" and "load_reach E' R' bts p s"
  shows "length (ls_events s) + length (ls_spawned s) \<le> length (ls_runs s) \<and>
    length (ls_runs s) \<le> length (ls_events s) + length (ls_spawned s) + length (filter snd (ls_runs s)) \<and>
    (\<forall>i < length bts. pools_idle (ls_pools s i))"
  using load_reach_inv [OF assms(2)] RunAction_task_ok [OF assms(1)]
  by (simp add: load_inv_def pending_def panics_def)

lemma load_phase_accounting_witness:
  "\<exists>bt1 bt2 p s. RunAction sim_env sim_startup sim_connector sim_auction [] sim_reader
      (sim_flags ''cpuHeavyTC,readBlockNumber'' []) True ''klayslave'' sim0 = Some (Ret (sim_cfg, [bt1, bt2], p)) \<and>
     load_reach sim_env sim_reader [bt1, bt2] p s \<and>
     length (ls_events s) + length (ls_spawned s) = 1 \<and> pools_idle (ls_pools s 0) \<and> pools_idle (ls_pools s 1)"
proof -
  from sim_load obtain bt1 bt2 p s where run: "RunAction sim_env sim_startup sim_connector sim_auction [] sim_reader
      (sim_flags ''cpuHeavyTC,readBlockNumber'' []) True ''klayslave'' sim0 = Some (Ret (sim_cfg, [bt1, bt2], p))"
    and s: "load_reach sim_env sim_reader [bt1, bt2] p s" and runs: "ls_runs s = [(1, False)]" by blast
  from load_phase_accounting [OF run s] runs run s show ?thesis
    by (intro exI [of _ bt1] exI [of _ bt2] exI [of _ p] exI [of _ s]) auto
qed



text \<open>
  C5: on an account's mutex nobody waits for ever as long as calls do not overlap: the start-up never
  waits for a mutex, and in every state of the load phase no call of a task and no goroutine does. Every
  operation that was called before has given back what it took, panics included.
\<close>

theorem no_call_waits:
  assumes "pkg_init E"
  shows "RunAction E S D A arrive R ctx st prog w \<noteq> Some Block \<and>
    (\<forall>cfg bts p s i. RunAction E S D A arrive R ctx st prog w = Some (Ret (cfg, bts, p)) \<longrightarrow>
       load_reach E' R' bts p s \<longrightarrow> i < length bts \<longrightarrow>
       (\<forall>r t. bt_Fn (bts ! i) (open_task i s) = Some (r, t) \<longrightarrow> r \<noteq> Block) \<and>
       (\<forall>g r t. run_goroutine E' R' (bt_config (bts ! i)) g (open_task i s) = Some (r, t) \<longrightarrow> r \<noteq> Block))"
proof (rule conjI, goal_cases)
  case 1
  show ?case using RunAction_unlocked(1) [OF _ assms] by blast
next
  case 2
  have "(\<forall>r t. bt_Fn (bts ! i) (open_task i s) = Some (r, t) \<longrightarrow> r \<noteq> Block) \<and>
      (\<forall>g r t. run_goroutine E' R' (bt_config (bts ! i)) g (open_task i s) = Some (r, t) \<longrightarrow> r \<noteq> Block)"
    if run: "RunAction E S D A arrive R ctx st prog w = Some (Ret (cfg, bts, p))"
      and "load_reach E' R' bts p s" "i < length bts" for cfg bts p s i
    using load_call_no_wait [OF that(2) _ RunAction_unlocked(2) [OF run assms refl] that(3)] RunAction_task_ok [OF run]
    by blast
  then show ?case by blast
qed

text \<open>The package accounts of the concrete node under the addresses that its key function gives.\<close>

lemma sim_pkg_init: "pkg_init sim_env"
  by (simp add: pkg_init_def sim_env_def sim_crypto_def sim_pkg_def GetAccountFromKey_def)

lemma no_call_waits_witness:
  "\<exists>bt1 bt2 p s. RunAction sim_env sim_startup sim_connector sim_auction [] sim_reader
      (sim_flags ''cpuHeavyTC,readBlockNumber'' []) True ''klayslave'' sim0 = Some (Ret (sim_cfg, [bt1, bt2], p)) \<and>
     load_reach sim_env sim_reader [bt1, bt2] p s \<and> ls_runs s = [(1, False)] \<and>
     (\<forall>r t. bt_Fn bt1 (open_task 0 s) = Some (r, t) \<longrightarrow> r \<noteq> Block)"
proof -
  from sim_load obtain bt1 bt2 p s where run: "RunAction sim_env sim_startup sim_connector sim_auction [] sim_reader
      (sim_flags ''cpuHeavyTC,readBlockNumber'' []) True ''klayslave'' sim0 = Some (Ret (sim_cfg, [bt1, bt2], p))"
    and s: "load_reach sim_env sim_reader [bt1, bt2] p s" and runs: "ls_runs s = [(1, False)]" by blast
  from no_call_waits [OF sim_pkg_init, THEN conjunct2, rule_format, OF run s, of 0]
  have "r \<noteq> Block" if "bt_Fn bt1 (open_task 0 s) = Some (r, t)" for r t using that by simp
  with run s runs show ?thesis by (intro exI [of _ bt1] exI [of _ bt2] exI [of _ p] exI [of _ s]) auto
qed

end
