(* ===== verification/Binding_Tables.thy ===== *)
theory Binding_Tables
  imports Bindings
begin

text \<open>
  The generated bindings of the contracts that the test cases deploy from \<open>klayslave/account/contracts/\<close>:
  \<open>cpuHeavy\<close>, \<open>UserStorage\<close>, \<open>largeMemo\<close>, \<open>readApiCallContract\<close> and \<open>tetherContract\<close>. A method is what its function
  passes to the bound contract and converts from the answer, and stands for the function and its two
  session forms (\<open>call_method\<close>, \<open>transact_method\<close>, \<open>session_call\<close>, \<open>session_transact\<close>); an event stands for its
  iterator and its \<open>Filter\<close>, \<open>Watch\<close> and \<open>Parse\<close> functions (\<open>Next\<close>, \<open>filter_event\<close>, \<open>watch_event\<close>, \<open>watch_step\<close>,
  \<open>parse_event\<close>); a binding stands for its types, \<open>Deploy\<close>, the \<open>New\<close> functions, \<open>bind\<close> and the raw forms
  (\<open>deploy_binding\<close>, \<open>new_binding\<close>, \<open>new_caller\<close>, \<open>new_transactor\<close>, \<open>new_filterer\<close>, \<open>bind_contract\<close>, \<open>raw_call\<close>,
  \<open>raw_transfer\<close>, \<open>raw_transact\<close>), which differ between the files in the names and the values kept here.
\<close>

section \<open>CpuHeavyTC\<close>

definition CpuHeavyTC_CheckResult :: method_binding where
  "CpuHeavyTC_CheckResult = caller ''CheckResult'' ''checkResult'' [] [GoBool]"

definition CpuHeavyTC_Empty :: method_binding where
  "CpuHeavyTC_Empty = transactor ''Empty'' ''empty'' []"

definition CpuHeavyTC_Sort :: method_binding where
  "CpuHeavyTC_Sort = transactor ''Sort'' ''sort'' [GoBigInt, GoBigInt]"

definition CpuHeavyTC_SortSingle :: method_binding where
  "CpuHeavyTC_SortSingle = transactor ''SortSingle'' ''sortSingle'' [GoBigInt]"

definition CpuHeavyTC_Finish_event :: event_binding where
  "CpuHeavyTC_Finish_event = event_binding ''Finish'' ''finish''
     []
     [(''Size'', GoBigInt), (''Signature'', GoBigInt)] False"

definition CpuHeavyTC_binding :: binding where
  "CpuHeavyTC_binding = \<lparr>bd_abi = CpuHeavyTCABI, bd_code = CpuHeavyTCBin, bd_ctor = [],
     bd_methods = [CpuHeavyTC_CheckResult, CpuHeavyTC_Empty, CpuHeavyTC_Sort, CpuHeavyTC_SortSingle],
     bd_events = [CpuHeavyTC_Finish_event]\<rparr>"

section \<open>UserStorageTC\<close>

definition UserStorageTC_Get :: method_binding where
  "UserStorageTC_Get = caller ''Get'' ''get'' [] [GoBigInt]"

definition UserStorageTC_GetUserData :: method_binding where
  "UserStorageTC_GetUserData = caller ''GetUserData'' ''getUserData'' [GoAddress] [GoBigInt]"

definition UserStorageTC_Set :: method_binding where
  "UserStorageTC_Set = transactor ''Set'' ''set'' [GoBigInt]"

definition UserStorageTC_binding :: binding where
  "UserStorageTC_binding = \<lparr>bd_abi = UserStorageTCABI, bd_code = UserStorageTCBin, bd_ctor = [],
     bd_methods = [UserStorageTC_Get, UserStorageTC_GetUserData, UserStorageTC_Set],
     bd_events = []\<rparr>"

section \<open>LargeMemoTC\<close>

definition LargeMemoTC_Run :: method_binding where
  "LargeMemoTC_Run = caller ''Run'' ''run'' [] [GoString]"

definition LargeMemoTC_Str :: method_binding where
  "LargeMemoTC_Str = caller ''Str'' ''str'' [] [GoString]"

definition LargeMemoTC_SetName :: method_binding where
  "LargeMemoTC_SetName = transactor ''SetName'' ''setName'' [GoString]"

definition LargeMemoTC_binding :: binding where
  "LargeMemoTC_binding = \<lparr>bd_abi = LargeMemoTCABI, bd_code = LargeMemoTCBin, bd_ctor = [],
     bd_methods = [LargeMemoTC_Run, LargeMemoTC_Str, LargeMemoTC_SetName],
     bd_events = []\<rparr>"

section \<open>ReadApiCallContractTC\<close>

definition ReadApiCallContractTC_Get :: method_binding where
  "ReadApiCallContractTC_Get = caller ''Get'' ''get'' [] [GoBigInt]"

definition ReadApiCallContractTC_Set :: method_binding where
  "ReadApiCallContractTC_Set = transactor ''Set'' ''set'' []"

definition ReadApiCallContractTC_binding :: binding where
  "ReadApiCallContractTC_binding = \<lparr>bd_abi = ReadApiCallContractTCABI, bd_code = ReadApiCallContractTCBin, bd_ctor = [],
     bd_methods = [ReadApiCallContractTC_Get, ReadApiCallContractTC_Set],
     bd_events = []\<rparr>"

section \<open>TetherContractTC\<close>

definition TetherContractTC_DOMAINSEPARATOR :: method_binding where
  "TetherContractTC_DOMAINSEPARATOR = caller ''DOMAINSEPARATOR'' ''DOMAIN_SEPARATOR'' [] [GoFixed 32]"

definition TetherContractTC_Allowance :: method_binding where
  "TetherContractTC_Allowance = caller ''Allowance'' ''allowance'' [GoAddress, GoAddress] [GoBigInt]"

definition TetherContractTC_BalanceOf :: method_binding where
  "TetherContractTC_BalanceOf = caller ''BalanceOf'' ''balanceOf'' [GoAddress] [GoBigInt]"

definition TetherContractTC_Decimals :: method_binding where
  "TetherContractTC_Decimals = caller ''Decimals'' ''decimals'' [] [GoUint8]"

definition TetherContractTC_IsBlocked :: method_binding where
  "TetherContractTC_IsBlocked = caller ''IsBlocked'' ''isBlocked'' [GoAddress] [GoBool]"

definition TetherContractTC_IsTrusted :: method_binding where
  "TetherContractTC_IsTrusted = caller ''IsTrusted'' ''isTrusted'' [GoAddress] [GoBool]"

definition TetherContractTC_Name :: method_binding where
  "TetherContractTC_Name = caller ''Name'' ''name'' [] [GoString]"

definition TetherContractTC_Nonces :: method_binding where
  "TetherContractTC_Nonces = caller ''Nonces'' ''nonces'' [GoAddress] [GoBigInt]"

definition TetherContractTC_Owner :: method_binding where
  "TetherContractTC_Owner = caller ''Owner'' ''owner'' [] [GoAddress]"

definition TetherContractTC_Symbol :: method_binding where
  "TetherContractTC_Symbol = caller ''Symbol'' ''symbol'' [] [GoString]"

definition TetherContractTC_TotalSupply :: method_binding where
  "TetherContractTC_TotalSupply = caller ''TotalSupply'' ''totalSupply'' [] [GoBigInt]"

definition TetherContractTC_AddToBlockedList :: method_binding where
  "TetherContractTC_AddToBlockedList = transactor ''AddToBlockedList'' ''addToBlockedList'' [GoAddress]"

definition TetherContractTC_Approve :: method_binding where
  "TetherContractTC_Approve = transactor ''Approve'' ''approve'' [GoAddress, GoBigInt]"

definition TetherContractTC_DecreaseAllowance :: method_binding where
  "TetherContractTC_DecreaseAllowance = transactor ''DecreaseAllowance'' ''decreaseAllowance'' [GoAddress,
        GoBigInt]"

definition TetherContractTC_DestroyBlockedFunds :: method_binding where
  "TetherContractTC_DestroyBlockedFunds = transactor ''DestroyBlockedFunds'' ''destroyBlockedFunds'' [GoAddress]"

definition TetherContractTC_IncreaseAllowance :: method_binding where
  "TetherContractTC_IncreaseAllowance = transactor ''IncreaseAllowance'' ''increaseAllowance'' [GoAddress,
        GoBigInt]"

definition TetherContractTC_Initialize :: method_binding where
  "TetherContractTC_Initialize = transactor ''Initialize'' ''initialize'' [GoString, GoString, GoUint8]"

definition TetherContractTC_Mint :: method_binding where
  "TetherContractTC_Mint = transactor ''Mint'' ''mint'' [GoAddress, GoBigInt]"

definition TetherContractTC_MultiTransfer :: method_binding where
  "TetherContractTC_MultiTransfer = transactor ''MultiTransfer'' ''multiTransfer'' [GoSlice GoAddress,
        GoSlice GoBigInt]"

definition TetherContractTC_Permit :: method_binding where
  "TetherContractTC_Permit = transactor ''Permit'' ''permit'' [GoAddress, GoAddress, GoBigInt, GoBigInt,
        GoUint8, GoFixed 32, GoFixed 32]"

definition TetherContractTC_Redeem :: method_binding where
  "TetherContractTC_Redeem = transactor ''Redeem'' ''redeem'' [GoBigInt]"

definition TetherContractTC_RemoveFromBlockedList :: method_binding where
  "TetherContractTC_RemoveFromBlockedList = transactor ''RemoveFromBlockedList'' ''removeFromBlockedList'' [GoAddress]"

definition TetherContractTC_RenounceOwnership :: method_binding where
  "TetherContractTC_RenounceOwnership = transactor ''RenounceOwnership'' ''renounceOwnership'' []"

definition TetherContractTC_Transfer :: method_binding where
  "TetherContractTC_Transfer = transactor ''Transfer'' ''transfer'' [GoAddress, GoBigInt]"

definition TetherContractTC_TransferFrom :: method_binding where
  "TetherContractTC_TransferFrom = transactor ''TransferFrom'' ''transferFrom'' [GoAddress, GoAddress,
        GoBigInt]"

definition TetherContractTC_TransferOwnership :: method_binding where
  "TetherContractTC_TransferOwnership = transactor ''TransferOwnership'' ''transferOwnership'' [GoAddress]"

definition TetherContractTC_Approval_event :: event_binding where
  "TetherContractTC_Approval_event = event_binding ''Approval'' ''Approval''
     [(''owner'', GoAddress), (''spender'', GoAddress)]
     [(''Owner'', GoAddress), (''Spender'', GoAddress), (''Value'', GoBigInt)] True"

definition TetherContractTC_BlockPlaced_event :: event_binding where
  "TetherContractTC_BlockPlaced_event = event_binding ''BlockPlaced'' ''BlockPlaced''
     [(''_user'', GoAddress)]
     [(''User'', GoAddress)] True"

definition TetherContractTC_BlockReleased_event :: event_binding where
  "TetherContractTC_BlockReleased_event = event_binding ''BlockReleased'' ''BlockReleased''
     [(''_user'', GoAddress)]
     [(''User'', GoAddress)] True"

definition TetherContractTC_DestroyedBlockedFunds_event :: event_binding where
  "TetherContractTC_DestroyedBlockedFunds_event = event_binding ''DestroyedBlockedFunds'' ''DestroyedBlockedFunds''
     [(''_blockedUser'', GoAddress)]
     [(''BlockedUser'', GoAddress), (''Balance'', GoBigInt)] True"

definition TetherContractTC_Initialized_event :: event_binding where
  "TetherContractTC_Initialized_event = event_binding ''Initialized'' ''Initialized''
     []
     [(''Version'', GoUint8)] True"

definition TetherContractTC_Mint_event :: event_binding where
  "TetherContractTC_Mint_event = event_binding ''Mint'' ''Mint''
     [(''_destination'', GoAddress)]
     [(''Destination'', GoAddress), (''Amount'', GoBigInt)] True"

definition TetherContractTC_OwnershipTransferred_event :: event_binding where
  "TetherContractTC_OwnershipTransferred_event = event_binding ''OwnershipTransferred'' ''OwnershipTransferred''
     [(''previousOwner'', GoAddress), (''newOwner'', GoAddress)]
     [(''PreviousOwner'', GoAddress), (''NewOwner'', GoAddress)] True"

definition TetherContractTC_Redeem_event :: event_binding where
  "TetherContractTC_Redeem_event = event_binding ''Redeem'' ''Redeem''
     []
     [(''Amount'', GoBigInt)] True"

definition TetherContractTC_Transfer_event :: event_binding where
  "TetherContractTC_Transfer_event = event_binding ''Transfer'' ''Transfer''
     [(''from'', GoAddress), (''to'', GoAddress)]
     [(''From'', GoAddress), (''To'', GoAddress), (''Value'', GoBigInt)] True"

definition TetherContractTC_binding :: binding where
  "TetherContractTC_binding = \<lparr>bd_abi = TetherContractTCABI, bd_code = TetherContractTCBin, bd_ctor = [],
     bd_methods = [TetherContractTC_DOMAINSEPARATOR, TetherContractTC_Allowance, TetherContractTC_BalanceOf,
       TetherContractTC_Decimals, TetherContractTC_IsBlocked, TetherContractTC_IsTrusted,
       TetherContractTC_Name, TetherContractTC_Nonces, TetherContractTC_Owner, TetherContractTC_Symbol,
       TetherContractTC_TotalSupply, TetherContractTC_AddToBlockedList, TetherContractTC_Approve,
       TetherContractTC_DecreaseAllowance, TetherContractTC_DestroyBlockedFunds,
       TetherContractTC_IncreaseAllowance, TetherContractTC_Initialize, TetherContractTC_Mint,
       TetherContractTC_MultiTransfer, TetherContractTC_Permit, TetherContractTC_Redeem,
       TetherContractTC_RemoveFromBlockedList, TetherContractTC_RenounceOwnership,
       TetherContractTC_Transfer, TetherContractTC_TransferFrom, TetherContractTC_TransferOwnership],
     bd_events = [TetherContractTC_Approval_event, TetherContractTC_BlockPlaced_event,
       TetherContractTC_BlockReleased_event, TetherContractTC_DestroyedBlockedFunds_event,
       TetherContractTC_Initialized_event, TetherContractTC_Mint_event,
       TetherContractTC_OwnershipTransferred_event, TetherContractTC_Redeem_event,
       TetherContractTC_Transfer_event]\<rparr>"

section \<open>TetherProxy\<close>

definition TetherProxy_Admin :: method_binding where
  "TetherProxy_Admin = transactor ''Admin'' ''admin'' []"

definition TetherProxy_ChangeAdmin :: method_binding where
  "TetherProxy_ChangeAdmin = transactor ''ChangeAdmin'' ''changeAdmin'' [GoAddress]"

definition TetherProxy_Implementation :: method_binding where
  "TetherProxy_Implementation = transactor ''Implementation'' ''implementation'' []"

definition TetherProxy_UpgradeTo :: method_binding where
  "TetherProxy_UpgradeTo = transactor ''UpgradeTo'' ''upgradeTo'' [GoAddress]"

definition TetherProxy_UpgradeToAndCall :: method_binding where
  "TetherProxy_UpgradeToAndCall = transactor ''UpgradeToAndCall'' ''upgradeToAndCall'' [GoAddress, GoBytes]"

definition TetherProxy_Fallback :: method_binding where
  "TetherProxy_Fallback = fallback_method"

definition TetherProxy_Receive :: method_binding where
  "TetherProxy_Receive = receive_method"

definition TetherProxy_AdminChanged_event :: event_binding where
  "TetherProxy_AdminChanged_event = event_binding ''AdminChanged'' ''AdminChanged''
     []
     [(''PreviousAdmin'', GoAddress), (''NewAdmin'', GoAddress)] True"

definition TetherProxy_BeaconUpgraded_event :: event_binding where
  "TetherProxy_BeaconUpgraded_event = event_binding ''BeaconUpgraded'' ''BeaconUpgraded''
     [(''beacon'', GoAddress)]
     [(''Beacon'', GoAddress)] True"

definition TetherProxy_Upgraded_event :: event_binding where
  "TetherProxy_Upgraded_event = event_binding ''Upgraded'' ''Upgraded''
     [(''implementation'', GoAddress)]
     [(''Implementation'', GoAddress)] True"

definition TetherProxy_binding :: binding where
  "TetherProxy_binding = \<lparr>bd_abi = TetherProxyABI, bd_code = TetherProxyBin, bd_ctor = [GoAddress, GoAddress, GoBytes],
     bd_methods = [TetherProxy_Admin, TetherProxy_ChangeAdmin, TetherProxy_Implementation,
       TetherProxy_UpgradeTo, TetherProxy_UpgradeToAndCall, TetherProxy_Fallback, TetherProxy_Receive],
     bd_events = [TetherProxy_AdminChanged_event, TetherProxy_BeaconUpgraded_event,
       TetherProxy_Upgraded_event]\<rparr>"

section \<open>internalTx\<close>

text \<open>
  \<open>internalTx/internalTx.go\<close> has no binding, only two functions that deploy; the rewards of the main contract are fixed
  to 1 and 2 here.
\<close>

definition DeployMainContract :: "('c, 't, 'l, 's, 'tx, 'w) bind_lib \<Rightarrow> abi_lib \<Rightarrow> 't \<Rightarrow> addr \<Rightarrow> 'w
    \<Rightarrow> (gerror + addr \<times> 'tx \<times> bound_contract) \<times> 'w" where
  "DeployMainContract L B opts addressToken w =
     (case abiJSON B internalTxContractABI of
        Some e \<Rightarrow> (Inl e, w)
      | None \<Rightarrow> bindDeploy L opts internalTxContractABI (codeBytes B internalTxContractBin)
          [ArgAddress addressToken, ArgUint 1, ArgUint 2] w)"

definition DeployKIP17TokenContract :: "('c, 't, 'l, 's, 'tx, 'w) bind_lib \<Rightarrow> abi_lib \<Rightarrow> 't \<Rightarrow> 'w
    \<Rightarrow> (gerror + addr \<times> 'tx \<times> bound_contract) \<times> 'w" where
  "DeployKIP17TokenContract L B opts w =
     (case abiJSON B internalTxKIP17TokenContractABI of
        Some e \<Rightarrow> (Inl e, w)
      | None \<Rightarrow> bindDeploy L opts internalTxKIP17TokenContractABI
          (codeBytes B internalTxKIP17TokenContractBin) [] w)"

end
