(* ===== verification/Bundled_Bindings.thy ===== *)
theory Bundled_Bindings
  imports Auction_Bindings
begin

text \<open>
  The bindings of the interfaces, base contracts and libraries in the three auction files, in the format of
  \<open>Binding_Tables\<close>. The program does not call them; they are there because abigen binds everything that the
  contract was compiled with. A type that several files bind is a type of its own in each. An interface has no
  byte code and no \<open>Deploy\<close> function (\<open>NoByteCode\<close>); a library has a byte code but no methods.
\<close>

definition dv_IAuctionEntryPointAuctionTx :: go_type where
  "dv_IAuctionEntryPointAuctionTx = GoStruct ''IAuctionEntryPointAuctionTx''
     [GoFixed 32, GoBigInt, GoAddress, GoAddress, GoBigInt, GoBigInt, GoBigInt, GoBytes, GoBytes, GoBytes]"

section \<open>auctionEntryPoint\<close>

definition ep_AuctionError_binding :: binding where
  "ep_AuctionError_binding = \<lparr>bd_abi = BundledABI ''auctionEntryPoint'' ''AuctionError'', bd_code = BundledBin ''auctionEntryPoint'' ''AuctionError'', bd_ctor = [],
     bd_methods = [],
     bd_events = []\<rparr>"

definition ep_Context_binding :: binding where
  "ep_Context_binding = \<lparr>bd_abi = BundledABI ''auctionEntryPoint'' ''Context'', bd_code = NoByteCode, bd_ctor = [],
     bd_methods = [],
     bd_events = []\<rparr>"

definition ep_ECDSA_binding :: binding where
  "ep_ECDSA_binding = \<lparr>bd_abi = BundledABI ''auctionEntryPoint'' ''ECDSA'', bd_code = BundledBin ''auctionEntryPoint'' ''ECDSA'', bd_ctor = [],
     bd_methods = [],
     bd_events = []\<rparr>"

definition ep_EIP712_Eip712Domain :: method_binding where
  "ep_EIP712_Eip712Domain = caller ''Eip712Domain'' ''eip712Domain'' [] [GoFixed 1, GoString, GoString,
        GoBigInt, GoAddress, GoFixed 32, GoSlice GoBigInt]"

definition ep_EIP712_EIP712DomainChanged_event :: event_binding where
  "ep_EIP712_EIP712DomainChanged_event = event_binding ''EIP712DomainChanged'' ''EIP712DomainChanged''
     []
     [] True"

definition ep_EIP712_binding :: binding where
  "ep_EIP712_binding = \<lparr>bd_abi = BundledABI ''auctionEntryPoint'' ''EIP712'', bd_code = NoByteCode, bd_ctor = [],
     bd_methods = [ep_EIP712_Eip712Domain],
     bd_events = [ep_EIP712_EIP712DomainChanged_event]\<rparr>"

definition ep_IAuctionDepositVault_DepositBalances :: method_binding where
  "ep_IAuctionDepositVault_DepositBalances = caller ''DepositBalances'' ''depositBalances'' [GoAddress] [GoBigInt]"

definition ep_IAuctionDepositVault_GetAllAddrsOverMinDeposit :: method_binding where
  "ep_IAuctionDepositVault_GetAllAddrsOverMinDeposit = caller ''GetAllAddrsOverMinDeposit'' ''getAllAddrsOverMinDeposit'' [GoBigInt, GoBigInt] [GoSlice GoAddress, GoSlice GoBigInt, GoSlice GoBigInt]"

definition ep_IAuctionDepositVault_GetDepositAddrs :: method_binding where
  "ep_IAuctionDepositVault_GetDepositAddrs = caller ''GetDepositAddrs'' ''getDepositAddrs'' [GoBigInt,
        GoBigInt] [GoSlice GoAddress]"

definition ep_IAuctionDepositVault_GetDepositAddrsLength :: method_binding where
  "ep_IAuctionDepositVault_GetDepositAddrsLength = caller ''GetDepositAddrsLength'' ''getDepositAddrsLength'' [] [GoBigInt]"

definition ep_IAuctionDepositVault_IsMinDepositOver :: method_binding where
  "ep_IAuctionDepositVault_IsMinDepositOver = caller ''IsMinDepositOver'' ''isMinDepositOver'' [GoAddress] [GoBool]"

definition ep_IAuctionDepositVault_ChangeAuctionFeeVault :: method_binding where
  "ep_IAuctionDepositVault_ChangeAuctionFeeVault = transactor ''ChangeAuctionFeeVault'' ''changeAuctionFeeVault'' [GoAddress]"

definition ep_IAuctionDepositVault_ChangeMinDepositAmount :: method_binding where
  "ep_IAuctionDepositVault_ChangeMinDepositAmount = transactor ''ChangeMinDepositAmount'' ''changeMinDepositAmount'' [GoBigInt]"

definition ep_IAuctionDepositVault_ChangeMinWithdrawLocktime :: method_binding where
  "ep_IAuctionDepositVault_ChangeMinWithdrawLocktime = transactor ''ChangeMinWithdrawLocktime'' ''changeMinWithdrawLocktime'' [GoBigInt]"

definition ep_IAuctionDepositVault_Deposit :: method_binding where
  "ep_IAuctionDepositVault_Deposit = transactor ''Deposit'' ''deposit'' []"

definition ep_IAuctionDepositVault_DepositFor :: method_binding where
  "ep_IAuctionDepositVault_DepositFor = transactor ''DepositFor'' ''depositFor'' [GoAddress]"

definition ep_IAuctionDepositVault_ReserveWithdraw :: method_binding where
  "ep_IAuctionDepositVault_ReserveWithdraw = transactor ''ReserveWithdraw'' ''reserveWithdraw'' []"

definition ep_IAuctionDepositVault_TakeBid :: method_binding where
  "ep_IAuctionDepositVault_TakeBid = transactor ''TakeBid'' ''takeBid'' [GoAddress, GoBigInt]"

definition ep_IAuctionDepositVault_TakeGas :: method_binding where
  "ep_IAuctionDepositVault_TakeGas = transactor ''TakeGas'' ''takeGas'' [GoAddress, GoBigInt]"

definition ep_IAuctionDepositVault_Withdraw :: method_binding where
  "ep_IAuctionDepositVault_Withdraw = transactor ''Withdraw'' ''withdraw'' []"

definition ep_IAuctionDepositVault_ChangeAuctionFeeVault_event :: event_binding where
  "ep_IAuctionDepositVault_ChangeAuctionFeeVault_event = event_binding ''ChangeAuctionFeeVault'' ''ChangeAuctionFeeVault''
     []
     [(''OldFeeVault'', GoAddress), (''NewFeeVault'', GoAddress)] True"

definition ep_IAuctionDepositVault_ChangeMinDepositAmount_event :: event_binding where
  "ep_IAuctionDepositVault_ChangeMinDepositAmount_event = event_binding ''ChangeMinDepositAmount'' ''ChangeMinDepositAmount''
     []
     [(''OldAmount'', GoBigInt), (''NewAmount'', GoBigInt)] True"

definition ep_IAuctionDepositVault_ChangeMinWithdrawLocktime_event :: event_binding where
  "ep_IAuctionDepositVault_ChangeMinWithdrawLocktime_event = event_binding ''ChangeMinWithdrawLocktime'' ''ChangeMinWithdrawLocktime''
     []
     [(''OldLocktime'', GoBigInt), (''NewLocktime'', GoBigInt)] True"

definition ep_IAuctionDepositVault_InsufficientBalance_event :: event_binding where
  "ep_IAuctionDepositVault_InsufficientBalance_event = event_binding ''InsufficientBalance'' ''InsufficientBalance''
     []
     [(''Searcher'', GoAddress), (''Balance'', GoBigInt), (''Amount'', GoBigInt)] True"

definition ep_IAuctionDepositVault_TakenBid_event :: event_binding where
  "ep_IAuctionDepositVault_TakenBid_event = event_binding ''TakenBid'' ''TakenBid''
     []
     [(''Searcher'', GoAddress), (''Amount'', GoBigInt)] True"

definition ep_IAuctionDepositVault_TakenBidFailed_event :: event_binding where
  "ep_IAuctionDepositVault_TakenBidFailed_event = event_binding ''TakenBidFailed'' ''TakenBidFailed''
     []
     [(''Searcher'', GoAddress), (''Amount'', GoBigInt)] True"

definition ep_IAuctionDepositVault_TakenGas_event :: event_binding where
  "ep_IAuctionDepositVault_TakenGas_event = event_binding ''TakenGas'' ''TakenGas''
     []
     [(''Searcher'', GoAddress), (''GasAmount'', GoBigInt)] True"

definition ep_IAuctionDepositVault_TakenGasFailed_event :: event_binding where
  "ep_IAuctionDepositVault_TakenGasFailed_event = event_binding ''TakenGasFailed'' ''TakenGasFailed''
     []
     [(''Searcher'', GoAddress), (''GasAmount'', GoBigInt)] True"

definition ep_IAuctionDepositVault_VaultDeposit_event :: event_binding where
  "ep_IAuctionDepositVault_VaultDeposit_event = event_binding ''VaultDeposit'' ''VaultDeposit''
     []
     [(''Searcher'', GoAddress), (''Amount'', GoBigInt), (''TotalAmount'', GoBigInt), (''Nonce'',
        GoBigInt)] True"

definition ep_IAuctionDepositVault_VaultReserveWithdraw_event :: event_binding where
  "ep_IAuctionDepositVault_VaultReserveWithdraw_event = event_binding ''VaultReserveWithdraw'' ''VaultReserveWithdraw''
     []
     [(''Searcher'', GoAddress), (''Amount'', GoBigInt), (''Nonce'', GoBigInt)] True"

definition ep_IAuctionDepositVault_VaultWithdraw_event :: event_binding where
  "ep_IAuctionDepositVault_VaultWithdraw_event = event_binding ''VaultWithdraw'' ''VaultWithdraw''
     []
     [(''Searcher'', GoAddress), (''Amount'', GoBigInt), (''Nonce'', GoBigInt)] True"

definition ep_IAuctionDepositVault_binding :: binding where
  "ep_IAuctionDepositVault_binding = \<lparr>bd_abi = BundledABI ''auctionEntryPoint'' ''IAuctionDepositVault'', bd_code = NoByteCode, bd_ctor = [],
     bd_methods = [ep_IAuctionDepositVault_DepositBalances,
       ep_IAuctionDepositVault_GetAllAddrsOverMinDeposit, ep_IAuctionDepositVault_GetDepositAddrs,
       ep_IAuctionDepositVault_GetDepositAddrsLength, ep_IAuctionDepositVault_IsMinDepositOver,
       ep_IAuctionDepositVault_ChangeAuctionFeeVault, ep_IAuctionDepositVault_ChangeMinDepositAmount,
       ep_IAuctionDepositVault_ChangeMinWithdrawLocktime, ep_IAuctionDepositVault_Deposit,
       ep_IAuctionDepositVault_DepositFor, ep_IAuctionDepositVault_ReserveWithdraw,
       ep_IAuctionDepositVault_TakeBid, ep_IAuctionDepositVault_TakeGas, ep_IAuctionDepositVault_Withdraw],
     bd_events = [ep_IAuctionDepositVault_ChangeAuctionFeeVault_event,
       ep_IAuctionDepositVault_ChangeMinDepositAmount_event,
       ep_IAuctionDepositVault_ChangeMinWithdrawLocktime_event,
       ep_IAuctionDepositVault_InsufficientBalance_event, ep_IAuctionDepositVault_TakenBid_event,
       ep_IAuctionDepositVault_TakenBidFailed_event, ep_IAuctionDepositVault_TakenGas_event,
       ep_IAuctionDepositVault_TakenGasFailed_event, ep_IAuctionDepositVault_VaultDeposit_event,
       ep_IAuctionDepositVault_VaultReserveWithdraw_event,
       ep_IAuctionDepositVault_VaultWithdraw_event]\<rparr>"

definition ep_IAuctionEntryPoint_Auctioneer :: method_binding where
  "ep_IAuctionEntryPoint_Auctioneer = caller ''Auctioneer'' ''auctioneer'' [] [GoAddress]"

definition ep_IAuctionEntryPoint_DepositVault :: method_binding where
  "ep_IAuctionEntryPoint_DepositVault = caller ''DepositVault'' ''depositVault'' [] [GoAddress]"

definition ep_IAuctionEntryPoint_GasBufferEstimate :: method_binding where
  "ep_IAuctionEntryPoint_GasBufferEstimate = caller ''GasBufferEstimate'' ''gasBufferEstimate'' [] [GoBigInt]"

definition ep_IAuctionEntryPoint_GasBufferUnmeasured :: method_binding where
  "ep_IAuctionEntryPoint_GasBufferUnmeasured = caller ''GasBufferUnmeasured'' ''gasBufferUnmeasured'' [] [GoBigInt]"

definition ep_IAuctionEntryPoint_GasContractExecution :: method_binding where
  "ep_IAuctionEntryPoint_GasContractExecution = caller ''GasContractExecution'' ''gasContractExecution'' [] [GoBigInt]"

definition ep_IAuctionEntryPoint_GasPerByteEip7623 :: method_binding where
  "ep_IAuctionEntryPoint_GasPerByteEip7623 = caller ''GasPerByteEip7623'' ''gasPerByteEip7623'' [] [GoBigInt]"

definition ep_IAuctionEntryPoint_GasPerByteIntrinsic :: method_binding where
  "ep_IAuctionEntryPoint_GasPerByteIntrinsic = caller ''GasPerByteIntrinsic'' ''gasPerByteIntrinsic'' [] [GoBigInt]"

definition ep_IAuctionEntryPoint_GetAuctionTxHash :: method_binding where
  "ep_IAuctionEntryPoint_GetAuctionTxHash = caller ''GetAuctionTxHash'' ''getAuctionTxHash'' [IAuctionEntryPointAuctionTx] [GoFixed 32]"

definition ep_IAuctionEntryPoint_GetNoncesAndDeposits :: method_binding where
  "ep_IAuctionEntryPoint_GetNoncesAndDeposits = caller ''GetNoncesAndDeposits'' ''getNoncesAndDeposits'' [GoSlice GoAddress] [GoSlice GoBigInt, GoSlice GoBigInt]"

definition ep_IAuctionEntryPoint_Call :: method_binding where
  "ep_IAuctionEntryPoint_Call = transactor ''Call'' ''call'' [IAuctionEntryPointAuctionTx]"

definition ep_IAuctionEntryPoint_ChangeAuctioneer :: method_binding where
  "ep_IAuctionEntryPoint_ChangeAuctioneer = transactor ''ChangeAuctioneer'' ''changeAuctioneer'' [GoAddress]"

definition ep_IAuctionEntryPoint_ChangeDepositVault :: method_binding where
  "ep_IAuctionEntryPoint_ChangeDepositVault = transactor ''ChangeDepositVault'' ''changeDepositVault'' [GoAddress]"

definition ep_IAuctionEntryPoint_ChangeGasParameters :: method_binding where
  "ep_IAuctionEntryPoint_ChangeGasParameters = transactor ''ChangeGasParameters'' ''changeGasParameters'' [GoBigInt, GoBigInt, GoBigInt, GoBigInt, GoBigInt]"

definition ep_IAuctionEntryPoint_Call_event :: event_binding where
  "ep_IAuctionEntryPoint_Call_event = event_binding ''Call'' ''Call''
     []
     [(''Sender'', GoAddress), (''Nonce'', GoBigInt)] True"

definition ep_IAuctionEntryPoint_CallFailed_event :: event_binding where
  "ep_IAuctionEntryPoint_CallFailed_event = event_binding ''CallFailed'' ''CallFailed''
     []
     [(''Sender'', GoAddress), (''Nonce'', GoBigInt)] True"

definition ep_IAuctionEntryPoint_ChangeAuctioneer_event :: event_binding where
  "ep_IAuctionEntryPoint_ChangeAuctioneer_event = event_binding ''ChangeAuctioneer'' ''ChangeAuctioneer''
     []
     [(''OldAuctioneer'', GoAddress), (''NewAuctioneer'', GoAddress)] True"

definition ep_IAuctionEntryPoint_ChangeDepositVault_event :: event_binding where
  "ep_IAuctionEntryPoint_ChangeDepositVault_event = event_binding ''ChangeDepositVault'' ''ChangeDepositVault''
     []
     [(''OldDepositVault'', GoAddress), (''NewDepositVault'', GoAddress)] True"

definition ep_IAuctionEntryPoint_ChangeGasParameters_event :: event_binding where
  "ep_IAuctionEntryPoint_ChangeGasParameters_event = event_binding ''ChangeGasParameters'' ''ChangeGasParameters''
     []
     [(''GasPerByteIntrinsic'', GoBigInt), (''GasPerByteEip7623'', GoBigInt), (''GasContractExecution'',
        GoBigInt), (''GasBufferEstimate'', GoBigInt), (''GasBufferUnmeasured'', GoBigInt)] True"

definition ep_IAuctionEntryPoint_UseNonce_event :: event_binding where
  "ep_IAuctionEntryPoint_UseNonce_event = event_binding ''UseNonce'' ''UseNonce''
     []
     [(''Searcher'', GoAddress), (''Nonce'', GoBigInt)] True"

definition ep_IAuctionEntryPoint_binding :: binding where
  "ep_IAuctionEntryPoint_binding = \<lparr>bd_abi = BundledABI ''auctionEntryPoint'' ''IAuctionEntryPoint'', bd_code = NoByteCode, bd_ctor = [],
     bd_methods = [ep_IAuctionEntryPoint_Auctioneer, ep_IAuctionEntryPoint_DepositVault,
       ep_IAuctionEntryPoint_GasBufferEstimate, ep_IAuctionEntryPoint_GasBufferUnmeasured,
       ep_IAuctionEntryPoint_GasContractExecution, ep_IAuctionEntryPoint_GasPerByteEip7623,
       ep_IAuctionEntryPoint_GasPerByteIntrinsic, ep_IAuctionEntryPoint_GetAuctionTxHash,
       ep_IAuctionEntryPoint_GetNoncesAndDeposits, ep_IAuctionEntryPoint_Call,
       ep_IAuctionEntryPoint_ChangeAuctioneer, ep_IAuctionEntryPoint_ChangeDepositVault,
       ep_IAuctionEntryPoint_ChangeGasParameters],
     bd_events = [ep_IAuctionEntryPoint_Call_event, ep_IAuctionEntryPoint_CallFailed_event,
       ep_IAuctionEntryPoint_ChangeAuctioneer_event, ep_IAuctionEntryPoint_ChangeDepositVault_event,
       ep_IAuctionEntryPoint_ChangeGasParameters_event, ep_IAuctionEntryPoint_UseNonce_event]\<rparr>"

definition ep_IERC5267_Eip712Domain :: method_binding where
  "ep_IERC5267_Eip712Domain = caller ''Eip712Domain'' ''eip712Domain'' [] [GoFixed 1, GoString, GoString,
        GoBigInt, GoAddress, GoFixed 32, GoSlice GoBigInt]"

definition ep_IERC5267_EIP712DomainChanged_event :: event_binding where
  "ep_IERC5267_EIP712DomainChanged_event = event_binding ''EIP712DomainChanged'' ''EIP712DomainChanged''
     []
     [] True"

definition ep_IERC5267_binding :: binding where
  "ep_IERC5267_binding = \<lparr>bd_abi = BundledABI ''auctionEntryPoint'' ''IERC5267'', bd_code = NoByteCode, bd_ctor = [],
     bd_methods = [ep_IERC5267_Eip712Domain],
     bd_events = [ep_IERC5267_EIP712DomainChanged_event]\<rparr>"

definition ep_Math_binding :: binding where
  "ep_Math_binding = \<lparr>bd_abi = BundledABI ''auctionEntryPoint'' ''Math'', bd_code = BundledBin ''auctionEntryPoint'' ''Math'', bd_ctor = [],
     bd_methods = [],
     bd_events = []\<rparr>"

definition ep_MessageHashUtils_binding :: binding where
  "ep_MessageHashUtils_binding = \<lparr>bd_abi = BundledABI ''auctionEntryPoint'' ''MessageHashUtils'', bd_code = BundledBin ''auctionEntryPoint'' ''MessageHashUtils'', bd_ctor = [],
     bd_methods = [],
     bd_events = []\<rparr>"

definition ep_Nonces_Nonces :: method_binding where
  "ep_Nonces_Nonces = caller ''Nonces'' ''nonces'' [GoAddress] [GoBigInt]"

definition ep_Nonces_binding :: binding where
  "ep_Nonces_binding = \<lparr>bd_abi = BundledABI ''auctionEntryPoint'' ''Nonces'', bd_code = NoByteCode, bd_ctor = [],
     bd_methods = [ep_Nonces_Nonces],
     bd_events = []\<rparr>"

definition ep_Ownable_Owner :: method_binding where
  "ep_Ownable_Owner = caller ''Owner'' ''owner'' [] [GoAddress]"

definition ep_Ownable_RenounceOwnership :: method_binding where
  "ep_Ownable_RenounceOwnership = transactor ''RenounceOwnership'' ''renounceOwnership'' []"

definition ep_Ownable_TransferOwnership :: method_binding where
  "ep_Ownable_TransferOwnership = transactor ''TransferOwnership'' ''transferOwnership'' [GoAddress]"

definition ep_Ownable_OwnershipTransferred_event :: event_binding where
  "ep_Ownable_OwnershipTransferred_event = event_binding ''OwnershipTransferred'' ''OwnershipTransferred''
     [(''previousOwner'', GoAddress), (''newOwner'', GoAddress)]
     [(''PreviousOwner'', GoAddress), (''NewOwner'', GoAddress)] True"

definition ep_Ownable_binding :: binding where
  "ep_Ownable_binding = \<lparr>bd_abi = BundledABI ''auctionEntryPoint'' ''Ownable'', bd_code = NoByteCode, bd_ctor = [],
     bd_methods = [ep_Ownable_Owner, ep_Ownable_RenounceOwnership, ep_Ownable_TransferOwnership],
     bd_events = [ep_Ownable_OwnershipTransferred_event]\<rparr>"

definition ep_ShortStrings_binding :: binding where
  "ep_ShortStrings_binding = \<lparr>bd_abi = BundledABI ''auctionEntryPoint'' ''ShortStrings'', bd_code = BundledBin ''auctionEntryPoint'' ''ShortStrings'', bd_ctor = [],
     bd_methods = [],
     bd_events = []\<rparr>"

definition ep_SignedMath_binding :: binding where
  "ep_SignedMath_binding = \<lparr>bd_abi = BundledABI ''auctionEntryPoint'' ''SignedMath'', bd_code = BundledBin ''auctionEntryPoint'' ''SignedMath'', bd_ctor = [],
     bd_methods = [],
     bd_events = []\<rparr>"

definition ep_StorageSlot_binding :: binding where
  "ep_StorageSlot_binding = \<lparr>bd_abi = BundledABI ''auctionEntryPoint'' ''StorageSlot'', bd_code = BundledBin ''auctionEntryPoint'' ''StorageSlot'', bd_ctor = [],
     bd_methods = [],
     bd_events = []\<rparr>"

definition ep_Strings_binding :: binding where
  "ep_Strings_binding = \<lparr>bd_abi = BundledABI ''auctionEntryPoint'' ''Strings'', bd_code = BundledBin ''auctionEntryPoint'' ''Strings'', bd_ctor = [],
     bd_methods = [],
     bd_events = []\<rparr>"

section \<open>auctionDepositVault\<close>

definition dv_AuctionError_binding :: binding where
  "dv_AuctionError_binding = \<lparr>bd_abi = BundledABI ''auctionDepositVault'' ''AuctionError'', bd_code = BundledBin ''auctionDepositVault'' ''AuctionError'', bd_ctor = [],
     bd_methods = [],
     bd_events = []\<rparr>"

definition dv_Context_binding :: binding where
  "dv_Context_binding = \<lparr>bd_abi = BundledABI ''auctionDepositVault'' ''Context'', bd_code = NoByteCode, bd_ctor = [],
     bd_methods = [],
     bd_events = []\<rparr>"

definition dv_EnumerableSet_binding :: binding where
  "dv_EnumerableSet_binding = \<lparr>bd_abi = BundledABI ''auctionDepositVault'' ''EnumerableSet'', bd_code = BundledBin ''auctionDepositVault'' ''EnumerableSet'', bd_ctor = [],
     bd_methods = [],
     bd_events = []\<rparr>"

definition dv_IAuctionDepositVault_DepositBalances :: method_binding where
  "dv_IAuctionDepositVault_DepositBalances = caller ''DepositBalances'' ''depositBalances'' [GoAddress] [GoBigInt]"

definition dv_IAuctionDepositVault_GetAllAddrsOverMinDeposit :: method_binding where
  "dv_IAuctionDepositVault_GetAllAddrsOverMinDeposit = caller ''GetAllAddrsOverMinDeposit'' ''getAllAddrsOverMinDeposit'' [GoBigInt, GoBigInt] [GoSlice GoAddress, GoSlice GoBigInt, GoSlice GoBigInt]"

definition dv_IAuctionDepositVault_GetDepositAddrs :: method_binding where
  "dv_IAuctionDepositVault_GetDepositAddrs = caller ''GetDepositAddrs'' ''getDepositAddrs'' [GoBigInt,
        GoBigInt] [GoSlice GoAddress]"

definition dv_IAuctionDepositVault_GetDepositAddrsLength :: method_binding where
  "dv_IAuctionDepositVault_GetDepositAddrsLength = caller ''GetDepositAddrsLength'' ''getDepositAddrsLength'' [] [GoBigInt]"

definition dv_IAuctionDepositVault_IsMinDepositOver :: method_binding where
  "dv_IAuctionDepositVault_IsMinDepositOver = caller ''IsMinDepositOver'' ''isMinDepositOver'' [GoAddress] [GoBool]"

definition dv_IAuctionDepositVault_ChangeAuctionFeeVault :: method_binding where
  "dv_IAuctionDepositVault_ChangeAuctionFeeVault = transactor ''ChangeAuctionFeeVault'' ''changeAuctionFeeVault'' [GoAddress]"

definition dv_IAuctionDepositVault_ChangeMinDepositAmount :: method_binding where
  "dv_IAuctionDepositVault_ChangeMinDepositAmount = transactor ''ChangeMinDepositAmount'' ''changeMinDepositAmount'' [GoBigInt]"

definition dv_IAuctionDepositVault_ChangeMinWithdrawLocktime :: method_binding where
  "dv_IAuctionDepositVault_ChangeMinWithdrawLocktime = transactor ''ChangeMinWithdrawLocktime'' ''changeMinWithdrawLocktime'' [GoBigInt]"

definition dv_IAuctionDepositVault_Deposit :: method_binding where
  "dv_IAuctionDepositVault_Deposit = transactor ''Deposit'' ''deposit'' []"

definition dv_IAuctionDepositVault_DepositFor :: method_binding where
  "dv_IAuctionDepositVault_DepositFor = transactor ''DepositFor'' ''depositFor'' [GoAddress]"

definition dv_IAuctionDepositVault_ReserveWithdraw :: method_binding where
  "dv_IAuctionDepositVault_ReserveWithdraw = transactor ''ReserveWithdraw'' ''reserveWithdraw'' []"

definition dv_IAuctionDepositVault_TakeBid :: method_binding where
  "dv_IAuctionDepositVault_TakeBid = transactor ''TakeBid'' ''takeBid'' [GoAddress, GoBigInt]"

definition dv_IAuctionDepositVault_TakeGas :: method_binding where
  "dv_IAuctionDepositVault_TakeGas = transactor ''TakeGas'' ''takeGas'' [GoAddress, GoBigInt]"

definition dv_IAuctionDepositVault_Withdraw :: method_binding where
  "dv_IAuctionDepositVault_Withdraw = transactor ''Withdraw'' ''withdraw'' []"

definition dv_IAuctionDepositVault_ChangeAuctionFeeVault_event :: event_binding where
  "dv_IAuctionDepositVault_ChangeAuctionFeeVault_event = event_binding ''ChangeAuctionFeeVault'' ''ChangeAuctionFeeVault''
     []
     [(''OldFeeVault'', GoAddress), (''NewFeeVault'', GoAddress)] True"

definition dv_IAuctionDepositVault_ChangeMinDepositAmount_event :: event_binding where
  "dv_IAuctionDepositVault_ChangeMinDepositAmount_event = event_binding ''ChangeMinDepositAmount'' ''ChangeMinDepositAmount''
     []
     [(''OldAmount'', GoBigInt), (''NewAmount'', GoBigInt)] True"

definition dv_IAuctionDepositVault_ChangeMinWithdrawLocktime_event :: event_binding where
  "dv_IAuctionDepositVault_ChangeMinWithdrawLocktime_event = event_binding ''ChangeMinWithdrawLocktime'' ''ChangeMinWithdrawLocktime''
     []
     [(''OldLocktime'', GoBigInt), (''NewLocktime'', GoBigInt)] True"

definition dv_IAuctionDepositVault_InsufficientBalance_event :: event_binding where
  "dv_IAuctionDepositVault_InsufficientBalance_event = event_binding ''InsufficientBalance'' ''InsufficientBalance''
     []
     [(''Searcher'', GoAddress), (''Balance'', GoBigInt), (''Amount'', GoBigInt)] True"

definition dv_IAuctionDepositVault_TakenBid_event :: event_binding where
  "dv_IAuctionDepositVault_TakenBid_event = event_binding ''TakenBid'' ''TakenBid''
     []
     [(''Searcher'', GoAddress), (''Amount'', GoBigInt)] True"

definition dv_IAuctionDepositVault_TakenBidFailed_event :: event_binding where
  "dv_IAuctionDepositVault_TakenBidFailed_event = event_binding ''TakenBidFailed'' ''TakenBidFailed''
     []
     [(''Searcher'', GoAddress), (''Amount'', GoBigInt)] True"

definition dv_IAuctionDepositVault_TakenGas_event :: event_binding where
  "dv_IAuctionDepositVault_TakenGas_event = event_binding ''TakenGas'' ''TakenGas''
     []
     [(''Searcher'', GoAddress), (''GasAmount'', GoBigInt)] True"

definition dv_IAuctionDepositVault_TakenGasFailed_event :: event_binding where
  "dv_IAuctionDepositVault_TakenGasFailed_event = event_binding ''TakenGasFailed'' ''TakenGasFailed''
     []
     [(''Searcher'', GoAddress), (''GasAmount'', GoBigInt)] True"

definition dv_IAuctionDepositVault_VaultDeposit_event :: event_binding where
  "dv_IAuctionDepositVault_VaultDeposit_event = event_binding ''VaultDeposit'' ''VaultDeposit''
     []
     [(''Searcher'', GoAddress), (''Amount'', GoBigInt), (''TotalAmount'', GoBigInt), (''Nonce'',
        GoBigInt)] True"

definition dv_IAuctionDepositVault_VaultReserveWithdraw_event :: event_binding where
  "dv_IAuctionDepositVault_VaultReserveWithdraw_event = event_binding ''VaultReserveWithdraw'' ''VaultReserveWithdraw''
     []
     [(''Searcher'', GoAddress), (''Amount'', GoBigInt), (''Nonce'', GoBigInt)] True"

definition dv_IAuctionDepositVault_VaultWithdraw_event :: event_binding where
  "dv_IAuctionDepositVault_VaultWithdraw_event = event_binding ''VaultWithdraw'' ''VaultWithdraw''
     []
     [(''Searcher'', GoAddress), (''Amount'', GoBigInt), (''Nonce'', GoBigInt)] True"

definition dv_IAuctionDepositVault_binding :: binding where
  "dv_IAuctionDepositVault_binding = \<lparr>bd_abi = BundledABI ''auctionDepositVault'' ''IAuctionDepositVault'', bd_code = NoByteCode, bd_ctor = [],
     bd_methods = [dv_IAuctionDepositVault_DepositBalances,
       dv_IAuctionDepositVault_GetAllAddrsOverMinDeposit, dv_IAuctionDepositVault_GetDepositAddrs,
       dv_IAuctionDepositVault_GetDepositAddrsLength, dv_IAuctionDepositVault_IsMinDepositOver,
       dv_IAuctionDepositVault_ChangeAuctionFeeVault, dv_IAuctionDepositVault_ChangeMinDepositAmount,
       dv_IAuctionDepositVault_ChangeMinWithdrawLocktime, dv_IAuctionDepositVault_Deposit,
       dv_IAuctionDepositVault_DepositFor, dv_IAuctionDepositVault_ReserveWithdraw,
       dv_IAuctionDepositVault_TakeBid, dv_IAuctionDepositVault_TakeGas, dv_IAuctionDepositVault_Withdraw],
     bd_events = [dv_IAuctionDepositVault_ChangeAuctionFeeVault_event,
       dv_IAuctionDepositVault_ChangeMinDepositAmount_event,
       dv_IAuctionDepositVault_ChangeMinWithdrawLocktime_event,
       dv_IAuctionDepositVault_InsufficientBalance_event, dv_IAuctionDepositVault_TakenBid_event,
       dv_IAuctionDepositVault_TakenBidFailed_event, dv_IAuctionDepositVault_TakenGas_event,
       dv_IAuctionDepositVault_TakenGasFailed_event, dv_IAuctionDepositVault_VaultDeposit_event,
       dv_IAuctionDepositVault_VaultReserveWithdraw_event,
       dv_IAuctionDepositVault_VaultWithdraw_event]\<rparr>"

definition dv_IAuctionEntryPoint_Auctioneer :: method_binding where
  "dv_IAuctionEntryPoint_Auctioneer = caller ''Auctioneer'' ''auctioneer'' [] [GoAddress]"

definition dv_IAuctionEntryPoint_DepositVault :: method_binding where
  "dv_IAuctionEntryPoint_DepositVault = caller ''DepositVault'' ''depositVault'' [] [GoAddress]"

definition dv_IAuctionEntryPoint_GasBufferEstimate :: method_binding where
  "dv_IAuctionEntryPoint_GasBufferEstimate = caller ''GasBufferEstimate'' ''gasBufferEstimate'' [] [GoBigInt]"

definition dv_IAuctionEntryPoint_GasBufferUnmeasured :: method_binding where
  "dv_IAuctionEntryPoint_GasBufferUnmeasured = caller ''GasBufferUnmeasured'' ''gasBufferUnmeasured'' [] [GoBigInt]"

definition dv_IAuctionEntryPoint_GasContractExecution :: method_binding where
  "dv_IAuctionEntryPoint_GasContractExecution = caller ''GasContractExecution'' ''gasContractExecution'' [] [GoBigInt]"

definition dv_IAuctionEntryPoint_GasPerByteEip7623 :: method_binding where
  "dv_IAuctionEntryPoint_GasPerByteEip7623 = caller ''GasPerByteEip7623'' ''gasPerByteEip7623'' [] [GoBigInt]"

definition dv_IAuctionEntryPoint_GasPerByteIntrinsic :: method_binding where
  "dv_IAuctionEntryPoint_GasPerByteIntrinsic = caller ''GasPerByteIntrinsic'' ''gasPerByteIntrinsic'' [] [GoBigInt]"

definition dv_IAuctionEntryPoint_GetAuctionTxHash :: method_binding where
  "dv_IAuctionEntryPoint_GetAuctionTxHash = caller ''GetAuctionTxHash'' ''getAuctionTxHash'' [dv_IAuctionEntryPointAuctionTx] [GoFixed 32]"

definition dv_IAuctionEntryPoint_GetNoncesAndDeposits :: method_binding where
  "dv_IAuctionEntryPoint_GetNoncesAndDeposits = caller ''GetNoncesAndDeposits'' ''getNoncesAndDeposits'' [GoSlice GoAddress] [GoSlice GoBigInt, GoSlice GoBigInt]"

definition dv_IAuctionEntryPoint_Call :: method_binding where
  "dv_IAuctionEntryPoint_Call = transactor ''Call'' ''call'' [dv_IAuctionEntryPointAuctionTx]"

definition dv_IAuctionEntryPoint_ChangeAuctioneer :: method_binding where
  "dv_IAuctionEntryPoint_ChangeAuctioneer = transactor ''ChangeAuctioneer'' ''changeAuctioneer'' [GoAddress]"

definition dv_IAuctionEntryPoint_ChangeDepositVault :: method_binding where
  "dv_IAuctionEntryPoint_ChangeDepositVault = transactor ''ChangeDepositVault'' ''changeDepositVault'' [GoAddress]"

definition dv_IAuctionEntryPoint_ChangeGasParameters :: method_binding where
  "dv_IAuctionEntryPoint_ChangeGasParameters = transactor ''ChangeGasParameters'' ''changeGasParameters'' [GoBigInt, GoBigInt, GoBigInt, GoBigInt, GoBigInt]"

definition dv_IAuctionEntryPoint_Call_event :: event_binding where
  "dv_IAuctionEntryPoint_Call_event = event_binding ''Call'' ''Call''
     []
     [(''Sender'', GoAddress), (''Nonce'', GoBigInt)] True"

definition dv_IAuctionEntryPoint_CallFailed_event :: event_binding where
  "dv_IAuctionEntryPoint_CallFailed_event = event_binding ''CallFailed'' ''CallFailed''
     []
     [(''Sender'', GoAddress), (''Nonce'', GoBigInt)] True"

definition dv_IAuctionEntryPoint_ChangeAuctioneer_event :: event_binding where
  "dv_IAuctionEntryPoint_ChangeAuctioneer_event = event_binding ''ChangeAuctioneer'' ''ChangeAuctioneer''
     []
     [(''OldAuctioneer'', GoAddress), (''NewAuctioneer'', GoAddress)] True"

definition dv_IAuctionEntryPoint_ChangeDepositVault_event :: event_binding where
  "dv_IAuctionEntryPoint_ChangeDepositVault_event = event_binding ''ChangeDepositVault'' ''ChangeDepositVault''
     []
     [(''OldDepositVault'', GoAddress), (''NewDepositVault'', GoAddress)] True"

definition dv_IAuctionEntryPoint_ChangeGasParameters_event :: event_binding where
  "dv_IAuctionEntryPoint_ChangeGasParameters_event = event_binding ''ChangeGasParameters'' ''ChangeGasParameters''
     []
     [(''GasPerByteIntrinsic'', GoBigInt), (''GasPerByteEip7623'', GoBigInt), (''GasContractExecution'',
        GoBigInt), (''GasBufferEstimate'', GoBigInt), (''GasBufferUnmeasured'', GoBigInt)] True"

definition dv_IAuctionEntryPoint_UseNonce_event :: event_binding where
  "dv_IAuctionEntryPoint_UseNonce_event = event_binding ''UseNonce'' ''UseNonce''
     []
     [(''Searcher'', GoAddress), (''Nonce'', GoBigInt)] True"

definition dv_IAuctionEntryPoint_binding :: binding where
  "dv_IAuctionEntryPoint_binding = \<lparr>bd_abi = BundledABI ''auctionDepositVault'' ''IAuctionEntryPoint'', bd_code = NoByteCode, bd_ctor = [],
     bd_methods = [dv_IAuctionEntryPoint_Auctioneer, dv_IAuctionEntryPoint_DepositVault,
       dv_IAuctionEntryPoint_GasBufferEstimate, dv_IAuctionEntryPoint_GasBufferUnmeasured,
       dv_IAuctionEntryPoint_GasContractExecution, dv_IAuctionEntryPoint_GasPerByteEip7623,
       dv_IAuctionEntryPoint_GasPerByteIntrinsic, dv_IAuctionEntryPoint_GetAuctionTxHash,
       dv_IAuctionEntryPoint_GetNoncesAndDeposits, dv_IAuctionEntryPoint_Call,
       dv_IAuctionEntryPoint_ChangeAuctioneer, dv_IAuctionEntryPoint_ChangeDepositVault,
       dv_IAuctionEntryPoint_ChangeGasParameters],
     bd_events = [dv_IAuctionEntryPoint_Call_event, dv_IAuctionEntryPoint_CallFailed_event,
       dv_IAuctionEntryPoint_ChangeAuctioneer_event, dv_IAuctionEntryPoint_ChangeDepositVault_event,
       dv_IAuctionEntryPoint_ChangeGasParameters_event, dv_IAuctionEntryPoint_UseNonce_event]\<rparr>"

definition dv_IAuctionFeeVault_GetRewardAddr :: method_binding where
  "dv_IAuctionFeeVault_GetRewardAddr = caller ''GetRewardAddr'' ''getRewardAddr'' [GoAddress] [GoAddress]"

definition dv_IAuctionFeeVault_RegisterRewardAddress :: method_binding where
  "dv_IAuctionFeeVault_RegisterRewardAddress = transactor ''RegisterRewardAddress'' ''registerRewardAddress'' [GoAddress, GoAddress]"

definition dv_IAuctionFeeVault_RegisterRewardAddresses :: method_binding where
  "dv_IAuctionFeeVault_RegisterRewardAddresses = transactor ''RegisterRewardAddresses'' ''registerRewardAddresses'' [GoSlice GoAddress, GoSlice GoAddress]"

definition dv_IAuctionFeeVault_SetSearcherPaybackRate :: method_binding where
  "dv_IAuctionFeeVault_SetSearcherPaybackRate = transactor ''SetSearcherPaybackRate'' ''setSearcherPaybackRate'' [GoBigInt]"

definition dv_IAuctionFeeVault_SetValidatorPaybackRate :: method_binding where
  "dv_IAuctionFeeVault_SetValidatorPaybackRate = transactor ''SetValidatorPaybackRate'' ''setValidatorPaybackRate'' [GoBigInt]"

definition dv_IAuctionFeeVault_TakeBid :: method_binding where
  "dv_IAuctionFeeVault_TakeBid = transactor ''TakeBid'' ''takeBid'' [GoAddress]"

definition dv_IAuctionFeeVault_Withdraw :: method_binding where
  "dv_IAuctionFeeVault_Withdraw = transactor ''Withdraw'' ''withdraw'' [GoAddress]"

definition dv_IAuctionFeeVault_FeeDeposit_event :: event_binding where
  "dv_IAuctionFeeVault_FeeDeposit_event = event_binding ''FeeDeposit'' ''FeeDeposit''
     [(''sender'', GoAddress)]
     [(''Sender'', GoAddress), (''Amount'', GoBigInt), (''PaybackAmount'', GoBigInt),
        (''ValidatorPaybackAmount'', GoBigInt)] True"

definition dv_IAuctionFeeVault_FeePaybackFailed_event :: event_binding where
  "dv_IAuctionFeeVault_FeePaybackFailed_event = event_binding ''FeePaybackFailed'' ''FeePaybackFailed''
     [(''receiver'', GoAddress)]
     [(''Receiver'', GoAddress), (''Amount'', GoBigInt)] True"

definition dv_IAuctionFeeVault_FeeWithdrawal_event :: event_binding where
  "dv_IAuctionFeeVault_FeeWithdrawal_event = event_binding ''FeeWithdrawal'' ''FeeWithdrawal''
     []
     [(''Amount'', GoBigInt)] True"

definition dv_IAuctionFeeVault_RewardAddressRegistered_event :: event_binding where
  "dv_IAuctionFeeVault_RewardAddressRegistered_event = event_binding ''RewardAddressRegistered'' ''RewardAddressRegistered''
     [(''nodeId'', GoAddress), (''reward'', GoAddress)]
     [(''NodeId'', GoAddress), (''Reward'', GoAddress)] True"

definition dv_IAuctionFeeVault_SearcherPaybackRateUpdated_event :: event_binding where
  "dv_IAuctionFeeVault_SearcherPaybackRateUpdated_event = event_binding ''SearcherPaybackRateUpdated'' ''SearcherPaybackRateUpdated''
     []
     [(''SearcherPaybackRate'', GoBigInt)] True"

definition dv_IAuctionFeeVault_ValidatorPaybackRateUpdated_event :: event_binding where
  "dv_IAuctionFeeVault_ValidatorPaybackRateUpdated_event = event_binding ''ValidatorPaybackRateUpdated'' ''ValidatorPaybackRateUpdated''
     []
     [(''ValidatorPaybackRate'', GoBigInt)] True"

definition dv_IAuctionFeeVault_binding :: binding where
  "dv_IAuctionFeeVault_binding = \<lparr>bd_abi = BundledABI ''auctionDepositVault'' ''IAuctionFeeVault'', bd_code = NoByteCode, bd_ctor = [],
     bd_methods = [dv_IAuctionFeeVault_GetRewardAddr, dv_IAuctionFeeVault_RegisterRewardAddress,
       dv_IAuctionFeeVault_RegisterRewardAddresses, dv_IAuctionFeeVault_SetSearcherPaybackRate,
       dv_IAuctionFeeVault_SetValidatorPaybackRate, dv_IAuctionFeeVault_TakeBid,
       dv_IAuctionFeeVault_Withdraw],
     bd_events = [dv_IAuctionFeeVault_FeeDeposit_event, dv_IAuctionFeeVault_FeePaybackFailed_event,
       dv_IAuctionFeeVault_FeeWithdrawal_event, dv_IAuctionFeeVault_RewardAddressRegistered_event,
       dv_IAuctionFeeVault_SearcherPaybackRateUpdated_event,
       dv_IAuctionFeeVault_ValidatorPaybackRateUpdated_event]\<rparr>"

definition dv_INonce_Nonces :: method_binding where
  "dv_INonce_Nonces = caller ''Nonces'' ''nonces'' [GoAddress] [GoBigInt]"

definition dv_INonce_binding :: binding where
  "dv_INonce_binding = \<lparr>bd_abi = BundledABI ''auctionDepositVault'' ''INonce'', bd_code = NoByteCode, bd_ctor = [],
     bd_methods = [dv_INonce_Nonces],
     bd_events = []\<rparr>"

definition dv_IRegistry_GetActiveAddr :: method_binding where
  "dv_IRegistry_GetActiveAddr = caller ''GetActiveAddr'' ''getActiveAddr'' [GoString] [GoAddress]"

definition dv_IRegistry_binding :: binding where
  "dv_IRegistry_binding = \<lparr>bd_abi = BundledABI ''auctionDepositVault'' ''IRegistry'', bd_code = NoByteCode, bd_ctor = [],
     bd_methods = [dv_IRegistry_GetActiveAddr],
     bd_events = []\<rparr>"

definition dv_Ownable_Owner :: method_binding where
  "dv_Ownable_Owner = caller ''Owner'' ''owner'' [] [GoAddress]"

definition dv_Ownable_RenounceOwnership :: method_binding where
  "dv_Ownable_RenounceOwnership = transactor ''RenounceOwnership'' ''renounceOwnership'' []"

definition dv_Ownable_TransferOwnership :: method_binding where
  "dv_Ownable_TransferOwnership = transactor ''TransferOwnership'' ''transferOwnership'' [GoAddress]"

definition dv_Ownable_OwnershipTransferred_event :: event_binding where
  "dv_Ownable_OwnershipTransferred_event = event_binding ''OwnershipTransferred'' ''OwnershipTransferred''
     [(''previousOwner'', GoAddress), (''newOwner'', GoAddress)]
     [(''PreviousOwner'', GoAddress), (''NewOwner'', GoAddress)] True"

definition dv_Ownable_binding :: binding where
  "dv_Ownable_binding = \<lparr>bd_abi = BundledABI ''auctionDepositVault'' ''Ownable'', bd_code = NoByteCode, bd_ctor = [],
     bd_methods = [dv_Ownable_Owner, dv_Ownable_RenounceOwnership, dv_Ownable_TransferOwnership],
     bd_events = [dv_Ownable_OwnershipTransferred_event]\<rparr>"

section \<open>auctionFeeVault\<close>

definition fv_AuctionError_binding :: binding where
  "fv_AuctionError_binding = \<lparr>bd_abi = BundledABI ''auctionFeeVault'' ''AuctionError'', bd_code = BundledBin ''auctionFeeVault'' ''AuctionError'', bd_ctor = [],
     bd_methods = [],
     bd_events = []\<rparr>"

definition fv_Context_binding :: binding where
  "fv_Context_binding = \<lparr>bd_abi = BundledABI ''auctionFeeVault'' ''Context'', bd_code = NoByteCode, bd_ctor = [],
     bd_methods = [],
     bd_events = []\<rparr>"

definition fv_EnumerableSet_binding :: binding where
  "fv_EnumerableSet_binding = \<lparr>bd_abi = BundledABI ''auctionFeeVault'' ''EnumerableSet'', bd_code = BundledBin ''auctionFeeVault'' ''EnumerableSet'', bd_ctor = [],
     bd_methods = [],
     bd_events = []\<rparr>"

definition fv_IAddressBook_GetCnInfo :: method_binding where
  "fv_IAddressBook_GetCnInfo = caller ''GetCnInfo'' ''getCnInfo'' [GoAddress] [GoAddress, GoAddress, GoAddress]"

definition fv_IAddressBook_binding :: binding where
  "fv_IAddressBook_binding = \<lparr>bd_abi = BundledABI ''auctionFeeVault'' ''IAddressBook'', bd_code = NoByteCode, bd_ctor = [],
     bd_methods = [fv_IAddressBook_GetCnInfo],
     bd_events = []\<rparr>"

definition fv_IAuctionFeeVault_GetRewardAddr :: method_binding where
  "fv_IAuctionFeeVault_GetRewardAddr = caller ''GetRewardAddr'' ''getRewardAddr'' [GoAddress] [GoAddress]"

definition fv_IAuctionFeeVault_RegisterRewardAddress :: method_binding where
  "fv_IAuctionFeeVault_RegisterRewardAddress = transactor ''RegisterRewardAddress'' ''registerRewardAddress'' [GoAddress, GoAddress]"

definition fv_IAuctionFeeVault_RegisterRewardAddresses :: method_binding where
  "fv_IAuctionFeeVault_RegisterRewardAddresses = transactor ''RegisterRewardAddresses'' ''registerRewardAddresses'' [GoSlice GoAddress, GoSlice GoAddress]"

definition fv_IAuctionFeeVault_SetSearcherPaybackRate :: method_binding where
  "fv_IAuctionFeeVault_SetSearcherPaybackRate = transactor ''SetSearcherPaybackRate'' ''setSearcherPaybackRate'' [GoBigInt]"

definition fv_IAuctionFeeVault_SetValidatorPaybackRate :: method_binding where
  "fv_IAuctionFeeVault_SetValidatorPaybackRate = transactor ''SetValidatorPaybackRate'' ''setValidatorPaybackRate'' [GoBigInt]"

definition fv_IAuctionFeeVault_TakeBid :: method_binding where
  "fv_IAuctionFeeVault_TakeBid = transactor ''TakeBid'' ''takeBid'' [GoAddress]"

definition fv_IAuctionFeeVault_Withdraw :: method_binding where
  "fv_IAuctionFeeVault_Withdraw = transactor ''Withdraw'' ''withdraw'' [GoAddress]"

definition fv_IAuctionFeeVault_FeeDeposit_event :: event_binding where
  "fv_IAuctionFeeVault_FeeDeposit_event = event_binding ''FeeDeposit'' ''FeeDeposit''
     [(''sender'', GoAddress)]
     [(''Sender'', GoAddress), (''Amount'', GoBigInt), (''PaybackAmount'', GoBigInt),
        (''ValidatorPaybackAmount'', GoBigInt)] True"

definition fv_IAuctionFeeVault_FeePaybackFailed_event :: event_binding where
  "fv_IAuctionFeeVault_FeePaybackFailed_event = event_binding ''FeePaybackFailed'' ''FeePaybackFailed''
     [(''receiver'', GoAddress)]
     [(''Receiver'', GoAddress), (''Amount'', GoBigInt)] True"

definition fv_IAuctionFeeVault_FeeWithdrawal_event :: event_binding where
  "fv_IAuctionFeeVault_FeeWithdrawal_event = event_binding ''FeeWithdrawal'' ''FeeWithdrawal''
     []
     [(''Amount'', GoBigInt)] True"

definition fv_IAuctionFeeVault_RewardAddressRegistered_event :: event_binding where
  "fv_IAuctionFeeVault_RewardAddressRegistered_event = event_binding ''RewardAddressRegistered'' ''RewardAddressRegistered''
     [(''nodeId'', GoAddress), (''reward'', GoAddress)]
     [(''NodeId'', GoAddress), (''Reward'', GoAddress)] True"

definition fv_IAuctionFeeVault_SearcherPaybackRateUpdated_event :: event_binding where
  "fv_IAuctionFeeVault_SearcherPaybackRateUpdated_event = event_binding ''SearcherPaybackRateUpdated'' ''SearcherPaybackRateUpdated''
     []
     [(''SearcherPaybackRate'', GoBigInt)] True"

definition fv_IAuctionFeeVault_ValidatorPaybackRateUpdated_event :: event_binding where
  "fv_IAuctionFeeVault_ValidatorPaybackRateUpdated_event = event_binding ''ValidatorPaybackRateUpdated'' ''ValidatorPaybackRateUpdated''
     []
     [(''ValidatorPaybackRate'', GoBigInt)] True"

definition fv_IAuctionFeeVault_binding :: binding where
  "fv_IAuctionFeeVault_binding = \<lparr>bd_abi = BundledABI ''auctionFeeVault'' ''IAuctionFeeVault'', bd_code = NoByteCode, bd_ctor = [],
     bd_methods = [fv_IAuctionFeeVault_GetRewardAddr, fv_IAuctionFeeVault_RegisterRewardAddress,
       fv_IAuctionFeeVault_RegisterRewardAddresses, fv_IAuctionFeeVault_SetSearcherPaybackRate,
       fv_IAuctionFeeVault_SetValidatorPaybackRate, fv_IAuctionFeeVault_TakeBid,
       fv_IAuctionFeeVault_Withdraw],
     bd_events = [fv_IAuctionFeeVault_FeeDeposit_event, fv_IAuctionFeeVault_FeePaybackFailed_event,
       fv_IAuctionFeeVault_FeeWithdrawal_event, fv_IAuctionFeeVault_RewardAddressRegistered_event,
       fv_IAuctionFeeVault_SearcherPaybackRateUpdated_event,
       fv_IAuctionFeeVault_ValidatorPaybackRateUpdated_event]\<rparr>"

definition fv_IStaking_IsAdmin :: method_binding where
  "fv_IStaking_IsAdmin = caller ''IsAdmin'' ''isAdmin'' [GoAddress] [GoBool]"

definition fv_IStaking_binding :: binding where
  "fv_IStaking_binding = \<lparr>bd_abi = BundledABI ''auctionFeeVault'' ''IStaking'', bd_code = NoByteCode, bd_ctor = [],
     bd_methods = [fv_IStaking_IsAdmin],
     bd_events = []\<rparr>"

definition fv_Ownable_Owner :: method_binding where
  "fv_Ownable_Owner = caller ''Owner'' ''owner'' [] [GoAddress]"

definition fv_Ownable_RenounceOwnership :: method_binding where
  "fv_Ownable_RenounceOwnership = transactor ''RenounceOwnership'' ''renounceOwnership'' []"

definition fv_Ownable_TransferOwnership :: method_binding where
  "fv_Ownable_TransferOwnership = transactor ''TransferOwnership'' ''transferOwnership'' [GoAddress]"

definition fv_Ownable_OwnershipTransferred_event :: event_binding where
  "fv_Ownable_OwnershipTransferred_event = event_binding ''OwnershipTransferred'' ''OwnershipTransferred''
     [(''previousOwner'', GoAddress), (''newOwner'', GoAddress)]
     [(''PreviousOwner'', GoAddress), (''NewOwner'', GoAddress)] True"

definition fv_Ownable_binding :: binding where
  "fv_Ownable_binding = \<lparr>bd_abi = BundledABI ''auctionFeeVault'' ''Ownable'', bd_code = NoByteCode, bd_ctor = [],
     bd_methods = [fv_Ownable_Owner, fv_Ownable_RenounceOwnership, fv_Ownable_TransferOwnership],
     bd_events = [fv_Ownable_OwnershipTransferred_event]\<rparr>"

definition bundled_bindings :: "binding list" where
  "bundled_bindings = [ep_AuctionError_binding, ep_Context_binding, ep_ECDSA_binding, ep_EIP712_binding,
      ep_IAuctionDepositVault_binding, ep_IAuctionEntryPoint_binding, ep_IERC5267_binding, ep_Math_binding,
      ep_MessageHashUtils_binding, ep_Nonces_binding, ep_Ownable_binding, ep_ShortStrings_binding,
      ep_SignedMath_binding, ep_StorageSlot_binding, ep_Strings_binding, dv_AuctionError_binding,
      dv_Context_binding, dv_EnumerableSet_binding, dv_IAuctionDepositVault_binding,
      dv_IAuctionEntryPoint_binding, dv_IAuctionFeeVault_binding, dv_INonce_binding, dv_IRegistry_binding,
      dv_Ownable_binding, fv_AuctionError_binding, fv_Context_binding, fv_EnumerableSet_binding,
      fv_IAddressBook_binding, fv_IAuctionFeeVault_binding, fv_IStaking_binding, fv_Ownable_binding]"

definition bundled_sigs :: "((string \<times> string) list \<times> abi_entry list) list" where
  "bundled_sigs = [(ep_EIP712_Sigs, ep_EIP712_json),
      (ep_IAuctionDepositVault_Sigs, ep_IAuctionDepositVault_json),
      (ep_IAuctionEntryPoint_Sigs, ep_IAuctionEntryPoint_json), (ep_IERC5267_Sigs, ep_IERC5267_json),
      (ep_Nonces_Sigs, ep_Nonces_json), (ep_Ownable_Sigs, ep_Ownable_json),
      (dv_IAuctionDepositVault_Sigs, dv_IAuctionDepositVault_json),
      (dv_IAuctionEntryPoint_Sigs, dv_IAuctionEntryPoint_json),
      (dv_IAuctionFeeVault_Sigs, dv_IAuctionFeeVault_json), (dv_INonce_Sigs, dv_INonce_json),
      (dv_IRegistry_Sigs, dv_IRegistry_json), (dv_Ownable_Sigs, dv_Ownable_json),
      (fv_IAddressBook_Sigs, fv_IAddressBook_json), (fv_IAuctionFeeVault_Sigs, fv_IAuctionFeeVault_json),
      (fv_IStaking_Sigs, fv_IStaking_json), (fv_Ownable_Sigs, fv_Ownable_json)]"

end
