(* ===== verification/Call_Data.thy ===== *)
theory Call_Data
  imports Contract_Info Binding_Tables Bundled_Bindings "HOL-Library.Sublist"
begin

text \<open>
  The calls that the contract table packs, checked against the ABI texts: against the text that the program
  packs with, and against the text of the contract that it deploys. The lemmas carry the properties that no
  ABI error ends the process and that the deployed contracts have the functions called.
\<close>

section \<open>The deployed contracts\<close>

text \<open>
  The byte codes of \<open>CPUHeavy\<close>, \<open>LargeMemo\<close>, \<open>ReadApiCallContract\<close>, \<open>UserStorage\<close> and the two internal-transaction
  contracts in \<open>contract.go\<close> are, character for character, the \<open>Bin\<close> texts of the generated files, so the
  ABI that was compiled with them is the one of that file. The program packs calls of these contracts with
  shorter texts of its own.
\<close>

definition compiled :: "abi_id \<Rightarrow> abi_id" where
  "compiled i = (case i of
     cpuHeavySortABI \<Rightarrow> CpuHeavyTCABI | largeMemoABI \<Rightarrow> LargeMemoTCABI
   | readApiGetABI \<Rightarrow> ReadApiCallContractTCABI | readApiSetABI \<Rightarrow> ReadApiCallContractTCABI
   | userStorageGetABI \<Rightarrow> UserStorageTCABI | userStorageSetABI \<Rightarrow> UserStorageTCABI
   | userStorageGetUserDataABI \<Rightarrow> UserStorageTCABI | mintCardABI \<Rightarrow> internalTxKIP17TokenContractABI
   | sendRewardsABI \<Rightarrow> internalTxContractABI | internalTxMainConstructorABI \<Rightarrow> internalTxContractABI
   | _ \<Rightarrow> i)"

definition deployed_text :: "(abi_id \<Rightarrow> abi_entry list) \<Rightarrow> abi_id \<Rightarrow> abi_entry list" where
  "deployed_text kaiaABI i = text_of kaiaABI (compiled i)"

text \<open>The constructors of the kaia module's contracts that the program deploys, as its documentation has them.\<close>

definition kaia_constructors :: "(abi_id \<Rightarrow> abi_entry list) \<Rightarrow> bool" where
  "kaia_constructors kaiaABI \<longleftrightarrow>
     constructor_inputs (kaiaABI TestTokenABI) = [TyAddress] \<and>
     constructor_inputs (kaiaABI UniswapV2FactoryABI) = [TyAddress] \<and>
     constructor_inputs (kaiaABI UniswapV2Router02ABI) = [TyAddress, TyAddress] \<and>
     constructor_inputs (kaiaABI GaslessSwapRouterABI) = [TyAddress]"

section \<open>The parameters of each call\<close>

named_theorems call_types

lemma erc20_calls [call_types]:
  "call_inputs erc20ABI_json ''mint'' = Some [TyAddress, TyUint 256]"
  "call_inputs erc20ABI_json ''transfer'' = Some [TyAddress, TyUint 256]"
  by code_simp+

lemma erc721_calls [call_types]:
  "call_inputs erc721PerformanceABI_json ''transferFrom'' = Some [TyAddress, TyAddress, TyUint 256]"
  "call_inputs erc721PerformanceABI_json ''registerBulk'' = Some [TyAddress, TyUint 256, TyUint 256]"
  by code_simp+

lemma general_calls [call_types]:
  "call_inputs generalPurposeABI_json ''reward'' = Some [TyAddress]"
  "call_inputs storageTrieABI_json ''insertIdentity'' = Some [TyString, TyString, TyString]"
  by code_simp+

lemma gasless_calls [call_types]:
  "call_inputs gaslessApproveABI_json ''approve'' = Some [TyAddress, TyUint 256]"
  "call_inputs gaslessSwapABI_json ''swapForGas'' =
     Some [TyAddress, TyUint 256, TyUint 256, TyUint 256, TyUint 256]"
  by code_simp+

lemma counter_calls [call_types]:
  "call_inputs counterAuctionABI_json ''incForAuction'' = Some []"
  "call_inputs counterAuctionABI_json ''incForSC'' = Some []"
  "call_inputs counterAuctionABI_json ''intendedRevert'' = Some []"
  by code_simp+

lemma own_calls [call_types]:
  "call_inputs cpuHeavySortABI_json ''sort'' = Some [TyUint 256, TyUint 256]"
  "call_inputs largeMemoABI_json ''setName'' = Some [TyString]"
  "call_inputs readApiGetABI_json ''get'' = Some []"
  "call_inputs readApiSetABI_json ''set'' = Some []"
  "call_inputs userStorageGetABI_json ''get'' = Some []"
  "call_inputs userStorageSetABI_json ''set'' = Some [TyUint 256]"
  "call_inputs userStorageGetUserDataABI_json ''getUserData'' = Some [TyAddress]"
  "call_inputs mintCardABI_json ''mintCard'' = Some []"
  "call_inputs sendRewardsABI_json ''sendRewards'' = Some [TyAddress, TyAddress]"
  "call_inputs internalTxMainConstructorABI_json [] = Some [TyAddress, TyUint 256, TyUint 256]"
  by code_simp+

lemma deployed_calls [call_types]:
  "call_inputs CpuHeavyTCABI_json ''sort'' = Some [TyUint 256, TyUint 256]"
  "call_inputs LargeMemoTCABI_json ''setName'' = Some [TyString]"
  "call_inputs ReadApiCallContractTCABI_json ''get'' = Some []"
  "call_inputs ReadApiCallContractTCABI_json ''set'' = Some []"
  "call_inputs UserStorageTCABI_json ''get'' = Some []"
  "call_inputs UserStorageTCABI_json ''set'' = Some [TyUint 256]"
  "call_inputs UserStorageTCABI_json ''getUserData'' = Some [TyAddress]"
  "call_inputs internalTxKIP17TokenContractABI_json ''mintCard'' = Some []"
  "call_inputs internalTxContractABI_json ''sendRewards'' = Some [TyAddress, TyAddress]"
  "call_inputs internalTxContractABI_json [] = Some [TyAddress, TyUint 256, TyUint 256]"
  by code_simp+

lemma auction_calls [call_types]:
  "call_inputs AuctionFeeVaultABI_json [] = Some [TyAddress, TyUint 256, TyUint 256]"
  "call_inputs AuctionDepositVaultABI_json [] = Some [TyAddress, TyAddress]"
  "call_inputs AuctionDepositVaultABI_json ''depositFor'' = Some [TyAddress]"
  "call_inputs AuctionEntryPointABI_json [] = Some [TyAddress, TyAddress, TyAddress]"
  by code_simp+

lemma tether_calls [call_types]:
  "call_inputs TetherContractTCABI_json ''transfer'' = Some [TyAddress, TyUint 256]"
  "call_inputs TetherContractTCABI_json ''initialize'' = Some [TyString, TyString, TyUint 8]"
  "call_inputs TetherContractTCABI_json ''mint'' = Some [TyAddress, TyUint 256]"
  "call_inputs TetherProxyABI_json [] = Some [TyAddress, TyAddress, TyBytes]"
  by code_simp+

lemma kaia_calls [call_types]:
  assumes "kaia_constructors kaiaABI"
  shows "call_inputs (kaiaABI TestTokenABI) [] = Some [TyAddress]"
    and "call_inputs (kaiaABI UniswapV2FactoryABI) [] = Some [TyAddress]"
    and "call_inputs (kaiaABI UniswapV2Router02ABI) [] = Some [TyAddress, TyAddress]"
    and "call_inputs (kaiaABI GaslessSwapRouterABI) [] = Some [TyAddress]"
  using assms by (simp_all add: kaia_constructors_def call_inputs_def)

text \<open>The two readings of a text: what the program packs with, and what the contract was compiled with.\<close>

definition reading :: "(abi_id \<Rightarrow> abi_entry list) \<Rightarrow> (abi_id \<Rightarrow> abi_entry list) \<Rightarrow> bool" where
  "reading kaiaABI texts \<longleftrightarrow> texts = text_of kaiaABI \<or> texts = deployed_text kaiaABI"

lemmas reading_defs = well_typed_def text_of_def deployed_text_def compiled_def abi_text_def

section \<open>Packing\<close>

text \<open>A call that is well typed in both readings is packed.\<close>

lemma pack_ok:
  assumes "abi_accepts texts B" and "reading kaiaABI texts"
    and "well_typed (text_of kaiaABI) i m args" and "well_typed (deployed_text kaiaABI) i m args"
  shows "\<exists>d. PackContractCall B i m args = Ret d" and "\<exists>d. pack_fatal B i e1 e2 m args = Ret d"
proof -
  have w: "well_typed texts i m args" using assms(2-4) by (auto simp: reading_def)
  from PackContractCall_accepts [OF assms(1) w] show "\<exists>d. PackContractCall B i m args = Ret d" .
  from abi_acceptsD(2) [OF assms(1) w] show "\<exists>d. pack_fatal B i e1 e2 m args = Ret d"
    by (auto simp: pack_fatal_def abi_acceptsD(1) [OF assms(1)])
qed

lemma pack_not_Exit:
  assumes "abi_accepts texts B" and "reading kaiaABI texts"
    and "well_typed (text_of kaiaABI) i m args" and "well_typed (deployed_text kaiaABI) i m args"
  shows "PackContractCall B i m args = Exit e \<longleftrightarrow> False" and "PackContractCall B i m args = Panic e \<longleftrightarrow> False"
    and "pack_fatal B i e1 e2 m args = Block \<longleftrightarrow> False"
    and "pack_fatal B i e1 e2 m args = Exit e \<longleftrightarrow> False" and "pack_fatal B i e1 e2 m args = Panic e \<longleftrightarrow> False"
  using pack_ok(1) [OF assms] pack_ok(2) [OF assms, of e1 e2] by auto

text \<open>
  What \<open>GenData\<close> of an entry returns: data, except that there is none, that it dereferences a nil value, or
  that the counter is asked for an unknown method.
\<close>

definition gen_result_ok :: "('tx, 'w) env \<Rightarrow> TestContract \<Rightarrow> int option \<Rightarrow> bytes outcome \<Rightarrow> bool" where
  "gen_result_ok E t v r = (case r of
     Ret d \<Rightarrow> True
   | Panic m \<Rightarrow> GenData (info_of E t) = None \<or> v = None
   | Exit m \<Rightarrow> t = ContractCounterForTestAuction \<and> m = ''unknown method number'' \<and>
       (\<exists>x. v = Some x \<and> Int64 x \<notin> {0, 1, 2})
   | Block \<Rightarrow> False)"

lemma gen_data_result:
  assumes "abi_accepts texts (e_abi E)" and "reading kaiaABI texts"
  shows "gen_result_ok E t v (fst (gen_data E t a v w))"
  by (cases t)
    (auto simp: gen_result_ok_def gen_data_def contract_info_defs pure_gen_def nil_panic_def Let_def Int64_def
      pack_not_Exit [OF assms] reading_defs call_types split: option.splits prod.splits outcome.splits)

lemma map_outcome_ret_Exit: "map_outcome_ret f r = Exit m \<longleftrightarrow> r = Exit m"
  by (cases r) auto

lemma constructor_result:
  assumes "abi_accepts texts (e_abi E)" and "reading kaiaABI texts" and "kaia_constructors kaiaABI"
  shows "GetBytecodeWithConstructorParam (info_of E t) bin cs d \<noteq> Exit m"
  by (cases t)
    (auto simp: contract_info_defs returnBinAsIs_def append_packed_def contract_addr_def nil_panic_def
      map_outcome_ret_Exit pack_not_Exit [OF assms(1,2)] reading_defs call_types kaia_calls [OF assms(3)]
      split: option.splits prod.splits outcome.splits)

text \<open>
  The calls packed outside the table: the transfers, mints and registrations of the charging work, and those of
  the storage, ERC-721 and general-purpose tests.
\<close>

definition other_calls :: "addr \<Rightarrow> addr \<Rightarrow> int \<Rightarrow> string \<Rightarrow> (abi_id \<times> string \<times> abi_arg list) list" where
  "other_calls a b x t =
     [(erc20ABI, ''transfer'', [ArgAddress a, ArgUint x]), (erc20ABI, ''mint'', [ArgAddress a, ArgUint x]),
      (erc721PerformanceABI, ''registerBulk'', [ArgAddress a, ArgUint x, ArgUint x]),
      (erc721PerformanceABI, ''transferFrom'', [ArgAddress a, ArgAddress b, ArgUint x]),
      (AuctionDepositVaultABI, ''depositFor'', [ArgAddress a]),
      (TetherContractTCABI, ''mint'', [ArgAddress a, ArgUint x]),
      (generalPurposeABI, ''reward'', [ArgAddress a]),
      (storageTrieABI, ''insertIdentity'', [ArgString t, ArgString t, ArgString t])]"

lemma other_calls_typed:
  assumes "abi_accepts texts B" and "reading kaiaABI texts" and "(i, m, args) \<in> set (other_calls a b x t)"
  shows "\<exists>d. PackContractCall B i m args = Ret d"
  using assms(3)
  by (intro pack_ok(1) [OF assms(1,2)]) (auto simp: other_calls_def reading_defs call_types)

section \<open>The bindings of the program\<close>

definition all_bindings :: "binding list" where
  "all_bindings = [CpuHeavyTC_binding, UserStorageTC_binding, LargeMemoTC_binding, ReadApiCallContractTC_binding,
     TetherContractTC_binding, TetherProxy_binding, AuctionEntryPoint_binding, AuctionDepositVault_binding,
     AuctionFeeVault_binding] @ bundled_bindings"

definition text_matches :: "binding \<Rightarrow> bool" where
  "text_matches b = (case abi_text (bd_abi b) of None \<Rightarrow> False | Some es \<Rightarrow> binding_matches es b)"

fun function_names :: "abi_entry list \<Rightarrow> string list" where
  "function_names [] = []"
| "function_names (AbiFunction n ins outs mt # es) = n # function_names es"
| "function_names (_ # es) = function_names es"

definition names_distinct :: "binding \<Rightarrow> bool" where
  "names_distinct b = (case abi_text (bd_abi b) of None \<Rightarrow> False | Some es \<Rightarrow> distinct (function_names es))"

text \<open>Two bindings of one type in different files: the same text, methods and events.\<close>

definition same_type :: "binding \<times> binding \<Rightarrow> bool" where
  "same_type p = (case p of (b, c) \<Rightarrow> abi_text (bd_abi b) = abi_text (bd_abi c) \<and> bd_ctor b = bd_ctor c \<and>
     bd_methods b = bd_methods c \<and> bd_events b = bd_events c)"

definition bound_twice :: "(binding \<times> binding) list" where
  "bound_twice = [(dv_IAuctionEntryPoint_binding, ep_IAuctionEntryPoint_binding),
     (dv_IAuctionDepositVault_binding, ep_IAuctionDepositVault_binding),
     (fv_IAuctionFeeVault_binding, dv_IAuctionFeeVault_binding), (dv_Ownable_binding, ep_Ownable_binding),
     (fv_Ownable_binding, ep_Ownable_binding), (dv_Context_binding, ep_Context_binding),
     (fv_Context_binding, ep_Context_binding), (dv_AuctionError_binding, ep_AuctionError_binding),
     (fv_AuctionError_binding, ep_AuctionError_binding), (fv_EnumerableSet_binding, dv_EnumerableSet_binding)]"

text \<open>The text of each binding.\<close>

lemma texts_of_bindings:
  "abi_text (bd_abi CpuHeavyTC_binding) = Some CpuHeavyTCABI_json"
    "abi_text (bd_abi UserStorageTC_binding) = Some UserStorageTCABI_json"
    "abi_text (bd_abi LargeMemoTC_binding) = Some LargeMemoTCABI_json"
    "abi_text (bd_abi ReadApiCallContractTC_binding) = Some ReadApiCallContractTCABI_json"
    "abi_text (bd_abi TetherContractTC_binding) = Some TetherContractTCABI_json"
    "abi_text (bd_abi TetherProxy_binding) = Some TetherProxyABI_json"
    "abi_text (bd_abi AuctionEntryPoint_binding) = Some AuctionEntryPointABI_json"
    "abi_text (bd_abi AuctionDepositVault_binding) = Some AuctionDepositVaultABI_json"
    "abi_text (bd_abi AuctionFeeVault_binding) = Some AuctionFeeVaultABI_json"
    "abi_text (bd_abi ep_AuctionError_binding) = Some ep_AuctionError_json"
    "abi_text (bd_abi ep_Context_binding) = Some ep_Context_json"
    "abi_text (bd_abi ep_ECDSA_binding) = Some ep_ECDSA_json"
    "abi_text (bd_abi ep_EIP712_binding) = Some ep_EIP712_json"
    "abi_text (bd_abi ep_IAuctionDepositVault_binding) = Some ep_IAuctionDepositVault_json"
    "abi_text (bd_abi ep_IAuctionEntryPoint_binding) = Some ep_IAuctionEntryPoint_json"
    "abi_text (bd_abi ep_IERC5267_binding) = Some ep_IERC5267_json"
    "abi_text (bd_abi ep_Math_binding) = Some ep_Math_json"
    "abi_text (bd_abi ep_MessageHashUtils_binding) = Some ep_MessageHashUtils_json"
    "abi_text (bd_abi ep_Nonces_binding) = Some ep_Nonces_json"
    "abi_text (bd_abi ep_Ownable_binding) = Some ep_Ownable_json"
    "abi_text (bd_abi ep_ShortStrings_binding) = Some ep_ShortStrings_json"
    "abi_text (bd_abi ep_SignedMath_binding) = Some ep_SignedMath_json"
    "abi_text (bd_abi ep_StorageSlot_binding) = Some ep_StorageSlot_json"
    "abi_text (bd_abi ep_Strings_binding) = Some ep_Strings_json"
    "abi_text (bd_abi dv_EnumerableSet_binding) = Some dv_EnumerableSet_json"
    "abi_text (bd_abi dv_IAuctionFeeVault_binding) = Some dv_IAuctionFeeVault_json"
    "abi_text (bd_abi dv_INonce_binding) = Some dv_INonce_json"
    "abi_text (bd_abi dv_IRegistry_binding) = Some dv_IRegistry_json"
    "abi_text (bd_abi fv_IAddressBook_binding) = Some fv_IAddressBook_json"
    "abi_text (bd_abi fv_IStaking_binding) = Some fv_IStaking_json"
    "abi_text (bd_abi dv_IAuctionEntryPoint_binding) = Some dv_IAuctionEntryPoint_json"
    "abi_text (bd_abi dv_IAuctionDepositVault_binding) = Some dv_IAuctionDepositVault_json"
    "abi_text (bd_abi fv_IAuctionFeeVault_binding) = Some fv_IAuctionFeeVault_json"
    "abi_text (bd_abi dv_Ownable_binding) = Some dv_Ownable_json"
    "abi_text (bd_abi fv_Ownable_binding) = Some fv_Ownable_json"
    "abi_text (bd_abi dv_Context_binding) = Some dv_Context_json"
    "abi_text (bd_abi fv_Context_binding) = Some fv_Context_json"
    "abi_text (bd_abi dv_AuctionError_binding) = Some dv_AuctionError_json"
    "abi_text (bd_abi fv_AuctionError_binding) = Some fv_AuctionError_json"
    "abi_text (bd_abi fv_EnumerableSet_binding) = Some fv_EnumerableSet_json"
  by (simp_all add: abi_text_def bundled_texts_def
      CpuHeavyTC_binding_def UserStorageTC_binding_def LargeMemoTC_binding_def
      ReadApiCallContractTC_binding_def TetherContractTC_binding_def TetherProxy_binding_def
      AuctionEntryPoint_binding_def AuctionDepositVault_binding_def AuctionFeeVault_binding_def
      ep_AuctionError_binding_def ep_Context_binding_def ep_ECDSA_binding_def ep_EIP712_binding_def
      ep_IAuctionDepositVault_binding_def ep_IAuctionEntryPoint_binding_def ep_IERC5267_binding_def
      ep_Math_binding_def ep_MessageHashUtils_binding_def ep_Nonces_binding_def ep_Ownable_binding_def
      ep_ShortStrings_binding_def ep_SignedMath_binding_def ep_StorageSlot_binding_def
      ep_Strings_binding_def dv_EnumerableSet_binding_def dv_IAuctionFeeVault_binding_def
      dv_INonce_binding_def dv_IRegistry_binding_def fv_IAddressBook_binding_def fv_IStaking_binding_def
      dv_IAuctionEntryPoint_binding_def dv_IAuctionDepositVault_binding_def
      fv_IAuctionFeeVault_binding_def dv_Ownable_binding_def fv_Ownable_binding_def
      dv_Context_binding_def fv_Context_binding_def dv_AuctionError_binding_def
      fv_AuctionError_binding_def fv_EnumerableSet_binding_def)

lemma same_texts:
  "dv_IAuctionEntryPoint_json = ep_IAuctionEntryPoint_json"
    "dv_IAuctionDepositVault_json = ep_IAuctionDepositVault_json"
    "fv_IAuctionFeeVault_json = dv_IAuctionFeeVault_json" "dv_Ownable_json = ep_Ownable_json"
    "fv_Ownable_json = ep_Ownable_json" "dv_Context_json = ep_Context_json" "fv_Context_json = ep_Context_json"
    "dv_AuctionError_json = ep_AuctionError_json" "fv_AuctionError_json = ep_AuctionError_json"
    "fv_EnumerableSet_json = dv_EnumerableSet_json"
  by (simp_all only:
      dv_IAuctionEntryPoint_json_def ep_IAuctionEntryPoint_json_def dv_IAuctionDepositVault_json_def
      ep_IAuctionDepositVault_json_def fv_IAuctionFeeVault_json_def dv_IAuctionFeeVault_json_def
      dv_Ownable_json_def ep_Ownable_json_def fv_Ownable_json_def dv_Context_json_def ep_Context_json_def
      fv_Context_json_def dv_AuctionError_json_def ep_AuctionError_json_def fv_AuctionError_json_def
      fv_EnumerableSet_json_def dv_EnumerableSet_json_def)

lemma same_tables:
  "bd_methods dv_IAuctionEntryPoint_binding = bd_methods ep_IAuctionEntryPoint_binding"
    "bd_methods dv_IAuctionDepositVault_binding = bd_methods ep_IAuctionDepositVault_binding"
    "bd_methods fv_IAuctionFeeVault_binding = bd_methods dv_IAuctionFeeVault_binding"
    "bd_methods dv_Ownable_binding = bd_methods ep_Ownable_binding"
    "bd_methods fv_Ownable_binding = bd_methods ep_Ownable_binding"
    "bd_methods dv_Context_binding = bd_methods ep_Context_binding"
    "bd_methods fv_Context_binding = bd_methods ep_Context_binding"
    "bd_methods dv_AuctionError_binding = bd_methods ep_AuctionError_binding"
    "bd_methods fv_AuctionError_binding = bd_methods ep_AuctionError_binding"
    "bd_methods fv_EnumerableSet_binding = bd_methods dv_EnumerableSet_binding"
    "bd_events dv_IAuctionEntryPoint_binding = bd_events ep_IAuctionEntryPoint_binding"
    "bd_events dv_IAuctionDepositVault_binding = bd_events ep_IAuctionDepositVault_binding"
    "bd_events fv_IAuctionFeeVault_binding = bd_events dv_IAuctionFeeVault_binding"
    "bd_events dv_Ownable_binding = bd_events ep_Ownable_binding"
    "bd_events fv_Ownable_binding = bd_events ep_Ownable_binding"
    "bd_events dv_Context_binding = bd_events ep_Context_binding"
    "bd_events fv_Context_binding = bd_events ep_Context_binding"
    "bd_events dv_AuctionError_binding = bd_events ep_AuctionError_binding"
    "bd_events fv_AuctionError_binding = bd_events ep_AuctionError_binding"
    "bd_events fv_EnumerableSet_binding = bd_events dv_EnumerableSet_binding"
    "bd_ctor dv_IAuctionEntryPoint_binding = bd_ctor ep_IAuctionEntryPoint_binding"
    "bd_ctor dv_IAuctionDepositVault_binding = bd_ctor ep_IAuctionDepositVault_binding"
    "bd_ctor fv_IAuctionFeeVault_binding = bd_ctor dv_IAuctionFeeVault_binding"
    "bd_ctor dv_Ownable_binding = bd_ctor ep_Ownable_binding"
    "bd_ctor fv_Ownable_binding = bd_ctor ep_Ownable_binding"
    "bd_ctor dv_Context_binding = bd_ctor ep_Context_binding"
    "bd_ctor fv_Context_binding = bd_ctor ep_Context_binding"
    "bd_ctor dv_AuctionError_binding = bd_ctor ep_AuctionError_binding"
    "bd_ctor fv_AuctionError_binding = bd_ctor ep_AuctionError_binding"
    "bd_ctor fv_EnumerableSet_binding = bd_ctor dv_EnumerableSet_binding"
  by code_simp+

lemma bound_twice_same: "list_all same_type bound_twice"
  by (simp add: bound_twice_def same_type_def texts_of_bindings same_texts same_tables)

lemma bound_twice_iff:
  assumes "(b, c) \<in> set bound_twice"
  shows "text_matches b = text_matches c" "names_distinct b = names_distinct c"
  using bound_twice_same assms
  by (auto simp: list_all_iff same_type_def text_matches_def names_distinct_def binding_matches_def split: option.splits)

text \<open>Each type is evaluated once, on its own.\<close>

lemma each_binding_matches:
  "binding_matches CpuHeavyTCABI_json CpuHeavyTC_binding"
    "binding_matches UserStorageTCABI_json UserStorageTC_binding"
    "binding_matches LargeMemoTCABI_json LargeMemoTC_binding"
    "binding_matches ReadApiCallContractTCABI_json ReadApiCallContractTC_binding"
    "binding_matches TetherContractTCABI_json TetherContractTC_binding"
    "binding_matches TetherProxyABI_json TetherProxy_binding"
    "binding_matches AuctionEntryPointABI_json AuctionEntryPoint_binding"
    "binding_matches AuctionDepositVaultABI_json AuctionDepositVault_binding"
    "binding_matches AuctionFeeVaultABI_json AuctionFeeVault_binding"
    "binding_matches ep_AuctionError_json ep_AuctionError_binding"
    "binding_matches ep_Context_json ep_Context_binding" "binding_matches ep_ECDSA_json ep_ECDSA_binding"
    "binding_matches ep_EIP712_json ep_EIP712_binding"
    "binding_matches ep_IAuctionDepositVault_json ep_IAuctionDepositVault_binding"
    "binding_matches ep_IAuctionEntryPoint_json ep_IAuctionEntryPoint_binding"
    "binding_matches ep_IERC5267_json ep_IERC5267_binding" "binding_matches ep_Math_json ep_Math_binding"
    "binding_matches ep_MessageHashUtils_json ep_MessageHashUtils_binding"
    "binding_matches ep_Nonces_json ep_Nonces_binding" "binding_matches ep_Ownable_json ep_Ownable_binding"
    "binding_matches ep_ShortStrings_json ep_ShortStrings_binding"
    "binding_matches ep_SignedMath_json ep_SignedMath_binding"
    "binding_matches ep_StorageSlot_json ep_StorageSlot_binding"
    "binding_matches ep_Strings_json ep_Strings_binding"
    "binding_matches dv_EnumerableSet_json dv_EnumerableSet_binding"
    "binding_matches dv_IAuctionFeeVault_json dv_IAuctionFeeVault_binding"
    "binding_matches dv_INonce_json dv_INonce_binding" "binding_matches dv_IRegistry_json dv_IRegistry_binding"
    "binding_matches fv_IAddressBook_json fv_IAddressBook_binding"
    "binding_matches fv_IStaking_json fv_IStaking_binding"
  by code_simp+

lemma each_text_distinct:
  "distinct (function_names CpuHeavyTCABI_json)" "distinct (function_names UserStorageTCABI_json)"
    "distinct (function_names LargeMemoTCABI_json)" "distinct (function_names ReadApiCallContractTCABI_json)"
    "distinct (function_names TetherContractTCABI_json)" "distinct (function_names TetherProxyABI_json)"
    "distinct (function_names AuctionEntryPointABI_json)"
    "distinct (function_names AuctionDepositVaultABI_json)" "distinct (function_names AuctionFeeVaultABI_json)"
    "distinct (function_names ep_AuctionError_json)" "distinct (function_names ep_Context_json)"
    "distinct (function_names ep_ECDSA_json)" "distinct (function_names ep_EIP712_json)"
    "distinct (function_names ep_IAuctionDepositVault_json)"
    "distinct (function_names ep_IAuctionEntryPoint_json)" "distinct (function_names ep_IERC5267_json)"
    "distinct (function_names ep_Math_json)" "distinct (function_names ep_MessageHashUtils_json)"
    "distinct (function_names ep_Nonces_json)" "distinct (function_names ep_Ownable_json)"
    "distinct (function_names ep_ShortStrings_json)" "distinct (function_names ep_SignedMath_json)"
    "distinct (function_names ep_StorageSlot_json)" "distinct (function_names ep_Strings_json)"
    "distinct (function_names dv_EnumerableSet_json)" "distinct (function_names dv_IAuctionFeeVault_json)"
    "distinct (function_names dv_INonce_json)" "distinct (function_names dv_IRegistry_json)"
    "distinct (function_names fv_IAddressBook_json)" "distinct (function_names fv_IStaking_json)"
  by code_simp+

lemma each_matches:
  "text_matches CpuHeavyTC_binding" "text_matches UserStorageTC_binding" "text_matches LargeMemoTC_binding"
    "text_matches ReadApiCallContractTC_binding" "text_matches TetherContractTC_binding"
    "text_matches TetherProxy_binding" "text_matches AuctionEntryPoint_binding"
    "text_matches AuctionDepositVault_binding" "text_matches AuctionFeeVault_binding"
    "text_matches ep_AuctionError_binding" "text_matches ep_Context_binding" "text_matches ep_ECDSA_binding"
    "text_matches ep_EIP712_binding" "text_matches ep_IAuctionDepositVault_binding"
    "text_matches ep_IAuctionEntryPoint_binding" "text_matches ep_IERC5267_binding"
    "text_matches ep_Math_binding" "text_matches ep_MessageHashUtils_binding" "text_matches ep_Nonces_binding"
    "text_matches ep_Ownable_binding" "text_matches ep_ShortStrings_binding"
    "text_matches ep_SignedMath_binding" "text_matches ep_StorageSlot_binding"
    "text_matches ep_Strings_binding" "text_matches dv_EnumerableSet_binding"
    "text_matches dv_IAuctionFeeVault_binding" "text_matches dv_INonce_binding"
    "text_matches dv_IRegistry_binding" "text_matches fv_IAddressBook_binding"
    "text_matches fv_IStaking_binding"
    "names_distinct CpuHeavyTC_binding" "names_distinct UserStorageTC_binding"
    "names_distinct LargeMemoTC_binding" "names_distinct ReadApiCallContractTC_binding"
    "names_distinct TetherContractTC_binding" "names_distinct TetherProxy_binding"
    "names_distinct AuctionEntryPoint_binding" "names_distinct AuctionDepositVault_binding"
    "names_distinct AuctionFeeVault_binding" "names_distinct ep_AuctionError_binding"
    "names_distinct ep_Context_binding" "names_distinct ep_ECDSA_binding" "names_distinct ep_EIP712_binding"
    "names_distinct ep_IAuctionDepositVault_binding" "names_distinct ep_IAuctionEntryPoint_binding"
    "names_distinct ep_IERC5267_binding" "names_distinct ep_Math_binding"
    "names_distinct ep_MessageHashUtils_binding" "names_distinct ep_Nonces_binding"
    "names_distinct ep_Ownable_binding" "names_distinct ep_ShortStrings_binding"
    "names_distinct ep_SignedMath_binding" "names_distinct ep_StorageSlot_binding"
    "names_distinct ep_Strings_binding" "names_distinct dv_EnumerableSet_binding"
    "names_distinct dv_IAuctionFeeVault_binding" "names_distinct dv_INonce_binding"
    "names_distinct dv_IRegistry_binding" "names_distinct fv_IAddressBook_binding"
    "names_distinct fv_IStaking_binding"
  by (simp_all add: text_matches_def names_distinct_def texts_of_bindings each_binding_matches each_text_distinct)

lemma each_again:
  "text_matches dv_IAuctionEntryPoint_binding" "text_matches dv_IAuctionDepositVault_binding"
    "text_matches fv_IAuctionFeeVault_binding" "text_matches dv_Ownable_binding"
    "text_matches fv_Ownable_binding" "text_matches dv_Context_binding" "text_matches fv_Context_binding"
    "text_matches dv_AuctionError_binding" "text_matches fv_AuctionError_binding"
    "text_matches fv_EnumerableSet_binding"
    "names_distinct dv_IAuctionEntryPoint_binding" "names_distinct dv_IAuctionDepositVault_binding"
    "names_distinct fv_IAuctionFeeVault_binding" "names_distinct dv_Ownable_binding"
    "names_distinct fv_Ownable_binding" "names_distinct dv_Context_binding" "names_distinct fv_Context_binding"
    "names_distinct dv_AuctionError_binding" "names_distinct fv_AuctionError_binding"
    "names_distinct fv_EnumerableSet_binding"
  by (simp_all add: bound_twice_def each_matches
      bound_twice_iff [of dv_IAuctionEntryPoint_binding ep_IAuctionEntryPoint_binding]
      bound_twice_iff [of dv_IAuctionDepositVault_binding ep_IAuctionDepositVault_binding]
      bound_twice_iff [of fv_IAuctionFeeVault_binding dv_IAuctionFeeVault_binding]
      bound_twice_iff [of dv_Ownable_binding ep_Ownable_binding]
      bound_twice_iff [of fv_Ownable_binding ep_Ownable_binding]
      bound_twice_iff [of dv_Context_binding ep_Context_binding]
      bound_twice_iff [of fv_Context_binding ep_Context_binding]
      bound_twice_iff [of dv_AuctionError_binding ep_AuctionError_binding]
      bound_twice_iff [of fv_AuctionError_binding ep_AuctionError_binding]
      bound_twice_iff [of fv_EnumerableSet_binding dv_EnumerableSet_binding])

lemma bindings_match: "list_all text_matches all_bindings"
  by (simp add: all_bindings_def bundled_bindings_def each_matches each_again)

lemma bindings_distinct: "list_all names_distinct all_bindings"
  by (simp add: all_bindings_def bundled_bindings_def each_matches each_again)

text \<open>The only \<open>Parse\<close> function that does not store the log.\<close>

lemma raw_logs_dropped:
  "filter (\<lambda>ev. \<not> ev_parseRaw ev) (concat (map bd_events all_bindings)) = [CpuHeavyTC_Finish_event]"
  by code_simp

text \<open>The selector tables.\<close>

definition sig_tables :: "((string \<times> string) list \<times> abi_entry list) list" where
  "sig_tables = [(AuctionEntryPoint_Sigs, AuctionEntryPointABI_json),
     (AuctionDepositVault_Sigs, AuctionDepositVaultABI_json),
     (AuctionFeeVault_Sigs, AuctionFeeVaultABI_json)] @ bundled_sigs"

definition selectors_ok :: "(string \<times> string) list \<times> abi_entry list \<Rightarrow> bool" where
  "selectors_ok t \<longleftrightarrow> map snd (fst t) = signatures (snd t) \<and> distinct (map fst (fst t))"

lemma selectors_match: "list_all selectors_ok sig_tables"
  by code_simp

section \<open>Contracts and their interfaces\<close>

text \<open>
  An entry of an interface's ABI and one that provides it: a function of the same name, parameters and results,
  with the same mutability or \<open>pure\<close> for \<open>view\<close>, as Solidity allows, or the same event or error.
\<close>

definition provided :: "abi_entry \<Rightarrow> abi_entry \<Rightarrow> bool" where
  "provided a b = (case (a, b) of
     (AbiFunction n ins outs mt, AbiFunction n' ins' outs' mt') \<Rightarrow>
       n = n' \<and> ins = ins' \<and> outs = outs' \<and> (mt' = mt \<or> mt = View \<and> mt' = Pure)
   | _ \<Rightarrow> a = b)"

text \<open>
  A binding that can stand for another: every entry of its text is provided by the other, and every method and event is one
  of the other; all come in the same order.
\<close>

definition substitutable :: "binding \<times> binding \<Rightarrow> bool" where
  "substitutable p = (case p of (i, c) \<Rightarrow>
     (case (abi_text (bd_abi i), abi_text (bd_abi c)) of
        (Some is, Some es) \<Rightarrow> list_emb provided is es
      | _ \<Rightarrow> False) \<and>
     subseq (bd_methods i) (bd_methods c) \<and> subseq (bd_events i) (bd_events c))"

text \<open>The interfaces and base contracts of each auction contract, in every file that binds them.\<close>

definition interfaces :: "(binding \<times> binding) list" where
  "interfaces =
     map (\<lambda>i. (i, AuctionEntryPoint_binding)) [ep_IAuctionEntryPoint_binding, dv_IAuctionEntryPoint_binding,
       dv_INonce_binding, ep_Nonces_binding, ep_EIP712_binding, ep_IERC5267_binding, ep_Ownable_binding,
       ep_Context_binding, ep_AuctionError_binding] @
     map (\<lambda>i. (i, AuctionDepositVault_binding)) [ep_IAuctionDepositVault_binding, dv_IAuctionDepositVault_binding,
       dv_Ownable_binding, dv_Context_binding, dv_AuctionError_binding] @
     map (\<lambda>i. (i, AuctionFeeVault_binding)) [dv_IAuctionFeeVault_binding, fv_IAuctionFeeVault_binding,
       fv_Ownable_binding, fv_Context_binding, fv_AuctionError_binding]"

lemma each_provided:
  "list_emb provided ep_IAuctionEntryPoint_json AuctionEntryPointABI_json"
    "list_emb provided dv_INonce_json AuctionEntryPointABI_json"
    "list_emb provided ep_Nonces_json AuctionEntryPointABI_json"
    "list_emb provided ep_EIP712_json AuctionEntryPointABI_json"
    "list_emb provided ep_IERC5267_json AuctionEntryPointABI_json"
    "list_emb provided ep_Ownable_json AuctionEntryPointABI_json"
    "list_emb provided ep_Context_json AuctionEntryPointABI_json"
    "list_emb provided ep_AuctionError_json AuctionEntryPointABI_json"
    "list_emb provided ep_IAuctionDepositVault_json AuctionDepositVaultABI_json"
    "list_emb provided ep_Ownable_json AuctionDepositVaultABI_json"
    "list_emb provided ep_Context_json AuctionDepositVaultABI_json"
    "list_emb provided ep_AuctionError_json AuctionDepositVaultABI_json"
    "list_emb provided dv_IAuctionFeeVault_json AuctionFeeVaultABI_json"
    "list_emb provided ep_Ownable_json AuctionFeeVaultABI_json"
    "list_emb provided ep_Context_json AuctionFeeVaultABI_json"
    "list_emb provided ep_AuctionError_json AuctionFeeVaultABI_json"
  by code_simp+

lemma each_part:
  "subseq (bd_methods ep_IAuctionEntryPoint_binding) (bd_methods AuctionEntryPoint_binding)"
    "subseq (bd_methods dv_INonce_binding) (bd_methods AuctionEntryPoint_binding)"
    "subseq (bd_methods ep_Nonces_binding) (bd_methods AuctionEntryPoint_binding)"
    "subseq (bd_methods ep_EIP712_binding) (bd_methods AuctionEntryPoint_binding)"
    "subseq (bd_methods ep_IERC5267_binding) (bd_methods AuctionEntryPoint_binding)"
    "subseq (bd_methods ep_Ownable_binding) (bd_methods AuctionEntryPoint_binding)"
    "subseq (bd_methods ep_Context_binding) (bd_methods AuctionEntryPoint_binding)"
    "subseq (bd_methods ep_AuctionError_binding) (bd_methods AuctionEntryPoint_binding)"
    "subseq (bd_methods ep_IAuctionDepositVault_binding) (bd_methods AuctionDepositVault_binding)"
    "subseq (bd_methods ep_Ownable_binding) (bd_methods AuctionDepositVault_binding)"
    "subseq (bd_methods ep_Context_binding) (bd_methods AuctionDepositVault_binding)"
    "subseq (bd_methods ep_AuctionError_binding) (bd_methods AuctionDepositVault_binding)"
    "subseq (bd_methods dv_IAuctionFeeVault_binding) (bd_methods AuctionFeeVault_binding)"
    "subseq (bd_methods ep_Ownable_binding) (bd_methods AuctionFeeVault_binding)"
    "subseq (bd_methods ep_Context_binding) (bd_methods AuctionFeeVault_binding)"
    "subseq (bd_methods ep_AuctionError_binding) (bd_methods AuctionFeeVault_binding)"
    "subseq (bd_events ep_IAuctionEntryPoint_binding) (bd_events AuctionEntryPoint_binding)"
    "subseq (bd_events dv_INonce_binding) (bd_events AuctionEntryPoint_binding)"
    "subseq (bd_events ep_Nonces_binding) (bd_events AuctionEntryPoint_binding)"
    "subseq (bd_events ep_EIP712_binding) (bd_events AuctionEntryPoint_binding)"
    "subseq (bd_events ep_IERC5267_binding) (bd_events AuctionEntryPoint_binding)"
    "subseq (bd_events ep_Ownable_binding) (bd_events AuctionEntryPoint_binding)"
    "subseq (bd_events ep_Context_binding) (bd_events AuctionEntryPoint_binding)"
    "subseq (bd_events ep_AuctionError_binding) (bd_events AuctionEntryPoint_binding)"
    "subseq (bd_events ep_IAuctionDepositVault_binding) (bd_events AuctionDepositVault_binding)"
    "subseq (bd_events ep_Ownable_binding) (bd_events AuctionDepositVault_binding)"
    "subseq (bd_events ep_Context_binding) (bd_events AuctionDepositVault_binding)"
    "subseq (bd_events ep_AuctionError_binding) (bd_events AuctionDepositVault_binding)"
    "subseq (bd_events dv_IAuctionFeeVault_binding) (bd_events AuctionFeeVault_binding)"
    "subseq (bd_events ep_Ownable_binding) (bd_events AuctionFeeVault_binding)"
    "subseq (bd_events ep_Context_binding) (bd_events AuctionFeeVault_binding)"
    "subseq (bd_events ep_AuctionError_binding) (bd_events AuctionFeeVault_binding)"
  by code_simp+

lemma each_substitutable:
  "substitutable (ep_IAuctionEntryPoint_binding, AuctionEntryPoint_binding)"
    "substitutable (dv_INonce_binding, AuctionEntryPoint_binding)"
    "substitutable (ep_Nonces_binding, AuctionEntryPoint_binding)"
    "substitutable (ep_EIP712_binding, AuctionEntryPoint_binding)"
    "substitutable (ep_IERC5267_binding, AuctionEntryPoint_binding)"
    "substitutable (ep_Ownable_binding, AuctionEntryPoint_binding)"
    "substitutable (ep_Context_binding, AuctionEntryPoint_binding)"
    "substitutable (ep_AuctionError_binding, AuctionEntryPoint_binding)"
    "substitutable (ep_IAuctionDepositVault_binding, AuctionDepositVault_binding)"
    "substitutable (ep_Ownable_binding, AuctionDepositVault_binding)"
    "substitutable (ep_Context_binding, AuctionDepositVault_binding)"
    "substitutable (ep_AuctionError_binding, AuctionDepositVault_binding)"
    "substitutable (dv_IAuctionFeeVault_binding, AuctionFeeVault_binding)"
    "substitutable (ep_Ownable_binding, AuctionFeeVault_binding)"
    "substitutable (ep_Context_binding, AuctionFeeVault_binding)"
    "substitutable (ep_AuctionError_binding, AuctionFeeVault_binding)"
  by (simp_all add: substitutable_def texts_of_bindings each_provided each_part)

lemma bound_twice_substitutable:
  assumes "(b, c) \<in> set bound_twice"
  shows "substitutable (b, d) = substitutable (c, d)"
  using bound_twice_same assms by (auto simp: list_all_iff same_type_def substitutable_def)

lemma interfaces_substitutable: "list_all substitutable interfaces"
  by (simp add: interfaces_def each_substitutable bound_twice_def
      bound_twice_substitutable [of dv_IAuctionEntryPoint_binding ep_IAuctionEntryPoint_binding]
      bound_twice_substitutable [of dv_IAuctionDepositVault_binding ep_IAuctionDepositVault_binding]
      bound_twice_substitutable [of dv_Ownable_binding ep_Ownable_binding]
      bound_twice_substitutable [of dv_Context_binding ep_Context_binding]
      bound_twice_substitutable [of dv_AuctionError_binding ep_AuctionError_binding]
      bound_twice_substitutable [of fv_IAuctionFeeVault_binding dv_IAuctionFeeVault_binding]
      bound_twice_substitutable [of fv_Ownable_binding ep_Ownable_binding]
      bound_twice_substitutable [of fv_Context_binding ep_Context_binding]
      bound_twice_substitutable [of fv_AuctionError_binding ep_AuctionError_binding])

section \<open>Reading methods\<close>

lemma function_outputs_mem:
  "distinct (function_names es) \<Longrightarrow> AbiFunction n ins outs mt \<in> set es \<Longrightarrow> function_outputs es n = Some outs"
proof (induction es)
  case (Cons e es)
  have name: "AbiFunction n ins outs mt \<in> set es \<Longrightarrow> n \<in> set (function_names es)" for es
  proof (induction es)
    case (Cons e es)
    then show ?case by (cases e) auto
  qed simp
  from Cons name [of es] show ?case by (cases e) auto
qed simp

lemma method_of_Caller:
  "method_of e = Some (Caller, n, gins, gouts) \<Longrightarrow>
   \<exists>ins outs mt. e = AbiFunction n ins outs mt \<and> gins = map go_of_abi ins \<and> gouts = map go_of_abi outs"
  by (auto simp: method_of_def split: abi_entry.splits if_splits)

text \<open>A reading method of a binding is a function of its ABI and has its results.\<close>

lemma caller_outputs:
  assumes "b \<in> set all_bindings" and "m \<in> set (bd_methods b)" and "mb_kind m = Caller"
  shows "\<exists>es outs. abi_text (bd_abi b) = Some es \<and> function_outputs es (mb_abi m) = Some outs \<and>
    mb_outs m = map go_of_abi outs"
proof -
  from assms(1) bindings_match bindings_distinct obtain es where es: "abi_text (bd_abi b) = Some es"
      "binding_matches es b" "distinct (function_names es)"
    by (auto simp: list_all_iff text_matches_def names_distinct_def split: option.splits)
  from assms(2) have "method_row m \<in> set (map method_row (bd_methods b))" by simp
  also have "map method_row (bd_methods b) =
      concat (map (\<lambda>k. rows_of k es) [Caller, Transactor, FallbackKind, ReceiveKind])"
    using es(2) by (simp add: binding_matches_def)
  finally have "method_row m \<in> set (rows_of Caller es)"
    using assms(3) by (auto simp: rows_of_def method_row_def)
  then obtain e where e: "e \<in> set es" "method_of e = Some (Caller, mb_abi m, mb_ins m, mb_outs m)"
    using assms(3) by (auto simp: rows_of_def method_row_def List.map_filter_def)
  from method_of_Caller [OF e(2)] e(1) function_outputs_mem [OF es(3)] es(1) show ?thesis by blast
qed

text \<open>The read of a searcher's nonce.\<close>

lemma nonce_binding: "AuctionEntryPoint_binding \<in> set all_bindings"
    "AuctionEntryPoint_Nonces \<in> set (bd_methods AuctionEntryPoint_binding)"
  by (simp_all add: all_bindings_def AuctionEntryPoint_binding_def)

lemma nonce_outputs: "function_outputs AuctionEntryPointABI_json ''nonces'' = Some [TyUint 256]"
  by code_simp

lemma fits_uint: "fits (TyUint 256) v \<Longrightarrow> \<exists>n. v = ArgUint n"
  by (cases v) auto

lemma entry_nonce_value:
  assumes "\<And>c args w vs w'. boundCall (e_bnd E) c ''nonces'' args w = (Inr vs, w') \<Longrightarrow>
      answer_typed AuctionEntryPointABI_json ''nonces'' vs"
  shows "\<exists>n w'. getEntrypointNonce E a w = (Ret (Some n), w')"
proof -
  obtain ep w1 where ep: "getAuctionEntryPointAddress E w = (ep, w1)" by (metis prod.exhaust)
  show ?thesis
  proof (cases "new_binding (e_abi E) AuctionEntryPoint_binding ep")
    case (Inl e)
    with ep show ?thesis by (simp add: getEntrypointNonce_def)
  next
    case (Inr c)
    obtain r w2 where r: "boundCall (e_bnd E) c ''nonces'' [ArgAddress a] w1 = (r, w2)" by (metis prod.exhaust)
    show ?thesis
    proof (cases r)
      case Inl
      with ep Inr r show ?thesis
        by (simp add: getEntrypointNonce_def call_method_def AuctionEntryPoint_Nonces_def caller_def)
    next
      case vs: (Inr vs)
      from assms [OF r [unfolded vs]] obtain v where "vs = [v]" "fits (TyUint 256) v"
        by (auto simp: answer_typed_def nonce_outputs list_all2_Cons1)
      with fits_uint obtain n where "vs = [ArgUint n]" by blast
      with ep Inr r vs show ?thesis
        by (simp add: getEntrypointNonce_def call_method_def AuctionEntryPoint_Nonces_def caller_def)
    qed
  qed
qed

end
