(* ===== verification/Event_Streams.thy ===== *)
theory Event_Streams
  imports Bindings
begin

text \<open>
  The iterators and subscriptions of the generated bindings (\<open>FilterX\<close> and \<open>WatchX\<close>), over the channel and
  the subscription that the package \<open>bind\<close> hands out. That side is external: a producer goroutine puts the
  logs it found into a channel of limited capacity, in order, and then ends with an error or none, which
  \<open>Err()\<close> delivers. Both run beside the reader, so each is a step relation over single actions, and the
  \<open>select\<close> of the code is a choice between the cases that are ready.
\<close>

section \<open>The iterator\<close>

text \<open>
  \<open>it_event\<close> is \<open>nil\<close> before the first event. The stream has the logs in the channel, those the producer still holds, what it
  ends with, whether it has ended, and whether the reader gave up its subscription.
\<close>

record 'l iterator =
  it_event :: "'l event_value option"
  it_done :: bool
  it_fail :: "gerror option"

record 'l stream =
  st_queue :: "'l list"
  st_pending :: "'l list"
  st_err :: "gerror option"
  st_closed :: bool
  st_unsubscribed :: bool

type_synonym 'l unpacker = "'l \<Rightarrow> gerror + abi_arg list"

definition new_iterator :: "'l iterator" where
  "new_iterator = \<lparr>it_event = None, it_done = False, it_fail = None\<rparr>"

definition new_stream :: "'l list \<Rightarrow> gerror option \<Rightarrow> 'l stream" where
  "new_stream logs err = \<lparr>st_queue = [], st_pending = logs, st_err = err, st_closed = False,
     st_unsubscribed = False\<rparr>"

text \<open>The body of \<open>case log := <-it.logs\<close>: a new event, unpacked, with its raw log.\<close>

definition take_log :: "'l unpacker \<Rightarrow> 'l \<Rightarrow> 'l iterator \<Rightarrow> bool \<times> 'l iterator" where
  "take_log unpack log it =
     (case unpack log of
        Inl e \<Rightarrow> (False, it\<lparr>it_event := Some \<lparr>ev_data = [], ev_raw = None\<rparr>, it_fail := Some e\<rparr>)
      | Inr d \<Rightarrow> (True, it\<lparr>it_event := Some \<lparr>ev_data = d, ev_raw = Some log\<rparr>\<rparr>))"

text \<open>
  \<open>Next\<close>. \<open>pickErr\<close> says which case of the second \<open>select\<close> is taken; a case that is not ready is \<open>None\<close>, so a
  call that blocks has \<open>None\<close> for both. The call to itself comes after \<open>done\<close> was set, so there is at most one.
\<close>

function Next :: "'l unpacker \<Rightarrow> bool \<Rightarrow> 'l iterator \<Rightarrow> 'l stream \<Rightarrow> (bool \<times> 'l iterator \<times> 'l stream) option" where
  "Next unpack pickErr it st =
     (if it_fail it \<noteq> None then Some (False, it, st)
      else if it_done it then
        (case st_queue st of
           [] \<Rightarrow> Some (False, it, st)
         | log # ls \<Rightarrow> (case take_log unpack log it of (b, it') \<Rightarrow> Some (b, it', st\<lparr>st_queue := ls\<rparr>)))
      else if pickErr then
        (if st_closed st then Next unpack pickErr (it\<lparr>it_done := True, it_fail := st_err st\<rparr>) st else None)
      else
        (case st_queue st of
           [] \<Rightarrow> None
         | log # ls \<Rightarrow> (case take_log unpack log it of (b, it') \<Rightarrow> Some (b, it', st\<lparr>st_queue := ls\<rparr>))))"
  by pat_completeness auto

termination
  by (relation "measure (\<lambda>(unpack, pickErr, it, st). if it_done it then 0 else 1)") auto

declare Next.simps [simp del]

definition iterator_error :: "'l iterator \<Rightarrow> gerror option" where
  "iterator_error it = it_fail it"

definition Close :: "'l stream \<Rightarrow> gerror option \<times> 'l stream" where
  "Close st = (None, st\<lparr>st_unsubscribed := True\<rparr>)"

section \<open>A loop over an iterator\<close>

text \<open>
  \<open>for it.Next() { ... it.Event ... }\<close> beside its producer: \<open>lp_seen\<close> are the events the loop's body got and
  \<open>lp_more\<close> whether the last \<open>Next\<close> was true. \<open>cap\<close> is the capacity of the channel.
\<close>

record 'l loop =
  lp_it :: "'l iterator"
  lp_st :: "'l stream"
  lp_seen :: "'l event_value list"
  lp_more :: bool

definition loop_init :: "'l list \<Rightarrow> gerror option \<Rightarrow> 'l loop" where
  "loop_init logs err =
     \<lparr>lp_it = new_iterator, lp_st = new_stream logs err, lp_seen = [], lp_more = True\<rparr>"

inductive loop_step :: "'l unpacker \<Rightarrow> nat \<Rightarrow> 'l loop \<Rightarrow> 'l loop \<Rightarrow> bool" for unpack cap where
  produce: "st_pending (lp_st s) = log # ls \<Longrightarrow> length (st_queue (lp_st s)) < cap \<Longrightarrow>
     loop_step unpack cap s (s\<lparr>lp_st := (lp_st s)\<lparr>st_queue := st_queue (lp_st s) @ [log], st_pending := ls\<rparr>\<rparr>)"
| finish: "st_pending (lp_st s) = [] \<Longrightarrow> \<not> st_closed (lp_st s) \<Longrightarrow>
     loop_step unpack cap s (s\<lparr>lp_st := (lp_st s)\<lparr>st_closed := True\<rparr>\<rparr>)"
| advance: "lp_more s \<Longrightarrow> Next unpack pickErr (lp_it s) (lp_st s) = Some (True, it', st') \<Longrightarrow> it_event it' = Some e \<Longrightarrow>
     loop_step unpack cap s (s\<lparr>lp_it := it', lp_st := st', lp_seen := lp_seen s @ [e]\<rparr>)"
| stop: "lp_more s \<Longrightarrow> Next unpack pickErr (lp_it s) (lp_st s) = Some (False, it', st') \<Longrightarrow>
     loop_step unpack cap s (s\<lparr>lp_it := it', lp_st := st', lp_more := False\<rparr>)"

inductive loop_reach :: "'l unpacker \<Rightarrow> nat \<Rightarrow> 'l list \<Rightarrow> gerror option \<Rightarrow> 'l loop \<Rightarrow> bool"
  for unpack cap logs err where
  loop_start: "loop_reach unpack cap logs err (loop_init logs err)"
| loop_next: "loop_reach unpack cap logs err s \<Longrightarrow> loop_step unpack cap s t \<Longrightarrow> loop_reach unpack cap logs err t"

text \<open>The event that a log stands for.\<close>

definition event_for :: "'l unpacker \<Rightarrow> 'l \<Rightarrow> 'l event_value" where
  "event_for unpack log = \<lparr>ev_data = projr (unpack log), ev_raw = Some log\<rparr>"

definition readable :: "'l unpacker \<Rightarrow> 'l \<Rightarrow> bool" where
  "readable unpack log \<longleftrightarrow> (\<exists>d. unpack log = Inr d)"

text \<open>
  What holds throughout: the logs seen, those in the channel and those to come are the logs of the query, in
  order, except that a log that could not be read was taken too; the events seen are those of the logs; and
  the error is that of the unreadable log or the producer's.
\<close>

definition loop_view :: "'l unpacker \<Rightarrow> gerror option \<Rightarrow> 'l list \<Rightarrow> 'l list \<Rightarrow> 'l loop \<Rightarrow> bool" where
  "loop_view unpack err seen bad s \<longleftrightarrow>
     (\<forall>log \<in> set seen. readable unpack log) \<and> lp_seen s = map (event_for unpack) seen \<and>
     st_err (lp_st s) = err \<and> (it_done (lp_it s) \<longrightarrow> st_closed (lp_st s)) \<and>
     (st_closed (lp_st s) \<longrightarrow> st_pending (lp_st s) = []) \<and>
     (it_done (lp_it s) \<and> it_fail (lp_it s) = None \<longrightarrow> err = None) \<and>
     (if lp_more s then bad = [] \<and> it_fail (lp_it s) = None
      else case it_fail (lp_it s) of
             None \<Rightarrow> bad = [] \<and> it_done (lp_it s) \<and> st_queue (lp_st s) = []
           | Some e \<Rightarrow> (bad = [] \<and> it_done (lp_it s) \<and> err = Some e) \<or> (\<exists>log. bad = [log] \<and> unpack log = Inl e))"

definition loop_inv :: "'l unpacker \<Rightarrow> 'l list \<Rightarrow> gerror option \<Rightarrow> 'l loop \<Rightarrow> bool" where
  "loop_inv unpack logs err s \<longleftrightarrow>
     (\<exists>seen bad. logs = seen @ bad @ st_queue (lp_st s) @ st_pending (lp_st s) \<and> loop_view unpack err seen bad s)"

lemma loop_invI:
  "logs = seen @ bad @ st_queue (lp_st s) @ st_pending (lp_st s) \<Longrightarrow> loop_view unpack err seen bad s \<Longrightarrow>
   loop_inv unpack logs err s"
  by (auto simp: loop_inv_def)

text \<open>What \<open>Next\<close> can do while it has not failed.\<close>

lemma Next_cases:
  assumes "Next unpack pickErr it st = Some (b, it', st')" and "it_fail it = None"
  obtains (took) log ls where "st_queue st = log # ls" "st' = st\<lparr>st_queue := ls\<rparr>"
      "(b, it') = take_log unpack log it \<or>
       st_closed st \<and> st_err st = None \<and> (b, it') = take_log unpack log (it\<lparr>it_done := True, it_fail := None\<rparr>)"
  | (failed) e where "\<not> b" "st' = st" "st_closed st" "st_err st = Some e" "it_fail it' = Some e" "it_done it'"
  | (ended) "\<not> b" "st' = st" "st_queue st = []" "it_fail it' = None" "it_done it'" "it_done it \<or> st_closed st \<and> st_err st = None"
proof (cases "it_done it \<or> \<not> pickErr")
  case True
  with assms took ended show thesis
    by (auto simp: Next.simps [of unpack pickErr it st] split: list.splits prod.splits if_splits)
next
  case False
  let ?it = "it\<lparr>it_done := True, it_fail := st_err st\<rparr>"
  from False assms have c: "st_closed st" and n: "Next unpack True ?it st = Some (b, it', st')"
    by (simp_all add: Next.simps [of unpack True it st] split: if_splits)
  show thesis
  proof (cases "st_err st")
    case None
    with n c took ended show thesis
      by (auto simp: Next.simps [of unpack True "it\<lparr>it_done := True, it_fail := None\<rparr>" st]
          split: list.splits prod.splits if_splits)
  next
    case (Some e)
    with n c failed show thesis
      by (auto simp: Next.simps [of unpack True "it\<lparr>it_done := True, it_fail := Some e\<rparr>" st])
  qed
qed

lemma loop_inv_init: "loop_inv unpack logs err (loop_init logs err)"
  by (rule loop_invI [of _ "[]" "[]"]) (simp_all add: loop_view_def loop_init_def new_iterator_def new_stream_def)

lemma take_log_cases:
  assumes "(b, it') = take_log unpack log it"
  obtains (good) d where "unpack log = Inr d" "b" "it' = it\<lparr>it_event := Some (event_for unpack log)\<rparr>"
  | (bad) e where "unpack log = Inl e" "\<not> b" "it_fail it' = Some e" "it_done it' = it_done it"
  using assms by (auto simp: take_log_def event_for_def split: sum.splits)

lemma loop_step_inv:
  assumes "loop_step unpack cap s t" and "loop_inv unpack logs err s"
  shows "loop_inv unpack logs err t"
proof -
  from assms(2) obtain seen bad where
    logs: "logs = seen @ bad @ st_queue (lp_st s) @ st_pending (lp_st s)" and view: "loop_view unpack err seen bad s"
    by (auto simp: loop_inv_def)
  from assms(1) show ?thesis
  proof cases
    case (produce log ls)
    with logs view show ?thesis by (intro loop_invI [of _ seen bad]) (auto simp: loop_view_def split: option.splits if_splits)
  next
    case finish
    with logs view show ?thesis by (intro loop_invI [of _ seen bad]) (auto simp: loop_view_def split: option.splits if_splits)
  next
    case (advance pickErr it' st' e)
    with view have nf: "it_fail (lp_it s) = None" and "bad = []" by (simp_all add: loop_view_def)
    from advance(3) nf show ?thesis
    proof (cases rule: Next_cases)
      case (took log ls)
      have "\<exists>it0. (True, it') = take_log unpack log it0 \<and> it_fail it0 = None \<and>
          (it_done it0 \<longrightarrow> st_closed (lp_st s) \<and> st_err (lp_st s) = None)"
        using took(3) nf view by (fastforce simp: loop_view_def)
      then obtain it0 where it0: "(True, it') = take_log unpack log it0" "it_fail it0 = None"
          "it_done it0 \<longrightarrow> st_closed (lp_st s) \<and> st_err (lp_st s) = None" by blast
      from it0(1) show ?thesis
      proof (cases rule: take_log_cases)
        case (good d)
        then have "readable unpack log" "it_event it' = Some (event_for unpack log)" by (auto simp: readable_def)
        with good it0(2,3) took(1,2) advance logs view \<open>bad = []\<close> show ?thesis
          by (intro loop_invI [of _ "seen @ [log]" "[]"]) (simp_all add: loop_view_def)
      qed simp
    qed simp_all
  next
    case (stop pickErr it' st')
    with view have nf: "it_fail (lp_it s) = None" and "bad = []" by (simp_all add: loop_view_def)
    from stop(3) nf show ?thesis
    proof (cases rule: Next_cases)
      case (took log ls)
      have "\<exists>it0. (False, it') = take_log unpack log it0 \<and> it_fail it0 = None \<and>
          (it_done it0 \<longrightarrow> st_closed (lp_st s) \<and> st_err (lp_st s) = None)"
        using took(3) nf view by (fastforce simp: loop_view_def)
      then obtain it0 where it0: "(False, it') = take_log unpack log it0" "it_fail it0 = None"
          "it_done it0 \<longrightarrow> st_closed (lp_st s) \<and> st_err (lp_st s) = None" by blast
      from it0(1) show ?thesis
      proof (cases rule: take_log_cases)
        case (bad e)
        with it0(2,3) took(1,2) stop logs view \<open>bad = []\<close> show ?thesis
          by (intro loop_invI [of _ seen "[log]"]) (simp_all add: loop_view_def)
      qed simp
    next
      case (failed e)
      with stop logs view \<open>bad = []\<close> show ?thesis
        by (intro loop_invI [of _ seen "[]"]) (auto simp: loop_view_def split: option.splits)
    next
      case ended
      with stop logs view \<open>bad = []\<close> show ?thesis
        by (intro loop_invI [of _ seen "[]"]) (auto simp: loop_view_def)
    qed
  qed
qed

lemma loop_reach_inv: "loop_reach unpack cap logs err s \<Longrightarrow> loop_inv unpack logs err s"
  by (induction rule: loop_reach.induct) (auto intro: loop_inv_init loop_step_inv)

text \<open>Every action uses something up, and before \<open>Next\<close> has answered no some action is possible.\<close>

definition loop_measure :: "'l loop \<Rightarrow> nat" where
  "loop_measure s = 2 * length (st_pending (lp_st s)) + length (st_queue (lp_st s)) +
     (if st_closed (lp_st s) then 0 else 1) + (if lp_more s then 1 else 0)"

lemma loop_step_measure:
  assumes "loop_step unpack cap s t" and "loop_inv unpack logs err s"
  shows "loop_measure t < loop_measure s"
  using assms(1)
proof cases
  case (advance pickErr it' st' e)
  with assms(2) have nf: "it_fail (lp_it s) = None" by (auto simp: loop_inv_def loop_view_def)
  from advance(3) this advance(1) show ?thesis by (cases rule: Next_cases) (auto simp: loop_measure_def)
next
  case (stop pickErr it' st')
  with assms(2) have nf: "it_fail (lp_it s) = None" by (auto simp: loop_inv_def loop_view_def)
  from stop(3) this stop(1,2) show ?thesis by (cases rule: Next_cases) (auto simp: loop_measure_def)
qed (auto simp: loop_measure_def)

lemma Next_event:
  assumes "Next unpack pickErr it st = Some (True, it', st')"
  shows "\<exists>e. it_event it' = Some e"
proof (cases "it_fail it")
  case None
  with assms show ?thesis
    by (cases rule: Next_cases) (auto elim!: take_log_cases)
next
  case (Some e)
  with assms show ?thesis by (simp add: Next.simps)
qed

lemma Next_closed:
  assumes "st_closed st"
  shows "Next unpack True it st \<noteq> None"
proof -
  have drained: "it_done i \<Longrightarrow> Next unpack True i st \<noteq> None" for i
    by (subst Next.simps) (auto split: list.splits prod.splits)
  then show ?thesis using assms drained [of "it\<lparr>it_done := True, it_fail := st_err st\<rparr>"]
    by (subst Next.simps) (auto split: list.splits prod.splits)
qed

lemma loop_progress:
  assumes "0 < cap" and "lp_more s" and "loop_inv unpack logs err s"
  shows "\<exists>t. loop_step unpack cap s t"
proof -
  have next_step: "Next unpack p (lp_it s) (lp_st s) \<noteq> None \<Longrightarrow> ?thesis" for p
  proof -
    assume "Next unpack p (lp_it s) (lp_st s) \<noteq> None"
    then obtain b it' st' where n: "Next unpack p (lp_it s) (lp_st s) = Some (b, it', st')"
      by (metis option.exhaust surj_pair)
    show ?thesis
    proof (cases b)
      case True
      with n Next_event obtain e where e: "it_event it' = Some e" by metis
      from n True have "Next unpack p (lp_it s) (lp_st s) = Some (True, it', st')" by simp
      from advance [OF assms(2) this e] show ?thesis by blast
    next
      case False
      with n have "Next unpack p (lp_it s) (lp_st s) = Some (False, it', st')" by simp
      from stop [OF assms(2) this] show ?thesis by blast
    qed
  qed
  show ?thesis
  proof (cases "st_closed (lp_st s)")
    case True
    with Next_closed next_step show ?thesis by blast
  next
    case opened: False
    show ?thesis
    proof (cases "st_pending (lp_st s)")
      case Nil
      with opened show ?thesis by (blast intro: finish)
    next
      case pend: (Cons log ls)
      show ?thesis
      proof (cases "st_queue (lp_st s)")
        case Nil
        with pend assms(1) have "length (st_queue (lp_st s)) < cap" by simp
        with pend show ?thesis by (blast intro: produce)
      next
        case (Cons l ls')
        with opened assms(2,3) have "it_fail (lp_it s) = None" "\<not> it_done (lp_it s)"
          by (auto simp: loop_inv_def loop_view_def)
        with Cons have "Next unpack False (lp_it s) (lp_st s) \<noteq> None"
          by (subst Next.simps) (auto split: prod.splits)
        with next_step show ?thesis by blast
      qed
    qed
  qed
qed

lemma loop_runs_bounded:
  assumes "loop_inv unpack logs err s"
  shows "(loop_step unpack cap ^^ n) s t \<Longrightarrow> n + loop_measure t \<le> loop_measure s \<and> loop_inv unpack logs err t"
proof (induction n arbitrary: t)
  case 0
  with assms show ?case by simp
next
  case (Suc n)
  then obtain u where "(loop_step unpack cap ^^ n) s u" "loop_step unpack cap u t" by (auto elim: relpowp_Suc_E)
  with Suc.IH [of u] loop_step_measure [of unpack cap u t] loop_step_inv [of unpack cap u t] show ?case by fastforce
qed

text \<open>So some run of the loop ends.\<close>

lemma loop_reaches_end:
  assumes "0 < cap"
  shows "\<exists>s. loop_reach unpack cap logs err s \<and> \<not> lp_more s"
proof -
  have "loop_reach unpack cap logs err s \<Longrightarrow> \<exists>t. loop_reach unpack cap logs err t \<and> \<not> lp_more t" for s
  proof (induction "loop_measure s" arbitrary: s rule: less_induct)
    case less
    show ?case
    proof (cases "lp_more s")
      case True
      from loop_progress [OF assms True loop_reach_inv [OF less.prems]] obtain t where
        t: "loop_step unpack cap s t" by blast
      from loop_step_measure [OF t loop_reach_inv [OF less.prems]] less.hyps loop_next [OF less.prems t]
      show ?thesis by blast
    next
      case False
      with less.prems show ?thesis by blast
    qed
  qed
  from this [OF loop_start] show ?thesis .
qed

text \<open>After the loop has ended \<open>Next\<close> answers no again, and changes nothing.\<close>

lemma Next_stays:
  assumes "loop_inv unpack logs err s" and "\<not> lp_more s"
  shows "Next unpack p (lp_it s) (lp_st s) = Some (False, lp_it s, lp_st s)"
  using assms by (subst Next.simps) (auto simp: loop_inv_def loop_view_def split: option.splits)

lemma loop_result:
  assumes "loop_reach unpack cap logs err s" and "\<not> lp_more s"
  shows "case iterator_error (lp_it s) of
      None \<Rightarrow> lp_seen s = map (event_for unpack) logs \<and> (\<forall>log \<in> set logs. readable unpack log) \<and> err = None
    | Some e \<Rightarrow> \<exists>seen rest. logs = seen @ rest \<and> lp_seen s = map (event_for unpack) seen \<and>
        (\<forall>log \<in> set seen. readable unpack log) \<and> (err = Some e \<or> (rest \<noteq> [] \<and> unpack (hd rest) = Inl e))"
proof -
  from loop_reach_inv [OF assms(1)] obtain seen bad where
    logs: "logs = seen @ bad @ st_queue (lp_st s) @ st_pending (lp_st s)" and view: "loop_view unpack err seen bad s"
    by (auto simp: loop_inv_def)
  show ?thesis
  proof (cases "it_fail (lp_it s)")
    case None
    with view assms(2) logs show ?thesis by (auto simp: loop_view_def iterator_error_def)
  next
    case (Some e)
    with view assms(2) have "bad = [] \<and> err = Some e \<or> (\<exists>log. bad = [log] \<and> unpack log = Inl e)"
      by (auto simp: loop_view_def)
    then have "err = Some e \<or> (bad @ st_queue (lp_st s) @ st_pending (lp_st s) \<noteq> [] \<and>
        unpack (hd (bad @ st_queue (lp_st s) @ st_pending (lp_st s))) = Inl e)" by auto
    with Some view logs show ?thesis by (auto simp: loop_view_def iterator_error_def simp del: append_is_Nil_conv)
  qed
qed

section \<open>The goroutine of a subscription\<close>

text \<open>
  The function that \<open>WatchX\<close> gives to \<open>event.NewSubscription\<close>: it waits for a log, an error of the
  subscription or the user's \<open>quit\<close>; a log is unpacked and then offered to the user's channel, again against error and
  \<open>quit\<close>. \<open>defer sub.Unsubscribe()\<close> runs when it returns. \<open>wa_arrived\<close> are all logs that came so far.
\<close>

datatype 'l watch_phase = Receiving | Forwarding "'l event_value" | Returning "gerror option" | Returned "gerror option"

record 'l watch =
  wa_arrived :: "'l list"
  wa_queue :: "'l list"
  wa_sink :: "'l event_value list"
  wa_phase :: "'l watch_phase"
  wa_unsubscribed :: bool

definition watch_init :: "'l watch" where
  "watch_init = \<lparr>wa_arrived = [], wa_queue = [], wa_sink = [], wa_phase = Receiving, wa_unsubscribed = False\<rparr>"

definition waiting :: "'l watch_phase \<Rightarrow> bool" where
  "waiting p \<longleftrightarrow> (case p of Receiving \<Rightarrow> True | Forwarding e \<Rightarrow> True | _ \<Rightarrow> False)"

inductive watch_step :: "'l unpacker \<Rightarrow> 'l watch \<Rightarrow> 'l watch \<Rightarrow> bool" for unpack where
  arrive: "watch_step unpack s (s\<lparr>wa_arrived := wa_arrived s @ [log], wa_queue := wa_queue s @ [log]\<rparr>)"
| take_ok: "wa_phase s = Receiving \<Longrightarrow> wa_queue s = log # ls \<Longrightarrow> unpack log = Inr d \<Longrightarrow>
     watch_step unpack s (s\<lparr>wa_queue := ls, wa_phase := Forwarding \<lparr>ev_data = d, ev_raw = Some log\<rparr>\<rparr>)"
| take_bad: "wa_phase s = Receiving \<Longrightarrow> wa_queue s = log # ls \<Longrightarrow> unpack log = Inl e \<Longrightarrow>
     watch_step unpack s (s\<lparr>wa_queue := ls, wa_phase := Returning (Some e)\<rparr>)"
| forward: "wa_phase s = Forwarding e \<Longrightarrow>
     watch_step unpack s (s\<lparr>wa_sink := wa_sink s @ [e], wa_phase := Receiving\<rparr>)"
| sub_error: "waiting (wa_phase s) \<Longrightarrow> watch_step unpack s (s\<lparr>wa_phase := Returning err\<rparr>)"
| quit: "waiting (wa_phase s) \<Longrightarrow> watch_step unpack s (s\<lparr>wa_phase := Returning None\<rparr>)"
| deferred: "wa_phase s = Returning e \<Longrightarrow>
     watch_step unpack s (s\<lparr>wa_phase := Returned e, wa_unsubscribed := True\<rparr>)"

inductive watch_reach :: "'l unpacker \<Rightarrow> 'l watch \<Rightarrow> bool" for unpack where
  watch_start: "watch_reach unpack watch_init"
| watch_next: "watch_reach unpack s \<Longrightarrow> watch_step unpack s t \<Longrightarrow> watch_reach unpack t"

text \<open>
  The logs are those forwarded, at most one in hand, and those in the channel. The one in hand is the event that is being offered, or
  was lost when the goroutine returned.
\<close>

definition held_ok :: "'l unpacker \<Rightarrow> 'l watch_phase \<Rightarrow> 'l list \<Rightarrow> bool" where
  "held_ok unpack p held \<longleftrightarrow> (case p of
     Receiving \<Rightarrow> held = []
   | Forwarding e \<Rightarrow> \<exists>log. held = [log] \<and> readable unpack log \<and> e = event_for unpack log
   | _ \<Rightarrow> length held \<le> 1)"

definition watch_inv :: "'l unpacker \<Rightarrow> 'l watch \<Rightarrow> bool" where
  "watch_inv unpack s \<longleftrightarrow>
     (\<exists>seen held. wa_arrived s = seen @ held @ wa_queue s \<and> wa_sink s = map (event_for unpack) seen \<and>
        (\<forall>log \<in> set seen. readable unpack log) \<and> held_ok unpack (wa_phase s) held) \<and>
     wa_unsubscribed s = (\<exists>e. wa_phase s = Returned e)"

lemma watch_invI:
  "wa_arrived s = seen @ held @ wa_queue s \<Longrightarrow> wa_sink s = map (event_for unpack) seen \<Longrightarrow>
   \<forall>log \<in> set seen. readable unpack log \<Longrightarrow> held_ok unpack (wa_phase s) held \<Longrightarrow>
   wa_unsubscribed s = (\<exists>e. wa_phase s = Returned e) \<Longrightarrow> watch_inv unpack s"
  by (auto simp: watch_inv_def)

lemma watch_step_inv:
  assumes "watch_step unpack s t" and "watch_inv unpack s"
  shows "watch_inv unpack t"
proof -
  from assms(2) obtain seen held where
    inv: "wa_arrived s = seen @ held @ wa_queue s" "wa_sink s = map (event_for unpack) seen"
      "\<forall>log \<in> set seen. readable unpack log" "held_ok unpack (wa_phase s) held"
      "wa_unsubscribed s = (\<exists>e. wa_phase s = Returned e)"
    by (auto simp: watch_inv_def)
  from assms(1) show ?thesis
  proof cases
    case (arrive log)
    with inv show ?thesis by (intro watch_invI [of _ seen held]) simp_all
  next
    case (take_ok log ls d)
    with inv show ?thesis
      by (intro watch_invI [of _ seen "[log]"]) (simp_all add: held_ok_def readable_def event_for_def)
  next
    case (take_bad log ls e)
    with inv show ?thesis by (intro watch_invI [of _ seen "[log]"]) (simp_all add: held_ok_def)
  next
    case (forward e)
    with inv show ?thesis by (auto intro!: watch_invI [of _ "seen @ held" "[]"] simp: held_ok_def)
  next
    case (sub_error err)
    with inv show ?thesis
      by (intro watch_invI [of _ seen held]) (auto simp: held_ok_def waiting_def split: watch_phase.splits)
  next
    case quit
    with inv show ?thesis
      by (intro watch_invI [of _ seen held]) (auto simp: held_ok_def waiting_def split: watch_phase.splits)
  next
    case (deferred e)
    with inv show ?thesis by (intro watch_invI [of _ seen held]) (auto simp: held_ok_def)
  qed
qed

lemma watch_reach_inv: "watch_reach unpack s \<Longrightarrow> watch_inv unpack s"
proof (induction rule: watch_reach.induct)
  case watch_start
  show ?case by (rule watch_invI [of _ "[]" "[]"]) (simp_all add: watch_init_def held_ok_def)
qed (rule watch_step_inv)

end
