(* ===== verification/Binding_Properties.thy ===== *)
theory Binding_Properties
  imports Call_Data Event_Streams Sim_Env
begin

text \<open>
  The properties of the generated bindings and of the call data: the tables against the ABI texts, the calls the
  program packs, the iterators and subscriptions of events.
\<close>







text \<open>
  C35: the reading methods of the bindings do not panic on answers that have the result types of the ABI: they
  return one value of the declared Go type per result, or the zero values with the error.
\<close>

theorem binding_reads_typed:
  assumes "b \<in> set all_bindings" and "m \<in> set (bd_methods b)" and "mb_kind m = Caller"
    and "\<And>es vs w'. abi_text (bd_abi b) = Some es \<Longrightarrow> call (mb_abi m) args w = (Inr vs, w') \<Longrightarrow>
      answer_typed es (mb_abi m) vs"
  shows "\<exists>vs err w'. call_method call m args w = (Ret (vs, err), w') \<and> list_all2 has_type (mb_outs m) vs"
proof -
  from caller_outputs [OF assms(1-3)] obtain es outs where es: "abi_text (bd_abi b) = Some es"
      "function_outputs es (mb_abi m) = Some outs" "mb_outs m = map go_of_abi outs" by blast
  from call_method_typed [where call = call, OF es(2,3) assms(4) [OF es(1)]] show ?thesis .
qed

lemma binding_reads_typed_witness:
  "\<exists>vs err w'. call_method (\<lambda>m args w. (Inr [ArgArray [ArgUint 3], ArgArray []], w))
      AuctionEntryPoint_GetNoncesAndDeposits [ArgArray [ArgAddress 5]] sim0 = (Ret (vs, err), w') \<and>
      list_all2 has_type [GoSlice GoBigInt, GoSlice GoBigInt] vs"
proof -
  have "answer_typed AuctionEntryPointABI_json ''getNoncesAndDeposits'' [ArgArray [ArgUint 3], ArgArray []]"
    by code_simp
  then have "\<exists>vs err w'. call_method (\<lambda>m args w. (Inr [ArgArray [ArgUint 3], ArgArray []], w))
      AuctionEntryPoint_GetNoncesAndDeposits [ArgArray [ArgAddress 5]] sim0 = (Ret (vs, err), w') \<and>
      list_all2 has_type (mb_outs AuctionEntryPoint_GetNoncesAndDeposits) vs"
    by (intro binding_reads_typed [OF nonce_binding(1)])
      (simp_all add: AuctionEntryPoint_binding_def AuctionEntryPoint_GetNoncesAndDeposits_def caller_def abi_text_def)
  then show ?thesis by (simp add: AuctionEntryPoint_GetNoncesAndDeposits_def caller_def)
qed

text \<open>
  \<open>getEntrypointNonce\<close>, through the generated binding of the entry point, always returns a number: the
  contract's answer, or zero when the binding or the call fails. It never hands a nil number to the bid.
\<close>

lemma entrypoint_nonce_total:
  assumes "\<And>c args w vs w'. boundCall (e_bnd E) c ''nonces'' args w = (Inr vs, w') \<Longrightarrow>
      answer_typed AuctionEntryPointABI_json ''nonces'' vs"
  shows "\<exists>n w'. getEntrypointNonce E a w = (Ret (Some n), w')"
  by (rule entry_nonce_value) (rule assms)

lemma entrypoint_nonce_total_witness: "\<exists>n w'. getEntrypointNonce sim_env 5 sim0 = (Ret (Some n), w')"
proof (rule entrypoint_nonce_total)
  fix c args vs and w w' :: sim
  assume "boundCall (e_bnd sim_env) c ''nonces'' args w = (Inr vs, w')"
  then have "vs = [ArgUint 0]" by (simp add: sim_env_def sim_bindings_def)
  moreover have "answer_typed AuctionEntryPointABI_json ''nonces'' [ArgUint 0]" by code_simp
  ultimately show "answer_typed AuctionEntryPointABI_json ''nonces'' vs" by simp
qed

text \<open>
  C20: a loop over an event iterator that has ended without an error has seen every log of the query, in
  order, unpacked and with its raw log, and the producer had no error. With an error it has seen the logs before it, and the error is the
  producer's or that of the next log, which could not be unpacked. How the producer and the \<open>select\<close>s of
  \<open>Next\<close> interleave does not matter.
\<close>

theorem iterator_delivers_logs:
  assumes "loop_reach unpack cap logs err s" and "\<not> lp_more s"
  shows "case iterator_error (lp_it s) of
      None \<Rightarrow> lp_seen s = map (event_for unpack) logs \<and> err = None
    | Some e \<Rightarrow> \<exists>seen rest. logs = seen @ rest \<and> lp_seen s = map (event_for unpack) seen \<and>
        (if err = Some e then True else rest \<noteq> [] \<and> unpack (hd rest) = Inl e)"
  using loop_result [OF assms] by (auto split: option.splits)

lemma iterator_delivers_logs_witness:
  "\<exists>s. loop_reach (\<lambda>l. Inr [ArgUint l]) 1 [3, 4] None s \<and>
     map ev_data (lp_seen s) = [[ArgUint 3], [ArgUint 4]]"
proof -
  obtain s where s: "loop_reach (\<lambda>l. Inr [ArgUint l]) 1 [3, 4] None s" "\<not> lp_more s"
    using loop_reaches_end [of 1 "\<lambda>l. Inr [ArgUint l]" "[3, 4]" None] by auto
  from iterator_delivers_logs [OF s] have "lp_seen s = map (event_for (\<lambda>l. Inr [ArgUint l])) [3, 4]"
    by (auto split: option.splits)
  with s(1) show ?thesis by (auto simp: event_for_def)
qed

text \<open>
  C27: the loop ends: every interleaving of producer and iterator is finite, with a bound that the state
  determines; while \<open>Next\<close> has not answered no, some action is possible, so nobody waits for
  ever; and after the no every further \<open>Next\<close> answers no and changes nothing.
\<close>

theorem iterator_loop_ends:
  assumes "0 < cap" and "loop_reach unpack cap logs err s"
  shows "(\<forall>n t. (loop_step unpack cap ^^ n) s t \<longrightarrow> n \<le> loop_measure s) \<and>
    (if lp_more s then \<exists>t. loop_step unpack cap s t
     else Next unpack p (lp_it s) (lp_st s) = Some (False, lp_it s, lp_st s))"
proof -
  note inv = loop_reach_inv [OF assms(2)]
  have "(loop_step unpack cap ^^ n) s t \<Longrightarrow> n \<le> loop_measure s" for n t
    using loop_runs_bounded [OF inv, where cap = cap and n = n and t = t] by simp
  with loop_progress [OF assms(1) _ inv] Next_stays [OF inv] show ?thesis by simp
qed

lemma iterator_loop_ends_witness:
  "\<exists>t. loop_step (\<lambda>l. Inl ''bad log'') 2 (loop_init [7 :: nat] None) t"
  using iterator_loop_ends [OF _ loop_start, of 2 "\<lambda>l. Inl ''bad log''" "[7 :: nat]" None False]
  by (simp add: loop_init_def)

text \<open>
  C28: the goroutine of a subscription neither loses, repeats nor reorders an event: what the user's channel got
  are the events of the first logs that arrived, in order; the rest is still in the channel, except for at most one log
  in hand, and none while it waits for the next. It has unsubscribed exactly when it has returned.
\<close>

theorem watch_forwards_in_order:
  assumes "watch_reach unpack s"
  shows "\<exists>seen held. wa_arrived s = seen @ held @ wa_queue s \<and> wa_sink s = map (event_for unpack) seen \<and>
    length held \<le> 1 \<and> (if wa_phase s = Receiving then held = [] else True) \<and>
    wa_unsubscribed s = (\<exists>e. wa_phase s = Returned e)"
proof -
  from watch_reach_inv [OF assms] obtain seen held where
    "wa_arrived s = seen @ held @ wa_queue s" "wa_sink s = map (event_for unpack) seen"
    "held_ok unpack (wa_phase s) held" "wa_unsubscribed s = (\<exists>e. wa_phase s = Returned e)"
    by (auto simp: watch_inv_def)
  then show ?thesis
    by (intro exI [of _ seen] exI [of _ held]) (auto simp: held_ok_def split: watch_phase.splits)
qed

lemma watch_forwards_in_order_witness:
  "\<exists>s :: nat watch. watch_reach (\<lambda>l. Inr []) s \<and> wa_phase s = Receiving \<and> length (wa_sink s) = 1 \<and>
     wa_arrived s = wa_arrived watch_init @ [4]"
proof -
  let ?u = "\<lambda>l :: nat. Inr [] :: gerror + abi_arg list"
  let ?a = "watch_init\<lparr>wa_arrived := [4], wa_queue := [4 :: nat]\<rparr>"
  let ?f = "?a\<lparr>wa_queue := [], wa_phase := Forwarding \<lparr>ev_data = [], ev_raw = Some 4\<rparr>\<rparr>"
  let ?s = "?f\<lparr>wa_sink := [\<lparr>ev_data = [], ev_raw = Some 4\<rparr>], wa_phase := Receiving\<rparr>"
  have "watch_step ?u watch_init ?a" using arrive [of ?u watch_init 4] by (simp add: watch_init_def)
  moreover have "watch_step ?u ?a ?f" using take_ok [of ?a 4 "[]" ?u "[]"] by (simp add: watch_init_def)
  moreover have "watch_step ?u ?f ?s" using forward [of ?f _ ?u] by (simp add: watch_init_def)
  ultimately have reach: "watch_reach ?u ?s" by (meson watch_start watch_next)
  from watch_forwards_in_order [OF this] have "length (wa_sink ?s) = 1" by (auto simp: watch_init_def)
  with reach show ?thesis by (intro exI [of _ ?s]) (simp add: watch_init_def)
qed

end
