(* ===== verification/Spec2Isabelle.thy ===== *)
theory Spec2Isabelle
  imports Account_Properties Setup_Properties Test_Properties Load_Properties Binding_Properties
begin

text \<open>
  A model of the kaia load tester (Go): a slave process that reads its configuration from the command
  line and a node, creates and charges test accounts, deploys test contracts, and then runs test cases
  that the boomer library calls concurrently and repeatedly. Everything below is translated from the
  sources under \<open>src/klayslave/\<close> and \<open>src/testcase/\<close>, the contract bindings that abigen generated
  included; the definitions keep the names of the sources.

  How the parts interact. \<open>RunAction\<close> (\<open>main.go\<close>) gets a \<open>Config\<close> from the flags and the node, fills an
  \<open>AccGroup\<close> with accounts, charges them through a local reservoir account with transfers that are
  repeated until mined, deploys and sets up the contracts (leader) or waits for them (followers), and
  turns the entries of the task table into tasks. A task's closure takes an RPC client from a pool,
  draws accounts from its \<open>AccountSet\<close>, calls an operation of an \<open>Account\<close>, which signs with the nonce it
  caches and sends, publishes the result as an event, and gives the client back.

  Modelling conventions (\<open>Go_Prelude\<close>). An outcome is \<open>Ret x\<close>, \<open>Exit m\<close> for \<open>log.Fatal\<close>, \<open>Panic m\<close>, or
  \<open>Block\<close> for a call that waits for a mutex that is held. Nonces, hashes, addresses and gas are words of
  the widths in the code and wrap; \<open>big.Int\<close> values are \<open>int\<close>; a Go \<open>int\<close> is \<open>int\<close>, with \<open>Atoi\<close> keeping
  it to 64 bits. The node, the kaia library with its package \<open>bind\<close>, the random source and the clock
  are parameters: records of functions (\<open>kaia_lib\<close>, \<open>client\<close>, \<open>bind_lib\<close>, \<open>bindings\<close> for the calls of bound contracts, \<open>env\<close>, \<open>auction_lib\<close>, \<open>reader\<close>,
  \<open>wallet\<close>, \<open>startup\<close>, \<open>connector\<close>) over an abstract world that every call may change. Loops
  that need not end are \<open>partial_function (option)\<close>, \<open>None\<close> being a run that does not return.

  The theories, bottom up.
    \<^item> \<open>Go_Prelude\<close>, \<open>Go_Strconv\<close>: outcomes, machine types, list lemmas; splitting, \<open>Atoi\<close>, \<open>ParseInt\<close>,
      decimal and hexadecimal text, with their round trips.
    \<^item> \<open>Kaia_Node\<close>, \<open>Abi_Calls\<close>: the interface of the library and the node; packing of call data.
    \<^item> \<open>Abi_Tables\<close>: every ABI text of \<open>contract.go\<close>, \<open>account.go\<close> and the generated files, entry by entry, and
      what it means that a call is well typed against a text.
    \<^item> \<open>Bindings\<close>, \<open>Event_Streams\<close>: what all generated files have in common: binding and deploying a contract,
      its reads, writes and raw forms, the parsing of events; the iterators of events beside their
      producer and the goroutines of subscriptions, as step relations with an invariant and a measure.
      \<open>Binding_Tables\<close>, \<open>Auction_Bindings\<close>: what each file adds, a table of its methods and events;
      \<open>Bundled_Bindings\<close>: the interfaces, base contracts and libraries that the auction files bind as well.
    \<^item> \<open>Account_Core\<close> (\<open>account.go\<close>): the package variables, the account record, constructors, the nonce
      cache, \<open>sendRawTx\<close> and \<open>sendTransaction\<close>; the locales \<open>account_op\<close>, \<open>locking_op\<close> and \<open>op_body\<close> are
      the contract of an operation, interpreted for each of them.
    \<^item> \<open>Account_Transfers\<close>, \<open>Account_Contracts\<close>, \<open>Auction\<close> (\<open>account.go\<close>, \<open>targetTxTypeLIst.go\<close>): every
      transfer, deployment, execution, Ethereum, gasless and auction operation.
    \<^item> \<open>Nonce_Protocol\<close>: the abstract nonce specification \<open>nonce_spec\<close> and that sending refines it.
    \<^item> \<open>Retry\<close>, \<open>Concurrent_Send\<close>, \<open>Wallet\<close> (\<open>account.go\<close>): sending until mined, the goroutines of
      \<open>ConcurrentTransactionSend\<close> as a step relation with an invariant and a measure, the node's keystore.
    \<^item> \<open>Lock_Order\<close> (\<open>run_receipt_check.go\<close>): goroutines that take two mutexes in the order of
      \<open>doubleLock\<close>, as a step relation; \<open>Bid_Guard\<close>: the block guard of the bids.
    \<^item> \<open>Client_Pool\<close> (\<open>clipool.go\<close>), \<open>Token_Ledger\<close> (\<open>erc721_ledger.go\<close>), \<open>Acc_Group\<close> (\<open>accgroup.go\<close>): the
      containers, with the locales \<open>token_store\<close> and \<open>account_source\<close> for what the tests rely on.
    \<^item> \<open>Process\<close>: the state of the process (accounts under references, because the code shares pointers,
      the ledger, the group and the world) and computations on it.
    \<^item> \<open>Contract_Info\<close>, \<open>Deployment\<close> (\<open>contract.go\<close>, \<open>accgroup.go\<close>): the table of the 21 contracts, the
      two phases of \<open>DeployTestContracts\<close>, the set-up and charging work; \<open>located\<close> and \<open>touch\<close> say what a
      step may change. \<open>Call_Data\<close> checks the calls of the table against the ABI texts. The byte codes of
      \<open>CPUHeavy\<close>, \<open>LargeMemo\<close>, \<open>ReadApiCallContract\<close>, \<open>UserStorage\<close> and the internal-transaction contracts in
      \<open>contract.go\<close> are the \<open>Bin\<close> texts of the generated files, so the check is also made against the full
      ABI of these files (\<open>deployed_text\<close>). The same theory compares every table of a binding with its ABI text
      and each auction contract with its interfaces.
    \<^item> \<open>Test_Case\<close>, \<open>Run_Transactions\<close>, \<open>Run_Ethereum\<close>, \<open>Run_Receipt\<close>, \<open>Run_Read\<close>, \<open>Tc_List\<close> (\<open>src/testcase/\<close>):
      the closures' state, every test case and the table of the 53 tasks. \<open>Closures\<close> shows what a run of
      any of them leaves: each kind of computation has a predicate (\<open>quiet\<close>, \<open>silent\<close>, \<open>steady\<close>, \<open>one_report\<close>) that
      the combinators preserve.
    \<^item> \<open>Configuration\<close>, \<open>Main_Run\<close> (\<open>config.go\<close>, \<open>version.go\<close>, \<open>main.go\<close>), \<open>Startup\<close>: the command line, the
      start-up, and the lemmas that carry its properties; \<open>Start_Locks\<close>: that it never waits for a mutex.
    \<^item> \<open>Load_Phase\<close>: the calls that \<open>boomer.Run\<close> makes of the tasks, as a step relation over the state of the process
      and of each task, with the invariant that joins the start-up and the test cases.
    \<^item> \<open>Sim_Node\<close>, \<open>Sim_Env\<close>, \<open>Sim_Run\<close>: one concrete node and environment, on which the witnesses run.

  The properties are in six places: here those of the nonce protocol, in \<open>Account_Properties\<close> those of
  the account operations, the layers on top of them and the containers, in \<open>Setup_Properties\<close> those
  of the command line, the deployment and the start-up, in \<open>Test_Properties\<close> those of the test cases, in
  \<open>Load_Properties\<close> those that hold from the start-up on through any sequence of calls, and in \<open>Binding_Properties\<close> those of the bindings, the events and the call data.

  Bounds. No fuel is used. The polling loops of the receipt test end by a measure on the clock
  (\<open>clock_runs\<close>), the wait for a block likewise, \<open>getReceipt\<close> by its retry counter if the node answers
  with a receipt or an error, and \<open>RunWithRetry\<close> by a measure on the world that rejections and failures
  decrease; without it the loop has no bound, which is a property of its own. A loop over an event iterator
  ends by a measure on the logs that are still to come.

  Simplifications. A Go map that is iterated or looked up by name is the list of its entries.
  Concurrency is explicit where the code relies on it (\<open>ConcurrentTransactionSend\<close>, \<open>doubleLock\<close>, the
  mutex of an account, the arrival order of bids); during the set-up the goroutines run in the order
  of a schedule that runs each once, one operation at a time, as each locks the reservoir's
  mutex. The Ethereum tests' goroutines are recorded where they are started and are separate
  computations (\<open>run_goroutine\<close>). In the load phase the calls, and the rests of goroutines, are taken one after the other in
  any order; a call that panics is recovered, as boomer does.

  Not modelled: log output and elapsed times; the contents of byte codes, which are values of \<open>abi_lib\<close>
  named by a datatype; the bindings and ABI texts of the kaia module, which are not in the
  repository; \<open>boomer.Run\<close> beyond the calls it makes and the command line library, which are external; data races on package variables that the code does not guard.
\<close>

section \<open>Nonces\<close>

text \<open>
  C2: \<open>sendTransaction\<close>, called on an account whose mutex is free, returns, releases the mutex,
  keeps the account's identity, and moves the cached nonce exactly as \<open>nonce_spec\<close> says: one
  step when the node accepted the transaction or reported the nonce as used, no step when the
  transaction was not built or was rejected for another reason.
\<close>

theorem sendTransaction_refines_nonce_spec:
  assumes "sendTransaction L C g ty m opt a w = (r, a', w')" and "\<not> acc_mutex a"
  shows "\<exists>x. r = Ret x \<and> \<not> acc_mutex a' \<and> identity a' = identity a \<and>
    acc_nonce a' = nonce_spec (send_status_of L x) (fst (GetNonce C a w))"
  using assms by (blast elim: sendTransaction_spec)

lemma sendTransaction_refines_nonce_spec_witness:
  "\<exists>x a' w'. sendTransaction sim_lib sim_client init_globals TxTypeCancel Map.empty None
       sim_account (sim0\<lparr>sim_script := [Some ''nonce too low'']\<rparr>) = (Ret x, a', w') \<and>
     send_status_of sim_lib x = Conflicting \<and> acc_nonce a' = 8"
proof -
  let ?w = "sim0\<lparr>sim_script := [Some ''nonce too low'']\<rparr>"
  have "ret_with (\<lambda>x a' w'. send_status_of sim_lib x = Conflicting)
      (sendTransaction sim_lib sim_client init_globals TxTypeCancel Map.empty None sim_account ?w)"
    by code_simp
  then obtain x a' w' where run: "sendTransaction sim_lib sim_client init_globals TxTypeCancel
      Map.empty None sim_account ?w = (Ret x, a', w')" and st: "send_status_of sim_lib x = Conflicting"
    by (rule ret_withE)
  have "\<not> acc_mutex sim_account" and n: "fst (GetNonce sim_client sim_account ?w) = 7" by code_simp+
  from sendTransaction_refines_nonce_spec [OF run this(1)] n st have "acc_nonce a' = 8" by auto
  with run st show ?thesis by blast
qed

text \<open>
  The transaction that \<open>sendTransaction\<close> puts on the wire carries the nonce that
  \<open>GetNonce\<close> returned at the start of the call: the cached nonce, or the node's if none is cached.
\<close>

lemma sendTransaction_uses_nonce:
  assumes "lib_nonce L nonce_of" and "\<not> acc_mutex a"
    and "sendTransaction L C g ty m opt a w = (Ret (Some tx, err), a', w')"
  shows "nonce_of tx = fst (GetNonce C a w)"
  using sendTransaction_Ret(4) [OF assms(3,2,1)] by simp

lemma sendTransaction_uses_nonce_witness:
  "\<exists>tx err a' w'. sendTransaction sim_lib sim_client init_globals TxTypeCancel Map.empty None
       sim_account sim0 = (Ret (Some tx, err), a', w') \<and> st_nonce tx = 7"
proof -
  have "ret_with (\<lambda>x a' w'. fst x \<noteq> None)
      (sendTransaction sim_lib sim_client init_globals TxTypeCancel Map.empty None sim_account sim0)"
    by code_simp
  then obtain x a' w' where run: "sendTransaction sim_lib sim_client init_globals TxTypeCancel Map.empty None
       sim_account sim0 = (Ret x, a', w')" and "fst x \<noteq> None" by (rule ret_withE)
  then obtain tx err where x: "x = (Some tx, err)" by (cases x) auto
  have free: "\<not> acc_mutex sim_account" and n: "fst (GetNonce sim_client sim_account sim0) = 7"
    by code_simp+
  from sendTransaction_uses_nonce [OF sim_lib_nonce free run [unfolded x]] n have "st_nonce tx = 7"
    by simp
  with run x show ?thesis by blast
qed

text \<open>A send that was accepted: a transaction and no error.\<close>

definition sent_ok :: "'tx option \<times> gerror option \<Rightarrow> bool" where
  "sent_ok r \<longleftrightarrow> fst r \<noteq> None \<and> snd r = None"

lemma sent_ok_status: "sent_ok r \<Longrightarrow> send_status_of L r = Accepted"
  by (auto simp: sent_ok_def send_status_of_def err_status_def split: prod.splits option.splits)

text \<open>
  C7: a run of \<open>k\<close> accepted \<open>sendTransaction\<close> calls on an account with a cached nonce sends
  exactly the nonces \<open>n, n + 1, ..., n + k - 1\<close>, all different, and leaves \<open>n + k\<close> cached, as
  long as the 64-bit counter does not wrap.
\<close>

theorem accepted_sends_consecutive:
  assumes lib: "lib_nonce L nonce_of" and "\<not> acc_mutex a" and "acc_nonce a \<noteq> 0"
    and "unat (acc_nonce a) + k < 2 ^ 64"
    and "repeat_op k (sendTransaction L C g ty m opt) a w = (Ret rs, a', w')" and "list_all sent_ok rs"
  shows "map (\<lambda>r. nonce_of (the (fst r))) rs = map (\<lambda>i. acc_nonce a + of_nat i) [0..<k] \<and>
    distinct (map (\<lambda>r. nonce_of (the (fst r))) rs) \<and> acc_nonce a' = acc_nonce a + of_nat k"
proof -
  have "nonce_of (the (fst r)) = acc_nonce b \<and> acc_nonce b' = acc_nonce b + 1 \<and> \<not> acc_mutex b'"
    if "sendTransaction L C g ty m opt b v = (Ret r, b', v')" "\<not> acc_mutex b" "sent_ok r"
      "acc_nonce b \<noteq> 0" for b v r b' v'
    using that(3,4) sent_ok_status [OF that(3), of L] sendTransaction_Ret [OF that(1,2)] lib
    by (auto simp: GetNonce_cached sent_ok_def)
  from repeat_consecutive [where ok = sent_ok, OF this assms(5,2,6,3,4)] offsets_distinct [OF assms(4)]
  show ?thesis by simp
qed

lemma accepted_sends_consecutive_witness:
  "\<exists>rs a' w'. repeat_op 2 (sendTransaction sim_lib sim_client init_globals TxTypeCancel Map.empty None)
       (sim_account\<lparr>acc_nonce := 7\<rparr>) sim0 = (Ret rs, a', w') \<and>
     map (\<lambda>r. st_nonce (the (fst r))) rs = [7, 8] \<and> acc_nonce a' = 9"
proof -
  let ?a = "sim_account\<lparr>acc_nonce := 7\<rparr>"
  have "ret_with (\<lambda>rs a' w'. list_all sent_ok rs)
      (repeat_op 2 (sendTransaction sim_lib sim_client init_globals TxTypeCancel Map.empty None) ?a sim0)"
    by code_simp
  then obtain rs a' w' where run: "repeat_op 2 (sendTransaction sim_lib sim_client init_globals
      TxTypeCancel Map.empty None) ?a sim0 = (Ret rs, a', w')" and ok: "list_all sent_ok rs"
    by (rule ret_withE)
  have "\<not> acc_mutex ?a" "acc_nonce ?a \<noteq> 0" "unat (acc_nonce ?a) + 2 < 2 ^ 64"
    by (simp_all add: sim_defs)
  from accepted_sends_consecutive [OF sim_lib_nonce this run ok]
  have "map (\<lambda>r. st_nonce (the (fst r))) rs = [7, 8] \<and> acc_nonce a' = 9"
    by (simp add: sim_defs numeral_2_eq_2)
  with run show ?thesis by (intro exI [of _ rs] exI [of _ a'] exI [of _ w']) simp
qed

end
